(* ===== verification/Prelude.thy ===== *)
theory Prelude
  imports Complex_Main "HOL-Library.AList" "HOL-Library.Sublist" "HOL-Library.Product_Lexorder"
begin

text \<open>
  The shared vocabulary of the development.

  \<^item> Computations. A service function of the program takes a database session, changes rows
    through it, and returns a value or raises. A raised exception does not undo the changes already
    made in the session, so a computation is a function from the state to an outcome and a state:
    \<open>'s \<Rightarrow> ('e + 'a) \<times> 's\<close>. \<open>ret\<close>, \<open>raise\<close>, \<open>bnd\<close>, \<open>gets\<close>, \<open>modify\<close>, \<open>when_M\<close> and
    \<open>for_each\<close> are return, raise, sequencing, reading, writing, a guarded statement and the
    for-loop. \<open>wp\<close> is the weakest precondition for a normal and an exceptional postcondition;
    its rules are collected in \<open>wp_rules\<close>.
  \<^item> Frames. The locale \<open>frame\<close> states what a preorder on states needs so that "every run of the
    computation is related by the preorder" is closed under the combinators.
  \<^item> Tables. A table is the list of its rows in primary-key order; \<open>update_where\<close> is the ORM's
    write to the rows with a key, \<open>fresh_id\<close> the next value of an integer primary key.
  \<^item> Python strings are lists of code points below 256: \<open>py_strip\<close>, \<open>py_lower\<close> and their
    kin are Python's operations on these.
\<close>

named_theorems wp_rules \<open>weakest preconditions of the combinators and the operations\<close>
named_theorems run_simps \<open>running the combinators step by step\<close>
named_theorems table_simps \<open>reading a table after a write\<close>
named_theorems py_simps \<open>evaluation of the Python string operations\<close>

section \<open>Computations over a session\<close>

type_synonym ('s, 'e, 'a) comp = "'s \<Rightarrow> ('e + 'a) \<times> 's"

definition ret :: "'a \<Rightarrow> ('s, 'e, 'a) comp" where
  "ret x s = (Inr x, s)"

definition raise :: "'e \<Rightarrow> ('s, 'e, 'a) comp" where
  "raise e s = (Inl e, s)"

definition bnd :: "('s, 'e, 'a) comp \<Rightarrow> ('a \<Rightarrow> ('s, 'e, 'b) comp) \<Rightarrow> ('s, 'e, 'b) comp" where
  "bnd m f s = (case m s of (Inl e, t) \<Rightarrow> (Inl e, t) | (Inr x, t) \<Rightarrow> f x t)"

definition thn :: "('s, 'e, 'a) comp \<Rightarrow> ('s, 'e, 'b) comp \<Rightarrow> ('s, 'e, 'b) comp" where
  "thn m n = bnd m (\<lambda>_. n)"

definition gets :: "('s \<Rightarrow> 'a) \<Rightarrow> ('s, 'e, 'a) comp" where
  "gets f s = (Inr (f s), s)"

definition modify :: "('s \<Rightarrow> 's) \<Rightarrow> ('s, 'e, unit) comp" where
  "modify f s = (Inr (), f s)"

definition when_M :: "bool \<Rightarrow> ('s, 'e, unit) comp \<Rightarrow> ('s, 'e, unit) comp" where
  "when_M b m = (if b then m else ret ())"

definition lift_result :: "'e + 'a \<Rightarrow> ('s, 'e, 'a) comp" where
  "lift_result r s = (r, s)"

text \<open>Sequencing of results without a state.\<close>

definition rbind :: "'e + 'a \<Rightarrow> ('a \<Rightarrow> 'e + 'b) \<Rightarrow> 'e + 'b" where
  "rbind r f = (case r of Inl e \<Rightarrow> Inl e | Inr x \<Rightarrow> f x)"

fun collect_results :: "('a \<Rightarrow> 'e + 'b) \<Rightarrow> 'a list \<Rightarrow> 'e + 'b list" where
  "collect_results f [] = Inr []"
| "collect_results f (x # xs) = rbind (f x) (\<lambda>y. rbind (collect_results f xs) (\<lambda>ys. Inr (y # ys)))"

fun for_each :: "('a \<Rightarrow> ('s, 'e, unit) comp) \<Rightarrow> 'a list \<Rightarrow> ('s, 'e, unit) comp" where
  "for_each f [] = ret ()"
| "for_each f (x # xs) = thn (f x) (for_each f xs)"

fun map_M :: "('a \<Rightarrow> ('s, 'e, 'b) comp) \<Rightarrow> 'a list \<Rightarrow> ('s, 'e, 'b list) comp" where
  "map_M f [] = ret []"
| "map_M f (x # xs) = bnd (f x) (\<lambda>y. bnd (map_M f xs) (\<lambda>ys. ret (y # ys)))"

definition try_catch ::
  "('s, 'e, 'a) comp \<Rightarrow> ('e \<Rightarrow> ('s, 'e, 'a) comp) \<Rightarrow> ('s, 'e, 'a) comp" where
  "try_catch m h s = (case m s of (Inl e, t) \<Rightarrow> h e t | (Inr x, t) \<Rightarrow> (Inr x, t))"

definition final_state :: "('s, 'e, 'a) comp \<Rightarrow> 's \<Rightarrow> 's" where
  "final_state m s = snd (m s)"

definition wp ::
  "('s, 'e, 'a) comp \<Rightarrow> ('a \<Rightarrow> 's \<Rightarrow> bool) \<Rightarrow> ('e \<Rightarrow> 's \<Rightarrow> bool) \<Rightarrow> 's \<Rightarrow> bool" where
  "wp m Q E s = (case m s of (Inl e, t) \<Rightarrow> E e t | (Inr x, t) \<Rightarrow> Q x t)"

section \<open>Tables\<close>

definition update_where :: "('r \<Rightarrow> bool) \<Rightarrow> ('r \<Rightarrow> 'r) \<Rightarrow> 'r list \<Rightarrow> 'r list" where
  "update_where p f rows = map (\<lambda>r. if p r then f r else r) rows"

definition fresh_id :: "('r \<Rightarrow> int) \<Rightarrow> 'r list \<Rightarrow> int" where
  "fresh_id key rows = fold (\<lambda>r m. max m (key r)) rows 0 + 1"

text \<open>
  Insert or update: the row that satisfies the lookup is changed in place, or a row with a fresh
  primary key is added. The table is given by its reader and its writer.
\<close>

definition upsert_row ::
  "('s \<Rightarrow> 'r list) \<Rightarrow> ('r list \<Rightarrow> 's \<Rightarrow> 's) \<Rightarrow> ('r \<Rightarrow> int) \<Rightarrow> ('r \<Rightarrow> bool) \<Rightarrow> (int \<Rightarrow> 'r) \<Rightarrow>
   ('r \<Rightarrow> 'r) \<Rightarrow> ('s, 'e, 'r) comp" where
  "upsert_row rows put pk lookup mk upd =
     bnd (gets (\<lambda>s. (rows s, find lookup (rows s)))) (\<lambda>(rs, existing).
       case existing of
         None \<Rightarrow> (let r = mk (fresh_id pk rs) in thn (modify (put (rs @ [r]))) (ret r))
       | Some r \<Rightarrow> thn (modify (put (update_where (\<lambda>x. pk x = pk r) upd rs))) (ret (upd r)))"

definition exists_row :: "('r \<Rightarrow> bool) \<Rightarrow> 'r list \<Rightarrow> bool" where
  "exists_row p rows = list_ex p rows"

section \<open>Python strings over code points below 256\<close>

definition code_point :: "char \<Rightarrow> nat" where
  "code_point c = of_char c"

definition py_isspace :: "char \<Rightarrow> bool" where
  "py_isspace c = (let n = code_point c in
     (9 \<le> n \<and> n \<le> 13) \<or> (28 \<le> n \<and> n \<le> 32) \<or> n = 133 \<or> n = 160)"

definition py_lower_char :: "char \<Rightarrow> char" where
  "py_lower_char c = (let n = code_point c in
     if (65 \<le> n \<and> n \<le> 90) \<or> (192 \<le> n \<and> n \<le> 222 \<and> n \<noteq> 215) then char_of (n + 32) else c)"

definition py_lower :: "string \<Rightarrow> string" where
  "py_lower s = map py_lower_char s"

definition py_lstrip :: "string \<Rightarrow> string" where
  "py_lstrip s = dropWhile py_isspace s"

definition py_rstrip :: "string \<Rightarrow> string" where
  "py_rstrip s = rev (dropWhile py_isspace (rev s))"

definition py_strip :: "string \<Rightarrow> string" where
  "py_strip s = py_rstrip (py_lstrip s)"

definition py_rstrip_char :: "char \<Rightarrow> string \<Rightarrow> string" where
  "py_rstrip_char c s = rev (dropWhile (\<lambda>d. d = c) (rev s))"

fun digit_char :: "nat \<Rightarrow> char" where
  "digit_char n = char_of (48 + n)"

fun str_of_nat :: "nat \<Rightarrow> string" where
  "str_of_nat n = (if n < 10 then [digit_char n] else str_of_nat (n div 10) @ [digit_char (n mod 10)])"

declare str_of_nat.simps [simp del]

definition str_of_int :: "int \<Rightarrow> string" where
  "str_of_int i = (if i < 0 then ''-'' @ str_of_nat (nat (- i)) else str_of_nat (nat i))"

text \<open>\<^verbatim>\<open>s.split(c)\<close> for a one-character separator.\<close>

fun split_on :: "char \<Rightarrow> string \<Rightarrow> string list" where
  "split_on c [] = [[]]"
| "split_on c (x # xs) =
     (if x = c then [] # split_on c xs
      else (case split_on c xs of [] \<Rightarrow> [[x]] | w # ws \<Rightarrow> (x # w) # ws))"

text \<open>\<^verbatim>\<open>s.partition(c)\<close>: what precedes the first separator, whether there is one, and the rest.\<close>

fun partition_on :: "char \<Rightarrow> string \<Rightarrow> string \<times> bool \<times> string" where
  "partition_on c [] = ([], False, [])"
| "partition_on c (x # xs) =
     (if x = c then ([], True, xs)
      else (case partition_on c xs of (a, b, r) \<Rightarrow> (x # a, b, r)))"

text \<open>\<^verbatim>\<open>s.split(sep)[-1]\<close> for a separator of more than one character, and \<^verbatim>\<open>sep in s\<close>.\<close>

fun contains_sub :: "string \<Rightarrow> string \<Rightarrow> bool" where
  "contains_sub sep [] = (sep = [])"
| "contains_sub sep (x # xs) = (take (length sep) (x # xs) = sep \<or> contains_sub sep xs)"

function last_split :: "string \<Rightarrow> string \<Rightarrow> string \<Rightarrow> string" where
  "last_split sep acc s =
     (if sep = [] \<or> s = [] then rev acc
      else if take (length sep) s = sep then last_split sep [] (drop (length sep) s)
      else last_split sep (hd s # acc) (tl s))"
  by pat_completeness auto
termination
  by (relation "measure (\<lambda>(sep, acc, s). length s)") auto

declare last_split.simps [simp del]

definition py_join :: "string \<Rightarrow> string list \<Rightarrow> string" where
  "py_join sep parts = (case parts of [] \<Rightarrow> [] | p # ps \<Rightarrow> p @ concat (map (\<lambda>q. sep @ q) ps))"

section \<open>Laws of the combinators\<close>

lemmas comp_defs = ret_def raise_def bnd_def thn_def gets_def modify_def when_M_def lift_result_def
  try_catch_def final_state_def

lemma wp_ret [wp_rules]: "wp (ret x) Q E s = Q x s"
  by (simp add: wp_def ret_def)

lemma wp_raise [wp_rules]: "wp (raise e) Q E s = E e s"
  by (simp add: wp_def raise_def)

lemma wp_gets [wp_rules]: "wp (gets f) Q E s = Q (f s) s"
  by (simp add: wp_def gets_def)

lemma wp_modify [wp_rules]: "wp (modify f) Q E s = Q () (f s)"
  by (simp add: wp_def modify_def)

lemma wp_bnd [wp_rules]: "wp (bnd m f) Q E s = wp m (\<lambda>x. wp (f x) Q E) E s"
  by (simp add: wp_def bnd_def split: prod.split sum.split)

lemma wp_thn [wp_rules]: "wp (thn m n) Q E s = wp m (\<lambda>_. wp n Q E) E s"
  by (simp add: thn_def wp_bnd)

lemma wp_when [wp_rules]: "wp (when_M b m) Q E s = (if b then wp m Q E s else Q () s)"
  by (simp add: when_M_def wp_ret)

lemma wp_lift [wp_rules]:
  "wp (lift_result r) Q E s = (case r of Inl e \<Rightarrow> E e s | Inr x \<Rightarrow> Q x s)"
  by (simp add: wp_def lift_result_def split: sum.split)

lemma wp_if [wp_rules]: "wp (if b then m else n) Q E s = (if b then wp m Q E s else wp n Q E s)"
  by simp

lemma wp_try [wp_rules]: "wp (try_catch m h) Q E s = wp m Q (\<lambda>e. wp (h e) Q E) s"
  by (simp add: wp_def try_catch_def split: prod.split sum.split)

lemma wp_for_each_Nil [wp_rules]: "wp (for_each f []) Q E s = Q () s"
  by (simp add: wp_ret)

lemma wp_for_each_Cons [wp_rules]:
  "wp (for_each f (x # xs)) Q E s = wp (f x) (\<lambda>_. wp (for_each f xs) Q E) E s"
  by (simp add: wp_thn)

lemma wp_conseq:
  assumes "wp m Q E s"
    and "\<And>x t. Q x t \<Longrightarrow> Q' x t" and "\<And>e t. E e t \<Longrightarrow> E' e t"
  shows "wp m Q' E' s"
  using assms by (auto simp: wp_def split: prod.splits sum.splits)

lemma wp_InrD: "wp m Q E s \<Longrightarrow> m s = (Inr x, t) \<Longrightarrow> Q x t"
  by (simp add: wp_def)

lemma wp_InlD: "wp m Q E s \<Longrightarrow> m s = (Inl e, t) \<Longrightarrow> E e t"
  by (simp add: wp_def)

lemma wp_final: "wp m (\<lambda>_ t. P t) (\<lambda>_ t. P t) s = P (snd (m s))"
  by (auto simp: wp_def split: prod.split sum.split)

lemma wp_for_each:
  assumes "I s"
    and "\<And>x t. x \<in> set xs \<Longrightarrow> I t \<Longrightarrow> wp (f x) (\<lambda>_. I) E t"
  shows "wp (for_each f xs) (\<lambda>_. I) E s"
  using assms
proof (induction xs arbitrary: s)
  case Nil
  then show ?case by (simp add: wp_rules)
next
  case (Cons x xs)
  have "wp (f x) (\<lambda>_. I) E s" using Cons.prems by simp
  then have "wp (f x) (\<lambda>_ t. wp (for_each f xs) (\<lambda>_. I) E t) E s"
    by (rule wp_conseq) (use Cons in auto)
  then show ?case by (simp add: wp_thn)
qed

lemma bnd_Inr_iff:
  "bnd m f s = (Inr y, u) \<longleftrightarrow> (\<exists>x t. m s = (Inr x, t) \<and> f x t = (Inr y, u))"
  by (auto simp: bnd_def split: prod.splits sum.splits)

lemma thn_Inr_iff:
  "thn m n s = (Inr y, u) \<longleftrightarrow> (\<exists>x t. m s = (Inr x, t) \<and> n t = (Inr y, u))"
  by (auto simp: thn_def bnd_Inr_iff)

lemma bnd_Inr: "m s = (Inr x, t) \<Longrightarrow> bnd m f s = f x t"
  by (simp add: bnd_def)

lemma bnd_Inl: "m s = (Inl e, t) \<Longrightarrow> bnd m f s = (Inl e, t)"
  by (simp add: bnd_def)

lemma thn_Inr: "m s = (Inr x, t) \<Longrightarrow> thn m n s = n t"
  by (simp add: thn_def bnd_def)

lemma thn_Inl: "m s = (Inl e, t) \<Longrightarrow> thn m n s = (Inl e, t)"
  by (simp add: thn_def bnd_def)

lemma ret_run [run_simps]: "ret x s = (Inr x, s)"
  by (simp add: ret_def)

lemma raise_run [run_simps]: "raise e s = (Inl e, s)"
  by (simp add: raise_def)

lemma gets_run [run_simps]: "gets f s = (Inr (f s), s)"
  by (simp add: gets_def)

lemma modify_run [run_simps]: "modify f s = (Inr (), f s)"
  by (simp add: modify_def)

lemma bnd_gets_run [run_simps]: "bnd (gets f) g s = g (f s) s"
  by (simp add: bnd_def gets_def)

lemma bnd_modify_run [run_simps]: "bnd (modify f) g s = g () (f s)"
  by (simp add: bnd_def modify_def)

lemma thn_modify_run [run_simps]: "thn (modify f) n s = n (f s)"
  by (simp add: thn_def bnd_def modify_def)

lemma bnd_lift_run [run_simps]:
  "bnd (lift_result r) g s = (case r of Inl e \<Rightarrow> (Inl e, s) | Inr x \<Rightarrow> g x s)"
  by (simp add: bnd_def lift_result_def split: sum.split)

lemma thn_ret [simp]: "thn (ret x) n = n"
  by (rule ext) (simp add: thn_def bnd_def ret_def)

lemma thn_raise [simp]: "thn (raise e) n = raise e"
  by (rule ext) (simp add: thn_def bnd_def raise_def)

lemma thn_assoc: "thn (thn m n) k = thn m (thn n k)"
  by (rule ext) (simp add: thn_def bnd_def split: prod.splits sum.splits)

lemma bnd_ret [simp]: "bnd (ret x) f = f x"
  by (rule ext) (simp add: bnd_def ret_def)

lemma bnd_raise [simp]: "bnd (raise e) f = raise e"
  by (rule ext) (simp add: bnd_def raise_def)

lemma bnd_ret_right [simp]: "bnd m ret = m"
  by (rule ext) (simp add: bnd_def ret_def split: prod.splits sum.splits)

lemma bnd_assoc: "bnd (bnd m f) g = bnd m (\<lambda>x. bnd (f x) g)"
  by (rule ext) (simp add: bnd_def split: prod.splits sum.splits)

lemma when_M_simps [simp]: "when_M True m = m" "when_M False m = ret ()"
  by (simp_all add: when_M_def)

lemma rbind_simps [simp]: "rbind (Inl e) f = Inl e" "rbind (Inr x) f = f x"
  by (simp_all add: rbind_def)

lemma rbind_Inr_iff: "rbind r f = Inr y \<longleftrightarrow> (\<exists>x. r = Inr x \<and> f x = Inr y)"
  by (cases r) auto

lemma rbind_cong [fundef_cong]: "r = r' \<Longrightarrow> (\<And>x. r' = Inr x \<Longrightarrow> f x = g x) \<Longrightarrow> rbind r f = rbind r' g"
  by (cases r') simp_all

lemma collect_results_cong [fundef_cong]:
  "xs = ys \<Longrightarrow> (\<And>x. x \<in> set ys \<Longrightarrow> f x = g x) \<Longrightarrow> collect_results f xs = collect_results g ys"
  by (induction xs arbitrary: ys) auto

lemma collect_results_Inr:
  "collect_results f xs = Inr ys \<longleftrightarrow> list_all2 (\<lambda>x y. f x = Inr y) xs ys"
  by (induction xs arbitrary: ys) (auto simp: rbind_Inr_iff list_all2_Cons1)

section \<open>Frames: preorders that every computation step keeps\<close>

text \<open>
  \<open>R s t\<close> says what may change between two states. A computation keeps \<open>R\<close> when it relates
  every state to the state it ends in, whether it returns or raises.
\<close>

locale frame =
  fixes R :: "'s \<Rightarrow> 's \<Rightarrow> bool"
  assumes R_refl: "R s s"
    and R_trans: "R s t \<Longrightarrow> R t u \<Longrightarrow> R s u"
begin

definition keeps :: "('s, 'e, 'a) comp \<Rightarrow> bool" where
  "keeps m \<longleftrightarrow> (\<forall>s. R s (snd (m s)))"

lemma keepsI: "(\<And>s. R s (snd (m s))) \<Longrightarrow> keeps m"
  by (simp add: keeps_def)

lemma keepsD: "keeps m \<Longrightarrow> m s = (r, t) \<Longrightarrow> R s t"
  unfolding keeps_def by (metis snd_conv)

lemma keeps_ret: "keeps (ret x)"
  by (simp add: keeps_def ret_def R_refl)

lemma keeps_raise: "keeps (raise e)"
  by (simp add: keeps_def raise_def R_refl)

lemma keeps_gets: "keeps (gets f)"
  by (simp add: keeps_def gets_def R_refl)

lemma keeps_lift: "keeps (lift_result r)"
  by (simp add: keeps_def lift_result_def R_refl)

lemma keeps_modify: "(\<And>s. R s (f s)) \<Longrightarrow> keeps (modify f)"
  by (simp add: keeps_def modify_def)

lemma keeps_bnd: "keeps m \<Longrightarrow> (\<And>x. keeps (f x)) \<Longrightarrow> keeps (bnd m f)"
  unfolding keeps_def bnd_def
  by (auto split: prod.split sum.split) (metis R_trans snd_conv)+

lemma keeps_thn: "keeps m \<Longrightarrow> keeps n \<Longrightarrow> keeps (thn m n)"
  by (simp add: thn_def keeps_bnd)

lemma keeps_if: "(b \<Longrightarrow> keeps m) \<Longrightarrow> (\<not> b \<Longrightarrow> keeps n) \<Longrightarrow> keeps (if b then m else n)"
  by simp

lemma keeps_when: "keeps m \<Longrightarrow> keeps (when_M b m)"
  by (simp add: when_M_def keeps_ret)

lemma keeps_option:
  "keeps m \<Longrightarrow> (\<And>x. keeps (f x)) \<Longrightarrow> keeps (case z of None \<Rightarrow> m | Some x \<Rightarrow> f x)"
  by (cases z) simp_all

lemma keeps_for_each: "(\<And>x. keeps (f x)) \<Longrightarrow> keeps (for_each f xs)"
  by (induction xs) (simp_all add: keeps_ret keeps_thn)

lemma keeps_map_M: "(\<And>x. keeps (f x)) \<Longrightarrow> keeps (map_M f xs)"
  by (induction xs) (simp_all add: keeps_ret keeps_bnd)

lemma keeps_try: "keeps m \<Longrightarrow> (\<And>e. keeps (h e)) \<Longrightarrow> keeps (try_catch m h)"
  unfolding keeps_def try_catch_def
  by (auto split: prod.split sum.split) (metis R_trans snd_conv)+

lemma keeps_sum:
  "(\<And>x. keeps (f x)) \<Longrightarrow> (\<And>y. keeps (g y)) \<Longrightarrow> keeps (case z of Inl x \<Rightarrow> f x | Inr y \<Rightarrow> g y)"
  by (cases z) simp_all

lemma keeps_list:
  "keeps m \<Longrightarrow> (\<And>x xs. keeps (f x xs)) \<Longrightarrow> keeps (case z of [] \<Rightarrow> m | x # xs \<Rightarrow> f x xs)"
  by (cases z) simp_all

lemma keeps_prod: "(\<And>x y. keeps (f x y)) \<Longrightarrow> keeps (case z of (x, y) \<Rightarrow> f x y)"
  by (cases z) simp

lemma keeps_upsert: "(\<And>rs s. R s (put rs s)) \<Longrightarrow> keeps (upsert_row rows put pk lookup mk upd)"
  unfolding upsert_row_def Let_def
  by (intro keeps_bnd keeps_thn keeps_gets keeps_modify keeps_ret keeps_prod keeps_option) auto

lemmas keeps_intros = keeps_ret keeps_raise keeps_gets keeps_lift keeps_modify
  keeps_bnd keeps_thn keeps_if keeps_when keeps_option keeps_for_each
  keeps_map_M keeps_try keeps_sum keeps_list keeps_prod

end

section \<open>Folds\<close>

lemma foldl_invariant:
  assumes "P a" and "\<And>a x. x \<in> set xs \<Longrightarrow> P a \<Longrightarrow> P (f a x)"
  shows "P (foldl f a xs)"
  using assms by (induction xs arbitrary: a) auto

section \<open>Laws of tables\<close>

lemma update_where_Nil [simp]: "update_where p f [] = []"
  by (simp add: update_where_def)

lemma update_where_Cons [simp]:
  "update_where p f (r # rs) = (if p r then f r else r) # update_where p f rs"
  by (simp add: update_where_def)

lemma update_where_append [simp]:
  "update_where p f (xs @ ys) = update_where p f xs @ update_where p f ys"
  by (simp add: update_where_def)

lemma set_update_where: "set (update_where p f rows) = (\<lambda>r. if p r then f r else r) ` set rows"
  by (simp add: update_where_def)

lemma in_update_where: "r \<in> set rows \<Longrightarrow> p r \<Longrightarrow> f r \<in> set (update_where p f rows)"
  by (induction rows) auto

lemma update_where_unchanged:
  "r \<in> set rows \<Longrightarrow> (p r \<Longrightarrow> f r = r) \<Longrightarrow> r \<in> set (update_where p f rows)"
  by (induction rows) auto

lemma in_update_whereE:
  assumes "r \<in> set (update_where p f rows)"
  obtains q where "q \<in> set rows" "r = (if p q then f q else q)"
  using assms by (auto simp: set_update_where)

lemma update_where_id: "(\<And>r. r \<in> set rows \<Longrightarrow> \<not> p r) \<Longrightarrow> update_where p f rows = rows"
  by (induction rows) auto

lemma map_update_where [table_simps]:
  "(\<And>r. k (f r) = k r) \<Longrightarrow> map k (update_where p f rows) = map k rows"
  by (simp add: update_where_def)

lemma length_update_where [simp]: "length (update_where p f rows) = length rows"
  by (simp add: update_where_def)

lemma find_update_where [table_simps]:
  "(\<And>r. q (f r) = q r) \<Longrightarrow>
     find q (update_where p f rows) = map_option (\<lambda>r. if p r then f r else r) (find q rows)"
  by (induction rows) auto

lemma filter_update_where [table_simps]:
  "(\<And>r. q (f r) = q r) \<Longrightarrow> filter q (update_where p f rows) = update_where p f (filter q rows)"
  by (induction rows) auto

lemma list_all_update_where [table_simps]:
  "list_all q (update_where p f rows) = list_all (\<lambda>r. q (if p r then f r else r)) rows"
  by (induction rows) auto

lemma filter_update_other:
  "(\<And>r. p r \<Longrightarrow> \<not> q r \<and> \<not> q (f r)) \<Longrightarrow> filter q (update_where p f rows) = filter q rows"
  by (induction rows) auto

lemma filter_update_other_in:
  "(\<And>r. r \<in> set rows \<Longrightarrow> p r \<Longrightarrow> \<not> q r \<and> \<not> q (f r)) \<Longrightarrow>
     filter q (update_where p f rows) = filter q rows"
  by (induction rows) auto

lemma fold_max_ge: "m \<le> fold (\<lambda>r m. max m (key r)) rows (m :: int)"
  by (induction rows arbitrary: m) (auto intro: order_trans [OF max.cobounded1])

lemma fold_max_ge_elem: "r \<in> set rows \<Longrightarrow> key r \<le> fold (\<lambda>r m. max m (key r)) rows (m :: int)"
proof (induction rows arbitrary: m)
  case Nil
  then show ?case by simp
next
  case (Cons x xs)
  show ?case
  proof (cases "r = x")
    case True
    then show ?thesis using fold_max_ge [of "max m (key x)" key xs] by simp
  next
    case False
    with Cons show ?thesis by simp
  qed
qed

lemma fresh_id_greater: "r \<in> set rows \<Longrightarrow> key r < fresh_id key rows"
  using fold_max_ge_elem [of r rows key 0] by (simp add: fresh_id_def)

lemma fresh_id_notin: "fresh_id key rows \<notin> key ` set rows"
proof
  assume "fresh_id key rows \<in> key ` set rows"
  then obtain r where r: "r \<in> set rows" "fresh_id key rows = key r" by auto
  then show False using fresh_id_greater [OF r(1), of key] by simp
qed

lemma fresh_id_pos: "0 < fresh_id key rows"
  using fold_max_ge [of 0 key rows] by (simp add: fresh_id_def)

lemma fresh_id_update_where [table_simps]:
  assumes "\<And>r. key (f r) = key r"
  shows "fresh_id key (update_where p f rows) = fresh_id key rows"
proof -
  have "fold (\<lambda>r m. max m (key r)) (update_where p f rows) m = fold (\<lambda>r m. max m (key r)) rows m" for m
    using assms by (induction rows arbitrary: m) auto
  then show ?thesis by (simp add: fresh_id_def)
qed

lemma find_append: "find p (xs @ ys) = (case find p xs of None \<Rightarrow> find p ys | Some x \<Rightarrow> Some x)"
  by (induction xs) auto

lemma find_prefix: "prefix xs ys \<Longrightarrow> find p xs = Some x \<Longrightarrow> find p ys = Some x"
  by (auto simp: prefix_def find_append)

lemma find_SomeD: "find p xs = Some x \<Longrightarrow> x \<in> set xs \<and> p x"
  by (induction xs) (auto split: if_splits)

lemma find_None_notin: "find p xs = None \<Longrightarrow> x \<in> set xs \<Longrightarrow> \<not> p x"
  by (auto simp: find_None_iff)

lemma find_unique:
  "distinct (map key rows) \<Longrightarrow> r \<in> set rows \<Longrightarrow> find (\<lambda>x. key x = key r) rows = Some r"
  by (induction rows) auto

lemma unique_key_filter:
  assumes "distinct (map key rows)" "find p rows = Some r" "\<And>x. p x \<longleftrightarrow> key x = k"
  shows "filter p rows = [r]"
  using assms(1,2)
proof (induction rows)
  case (Cons x xs)
  show ?case
  proof (cases "p x")
    case True
    have "\<not> p y" if "y \<in> set xs" for y
      using that True assms(3) Cons.prems(1) by (auto simp: image_iff)
    then have "filter p xs = []" by (simp add: filter_empty_conv)
    then show ?thesis using True Cons.prems(2) by simp
  next
    case False
    then show ?thesis using Cons by simp
  qed
qed simp

lemma distinct_key_eq:
  "distinct (map key rows) \<Longrightarrow> r \<in> set rows \<Longrightarrow> q \<in> set rows \<Longrightarrow> key r = key q \<Longrightarrow> r = q"
  by (metis inj_onD distinct_map)

lemma distinct_fresh:
  "distinct (map key rows) \<Longrightarrow> key (mk (fresh_id key rows)) = fresh_id key rows \<Longrightarrow>
   distinct (map key (rows @ [mk (fresh_id key rows)]))"
  using fresh_id_notin [of key rows] by auto

lemma find_update_pk:
  assumes "find p rs = Some r" "distinct (map pk rs)" "p (f r)"
  shows "find p (update_where (\<lambda>x. pk x = pk r) f rs) = Some (f r)"
  using assms
proof (induction rs)
  case (Cons x xs)
  show ?case
  proof (cases "p x")
    case False
    then have "r \<in> set xs" using Cons.prems(1) by (auto dest: find_SomeD)
    then have "pk x \<noteq> pk r" using Cons.prems(2) by force
    then show ?thesis using False Cons by simp
  qed (use Cons in simp)
qed simp

section \<open>Tables of a state\<close>

text \<open>
  What the operations on a table rely on: what is written is read back. Each table an operation
  works on is an interpretation with its reader, its writer and its primary key.
\<close>

locale table =
  fixes rows :: "'s \<Rightarrow> 'r list"
    and put :: "'r list \<Rightarrow> 's \<Rightarrow> 's"
    and pk :: "'r \<Rightarrow> int"
  assumes rows_put: "rows (put rs s) = rs"
begin

lemma upsert_run:
  "upsert_row rows put pk lookup mk upd s =
     (case find lookup (rows s) of
        None \<Rightarrow> (Inr (mk (fresh_id pk (rows s))), put (rows s @ [mk (fresh_id pk (rows s))]) s)
      | Some r \<Rightarrow> (Inr (upd r), put (update_where (\<lambda>x. pk x = pk r) upd (rows s)) s))"
  by (simp add: upsert_row_def run_simps Let_def split: option.split)

lemma upsert_lookup:
  assumes "upsert_row rows put pk lookup mk upd s = (Inr r, t)"
    and "distinct (map pk (rows s))" and "\<And>i. lookup (mk i)" and "\<And>r. lookup r \<Longrightarrow> lookup (upd r)"
  shows "find lookup (rows t) = Some r"
proof (cases "find lookup (rows s)")
  case None
  then show ?thesis using assms(1,3) by (auto simp: upsert_run rows_put find_append)
next
  case (Some q)
  then have "lookup (upd q)" using assms(4) by (auto dest: find_SomeD)
  with Some show ?thesis
    using assms(1) find_update_pk [OF Some assms(2)] by (auto simp: upsert_run rows_put)
qed

lemma upsert_others:
  assumes "upsert_row rows put pk lookup mk upd s = (Inr r, t)"
    and "distinct (map pk (rows s))"
    and "\<And>i. lookup (mk i)" and "\<And>r. lookup r \<Longrightarrow> lookup (upd r)"
  shows "filter (\<lambda>x. \<not> lookup x) (rows t) = filter (\<lambda>x. \<not> lookup x) (rows s)"
proof (cases "find lookup (rows s)")
  case None
  then show ?thesis using assms(1,3) by (auto simp: upsert_run rows_put)
next
  case (Some q)
  then have q: "q \<in> set (rows s)" "lookup q" by (auto dest: find_SomeD)
  have "filter (\<lambda>x. \<not> lookup x) (update_where (\<lambda>x. pk x = pk q) upd (rows s))
      = filter (\<lambda>x. \<not> lookup x) (rows s)"
  proof (rule filter_update_other_in)
    fix x assume x: "x \<in> set (rows s)" "pk x = pk q"
    have "x = q" using distinct_key_eq [OF assms(2) x(1) q(1) x(2)] .
    then show "\<not> \<not> lookup x \<and> \<not> \<not> lookup (upd x)" using q assms(4) by simp
  qed
  then show ?thesis using Some assms(1) by (auto simp: upsert_run rows_put)
qed

lemma upsert_keys:
  assumes "upsert_row rows put pk lookup mk upd s = (Inr r, t)"
    and "distinct (map pk (rows s))"
    and "\<And>i. pk (mk i) = i" and "\<And>r. pk (upd r) = pk r"
  shows "distinct (map pk (rows t))"
  using assms distinct_fresh [of pk "rows s" mk]
  by (auto simp: upsert_run rows_put map_update_where split: option.splits)

end

section \<open>Laws of the string operations\<close>

lemma py_lower_char_idem [simp]: "py_lower_char (py_lower_char c) = py_lower_char c"
proof -
  have b: "of_char c < (256 :: nat)" by simp
  show ?thesis
    using b by (auto simp: py_lower_char_def code_point_def Let_def)
qed

lemma py_lower_idem [simp]: "py_lower (py_lower s) = py_lower s"
  by (simp add: py_lower_def)

lemma dropWhile_idem_rev:
  "dropWhile p (rev (dropWhile p (rev (dropWhile p xs)))) = rev (dropWhile p (rev (dropWhile p xs)))"
proof (cases "dropWhile p xs")
  case Nil
  show ?thesis unfolding Nil by simp
next
  case (Cons a ys)
  then have a: "\<not> p a" by (metis hd_dropWhile list.distinct(1) list.sel(1))
  have "dropWhile p (rev (a # ys)) = dropWhile p (rev ys) @ [a] \<or>
        (\<exists>zs. dropWhile p (rev (a # ys)) = zs @ [a])"
    using a by (simp add: dropWhile_append)
  then obtain zs where "dropWhile p (rev (a # ys)) = zs @ [a]" by blast
  then show ?thesis using a Cons by simp
qed

lemma py_strip_idem [simp]: "py_strip (py_strip s) = py_strip s"
  by (simp add: py_strip_def py_lstrip_def py_rstrip_def dropWhile_idem_rev)

lemma py_strip_Nil [simp]: "py_strip [] = []"
  by (simp add: py_strip_def py_lstrip_def py_rstrip_def)

lemma py_strip_id:
  assumes "s \<noteq> []" "\<not> py_isspace (hd s)" "\<not> py_isspace (last s)"
  shows "py_strip s = s"
proof -
  have "dropWhile py_isspace s = s" using assms(1,2) by (cases s) simp_all
  moreover have "dropWhile py_isspace (rev s) = rev s"
    using assms(1,3) by (cases s rule: rev_cases) simp_all
  ultimately show ?thesis by (simp add: py_strip_def py_lstrip_def py_rstrip_def)
qed

lemma py_strip_fixedD:
  assumes "py_strip s = s" "s \<noteq> []"
  shows "\<not> py_isspace (hd s)" "\<not> py_isspace (last s)"
proof -
  let ?l = "dropWhile py_isspace s"
  have e: "rev (dropWhile py_isspace (rev ?l)) = s"
    using assms(1) by (simp add: py_strip_def py_lstrip_def py_rstrip_def)
  have "length s \<le> length ?l"
    using length_dropWhile_le [of py_isspace "rev ?l"] e by (metis length_rev)
  then have l: "?l = s"
    by (metis dropWhile_eq_drop drop_eq_Nil2 le_antisym length_dropWhile_le length_drop diff_is_0_eq'
        diff_le_self drop0 nle_le diff_diff_cancel length_takeWhile_le)
  then show "\<not> py_isspace (hd s)" using assms(2) by (metis hd_dropWhile)
  from e l have "dropWhile py_isspace (rev s) = rev s" by (metis rev_rev_ident)
  then show "\<not> py_isspace (last s)"
    using assms(2) by (metis hd_dropWhile hd_rev rev_is_Nil_conv)
qed

lemma py_isspace_lower [simp]: "py_isspace (py_lower_char c) = py_isspace c"
proof -
  have "of_char c < (256 :: nat)" by simp
  then show ?thesis by (auto simp: py_isspace_def py_lower_char_def code_point_def Let_def)
qed

lemma py_lower_strip: "py_strip (py_lower s) = py_lower (py_strip s)"
proof -
  have "dropWhile py_isspace (map py_lower_char xs) = map py_lower_char (dropWhile py_isspace xs)" for xs
    by (induction xs) auto
  then show ?thesis by (simp add: py_strip_def py_lstrip_def py_rstrip_def py_lower_def rev_map)
qed

section \<open>Decimal numbers\<close>

definition digits_val :: "string \<Rightarrow> nat" where
  "digits_val s = foldl (\<lambda>a c. 10 * a + (code_point c - 48)) 0 s"

lemma code_point_digit: "n < 10 \<Longrightarrow> code_point (digit_char n) = 48 + n"
  by (simp add: code_point_def)

lemma digits_val_str_of_nat: "digits_val (str_of_nat n) = n"
proof (induction n rule: str_of_nat.induct)
  case (1 n)
  show ?case
  proof (cases "n < 10")
    case True
    then show ?thesis
      by (subst str_of_nat.simps) (simp add: digits_val_def code_point_digit del: digit_char.simps)
  next
    case False
    then have "digits_val (str_of_nat n) = 10 * digits_val (str_of_nat (n div 10)) + n mod 10"
      by (subst str_of_nat.simps) (simp add: digits_val_def code_point_digit del: digit_char.simps)
    then show ?thesis using 1 False by simp
  qed
qed

lemma str_of_nat_digits: "c \<in> set (str_of_nat n) \<Longrightarrow> 48 \<le> code_point c \<and> code_point c \<le> 57"
proof (induction n rule: str_of_nat.induct)
  case (1 n)
  then show ?case
    by (subst (asm) (2) str_of_nat.simps)
      (auto simp: code_point_digit less_Suc_eq_le simp del: digit_char.simps split: if_splits)
qed

lemma str_of_nat_nonempty: "str_of_nat n \<noteq> []"
  by (subst str_of_nat.simps) simp

lemma str_of_int_chars: "c \<in> set (str_of_int i) \<Longrightarrow> c = CHR ''-'' \<or> (48 \<le> code_point c \<and> code_point c \<le> 57)"
  by (auto simp: str_of_int_def dest: str_of_nat_digits split: if_splits)

lemma str_of_int_inj: "str_of_int i = str_of_int j \<Longrightarrow> i = j"
proof -
  assume eq: "str_of_int i = str_of_int j"
  have no_minus: "hd (str_of_nat n) \<noteq> CHR ''-''" for n
  proof
    assume "hd (str_of_nat n) = CHR ''-''"
    then have "CHR ''-'' \<in> set (str_of_nat n)" using str_of_nat_nonempty by (metis list.set_sel(1))
    then show False using str_of_nat_digits by (fastforce simp: code_point_def)
  qed
  have inj: "n = m" if "str_of_nat n = str_of_nat m" for n m
    using arg_cong [OF that, of digits_val] by (simp only: digits_val_str_of_nat)
  have sign: "hd (str_of_int k) = CHR ''-'' \<longleftrightarrow> k < 0" for k
    using no_minus [of "nat k"] by (simp add: str_of_int_def)
  have "(i < 0) = (j < 0)" using sign [of i] sign [of j] unfolding eq by blast
  then show "i = j"
  proof (cases "i < 0")
    case True
    then have "j < 0" using \<open>(i < 0) = (j < 0)\<close> by blast
    then have "str_of_nat (nat (- i)) = str_of_nat (nat (- j))"
      using eq True unfolding str_of_int_def by simp
    then have "nat (- i) = nat (- j)" by (rule inj)
    then show ?thesis using True \<open>j < 0\<close> by linarith
  next
    case False
    then have "\<not> j < 0" using \<open>(i < 0) = (j < 0)\<close> by blast
    then have "str_of_nat (nat i) = str_of_nat (nat j)"
      using eq False unfolding str_of_int_def by simp
    then have "nat i = nat j" by (rule inj)
    then show ?thesis using False \<open>\<not> j < 0\<close> by linarith
  qed
qed

text \<open>Two words without the separator, each followed by the end or the separator.\<close>

lemma separated_eq:
  assumes "xs @ u = ys @ v" "c \<notin> set xs" "c \<notin> set ys"
    and "u = [] \<or> hd u = c" "v = [] \<or> hd v = c"
  shows "xs = ys \<and> u = v"
  using assms
proof (induction xs arbitrary: ys)
  case Nil
  then show ?case by (cases ys) (auto split: if_splits)
next
  case (Cons x xs)
  then show ?case by (cases ys) (auto split: if_splits)
qed

end
