(* ===== verification/Models.thy ===== *)
theory Models
  imports Prelude "HOL-Library.Char_ord" "HOL-Library.List_Lexorder"
begin

text \<open>
  The data model: \<^verbatim>\<open>src/m8flow_core/errors.py\<close> and \<^verbatim>\<open>src/m8flow_core/models\<close>. One record per
  mapped class with the columns the services read or write, one datatype per \<^verbatim>\<open>StrEnum\<close>, and
  \<open>db\<close>, the session's view of the tables. A timestamp is the number of microseconds since the
  epoch in UTC, which is what the load and refresh listeners of \<^verbatim>\<open>base.py\<close> make of a stored value. A
  JSON value is a \<open>pyval\<close>; an object keeps its keys in insertion order. Relationship attributes are
  not columns: an operation that follows one looks the row up by its foreign key.
\<close>

type_synonym datetime = int
type_synonym guid = string

section \<open>errors.py\<close>

text \<open>
  The exception classes of the program and the built-in classes they extend. An exception is its
  class and the reason, one constructor per raising statement (with the values the message shows),
  grouped by the module that raises it.
\<close>

datatype exc_class =
    Py_Exception | Py_ValueError | Py_PermissionError | Py_LookupError | Py_RuntimeError
  | Py_KeyError | Py_TypeError | Py_AttributeError | Py_OverflowError | Py_UnicodeDecodeError
  | Sa_IntegrityError | Sa_InvalidRequestError
  | BpmnCoreError | ValidationError | InvalidStateError | AuthorizationError | NotFoundError
  | ServiceTaskExecutionError | CallActivityResolutionError | InvalidPermissionTargetError
  | KeycloakProvisioningError

fun class_bases :: "exc_class \<Rightarrow> exc_class list" where
  "class_bases Py_Exception = []"
| "class_bases Py_ValueError = [Py_Exception]"
| "class_bases Py_PermissionError = [Py_Exception]"
| "class_bases Py_LookupError = [Py_Exception]"
| "class_bases Py_RuntimeError = [Py_Exception]"
| "class_bases Py_KeyError = [Py_LookupError]"
| "class_bases Py_TypeError = [Py_Exception]"
| "class_bases Py_AttributeError = [Py_Exception]"
| "class_bases Py_OverflowError = [Py_Exception]"
| "class_bases Py_UnicodeDecodeError = [Py_ValueError]"
| "class_bases Sa_IntegrityError = [Py_Exception]"
| "class_bases Sa_InvalidRequestError = [Py_Exception]"
| "class_bases BpmnCoreError = [Py_Exception]"
| "class_bases ValidationError = [BpmnCoreError, Py_ValueError]"
| "class_bases InvalidStateError = [ValidationError]"
| "class_bases AuthorizationError = [BpmnCoreError, Py_PermissionError]"
| "class_bases NotFoundError = [BpmnCoreError, Py_LookupError]"
| "class_bases ServiceTaskExecutionError = [BpmnCoreError, Py_RuntimeError]"
| "class_bases CallActivityResolutionError = [ValidationError]"
| "class_bases InvalidPermissionTargetError = [Py_ValueError]"
| "class_bases KeycloakProvisioningError = [Py_RuntimeError]"

inductive is_subclass :: "exc_class \<Rightarrow> exc_class \<Rightarrow> bool" where
  sub_refl: "is_subclass c c"
| sub_step: "b \<in> set (class_bases c) \<Longrightarrow> is_subclass b a \<Longrightarrow> is_subclass c a"

datatype lookup_reason =
    UserNotFound int
  | UserNotInTenant int string
  | ProcessInstanceNotFound int string
  | ProcessDefinitionNotFound int string
  | WorkItemNotFound int string
  | TenantNotFound string
  | InitiatorNotFound int int

datatype auth_reason =
    UnknownCommandKey string
  | UnknownV1Role string
  | UnsupportedCommandType
  | UnknownField string
  | UnsupportedQueryType
  | NotAuthorized int string string
  | UnknownResourceType string
  | BlankResourceId
  | UnknownPermission string
  | UnknownGrantType string
  | CannotCreateRow
  | CommandColumnNotNull

datatype column_reason =
    UnknownStatus string
  | UnknownEventType string
  | UnknownJobType string
  | UnknownAddedBy string

datatype lifecycle_reason =
    CannotSuspendTerminal
  | CannotErrorCompleted
  | CannotErrorTerminated
  | OnlyErroredScheduled
  | CannotTerminateEnded
  | CannotResumeTerminal
  | OnlySuspendedResumed
  | OnlyErroredRetried

datatype task_reason =
    CannotClaimCompleted
  | NotAssigned
  | ClaimedByAnother
  | ClaimLostRace
  | AlreadyCompleted
  | NotClaimed
  | NotOwner
  | RowVanished

datatype job_reason =
    BlankQualifier
  | EmptyJobKey
  | NonPositiveLimit
  | BlankWorkerId
  | JobTypeNotExecutable string
  | JobFailed string
  | BatchFailed "(string \<times> exc_class) list"

datatype payload_reason =
    PayloadNotDict
  | PayloadMissingUser string
  | PayloadMissingTimerTask
  | PayloadMissingTaskSpec
  | PayloadMissingEventValue
  | PayloadMissingNext
  | PayloadMissingDuration
  | PayloadBadCycles

datatype timer_reason =
    TimerMissingNext
  | TimerBadTimestamp string
  | TimerMissingInternalData
  | TimerMissingEventValue
  | TimerStartNotWaiting string
  | TimerStartMissingSpecName

datatype workflow_reason =
    CannotInitializeTerminal
  | AlreadyInitialized
  | NoStoredXml
  | NoVersionXml
  | NoProcessDefinition
  | NoBpmnProcess
  | ProcessIdRequired
  | ProcessIdNotFound string
  | MalformedWorkflow string
  | EngineFailure string
  | DoesNotReturn

datatype call_activity_reason =
    CalledProcessNotFound string
  | NoCalledElement string
  | NoResolver string
  | NoResolverContext
  | ResolverFailed string
  | NoChildDefinition string
  | InvalidResolverResult string
  | AmbiguousChildDefinition string nat
  | ProcessIdMismatch string string
  | ProcessNotExecutable string
  | InvalidChildDefinition string

datatype lane_reason =
    InitiatorLanesNotList
  | InitiatorLaneBlank
  | UnknownLanes "string list"
  | ConflictingLanes "string list"

datatype service_reason =
    BlankField string
  | SlashInField string
  | MalformedOperationId
  | ConnectorExists string
  | ConnectorNotFound string
  | CommandNotFound string
  | MissingOperator
  | MissingParameters
  | ParameterNotMapping string
  | ParameterMissingValue string
  | ServiceFailed string

datatype proxy_reason =
    ForeignCommand string
  | CannotExecute string string
  | NonPositiveTimeout
  | ReservedParameter
  | CatalogNotList
  | CatalogEntryNotObject
  | CatalogEntryMissingId
  | ParametersNotList
  | ParameterNotObject
  | ParameterMissingId
  | ProxyFailed string string string
  | ProxyHttpFailed string string int string
  | ProxyUnreachable string string string
  | BodyNotUtf8

datatype keycloak_reason =
    RequestFailed int string string string
  | KeycloakUnreachable string string
  | InvalidJson string
  | TokenNotObject
  | TokenMissing
  | AliasRequired
  | OrganizationNotLoaded string
  | OrganizationWithoutId string
  | GroupNotLoaded string string
  | GroupWithoutId string string
  | NoUserLocation string
  | UserNotLoaded string
  | UserNotReconciled string
  | UserWithoutId string
  | MemberWithoutId string string
  | NoOrganization string

datatype app_reason =
    SecretNotFound int string
  | SecretKeyBlank
  | SecretKeyTooLong
  | SecretValueBlank
  | SecretExists string
  | SecretConstraint
  | SecretsNeedTenant
  | SecretsMissing string "string list"
  | SecretsPlaceholder string "string list"
  | SecretKeyUnknown string
  | ParameterNotCoerced string string

datatype reason =
    R_lookup lookup_reason
  | R_auth auth_reason
  | R_column column_reason
  | R_lifecycle lifecycle_reason
  | R_task task_reason
  | R_job job_reason
  | R_payload payload_reason
  | R_timer timer_reason
  | R_workflow workflow_reason
  | R_call call_activity_reason
  | R_lane lane_reason
  | R_service service_reason
  | R_proxy proxy_reason
  | R_keycloak keycloak_reason
  | R_app app_reason

datatype m8f_error = Err (err_class: exc_class) (err_reason: reason)

section \<open>JSON and keyword values\<close>

datatype pyval =
    PNone
  | PBool bool
  | PInt int
  | PFloat string
  | PStr string
  | PList "pyval list"
  | PDict "(string \<times> pyval) list"

text \<open>A float carries its \<^verbatim>\<open>repr\<close>, the text JSON stores for it. The readers below are
  \<^verbatim>\<open>isinstance(v, str)\<close> and \<^verbatim>\<open>isinstance(v, Mapping)\<close> with the value, and \<^verbatim>\<open>d.get(k)\<close>.\<close>

fun as_str :: "pyval \<Rightarrow> string option" where
  "as_str (PStr s) = Some s"
| "as_str _ = None"

fun as_dict :: "pyval \<Rightarrow> (string \<times> pyval) list option" where
  "as_dict (PDict d) = Some d"
| "as_dict _ = None"

fun as_list :: "pyval \<Rightarrow> pyval list option" where
  "as_list (PList xs) = Some xs"
| "as_list _ = None"

definition dict_get :: "(string \<times> pyval) list \<Rightarrow> string \<Rightarrow> pyval" where
  "dict_get d k = (case map_of d k of None \<Rightarrow> PNone | Some v \<Rightarrow> v)"

definition dict_set :: "string \<Rightarrow> pyval \<Rightarrow> (string \<times> pyval) list \<Rightarrow> (string \<times> pyval) list" where
  "dict_set k v d = AList.update k v d"

section \<open>Enumerations\<close>

datatype process_instance_status =
    PIS_not_started | PIS_running | PIS_user_input_required | PIS_waiting | PIS_suspended
  | PIS_complete | PIS_error | PIS_terminated

fun status_value :: "process_instance_status \<Rightarrow> string" where
  "status_value PIS_not_started = ''not_started''"
| "status_value PIS_running = ''running''"
| "status_value PIS_user_input_required = ''user_input_required''"
| "status_value PIS_waiting = ''waiting''"
| "status_value PIS_suspended = ''suspended''"
| "status_value PIS_complete = ''complete''"
| "status_value PIS_error = ''error''"
| "status_value PIS_terminated = ''terminated''"

definition all_statuses :: "process_instance_status list" where
  "all_statuses = [PIS_not_started, PIS_running, PIS_user_input_required, PIS_waiting,
     PIS_suspended, PIS_complete, PIS_error, PIS_terminated]"

text \<open>\<^verbatim>\<open>_TERMINAL_STATUSES\<close> and \<^verbatim>\<open>_ACTIVE_STATUSES\<close>, and the two methods that read them.\<close>

definition TERMINAL_STATUSES :: "process_instance_status list" where
  "TERMINAL_STATUSES = [PIS_complete, PIS_error, PIS_terminated]"

definition ACTIVE_STATUSES :: "process_instance_status list" where
  "ACTIVE_STATUSES = [PIS_not_started, PIS_running, PIS_user_input_required, PIS_waiting]"

definition has_terminal_status :: "process_instance_status \<Rightarrow> bool" where
  "has_terminal_status st \<longleftrightarrow> st \<in> set TERMINAL_STATUSES"

text \<open>\<^verbatim>\<open>ProcessInstanceStatus(value)\<close>: a member passes, a string is looked up.\<close>

datatype status_arg = Status process_instance_status | Status_str string

fun normalize_status :: "status_arg \<Rightarrow> m8f_error + process_instance_status" where
  "normalize_status (Status st) = Inr st"
| "normalize_status (Status_str s) =
     (case find (\<lambda>st. status_value st = s) all_statuses of
        None \<Rightarrow> Inl (Err Py_ValueError (R_column (UnknownStatus s))) | Some st \<Rightarrow> Inr st)"

datatype event_category = Cat_process | Cat_task

datatype event_type =
    process_instance_created | process_instance_suspended | process_instance_resumed
  | process_instance_error | process_instance_retried | process_instance_completed
  | process_instance_terminated
  | task_completed | task_failed | task_cancelled

fun event_value :: "event_type \<Rightarrow> string" where
  "event_value process_instance_created = ''process_instance_created''"
| "event_value process_instance_suspended = ''process_instance_suspended''"
| "event_value process_instance_resumed = ''process_instance_resumed''"
| "event_value process_instance_error = ''process_instance_error''"
| "event_value process_instance_retried = ''process_instance_retried''"
| "event_value process_instance_completed = ''process_instance_completed''"
| "event_value process_instance_terminated = ''process_instance_terminated''"
| "event_value task_completed = ''task_completed''"
| "event_value task_failed = ''task_failed''"
| "event_value task_cancelled = ''task_cancelled''"

definition process_lifecycle_events :: "event_type list" where
  "process_lifecycle_events = [process_instance_created, process_instance_suspended,
     process_instance_resumed, process_instance_error, process_instance_retried,
     process_instance_completed, process_instance_terminated]"

definition task_events :: "event_type list" where
  "task_events = [task_completed, task_failed, task_cancelled]"

text \<open>\<^verbatim>\<open>_CATEGORY_BY_EVENT_TYPE\<close> and \<^verbatim>\<open>event_category_for_type\<close>: the key is matched exactly.\<close>

definition CATEGORY_BY_EVENT_TYPE :: "(string \<times> event_type \<times> event_category) list" where
  "CATEGORY_BY_EVENT_TYPE =
     map (\<lambda>t. (event_value t, t, Cat_process)) process_lifecycle_events @
     map (\<lambda>t. (event_value t, t, Cat_task)) task_events"

datatype event_arg = Event event_type | Event_str string

fun event_key :: "event_arg \<Rightarrow> string" where
  "event_key (Event t) = event_value t"
| "event_key (Event_str s) = s"

definition event_category_for_type :: "event_arg \<Rightarrow> (event_type \<times> event_category) option" where
  "event_category_for_type a = map_of CATEGORY_BY_EVENT_TYPE (event_key a)"

datatype scheduler_job_type =
    JT_intermediate_timer | JT_process_retry | JT_timer_start | JT_unknown string

fun job_type_value :: "scheduler_job_type \<Rightarrow> string" where
  "job_type_value JT_intermediate_timer = ''intermediate_timer''"
| "job_type_value JT_process_retry = ''process_retry''"
| "job_type_value JT_timer_start = ''timer_start''"
| "job_type_value (JT_unknown s) = s"

text \<open>\<^verbatim>\<open>SchedulerJobType(value)\<close> and the column's validator: only the three members pass.\<close>

fun known_job_type :: "scheduler_job_type \<Rightarrow> bool" where
  "known_job_type (JT_unknown _) = False"
| "known_job_type _ = True"

datatype work_item_state = READY | CLAIMED | COMPLETED | TERMINATED | CANCELLED | WI_ERROR

text \<open>Task states: the engine's names the program distinguishes, and \<^verbatim>\<open>M8F_TERMINATED_TASK_STATE\<close>.\<close>

datatype task_state =
    TS_READY | TS_WAITING | TS_COMPLETED | TS_CANCELLED | TS_ERROR | TS_TERMINATED
  | TS_other string

fun work_item_state_value :: "work_item_state \<Rightarrow> string" where
  "work_item_state_value READY = ''READY''"
| "work_item_state_value CLAIMED = ''CLAIMED''"
| "work_item_state_value COMPLETED = ''COMPLETED''"
| "work_item_state_value TERMINATED = ''TERMINATED''"
| "work_item_state_value CANCELLED = ''CANCELLED''"
| "work_item_state_value WI_ERROR = ''ERROR''"

fun task_state_name :: "task_state \<Rightarrow> string" where
  "task_state_name TS_READY = ''READY''"
| "task_state_name TS_WAITING = ''WAITING''"
| "task_state_name TS_COMPLETED = ''COMPLETED''"
| "task_state_name TS_CANCELLED = ''CANCELLED''"
| "task_state_name TS_ERROR = ''ERROR''"
| "task_state_name TS_TERMINATED = ''TERMINATED''"
| "task_state_name (TS_other s) = s"

datatype added_by = AB_process_initiator | AB_lane_owner | AB_lane_assignment

datatype tenant_status = ACTIVE | INACTIVE | DELETED

section \<open>Rows\<close>

record tenant_row =
  ten_id :: string
  ten_name :: string
  ten_slug :: string
  ten_status :: tenant_status
  ten_created_by :: string
  ten_modified_by :: string
  ten_created_at :: datetime
  ten_updated_at :: datetime

record user_row =
  usr_id :: int
  usr_username :: string
  usr_email :: "string option"
  usr_service :: string
  usr_service_id :: string
  usr_display_name :: "string option"
  usr_realm_identifier :: "string option"
  usr_external_org_id :: "string option"
  usr_external_user_id :: "string option"
  usr_updated_at :: "datetime option"
  usr_created_at :: "datetime option"

record group_row =
  grp_id :: int
  grp_name :: "string option"
  grp_identifier :: "string option"
  grp_authorization_key :: "string option"

record user_group_row =
  uga_id :: int
  uga_user_id :: int
  uga_group_id :: int

record principal_row =
  pri_id :: int
  pri_user_id :: "int option"
  pri_group_id :: "int option"

record permission_target_row =
  pt_id :: int
  pt_command :: "string option"
  pt_resource_type :: string
  pt_resource_id :: "string option"

record permission_assignment_row =
  pa_id :: int
  pa_principal_id :: int
  pa_permission_target_id :: int
  pa_grant_type :: string
  pa_permission :: string

record process_definition_row =
  pd_id :: int
  pd_tenant :: string
  pd_process_xml_digest :: string
  pd_bpmn_identifier :: string
  pd_bpmn_name :: "string option"
  pd_properties_json :: "(string \<times> pyval) list"
  pd_version_control_type :: "string option"
  pd_version_control_identifier :: "string option"
  pd_updated_at :: "datetime option"
  pd_created_at :: "datetime option"

record bpmn_process_row =
  bp_id :: int
  bp_tenant :: string
  bp_guid :: "string option"
  bp_top_level_process_id :: "int option"
  bp_direct_parent_process_id :: "int option"
  bp_process_definition_id :: int
  bp_properties_json :: "(string \<times> pyval) list"
  bp_json_data_hash :: string
  bp_started_at :: "datetime option"
  bp_ended_at :: "datetime option"

record json_data_row =
  jd_tenant :: string
  jd_hash :: string
  jd_data :: "(string \<times> pyval) list"

record bpmn_version_row =
  ver_id :: int
  ver_tenant :: string
  ver_process_model_identifier :: string
  ver_bpmn_xml_hash :: string
  ver_bpmn_xml_file_contents :: string
  ver_created_at :: datetime

record process_instance_row =
  pi_id :: int
  pi_tenant :: string
  pi_process_model_identifier :: string
  pi_process_model_display_name :: string
  pi_summary :: "string option"
  pi_process_initiator_id :: int
  pi_bpmn_process_definition_id :: "int option"
  pi_bpmn_process_id :: "int option"
  pi_workflow_engine_version :: "string option"
  pi_status :: process_instance_status
  pi_started_at :: "datetime option"
  pi_ended_at :: "datetime option"
  pi_task_updated_at :: "datetime option"
  pi_updated_at :: "datetime option"
  pi_created_at :: "datetime option"
  pi_version_control_type :: "string option"
  pi_version_control_identifier :: "string option"
  pi_last_milestone_bpmn_name :: "string option"
  pi_bpmn_version_id :: "int option"

record event_row =
  ev_id :: int
  ev_tenant :: string
  ev_task_guid :: "guid option"
  ev_process_instance_id :: int
  ev_event_type :: event_type
  ev_category :: event_category
  ev_occurred_at :: datetime
  ev_user_id :: "int option"

record metadata_row =
  md_id :: int
  md_tenant :: string
  md_process_instance_id :: int
  md_key :: string
  md_value :: string
  md_updated_at :: datetime
  md_created_at :: datetime

record task_definition_row =
  td_id :: int
  td_tenant :: string
  td_process_definition_id :: int
  td_bpmn_identifier :: string
  td_bpmn_name :: "string option"
  td_typename :: string
  td_properties_json :: "(string \<times> pyval) list"
  td_updated_at :: "datetime option"
  td_created_at :: "datetime option"

record task_row =
  tk_guid :: guid
  tk_tenant :: string
  tk_bpmn_process_id :: int
  tk_process_instance_id :: int
  tk_task_definition_id :: int
  tk_state :: task_state
  tk_properties_json :: "(string \<times> pyval) list"
  tk_json_data_hash :: string
  tk_python_env_data_hash :: string
  tk_runtime_info :: "(string \<times> pyval) list option"
  tk_started_at :: "datetime option"
  tk_ended_at :: "datetime option"

record future_task_row =
  ft_guid :: guid
  ft_tenant :: string
  ft_run_at :: datetime
  ft_queued_to_run_at :: "datetime option"
  ft_completed :: bool
  ft_archived :: bool
  ft_updated_at :: datetime

record work_item_row =
  wi_id :: int
  wi_tenant :: string
  wi_process_instance_id :: int
  wi_task_guid :: "guid option"
  wi_lane_assignment_id :: "int option"
  wi_completed_by_user_id :: "int option"
  wi_actual_owner_id :: "int option"
  wi_task_status :: work_item_state
  wi_completed :: bool
  wi_updated_at :: "datetime option"
  wi_created_at :: "datetime option"

record work_item_user_row =
  wiu_tenant :: string
  wiu_work_item_id :: int
  wiu_user_id :: int
  wiu_added_by :: "added_by option"

record scheduler_job_row =
  job_id :: int
  job_tenant :: string
  job_key :: string
  job_type :: scheduler_job_type
  job_process_instance_id :: "int option"
  job_bpmn_process_definition_id :: "int option"
  job_locked_by :: "string option"
  job_locked_at :: "datetime option"
  job_run_at :: datetime
  job_payload_json :: pyval
  job_updated_at :: datetime
  job_created_at :: datetime

definition is_locked :: "scheduler_job_row \<Rightarrow> bool" where
  "is_locked j = (job_locked_by j \<noteq> None)"

section \<open>Properties of the mapped classes\<close>

definition SOURCE_BPMN_XML_PROPERTY_KEY :: string where
  "SOURCE_BPMN_XML_PROPERTY_KEY = ''__m8f_source_bpmn_xml''"
definition SOURCE_DMN_XML_PROPERTY_KEY :: string where
  "SOURCE_DMN_XML_PROPERTY_KEY = ''__m8f_source_dmn_xml''"
definition PROCESS_MODEL_IDENTIFIER_PROPERTY_KEY :: string where
  "PROCESS_MODEL_IDENTIFIER_PROPERTY_KEY = ''__m8f_process_model_identifier''"

lemmas property_key_defs = SOURCE_BPMN_XML_PROPERTY_KEY_def SOURCE_DMN_XML_PROPERTY_KEY_def
  PROCESS_MODEL_IDENTIFIER_PROPERTY_KEY_def

text \<open>\<^verbatim>\<open>properties[k] = v\<close>, or \<^verbatim>\<open>properties.pop(k, None)\<close> for no value.\<close>

definition put_property :: "string \<Rightarrow> string option \<Rightarrow> process_definition_row \<Rightarrow> process_definition_row" where
  "put_property k v r =
     r\<lparr>pd_properties_json := (case v of None \<Rightarrow> AList.delete k (pd_properties_json r)
                              | Some s \<Rightarrow> dict_set k (PStr s) (pd_properties_json r))\<rparr>"

definition source_bpmn_xml :: "process_definition_row \<Rightarrow> string option" where
  "source_bpmn_xml r = as_str (dict_get (pd_properties_json r) SOURCE_BPMN_XML_PROPERTY_KEY)"

definition set_source_bpmn_xml :: "string option \<Rightarrow> process_definition_row \<Rightarrow> process_definition_row" where
  "set_source_bpmn_xml v r = put_property SOURCE_BPMN_XML_PROPERTY_KEY v r"

definition source_dmn_xml :: "process_definition_row \<Rightarrow> string option" where
  "source_dmn_xml r = as_str (dict_get (pd_properties_json r) SOURCE_DMN_XML_PROPERTY_KEY)"

definition set_source_dmn_xml :: "string option \<Rightarrow> process_definition_row \<Rightarrow> process_definition_row" where
  "set_source_dmn_xml v r = put_property SOURCE_DMN_XML_PROPERTY_KEY v r"

definition explicit_process_model_identifier :: "process_definition_row \<Rightarrow> string option" where
  "explicit_process_model_identifier r =
     as_str (dict_get (pd_properties_json r) PROCESS_MODEL_IDENTIFIER_PROPERTY_KEY)"

definition process_model_identifier :: "process_definition_row \<Rightarrow> string" where
  "process_model_identifier r =
     (case explicit_process_model_identifier r of
        None \<Rightarrow> pd_bpmn_identifier r
      | Some s \<Rightarrow> if s = [] then pd_bpmn_identifier r else s)"

definition set_process_model_identifier :: "string \<Rightarrow> process_definition_row \<Rightarrow> process_definition_row" where
  "set_process_model_identifier v r = put_property PROCESS_MODEL_IDENTIFIER_PROPERTY_KEY (Some v) r"

definition USER_TASK_TYPENAMES :: "string list" where
  "USER_TASK_TYPENAMES = [''ManualTask'', ''NoneTask'', ''UserTask'']"

definition is_user_task :: "task_definition_row \<Rightarrow> bool" where
  "is_user_task t \<longleftrightarrow> td_typename t \<in> set USER_TASK_TYPENAMES"

section \<open>The session\<close>

text \<open>
  \<open>db\<close> is the state the services work on: every table as the session sees it, and the reading of
  \<^verbatim>\<open>datetime.now(UTC)\<close> that a command without an explicit timestamp takes.
\<close>

record db =
  d_now :: datetime
  d_tenants :: "tenant_row list"
  d_users :: "user_row list"
  d_groups :: "group_row list"
  d_user_groups :: "user_group_row list"
  d_principals :: "principal_row list"
  d_targets :: "permission_target_row list"
  d_assignments :: "permission_assignment_row list"
  d_definitions :: "process_definition_row list"
  d_processes :: "bpmn_process_row list"
  d_json :: "json_data_row list"
  d_versions :: "bpmn_version_row list"
  d_instances :: "process_instance_row list"
  d_events :: "event_row list"
  d_metadata :: "metadata_row list"
  d_task_defs :: "task_definition_row list"
  d_tasks :: "task_row list"
  d_future :: "future_task_row list"
  d_work_items :: "work_item_row list"
  d_work_item_users :: "work_item_user_row list"
  d_jobs :: "scheduler_job_row list"

definition empty_db :: "datetime \<Rightarrow> db" where
  "empty_db now = \<lparr>d_now = now, d_tenants = [], d_users = [], d_groups = [], d_user_groups = [],
     d_principals = [], d_targets = [], d_assignments = [], d_definitions = [], d_processes = [],
     d_json = [], d_versions = [], d_instances = [], d_events = [], d_metadata = [],
     d_task_defs = [], d_tasks = [], d_future = [], d_work_items = [], d_work_item_users = [],
     d_jobs = []\<rparr>"

text \<open>A user of a realm, for the concrete inputs of the witnesses.\<close>

definition realm_user :: "int \<Rightarrow> string \<Rightarrow> user_row" where
  "realm_user i realm = \<lparr>usr_id = i, usr_username = ''user'', usr_email = None,
     usr_service = ''http://idp/realms/'' @ realm, usr_service_id = ''sid'',
     usr_display_name = None, usr_realm_identifier = Some realm, usr_external_org_id = None,
     usr_external_user_id = None, usr_updated_at = None, usr_created_at = None\<rparr>"

text \<open>A session with one user and one running instance.\<close>

definition one_instance :: process_instance_row where
  "one_instance = \<lparr>pi_id = 1, pi_tenant = ''acme'', pi_process_model_identifier = ''m'',
     pi_process_model_display_name = ''M'', pi_summary = None, pi_process_initiator_id = 1,
     pi_bpmn_process_definition_id = None, pi_bpmn_process_id = None,
     pi_workflow_engine_version = None, pi_status = PIS_running, pi_started_at = None,
     pi_ended_at = None, pi_task_updated_at = None, pi_updated_at = None, pi_created_at = None,
     pi_version_control_type = None, pi_version_control_identifier = None,
     pi_last_milestone_bpmn_name = None, pi_bpmn_version_id = None\<rparr>"

definition one_instance_db :: db where
  "one_instance_db = (empty_db 0)\<lparr>d_users := [realm_user 1 ''acme''], d_instances := [one_instance]\<rparr>"

type_synonym 'a svc = "(db, m8f_error, 'a) comp"

text \<open>\<^verbatim>\<open>_resolve_timestamp(timestamp)\<close>: the timestamp given, or the clock.\<close>

definition resolve_timestamp :: "datetime option \<Rightarrow> db \<Rightarrow> datetime" where
  "resolve_timestamp ts d = (case ts of None \<Rightarrow> d_now d | Some t \<Rightarrow> t)"

section \<open>Writes to a row by its primary key\<close>

definition upd_instance :: "int \<Rightarrow> (process_instance_row \<Rightarrow> process_instance_row) \<Rightarrow> unit svc" where
  "upd_instance i f =
     modify (\<lambda>d. d\<lparr>d_instances := update_where (\<lambda>r. pi_id r = i) f (d_instances d)\<rparr>)"

definition upd_work_item :: "int \<Rightarrow> (work_item_row \<Rightarrow> work_item_row) \<Rightarrow> unit svc" where
  "upd_work_item i f =
     modify (\<lambda>d. d\<lparr>d_work_items := update_where (\<lambda>r. wi_id r = i) f (d_work_items d)\<rparr>)"

definition upd_job :: "int \<Rightarrow> (scheduler_job_row \<Rightarrow> scheduler_job_row) \<Rightarrow> unit svc" where
  "upd_job i f = modify (\<lambda>d. d\<lparr>d_jobs := update_where (\<lambda>r. job_id r = i) f (d_jobs d)\<rparr>)"

definition upd_task :: "guid \<Rightarrow> (task_row \<Rightarrow> task_row) \<Rightarrow> unit svc" where
  "upd_task g f = modify (\<lambda>d. d\<lparr>d_tasks := update_where (\<lambda>r. tk_guid r = g) f (d_tasks d)\<rparr>)"

definition upd_future :: "guid \<Rightarrow> (future_task_row \<Rightarrow> future_task_row) \<Rightarrow> unit svc" where
  "upd_future g f = modify (\<lambda>d. d\<lparr>d_future := update_where (\<lambda>r. ft_guid r = g) f (d_future d)\<rparr>)"

definition upd_process :: "int \<Rightarrow> (bpmn_process_row \<Rightarrow> bpmn_process_row) \<Rightarrow> unit svc" where
  "upd_process i f = modify (\<lambda>d. d\<lparr>d_processes := update_where (\<lambda>r. bp_id r = i) f (d_processes d)\<rparr>)"

definition upd_definition :: "int \<Rightarrow> (process_definition_row \<Rightarrow> process_definition_row) \<Rightarrow> unit svc" where
  "upd_definition i f = modify (\<lambda>d. d\<lparr>d_definitions := update_where (\<lambda>r. pd_id r = i) f (d_definitions d)\<rparr>)"

lemmas upd_defs = upd_definition_def upd_instance_def upd_work_item_def upd_job_def upd_task_def upd_future_def
  upd_process_def

section \<open>Facts about the enumerations\<close>

inductive_simps is_subclass_top: "is_subclass Py_Exception a"

lemma is_subclass_step: "is_subclass c a \<longleftrightarrow> c = a \<or> (\<exists>b \<in> set (class_bases c). is_subclass b a)"
  by (subst is_subclass.simps) auto

lemma status_value_inj: "status_value a = status_value b \<Longrightarrow> a = b"
  by (cases a; cases b) simp_all

lemma event_value_inj: "event_value a = event_value b \<Longrightarrow> a = b"
  by (cases a; cases b) simp_all

lemma terminal_iff:
  "has_terminal_status st \<longleftrightarrow> st = PIS_complete \<or> st = PIS_error \<or> st = PIS_terminated"
  by (simp add: has_terminal_status_def TERMINAL_STATUSES_def)

lemma event_category_Event:
  "event_category_for_type (Event t) =
     Some (t, if t \<in> set process_lifecycle_events then Cat_process else Cat_task)"
  by (cases t) (simp_all add: event_category_for_type_def CATEGORY_BY_EVENT_TYPE_def
      process_lifecycle_events_def task_events_def)

end
