(* ===== verification/Json_Data.thy ===== *)
theory Json_Data
  imports Models "HOL-Library.Word" "HOL-Library.Multiset"
begin

text \<open>
  \<^verbatim>\<open>src/m8flow_core/models/json_data.py\<close>: payloads stored once per tenant under the SHA-256 digest of
  their canonical JSON text, with the parts of the standard library the module uses: the sorted
  form and the compact text of \<^verbatim>\<open>json.dumps\<close>, and \<^verbatim>\<open>hashlib.sha256\<close> on 32-bit words.
\<close>

unbundle bit_operations_syntax

section \<open>json.dumps\<close>

text \<open>Objects with their keys in code-point order at every level.\<close>

fun sort_keys :: "pyval \<Rightarrow> pyval" where
  "sort_keys (PDict d) = PDict (sort_key fst (map (\<lambda>(k, v). (k, sort_keys v)) d))"
| "sort_keys (PList xs) = PList (map sort_keys xs)"
| "sort_keys v = v"

definition hex_digit :: "nat \<Rightarrow> char" where
  "hex_digit n = char_of (if n < 10 then 48 + n else 87 + n)"

definition json_escape_char :: "char \<Rightarrow> string" where
  "json_escape_char c =
     (let n = code_point c in
      if n = 34 then [char_of (92 :: nat), CHR 0x22]
      else if n = 92 then [char_of (92 :: nat), char_of (92 :: nat)]
      else if n = 10 then char_of (92 :: nat) # ''n''
      else if n = 13 then char_of (92 :: nat) # ''r''
      else if n = 9 then char_of (92 :: nat) # ''t''
      else if n = 12 then char_of (92 :: nat) # ''f''
      else if n = 8 then char_of (92 :: nat) # ''b''
      else if 32 \<le> n \<and> n \<le> 126 then [c]
      else char_of (92 :: nat) # ''u00'' @ [hex_digit (n div 16), hex_digit (n mod 16)])"

definition json_string :: "string \<Rightarrow> string" where
  "json_string s = [CHR 0x22] @ concat (map json_escape_char s) @ [CHR 0x22]"

text \<open>\<^verbatim>\<open>json.dumps(v, separators=(",", ":"))\<close>.\<close>

fun json_compact :: "pyval \<Rightarrow> string" where
  "json_compact PNone = ''null''"
| "json_compact (PBool b) = (if b then ''true'' else ''false'')"
| "json_compact (PInt i) = str_of_int i"
| "json_compact (PFloat t) = t"
| "json_compact (PStr s) = json_string s"
| "json_compact (PList xs) = ''['' @ py_join '','' (map json_compact xs) @ '']''"
| "json_compact (PDict d) =
     ''{'' @ py_join '','' (map (\<lambda>(k, v). json_string k @ '':'' @ json_compact v) d) @ ''}''"

text \<open>Python's \<^verbatim>\<open>repr\<close> of a string over code points below 256, and \<^verbatim>\<open>str\<close> of a value.\<close>

definition py_repr_char :: "char \<Rightarrow> char \<Rightarrow> string" where
  "py_repr_char quote c =
     (let n = code_point c; bs = char_of (92 :: nat) in
      if c = quote \<or> n = 92 then [bs, c]
      else if n = 9 then bs # ''t''
      else if n = 10 then bs # ''n''
      else if n = 13 then bs # ''r''
      else if n < 32 \<or> (127 \<le> n \<and> n \<le> 160) \<or> n = 173
      then bs # ''x'' @ [hex_digit (n div 16), hex_digit (n mod 16)]
      else [c])"

definition py_repr_str :: "string \<Rightarrow> string" where
  "py_repr_str s =
     (let quote = (if CHR 0x27 \<in> set s \<and> CHR 0x22 \<notin> set s then CHR 0x22 else CHR 0x27)
      in [quote] @ concat (map (py_repr_char quote) s) @ [quote])"

fun py_repr :: "pyval \<Rightarrow> string" where
  "py_repr PNone = ''None''"
| "py_repr (PBool b) = (if b then ''True'' else ''False'')"
| "py_repr (PInt i) = str_of_int i"
| "py_repr (PFloat t) = t"
| "py_repr (PStr s) = py_repr_str s"
| "py_repr (PList xs) = ''['' @ py_join '', '' (map py_repr xs) @ '']''"
| "py_repr (PDict d) = ''{'' @ py_join '', '' (map (\<lambda>(k, v). py_repr_str k @ '': '' @ py_repr v) d) @ ''}''"

definition py_str_value :: "pyval \<Rightarrow> string" where
  "py_str_value v = (case v of PStr s \<Rightarrow> s | _ \<Rightarrow> py_repr v)"

text \<open>\<^verbatim>\<open>bool(v)\<close>: what Python takes for true.\<close>

fun py_truthy :: "pyval \<Rightarrow> bool" where
  "py_truthy PNone = False"
| "py_truthy (PBool b) = b"
| "py_truthy (PInt i) = (i \<noteq> 0)"
| "py_truthy (PFloat t) = (t \<notin> {''0.0'', ''-0.0''})"
| "py_truthy (PStr s) = (s \<noteq> [])"
| "py_truthy (PList xs) = (xs \<noteq> [])"
| "py_truthy (PDict d) = (d \<noteq> [])"

section \<open>hashlib.sha256\<close>

text \<open>
  The round constants are the first 32 bits of the fractional parts of the cube roots of the first
  64 primes, the initial state those of the square roots of the first 8. \<open>root_bits k b n r\<close>
  completes \<open>r\<close> by \<open>b\<close> lower bits to the integer \<open>k\<close>-th root of \<open>n\<close>.
\<close>

definition first_primes :: "int list" where
  "first_primes = [
    2, 3, 5, 7, 11, 13, 17, 19, 23, 29, 31, 37, 41, 43, 47, 53,
    59, 61, 67, 71, 73, 79, 83, 89, 97, 101, 103, 107, 109, 113, 127, 131,
    137, 139, 149, 151, 157, 163, 167, 173, 179, 181, 191, 193, 197, 199, 211, 223,
    227, 229, 233, 239, 241, 251, 257, 263, 269, 271, 277, 281, 283, 293, 307, 311]"

fun root_bits :: "nat \<Rightarrow> nat \<Rightarrow> int \<Rightarrow> int \<Rightarrow> int" where
  "root_bits k 0 n r = r"
| "root_bits k (Suc b) n r =
     (let r' = r + 2 ^ b in root_bits k b n (if r' ^ k \<le> n then r' else r))"

definition root_fraction :: "nat \<Rightarrow> int \<Rightarrow> 32 word" where
  "root_fraction k p = of_int (root_bits k 40 (p * 2 ^ (32 * k)) 0)"

definition sha256_K :: "32 word list" where
  "sha256_K = map (root_fraction 3) first_primes"

definition sha256_H0 :: "32 word list" where
  "sha256_H0 = map (root_fraction 2) (take 8 first_primes)"

definition rotr :: "nat \<Rightarrow> 32 word \<Rightarrow> 32 word" where
  "rotr n w = drop_bit n w OR push_bit (32 - n) w"

definition sha_ch :: "32 word \<Rightarrow> 32 word \<Rightarrow> 32 word \<Rightarrow> 32 word" where
  "sha_ch x y z = (x AND y) XOR (NOT x AND z)"
definition sha_maj :: "32 word \<Rightarrow> 32 word \<Rightarrow> 32 word \<Rightarrow> 32 word" where
  "sha_maj x y z = (x AND y) XOR (x AND z) XOR (y AND z)"
definition big_sigma0 :: "32 word \<Rightarrow> 32 word" where
  "big_sigma0 x = rotr 2 x XOR rotr 13 x XOR rotr 22 x"
definition big_sigma1 :: "32 word \<Rightarrow> 32 word" where
  "big_sigma1 x = rotr 6 x XOR rotr 11 x XOR rotr 25 x"
definition small_sigma0 :: "32 word \<Rightarrow> 32 word" where
  "small_sigma0 x = rotr 7 x XOR rotr 18 x XOR drop_bit 3 x"
definition small_sigma1 :: "32 word \<Rightarrow> 32 word" where
  "small_sigma1 x = rotr 17 x XOR rotr 19 x XOR drop_bit 10 x"

text \<open>The message schedule, kept newest word first: \<open>ws ! 1\<close> is \<open>W(t-2)\<close>, \<open>ws ! 6\<close> is \<open>W(t-7)\<close>.\<close>

fun sha_extend :: "nat \<Rightarrow> 32 word list \<Rightarrow> 32 word list" where
  "sha_extend 0 ws = ws"
| "sha_extend (Suc n) ws =
     sha_extend n ((small_sigma1 (ws ! 1) + ws ! 6 + small_sigma0 (ws ! 14) + ws ! 15) # ws)"

fun sha_round :: "32 word list \<Rightarrow> 32 word \<times> 32 word \<Rightarrow> 32 word list" where
  "sha_round [a, b, c, d, e, f, g, h] (k, w) =
     (let t1 = h + big_sigma1 e + sha_ch e f g + k + w;
          t2 = big_sigma0 a + sha_maj a b c
      in [t1 + t2, a, b, c, d + t1, e, f, g])"
| "sha_round s _ = s"

definition sha_block :: "32 word list \<Rightarrow> 32 word list \<Rightarrow> 32 word list" where
  "sha_block H block =
     (let ws = rev (sha_extend 48 (rev block))
      in map2 (+) H (foldl sha_round H (zip sha256_K ws)))"

definition sha_pad :: "int list \<Rightarrow> int list" where
  "sha_pad bytes =
     (let l = length bytes; z = (119 - l mod 64) mod 64; bits = 8 * int l
      in bytes @ [128] @ replicate z 0
         @ map (\<lambda>i. bits div 256 ^ i mod 256) [7, 6, 5, 4, 3, 2, 1, 0])"

function words_of :: "int list \<Rightarrow> 32 word list" where
  "words_of bs =
     (if length bs < 4 then []
      else of_int (((bs ! 0 * 256 + bs ! 1) * 256 + bs ! 2) * 256 + bs ! 3) # words_of (drop 4 bs))"
  by pat_completeness auto
termination
  by (relation "measure length") auto

function sha_blocks :: "32 word list \<Rightarrow> 32 word list \<Rightarrow> 32 word list" where
  "sha_blocks H ws = (if length ws < 16 then H else sha_blocks (sha_block H (take 16 ws)) (drop 16 ws))"
  by pat_completeness auto
termination
  by (relation "measure (\<lambda>(H, ws). length ws)") auto

declare words_of.simps [simp del] sha_blocks.simps [simp del]

definition hex_word :: "32 word \<Rightarrow> string" where
  "hex_word w = map (\<lambda>i. hex_digit (nat (uint w div 16 ^ i mod 16))) [7, 6, 5, 4, 3, 2, 1, 0]"

text \<open>\<^verbatim>\<open>s.encode("utf-8")\<close> for code points below 256, and the hexadecimal digest of the bytes.\<close>

definition utf8_char :: "char \<Rightarrow> int list" where
  "utf8_char c = (let n = int (code_point c) in if n < 128 then [n] else [192 + n div 64, 128 + n mod 64])"

definition sha256_hexdigest :: "int list \<Rightarrow> string" where
  "sha256_hexdigest bytes = concat (map hex_word (sha_blocks sha256_H0 (words_of (sha_pad bytes))))"

definition sha256_text :: "string \<Rightarrow> string" where
  "sha256_text s = sha256_hexdigest (concat (map utf8_char s))"

section \<open>JsonDataModel\<close>

definition get_for_tenant :: "string \<Rightarrow> string \<Rightarrow> db \<Rightarrow> json_data_row option" where
  "get_for_tenant tenant h d = find (\<lambda>r. jd_tenant r = tenant \<and> jd_hash r = h) (d_json d)"

definition normalized_payload :: "(string \<times> pyval) list option \<Rightarrow> (string \<times> pyval) list" where
  "normalized_payload data =
     (case data of None \<Rightarrow> []
      | Some v \<Rightarrow> (case sort_keys (PDict v) of PDict v' \<Rightarrow> v' | _ \<Rightarrow> []))"

definition hash_payload :: "(string \<times> pyval) list option \<Rightarrow> string \<times> (string \<times> pyval) list" where
  "hash_payload data =
     (let p = normalized_payload data
      in (sha256_text (json_compact (sort_keys (PDict p))), p))"

definition create_or_update_from_payload ::
  "string \<Rightarrow> (string \<times> pyval) list option \<Rightarrow> string svc" where
  "create_or_update_from_payload tenant data =
     (case hash_payload data of (h, p) \<Rightarrow>
        thn (modify (\<lambda>d.
               case get_for_tenant tenant h d of
                 None \<Rightarrow> d\<lparr>d_json := d_json d @ [\<lparr>jd_tenant = tenant, jd_hash = h, jd_data = p\<rparr>]\<rparr>
               | Some _ \<Rightarrow> d\<lparr>d_json := update_where (\<lambda>r. jd_tenant r = tenant \<and> jd_hash r = h)
                              (\<lambda>r. r\<lparr>jd_data := p\<rparr>) (d_json d)\<rparr>))
          (ret h))"

definition WORKFLOW_STATE_JSON_DATA_KEY :: string where
  "WORKFLOW_STATE_JSON_DATA_KEY = ''__m8f_workflow_state_json''"

definition workflow_state_json :: "process_instance_row \<Rightarrow> db \<Rightarrow> string option" where
  "workflow_state_json pinst d =
     (case pi_bpmn_process_id pinst of
        None \<Rightarrow> None
      | Some b \<Rightarrow>
          (case find (\<lambda>r. bp_id r = b) (d_processes d) of
             None \<Rightarrow> None
           | Some bp \<Rightarrow>
               (case get_for_tenant (bp_tenant bp) (bp_json_data_hash bp) d of
                  None \<Rightarrow> None
                | Some jd \<Rightarrow> as_str (dict_get (jd_data jd) WORKFLOW_STATE_JSON_DATA_KEY))))"

section \<open>Payloads are canonical\<close>

lemma sort_keys_dict: "\<exists>p. sort_keys (PDict v) = PDict p"
  by simp

lemma normalized_payload_Some:
  "PDict (normalized_payload (Some v)) = sort_keys (PDict v)"
  by (simp add: normalized_payload_def)

lemma sort_key_stable: "sorted (map f xs) \<Longrightarrow> sort_key f xs = xs"
  by (induction xs) (auto simp: insort_is_Cons)

lemma sort_keys_idem: "sort_keys (sort_keys v) = sort_keys v"
proof (induction v rule: sort_keys.induct)
  case (1 d)
  let ?f = "\<lambda>(k, v). (k, sort_keys v)"
  let ?s = "sort_key fst (map ?f d)"
  have "?f x = x" if "x \<in> set ?s" for x
  proof -
    have "x \<in> ?f ` set d" using that by simp
    then obtain y where y: "y \<in> set d" "x = ?f y" by (rule imageE)
    then show ?thesis using 1 [OF y(1) prod.collapse] by (simp add: case_prod_beta)
  qed
  then have "map ?f ?s = ?s" by (rule map_idI)
  moreover have "sorted (map fst ?s)" by (rule sorted_sort_key)
  ultimately show ?case
    unfolding sort_keys.simps by (simp only: sort_key_stable)
qed (simp_all add: map_idI)

text \<open>
  When two JSON values are the same value: objects map the same keys to the same values, whatever
  the order in which their keys were inserted, lists agree position by position, and everything else
  is equal. The order of the keys of an object is free at every depth.
\<close>

inductive same_json :: "pyval \<Rightarrow> pyval \<Rightarrow> bool" where
  same_dict: "(\<And>k. rel_option same_json (map_of d k) (map_of e k)) \<Longrightarrow> same_json (PDict d) (PDict e)"
| same_list: "list_all2 same_json xs ys \<Longrightarrow> same_json (PList xs) (PList ys)"
| same_atom: "same_json v v"
monos option.rel_mono_strong list.rel_mono_strong

lemma same_json_lookup:
  assumes "same_json (PDict d) (PDict e)"
  shows "rel_option same_json (map_of d k) (map_of e k)"
  using assms by (cases rule: same_json.cases) (auto intro: option.rel_refl same_atom)

text \<open>A Python dict holds a key once, at every depth of a payload.\<close>

fun unique_keys :: "pyval \<Rightarrow> bool" where
  "unique_keys (PDict d) = (distinct (map fst d) \<and> list_all (\<lambda>(k, v). unique_keys v) d)"
| "unique_keys (PList xs) = list_all unique_keys xs"
| "unique_keys v = True"

lemma unique_keys_dict:
  "unique_keys (PDict d) \<longleftrightarrow> distinct (map fst d) \<and> (\<forall>(k, v)\<in>set d. unique_keys v)"
  by (auto simp: list_all_iff)

lemma map_of_sorted_values:
  "map_of (map (\<lambda>(k, v). (k, f v)) d) k = map_option f (map_of d k)"
  by (induction d) auto

lemma keys_of_sorted_values: "map fst (map (\<lambda>(k, v). (k, f v)) d) = map fst d"
  by (induction d) auto

lemma sort_key_map_of:
  fixes xs ys :: "('k :: linorder \<times> 'v) list"
  assumes "distinct (map fst xs)" and "distinct (map fst ys)"
  shows "sort_key fst xs = sort_key fst ys \<longleftrightarrow> map_of xs = map_of ys"
proof
  assume "sort_key fst xs = sort_key fst ys"
  then have "set xs = set ys" by (metis set_sort)
  then show "map_of xs = map_of ys" using assms by (simp add: map_of_inject_set)
next
  assume "map_of xs = map_of ys"
  then have "set xs = set ys" using assms by (simp add: map_of_inject_set)
  then have "mset xs = mset ys"
    using assms by (simp add: set_eq_iff_mset_eq_distinct [symmetric] distinct_map)
  moreover have "inj_on fst (set xs)" using assms(1) by (simp add: distinct_map)
  ultimately show "sort_key fst xs = sort_key fst ys" by (rule sort_key_eq_sort_key)
qed

lemma sort_keys_dict_eq:
  assumes "distinct (map fst d)" and "distinct (map fst e)"
  shows "sort_keys (PDict d) = sort_keys (PDict e) \<longleftrightarrow>
    (\<forall>k. map_option sort_keys (map_of d k) = map_option sort_keys (map_of e k))"
proof -
  let ?f = "\<lambda>(k, v). (k, sort_keys v)"
  have "distinct (map fst (map ?f d))" "distinct (map fst (map ?f e))"
    unfolding keys_of_sorted_values by (fact assms)+
  note sort_key_map_of [OF this]
  then show ?thesis by (simp add: fun_eq_iff map_of_sorted_values)
qed

lemma same_json_sort_keys:
  assumes "same_json v w" and "unique_keys v" and "unique_keys w"
  shows "sort_keys v = sort_keys w"
  using assms
proof (induction rule: same_json.induct)
  case (same_dict d e)
  have "map_option sort_keys (map_of d k) = map_option sort_keys (map_of e k)" for k
    using same_dict.IH [of k] same_dict.prems unfolding unique_keys_dict
    by (cases "map_of d k"; cases "map_of e k") (auto dest!: map_of_SomeD)
  then show ?case
    using same_dict.prems sort_keys_dict_eq [of d e] unfolding unique_keys_dict by blast
next
  case (same_list xs ys)
  then show ?case by (auto simp: list_all2_conv_all_nth list_all_length intro!: nth_equalityI)
qed simp

lemma sort_keys_atom:
  "sort_keys w = PNone \<longleftrightarrow> w = PNone" "sort_keys w = PBool b \<longleftrightarrow> w = PBool b"
  "sort_keys w = PInt i \<longleftrightarrow> w = PInt i" "sort_keys w = PFloat t \<longleftrightarrow> w = PFloat t"
  "sort_keys w = PStr s \<longleftrightarrow> w = PStr s"
  by (cases w; simp)+

lemma sort_keys_same_json:
  assumes "sort_keys v = sort_keys w" and "unique_keys v" and "unique_keys w"
  shows "same_json v w"
  using assms
proof (induction v arbitrary: w)
  case (PDict d)
  obtain e where w: "w = PDict e" using PDict.prems(1) by (cases w) auto
  have "rel_option same_json (map_of d k) (map_of e k)" for k
  proof -
    have *: "map_option sort_keys (map_of d k) = map_option sort_keys (map_of e k)"
      using PDict.prems sort_keys_dict_eq [of d e] unfolding w unique_keys_dict by blast
    show ?thesis
    proof (cases "map_of d k")
      case None
      then show ?thesis using * by simp
    next
      case (Some x)
      then obtain y where y: "map_of e k = Some y" "sort_keys x = sort_keys y"
        using * by (cases "map_of e k") auto
      have "unique_keys x" "unique_keys y"
        using Some y(1) PDict.prems unfolding w unique_keys_dict by (auto dest!: map_of_SomeD)
      then have "same_json x y"
        using PDict.IH [of "(k, x)" x y] map_of_SomeD [OF Some] y(2) by simp
      then show ?thesis using Some y(1) by simp
    qed
  qed
  then show ?case unfolding w by (rule same_dict)
next
  case (PList xs)
  obtain ys where w: "w = PList ys" using PList.prems(1) by (cases w) auto
  have "map sort_keys xs = map sort_keys ys" using PList.prems(1) w by simp
  then have "list_all2 same_json xs ys"
    using PList.IH PList.prems unfolding w
    by (auto simp: list_all2_conv_all_nth list_all_length list_eq_iff_nth_eq)
  then show ?case unfolding w by (rule same_list)
qed (metis sort_keys.simps(3-7) sort_keys_atom same_atom)+

lemma unique_keys_sort_keys: "unique_keys v \<Longrightarrow> unique_keys (sort_keys v)"
proof (induction v)
  case (PDict d)
  let ?s = "sort_key fst (map (\<lambda>(k, v). (k, sort_keys v)) d)"
  have "mset (map fst ?s) = mset (map fst d)"
    using keys_of_sorted_values [of sort_keys d] by (metis mset_map mset_sort)
  then have "distinct (map fst ?s)"
    using PDict.prems unfolding unique_keys_dict by (metis mset_eq_imp_distinct_iff)
  moreover have "\<forall>(k, v)\<in>set ?s. unique_keys v"
    using PDict.IH PDict.prems unfolding unique_keys_dict by fastforce
  ultimately show ?case unfolding sort_keys.simps unique_keys_dict by blast
qed (auto simp: list_all_iff)

text \<open>C31: Two payloads have the same digest and the same stored form exactly when they are the same JSON
  value: key for key, position for position, with the order of the keys of every object free at every
  depth. The stored form is itself the same value as the payload, so nothing is lost by sorting.\<close>

theorem payload_hash_order_independent:
  assumes "unique_keys (PDict v)" and "unique_keys (PDict w)"
  shows "(hash_payload (Some v) = hash_payload (Some w) \<longleftrightarrow> same_json (PDict v) (PDict w)) \<and>
    same_json (PDict (snd (hash_payload (Some v)))) (PDict v)"
proof -
  have "hash_payload (Some v) = hash_payload (Some w) \<longleftrightarrow> sort_keys (PDict v) = sort_keys (PDict w)"
    by (auto simp: hash_payload_def Let_def normalized_payload_def)
  moreover have "same_json (sort_keys (PDict v)) (PDict v)"
    using assms(1) by (intro sort_keys_same_json sort_keys_idem unique_keys_sort_keys)
  moreover have "PDict (snd (hash_payload (Some v))) = sort_keys (PDict v)"
    unfolding hash_payload_def Let_def snd_conv by (rule normalized_payload_Some)
  ultimately show ?thesis
    using same_json_sort_keys [OF _ assms] sort_keys_same_json [OF _ assms] by metis
qed

theorem payload_hash_order_independent_witness:
  "hash_payload (Some [(''a'', PInt 1), (''b'', PDict [(''x'', PInt 2), (''y'', PNone)])]) =
     hash_payload (Some [(''b'', PDict [(''y'', PNone), (''x'', PInt 2)]), (''a'', PInt 1)]) \<and>
   hash_payload (Some [(''a'', PInt 1), (''b'', PDict [(''x'', PInt 2), (''y'', PNone)])]) \<noteq>
     hash_payload (Some [(''b'', PDict [(''y'', PNone), (''x'', PInt 3)]), (''a'', PInt 1)])"
proof -
  let ?v = "[(''a'', PInt 1), (''b'', PDict [(''x'', PInt 2), (''y'', PNone)])]"
  let ?w = "\<lambda>i. [(''b'', PDict [(''y'', PNone), (''x'', PInt i)]), (''a'', PInt 1)]"
  have same: "same_json (PDict ?v) (PDict (?w 2))"
    by (auto intro!: same_dict simp: same_atom split: if_splits)
  have diff: "\<not> same_json (PDict ?v) (PDict (?w 3))"
  proof
    assume "same_json (PDict ?v) (PDict (?w 3))"
    then have "same_json (PDict [(''x'', PInt 2), (''y'', PNone)]) (PDict [(''y'', PNone), (''x'', PInt 3)])"
      using same_json_lookup [where k = "''b''"] by fastforce
    then have "same_json (PInt 2) (PInt 3)" using same_json_lookup [where k = "''x''"] by fastforce
    then show False by (cases rule: same_json.cases) simp
  qed
  show ?thesis
    using payload_hash_order_independent [of ?v "?w 2"] payload_hash_order_independent [of ?v "?w 3"] same diff
    by simp
qed

section \<open>Storing a payload\<close>

lemma store_payload_run:
  "create_or_update_from_payload tenant data d =
     (Inr (fst (hash_payload data)), snd (create_or_update_from_payload tenant data d))"
  by (simp add: create_or_update_from_payload_def run_simps split: prod.split)

lemma bnd_store_run [run_simps]:
  "bnd (create_or_update_from_payload tenant data) f d =
     f (fst (hash_payload data)) (snd (create_or_update_from_payload tenant data d))"
  by (subst bnd_Inr [OF store_payload_run]) simp

lemma store_payload_tables [simp]:
  "d_work_items (snd (create_or_update_from_payload tenant data d)) = d_work_items d"
  "d_tasks (snd (create_or_update_from_payload tenant data d)) = d_tasks d"
  "d_future (snd (create_or_update_from_payload tenant data d)) = d_future d"
  "d_users (snd (create_or_update_from_payload tenant data d)) = d_users d"
  "d_instances (snd (create_or_update_from_payload tenant data d)) = d_instances d"
  "d_definitions (snd (create_or_update_from_payload tenant data d)) = d_definitions d"
  "d_processes (snd (create_or_update_from_payload tenant data d)) = d_processes d"
  "d_events (snd (create_or_update_from_payload tenant data d)) = d_events d"
  "d_jobs (snd (create_or_update_from_payload tenant data d)) = d_jobs d"
  "d_work_item_users (snd (create_or_update_from_payload tenant data d)) = d_work_item_users d"
  by (simp_all add: create_or_update_from_payload_def run_simps split: prod.split option.split)

lemma find_update_hit:
  "find p (update_where p f rows) = map_option f (find p rows)" if "\<And>r. p (f r) = p r"
  using that by (induction rows) auto

lemma store_payload_lookup:
  assumes "create_or_update_from_payload tenant data d = (Inr h, d')"
  shows "\<exists>r. get_for_tenant tenant h d' = Some r \<and> jd_data r = normalized_payload data"
proof (cases "get_for_tenant tenant (fst (hash_payload data)) d")
  case None
  then show ?thesis
    using assms by (auto simp: create_or_update_from_payload_def hash_payload_def Let_def run_simps
        get_for_tenant_def find_append)
next
  case (Some r)
  then show ?thesis
    using assms by (auto simp: create_or_update_from_payload_def hash_payload_def Let_def run_simps
        get_for_tenant_def find_update_hit)
qed

definition json_keys :: "db \<Rightarrow> (string \<times> string) list" where
  "json_keys d = map (\<lambda>r. (jd_tenant r, jd_hash r)) (d_json d)"

lemma store_payload_keys:
  assumes "distinct (json_keys d)"
  shows "distinct (json_keys (snd (create_or_update_from_payload tenant data d)))"
  using assms
  by (auto simp: create_or_update_from_payload_def hash_payload_def Let_def run_simps json_keys_def
      get_for_tenant_def map_update_where find_None_iff split: option.splits)

text \<open>Only the JSON table changes, and in it only rows of the tenant.\<close>

definition json_frame :: "string \<Rightarrow> db \<Rightarrow> db \<Rightarrow> bool" where
  "json_frame tenant d d' \<longleftrightarrow>
     d' = d\<lparr>d_json := d_json d'\<rparr> \<and>
     filter (\<lambda>r. jd_tenant r \<noteq> tenant) (d_json d') = filter (\<lambda>r. jd_tenant r \<noteq> tenant) (d_json d)"

lemma store_payload_frame: "json_frame tenant d (snd (create_or_update_from_payload tenant data d))"
  by (auto simp: create_or_update_from_payload_def hash_payload_def Let_def run_simps json_frame_def
      intro!: filter_update_other split: option.splits)

text \<open>C30: A stored payload is read back under the digest returned, for the tenant that stored it, as its
  canonical form; the rows of other tenants and every other table are untouched, and the pair of
  tenant and digest stays a key.\<close>

theorem store_payload_roundtrip:
  assumes "create_or_update_from_payload tenant data d = (Inr h, d')" and "distinct (json_keys d)"
  shows "(\<exists>r. get_for_tenant tenant h d' = Some r \<and> jd_data r = normalized_payload data) \<and>
    distinct (json_keys d') \<and>
    d' = d\<lparr>d_json := d_json d'\<rparr> \<and>
    filter (\<lambda>r. jd_tenant r \<noteq> tenant) (d_json d') = filter (\<lambda>r. jd_tenant r \<noteq> tenant) (d_json d)"
  using store_payload_lookup [OF assms(1)] store_payload_keys [OF assms(2), of tenant data]
    store_payload_frame [of tenant d data] assms(1) by (simp add: json_frame_def)

theorem store_payload_roundtrip_witness:
  "\<exists>h d'. create_or_update_from_payload ''acme'' (Some [(''k'', PInt 1)]) (empty_db 0) = (Inr h, d') \<and>
     (\<exists>r. get_for_tenant ''acme'' h d' = Some r \<and> jd_data r = normalized_payload (Some [(''k'', PInt 1)]))"
  using store_payload_roundtrip [OF store_payload_run, of "empty_db 0" "''acme''" "Some [(''k'', PInt 1)]"]
    store_payload_run [of "''acme''" "Some [(''k'', PInt 1)]" "empty_db 0"]
  by (auto simp: json_keys_def empty_db_def)

end
