(* ===== verification/Tenant_Users.thy ===== *)
theory Tenant_Users
  imports Models
begin

text \<open>
  \<^verbatim>\<open>src/m8flow_core/services/tenant_users.py\<close>: which identifiers name a tenant, which identifiers a
  user carries, and the membership check that every user-facing command makes first.
\<close>

section \<open>Definitions\<close>

definition service_realm :: "string option \<Rightarrow> string option" where
  "service_realm service =
     (case service of
        None \<Rightarrow> None
      | Some s \<Rightarrow>
          (let normalized = py_rstrip_char (CHR ''/'') s in
           if contains_sub ''/realms/'' normalized
           then Some (fst (partition_on (CHR ''/'') (last_split ''/realms/'' [] normalized)))
           else if CHR ''/'' \<in> set normalized
           then Some (last (split_on (CHR ''/'') normalized))
           else if normalized = [] then None else Some normalized))"

text \<open>The trimmed value of an optional string, if anything is left of it.\<close>

definition nonblank :: "string option \<Rightarrow> string option" where
  "nonblank v = (case v of None \<Rightarrow> None
     | Some s \<Rightarrow> if py_strip s = [] then None else Some (py_strip s))"

definition user_tenant_identifiers :: "user_row \<Rightarrow> string set" where
  "user_tenant_identifiers u =
     (case service_realm (Some (usr_service u)) of
        None \<Rightarrow> {} | Some r \<Rightarrow> if r = [] then {} else {r}) \<union>
     set (List.map_filter nonblank
       [usr_realm_identifier u, usr_external_org_id u, usr_external_user_id u])"

definition user_belongs_to_tenant :: "user_row \<Rightarrow> string set \<Rightarrow> bool" where
  "user_belongs_to_tenant u ids \<longleftrightarrow> user_tenant_identifiers u \<inter> ids \<noteq> {}"

definition tenant_named :: "string \<Rightarrow> db \<Rightarrow> tenant_row option" where
  "tenant_named tenant d = find (\<lambda>t. ten_id t = tenant \<or> ten_slug t = tenant) (d_tenants d)"

definition tenant_identifiers_for :: "string \<Rightarrow> db \<Rightarrow> string set" where
  "tenant_identifiers_for tenant d =
     set (List.map_filter nonblank [Some tenant]) \<union>
     (case tenant_named tenant d of
        None \<Rightarrow> {}
      | Some t \<Rightarrow> set (List.map_filter nonblank [Some (ten_id t), Some (ten_slug t)]))"

definition get_user :: "int \<Rightarrow> db \<Rightarrow> user_row option" where
  "get_user uid d = find (\<lambda>u. usr_id u = uid) (d_users d)"

definition ensure_user_belongs_to_tenant :: "string \<Rightarrow> int \<Rightarrow> user_row svc" where
  "ensure_user_belongs_to_tenant tenant uid =
     bnd (gets (get_user uid)) (\<lambda>user.
       case user of
         None \<Rightarrow> raise (Err NotFoundError (R_lookup (UserNotFound uid)))
       | Some u \<Rightarrow>
           bnd (gets (tenant_identifiers_for tenant)) (\<lambda>ids.
             if \<not> user_belongs_to_tenant u ids
             then raise (Err AuthorizationError (R_lookup (UserNotInTenant uid tenant)))
             else ret u))"

text \<open>What the check decides, as a predicate on the session.\<close>

definition tenant_member :: "string \<Rightarrow> int \<Rightarrow> db \<Rightarrow> bool" where
  "tenant_member tenant uid d \<longleftrightarrow>
     (\<exists>u. get_user uid d = Some u \<and> user_belongs_to_tenant u (tenant_identifiers_for tenant d))"

section \<open>The check\<close>

lemma ensure_user_run:
  "ensure_user_belongs_to_tenant tenant uid d =
     (case get_user uid d of
        None \<Rightarrow> (Inl (Err NotFoundError (R_lookup (UserNotFound uid))), d)
      | Some u \<Rightarrow>
          if user_belongs_to_tenant u (tenant_identifiers_for tenant d) then (Inr u, d)
          else (Inl (Err AuthorizationError (R_lookup (UserNotInTenant uid tenant))), d))"
  by (simp add: ensure_user_belongs_to_tenant_def comp_defs split: option.split)

lemma ensure_user_wp [wp_rules]:
  "wp (ensure_user_belongs_to_tenant tenant uid) Q E d =
     (case get_user uid d of
        None \<Rightarrow> E (Err NotFoundError (R_lookup (UserNotFound uid))) d
      | Some u \<Rightarrow>
          if user_belongs_to_tenant u (tenant_identifiers_for tenant d) then Q u d
          else E (Err AuthorizationError (R_lookup (UserNotInTenant uid tenant))) d)"
  by (simp add: wp_def ensure_user_run split: option.split)

lemma ensure_user_read_only: "snd (ensure_user_belongs_to_tenant tenant uid d) = d"
  by (simp add: ensure_user_run split: option.split)

lemma ensure_user_Inr_iff:
  "(\<exists>u. ensure_user_belongs_to_tenant tenant uid d = (Inr u, d')) \<longleftrightarrow>
     d' = d \<and> tenant_member tenant uid d"
  by (auto simp: ensure_user_run tenant_member_def split: option.split)

lemma get_user_id: "get_user uid d = Some u \<Longrightarrow> usr_id u = uid"
  by (auto simp: get_user_def dest: find_SomeD)

section \<open>Identifiers are trimmed and never blank\<close>

lemma nonblank_Some: "nonblank v = Some s \<Longrightarrow> s \<noteq> [] \<and> py_strip s = s"
  by (auto simp: nonblank_def split: option.splits if_splits)

lemma tenant_identifiers_trimmed:
  assumes "i \<in> tenant_identifiers_for tenant d"
  shows "i \<noteq> [] \<and> py_strip i = i"
  using assms nonblank_Some
  by (fastforce simp: tenant_identifiers_for_def List.map_filter_def split: option.splits if_splits)

end
