(* ===== verification/Lane_Assignment.thy ===== *)
theory Lane_Assignment
  imports Tenant_Users Json_Data
begin

text \<open>
  \<^verbatim>\<open>src/m8flow_core/services/lane_assignment.py\<close>: who may work on a human task. Lane names are
  compared trimmed and in lower case; a tenant's lane has a group at an identifier computed from
  both; the potential owners of a work item are the initiator, the users named for the lane, or
  the members of the lane group. Log messages are not modelled.

  The legacy lookup of a group compares \<^verbatim>\<open>lower(trim(identifier))\<close> in the database. What SQL's
  \<^verbatim>\<open>lower\<close> does to letters outside ASCII depends on the database, so this function is the
  parameter \<open>sql_norm\<close> of the operations that reach the lookup.
\<close>

section \<open>Lane names\<close>

definition LANE_OWNERS_KEY :: string where "LANE_OWNERS_KEY = ''lane_owners''"
definition INITIATOR_LANES_KEY :: string where "INITIATOR_LANES_KEY = ''initiator_lanes''"

text \<open>\<^verbatim>\<open>int(digits, 16)\<close> on the digits of a hexadecimal digest.\<close>

definition hex_digit_val :: "char \<Rightarrow> int" where
  "hex_digit_val c = (let n = int (code_point c) in if n \<le> 57 then n - 48 else n - 87)"

definition int_of_hex :: "string \<Rightarrow> int" where
  "int_of_hex s = foldl (\<lambda>a c. 16 * a + hex_digit_val c) 0 s"

definition resolve_lane_assignment_id :: "string \<Rightarrow> string option \<Rightarrow> int" where
  "resolve_lane_assignment_id lane_name tenant =
     (let normalized_lane = py_lower (py_strip lane_name);
          normalized_tenant = (case tenant of None \<Rightarrow> [] | Some t \<Rightarrow> py_lower (py_strip t));
          hash_input = (if normalized_tenant \<noteq> [] then normalized_tenant @ '':'' @ normalized_lane
                        else normalized_lane);
          stable_int = int_of_hex (take 8 (sha256_text hash_input)) AND 0x7FFFFFFF
      in if stable_int = 0 then 1 else stable_int)"

definition normalize_lane_name :: "pyval \<Rightarrow> string option" where
  "normalize_lane_name v =
     (case as_str v of
        None \<Rightarrow> None
      | Some s \<Rightarrow> if py_strip s = [] then None else Some (py_lower (py_strip s)))"

section \<open>Definition configuration\<close>

text \<open>Keys that normalize to one lane are merged, in the order they first appear.\<close>

definition group_lane_entry ::
  "(string \<times> string list) list \<Rightarrow> string \<times> pyval \<Rightarrow> (string \<times> string list) list" where
  "group_lane_entry grouped entry =
     (case (normalize_lane_name (PStr (fst entry)), as_list (snd entry)) of
        (Some lane, Some vs) \<Rightarrow>
          AList.update lane
            ((case map_of grouped lane of None \<Rightarrow> [] | Some ids \<Rightarrow> ids) @ List.map_filter as_str vs)
            grouped
      | _ \<Rightarrow> grouped)"

definition lane_owner_identifiers :: "pyval \<Rightarrow> (string \<times> string list) list" where
  "lane_owner_identifiers v =
     (case as_dict v of None \<Rightarrow> [] | Some d \<Rightarrow> foldl group_lane_entry [] d)"

definition configured_initiator_lanes :: "pyval \<Rightarrow> string list" where
  "configured_initiator_lanes props =
     (case as_dict props of
        None \<Rightarrow> []
      | Some d \<Rightarrow>
          (case as_list (dict_get d INITIATOR_LANES_KEY) of
             None \<Rightarrow> []
           | Some vs \<Rightarrow> List.map_filter normalize_lane_name vs))"

fun requested_lanes ::
  "pyval list \<Rightarrow> (string \<times> string) list \<Rightarrow> m8f_error + (string \<times> string) list" where
  "requested_lanes [] requested = Inr requested"
| "requested_lanes (v # vs) requested =
     (case normalize_lane_name v of
        None \<Rightarrow> Inl (Err ValidationError (R_lane InitiatorLaneBlank))
      | Some lane \<Rightarrow>
          requested_lanes vs
            (if map_of requested lane = None
             then requested @ [(lane, case as_str v of None \<Rightarrow> [] | Some s \<Rightarrow> py_strip s)]
             else requested))"

definition validate_initiator_lanes ::
  "(string \<times> pyval) list \<Rightarrow> string list \<Rightarrow> m8f_error + unit" where
  "validate_initiator_lanes props bpmn_lane_names =
     (if dict_get props INITIATOR_LANES_KEY = PNone then Inr ()
      else case as_list (dict_get props INITIATOR_LANES_KEY) of
        None \<Rightarrow> Inl (Err ValidationError (R_lane InitiatorLanesNotList))
      | Some vs \<Rightarrow>
          (case requested_lanes vs [] of
             Inl e \<Rightarrow> Inl e
           | Inr requested \<Rightarrow>
               (let known_lanes = List.map_filter (\<lambda>n. normalize_lane_name (PStr n)) bpmn_lane_names;
                    unknown = map snd (filter (\<lambda>(lane, _). lane \<notin> set known_lanes) requested);
                    owner_lanes = lane_owner_identifiers (dict_get props LANE_OWNERS_KEY);
                    conflicting = map snd (filter (\<lambda>(lane, _). lane \<in> fst ` set owner_lanes) requested)
                in if unknown \<noteq> [] then Inl (Err ValidationError (R_lane (UnknownLanes (sort unknown))))
                   else if conflicting \<noteq> []
                   then Inl (Err ValidationError (R_lane (ConflictingLanes (sort conflicting))))
                   else Inr ())))"

section \<open>Lane groups\<close>

definition lane_group_identifier :: "string \<Rightarrow> string \<Rightarrow> string" where
  "lane_group_identifier lane tenant = py_lower (py_strip tenant) @ '':'' @ py_lower (py_strip lane)"

text \<open>\<^verbatim>\<open>session.get(GroupModel, id)\<close>, and the group the legacy lookup finds.\<close>

definition get_group :: "int \<Rightarrow> db \<Rightarrow> group_row option" where
  "get_group gid d = find (\<lambda>g. grp_id g = gid) (d_groups d)"

definition legacy_group :: "(string \<Rightarrow> string) \<Rightarrow> string \<Rightarrow> db \<Rightarrow> group_row option" where
  "legacy_group sql_norm lane d =
     find (\<lambda>g. map_option sql_norm (grp_identifier g) = Some lane) (sort_key grp_id (d_groups d))"

definition find_or_create_lane_group ::
  "(string \<Rightarrow> string) \<Rightarrow> string \<Rightarrow> string \<Rightarrow> group_row option svc" where
  "find_or_create_lane_group sql_norm tenant lane =
     (let canonical = lane_group_identifier lane tenant;
          gid = resolve_lane_assignment_id lane (Some tenant)
      in bnd (gets (get_group gid)) (\<lambda>found.
           case found of
             Some g \<Rightarrow>
               (if grp_identifier g = Some canonical then ret (Some g)
                else if map_option (\<lambda>s. py_lower (py_strip s)) (grp_identifier g) = Some canonical
                then (let g' = g\<lparr>grp_name := Some canonical, grp_identifier := Some canonical\<rparr>
                      in thn (modify (\<lambda>d. d\<lparr>d_groups := update_where (\<lambda>x. grp_id x = gid)
                                (\<lambda>x. x\<lparr>grp_name := Some canonical, grp_identifier := Some canonical\<rparr>)
                                (d_groups d)\<rparr>))
                           (ret (Some g')))
                else ret None)
           | None \<Rightarrow>
               bnd (gets (legacy_group sql_norm lane)) (\<lambda>legacy.
                 case legacy of
                   Some g \<Rightarrow> ret (Some g)
                 | None \<Rightarrow>
                     (let g = \<lparr>grp_id = gid, grp_name = Some canonical,
                               grp_identifier = Some canonical, grp_authorization_key = None\<rparr>
                      in thn (modify (\<lambda>d. d\<lparr>d_groups := d_groups d @ [g]\<rparr>)) (ret (Some g))))))"

definition add_group_member :: "int \<Rightarrow> int \<Rightarrow> unit svc" where
  "add_group_member gid uid =
     modify (\<lambda>d. d\<lparr>d_user_groups := d_user_groups d @
       [\<lparr>uga_id = fresh_id uga_id (d_user_groups d), uga_user_id = uid, uga_group_id = gid\<rparr>]\<rparr>)"

definition add_group_members :: "group_row \<Rightarrow> user_row list \<Rightarrow> unit svc" where
  "add_group_members g users =
     bnd (gets (\<lambda>d. map uga_user_id (filter (\<lambda>a. uga_group_id a = grp_id g) (d_user_groups d)))) (\<lambda>existing.
       for_each (add_group_member (grp_id g))
         (sort (remdups (filter (\<lambda>u. u \<notin> set existing) (map usr_id users)))))"

definition tenant_group_members :: "group_row \<Rightarrow> string set \<Rightarrow> db \<Rightarrow> user_row list" where
  "tenant_group_members g ids d =
     filter (\<lambda>u. user_belongs_to_tenant u ids)
       (concat (map (\<lambda>u. map (\<lambda>_. u)
            (filter (\<lambda>a. uga_user_id a = usr_id u \<and> uga_group_id a = grp_id g) (d_user_groups d)))
          (sort_key usr_id (d_users d))))"

section \<open>Lane owners\<close>

text \<open>
  \<^verbatim>\<open>_OwnerResolver\<close>: \<open>tenant_members\<close> and \<open>lookup_owner\<close> are its queries, \<open>users_for\<close> answers from
  the cache and fills it.
\<close>

type_synonym owner_cache = "(string \<times> user_row list) list"

definition tenant_members :: "(user_row \<Rightarrow> bool) \<Rightarrow> string set \<Rightarrow> db \<Rightarrow> user_row list" where
  "tenant_members condition ids d =
     filter (\<lambda>u. user_belongs_to_tenant u ids) (sort_key usr_id (filter condition (d_users d)))"

definition lookup_owner :: "string set \<Rightarrow> db \<Rightarrow> string \<Rightarrow> user_row list" where
  "lookup_owner ids d identifier =
     (let exact = tenant_members (\<lambda>u. usr_username u = identifier \<or> usr_email u = Some identifier \<or>
                    usr_service_id u = identifier) ids d
      in if exact \<noteq> [] \<or> CHR ''@'' \<notin> set identifier then exact
         else (let local_part = fst (partition_on (CHR ''@'') identifier)
               in if local_part = [] then []
                  else tenant_members (\<lambda>u. usr_username u = local_part) ids d))"

definition users_for :: "string set \<Rightarrow> db \<Rightarrow> string \<Rightarrow> owner_cache \<Rightarrow> user_row list \<times> owner_cache" where
  "users_for ids d identifier cache =
     (let key = py_strip identifier
      in if key = [] then ([], cache)
         else case map_of cache key of
           Some us \<Rightarrow> (us, cache)
         | None \<Rightarrow> (let us = lookup_owner ids d key in (us, (key, us) # cache)))"

text \<open>\<^verbatim>\<open>owners.setdefault(user.id, user)\<close> for each matched user.\<close>

definition add_owner :: "user_row list \<Rightarrow> user_row \<Rightarrow> user_row list" where
  "add_owner owners u = (if usr_id u \<in> usr_id ` set owners then owners else owners @ [u])"

fun resolve_owners ::
  "string set \<Rightarrow> db \<Rightarrow> string list \<Rightarrow> user_row list \<Rightarrow> owner_cache \<Rightarrow> user_row list \<times> owner_cache" where
  "resolve_owners ids d [] owners cache = (owners, cache)"
| "resolve_owners ids d (i # is) owners cache =
     (case users_for ids d i cache of
        (matched, cache') \<Rightarrow> resolve_owners ids d is (foldl add_owner owners matched) cache')"

definition resolver_lane_owners ::
  "string set \<Rightarrow> db \<Rightarrow> string list \<Rightarrow> owner_cache \<Rightarrow> user_row list \<times> owner_cache" where
  "resolver_lane_owners ids d identifiers cache = resolve_owners ids d identifiers [] cache"

text \<open>The dictionary comprehension over the lanes, with the cache of one resolver.\<close>

fun owners_by_lane ::
  "string set \<Rightarrow> db \<Rightarrow> (string \<times> string list) list \<Rightarrow> owner_cache \<Rightarrow> (string \<times> user_row list) list" where
  "owners_by_lane ids d [] cache = []"
| "owners_by_lane ids d ((lane, identifiers) # rest) cache =
     (case resolver_lane_owners ids d identifiers cache of
        (owners, cache') \<Rightarrow> (lane, owners) # owners_by_lane ids d rest cache')"

definition enroll_lane_owners ::
  "(string \<Rightarrow> string) \<Rightarrow> string \<Rightarrow> (string \<times> user_row list) list \<Rightarrow>
   (string \<times> group_row option) list svc" where
  "enroll_lane_owners sql_norm tenant by_lane =
     map_M (\<lambda>(lane, owners).
       bnd (find_or_create_lane_group sql_norm tenant lane) (\<lambda>found.
         thn (case found of None \<Rightarrow> ret () | Some g \<Rightarrow> add_group_members g owners)
           (ret (lane, found)))) by_lane"

definition enroll_definition_lane_owners ::
  "(string \<Rightarrow> string) \<Rightarrow> string \<Rightarrow> (string \<times> pyval) list option \<Rightarrow> unit svc" where
  "enroll_definition_lane_owners sql_norm tenant properties =
     (case properties of
        None \<Rightarrow> ret ()
      | Some props \<Rightarrow>
          (let identifiers_by_lane = lane_owner_identifiers (dict_get props LANE_OWNERS_KEY)
           in if props = [] \<or> identifiers_by_lane = [] then ret ()
              else bnd (gets (\<lambda>d. owners_by_lane (tenant_identifiers_for tenant d) d identifiers_by_lane []))
                     (\<lambda>by_lane. bnd (enroll_lane_owners sql_norm tenant by_lane) (\<lambda>_. ret ()))))"

section \<open>Potential owners of a work item\<close>

definition effective_lane_owners :: "pyval \<Rightarrow> pyval \<Rightarrow> (string \<times> string list) list" where
  "effective_lane_owners task_data props =
     (case Option.bind (as_dict task_data) (\<lambda>d. as_dict (dict_get d LANE_OWNERS_KEY)) of
        Some from_task \<Rightarrow> lane_owner_identifiers (PDict from_task)
      | None \<Rightarrow>
          (case as_dict props of
             None \<Rightarrow> [] | Some d \<Rightarrow> lane_owner_identifiers (dict_get d LANE_OWNERS_KEY)))"

definition initiator :: "process_instance_row \<Rightarrow> user_row svc" where
  "initiator p =
     bnd (gets (get_user (pi_process_initiator_id p))) (\<lambda>u.
       case u of
         None \<Rightarrow> raise (Err NotFoundError (R_lookup (InitiatorNotFound (pi_process_initiator_id p) (pi_id p))))
       | Some r \<Rightarrow> ret r)"

definition add_work_item_user :: "string \<Rightarrow> int \<Rightarrow> int \<times> added_by \<Rightarrow> unit svc" where
  "add_work_item_user tenant wid entry =
     modify (\<lambda>d. d\<lparr>d_work_item_users := d_work_item_users d @
       [\<lparr>wiu_tenant = tenant, wiu_work_item_id = wid, wiu_user_id = fst entry,
         wiu_added_by = Some (snd entry)\<rparr>]\<rparr>)"

text \<open>
  The owners are a dictionary from user identifiers to labels; \<open>label_owners\<close> and
  \<open>default_owners\<close> are the loops that assign, respectively default, the label of each user.
\<close>

definition label_owners :: "added_by \<Rightarrow> user_row list \<Rightarrow> (int \<times> added_by) list \<Rightarrow> (int \<times> added_by) list" where
  "label_owners l us owners = foldl (\<lambda>os u. AList.update (usr_id u) l os) owners us"

definition default_owners :: "added_by \<Rightarrow> user_row list \<Rightarrow> (int \<times> added_by) list \<Rightarrow> (int \<times> added_by) list" where
  "default_owners l us owners =
     foldl (\<lambda>os u. if map_of os (usr_id u) = None then os @ [(usr_id u, l)] else os) owners us"

definition potential_owner_ids :: "int \<Rightarrow> db \<Rightarrow> int list" where
  "potential_owner_ids wid d =
     map wiu_user_id (filter (\<lambda>r. wiu_work_item_id r = wid) (d_work_item_users d))"

definition add_missing_potential_owners :: "string \<Rightarrow> int \<Rightarrow> (int \<times> added_by) list \<Rightarrow> unit svc" where
  "add_missing_potential_owners tenant wid owners =
     bnd (gets (potential_owner_ids wid)) (\<lambda>present.
       for_each (add_work_item_user tenant wid)
         (sort_key fst (filter (\<lambda>(u, _). u \<notin> set present) owners)))"

definition set_lane_assignment :: "int \<Rightarrow> int option \<Rightarrow> unit svc" where
  "set_lane_assignment wid gid = upd_work_item wid (\<lambda>w. w\<lparr>wi_lane_assignment_id := gid\<rparr>)"

definition lane_group_owners ::
  "string set \<Rightarrow> int \<Rightarrow> group_row option \<Rightarrow> (int \<times> added_by) list \<Rightarrow> (int \<times> added_by) list svc" where
  "lane_group_owners ids wid found owners =
     (case found of
        None \<Rightarrow> ret owners
      | Some g \<Rightarrow>
          thn (set_lane_assignment wid (Some (grp_id g)))
            (bnd (gets (tenant_group_members g ids)) (\<lambda>members.
               ret (default_owners AB_lane_assignment members owners))))"

definition assign_work_item_potential_owners ::
  "(string \<Rightarrow> string) \<Rightarrow> process_instance_row \<Rightarrow> int \<Rightarrow> pyval \<Rightarrow> pyval \<Rightarrow> pyval \<Rightarrow> unit svc" where
  "assign_work_item_potential_owners sql_norm p wid lane_name task_data props =
     (let tenant = pi_tenant p;
          lane = normalize_lane_name lane_name;
          initiator_lanes = configured_initiator_lanes props
      in thn (set_lane_assignment wid None)
         (bnd (if lane = None \<or> the lane \<in> set initiator_lanes
               then bnd (initiator p) (\<lambda>u. ret [(usr_id u, AB_process_initiator)])
               else
                 bnd (gets (tenant_identifiers_for tenant)) (\<lambda>ids.
                 bnd (gets (\<lambda>d. owners_by_lane ids d
                        (filter (\<lambda>(l, _). l \<notin> set initiator_lanes)
                          (effective_lane_owners task_data props)) [])) (\<lambda>by_lane.
                 bnd (enroll_lane_owners sql_norm tenant by_lane) (\<lambda>groups.
                   (let owners = label_owners AB_lane_owner
                          (case map_of by_lane (the lane) of None \<Rightarrow> [] | Some us \<Rightarrow> us) []
                    in bnd (case map_of groups (the lane) of
                              Some found \<Rightarrow> ret found
                            | None \<Rightarrow> find_or_create_lane_group sql_norm tenant (the lane)) (\<lambda>found.
                         lane_group_owners ids wid found owners))))))
            (\<lambda>owners. add_missing_potential_owners tenant wid owners)))"

section \<open>Lane identifiers\<close>

text \<open>C36: The identifier of a lane group always fits a positive 32-bit signed column, and it does not
  depend on the case or the surrounding whitespace of the lane and the tenant.\<close>

theorem lane_assignment_id_bounds:
  "1 \<le> resolve_lane_assignment_id lane tenant \<and> resolve_lane_assignment_id lane tenant \<le> 2147483647 \<and>
   resolve_lane_assignment_id (py_lower (py_strip lane)) (map_option (\<lambda>t. py_lower (py_strip t)) tenant) =
     resolve_lane_assignment_id lane tenant"
proof -
  have pick: "1 \<le> (if y = 0 then 1 else y) \<and> (if y = 0 then 1 else y) \<le> 2147483647"
    if "0 \<le> y" "y \<le> 2147483647" for y :: int using that by simp
  have "0 \<le> x AND 2147483647" "x AND 2147483647 \<le> 2147483647" for x :: int
    by (simp_all add: AND_upper2)
  then have "1 \<le> resolve_lane_assignment_id lane tenant \<and>
      resolve_lane_assignment_id lane tenant \<le> 2147483647"
    unfolding resolve_lane_assignment_id_def Let_def by (intro pick) blast+
  then show ?thesis
    by (auto simp: resolve_lane_assignment_id_def py_lower_strip split: option.split)
qed

section \<open>The cache of the owner resolver\<close>

text \<open>The resolver without its cache.\<close>

definition users_for_spec :: "string set \<Rightarrow> db \<Rightarrow> string \<Rightarrow> user_row list" where
  "users_for_spec ids d identifier =
     (if py_strip identifier = [] then [] else lookup_owner ids d (py_strip identifier))"

definition lane_owners_spec :: "string set \<Rightarrow> db \<Rightarrow> string list \<Rightarrow> user_row list" where
  "lane_owners_spec ids d identifiers =
     foldl add_owner [] (concat (map (users_for_spec ids d) identifiers))"

definition cache_ok :: "string set \<Rightarrow> db \<Rightarrow> owner_cache \<Rightarrow> bool" where
  "cache_ok ids d cache \<longleftrightarrow> (\<forall>k us. map_of cache k = Some us \<longrightarrow> us = lookup_owner ids d k)"

lemma users_for_run:
  "cache_ok ids d cache \<Longrightarrow>
     \<exists>cache'. users_for ids d i cache = (users_for_spec ids d i, cache') \<and> cache_ok ids d cache'"
  by (auto simp: users_for_def users_for_spec_def cache_ok_def Let_def split: option.split)

lemma resolve_owners_run:
  "cache_ok ids d cache \<Longrightarrow>
     \<exists>cache'. resolve_owners ids d is owners cache =
       (foldl add_owner owners (concat (map (users_for_spec ids d) is)), cache') \<and> cache_ok ids d cache'"
proof (induction "is" arbitrary: owners cache)
  case (Cons i "is")
  obtain c where c: "users_for ids d i cache = (users_for_spec ids d i, c)" "cache_ok ids d c"
    using users_for_run [OF Cons.prems] by blast
  then show ?case using Cons.IH [OF c(2)] by simp
qed simp

lemma owners_by_lane_cached:
  "cache_ok ids d cache \<Longrightarrow>
     owners_by_lane ids d by_lane cache = map (\<lambda>(lane, is). (lane, lane_owners_spec ids d is)) by_lane"
proof (induction by_lane arbitrary: cache)
  case (Cons entry rest)
  obtain lane "is" where e: "entry = (lane, is)" by (cases entry)
  obtain c where c: "resolver_lane_owners ids d is cache = (lane_owners_spec ids d is, c)" "cache_ok ids d c"
    using resolve_owners_run [OF Cons.prems] by (auto simp: resolver_lane_owners_def lane_owners_spec_def)
  then show ?case using Cons.IH [OF c(2)] e by simp
qed simp

text \<open>C37: The cache of the owner resolver is transparent: resolving all lanes with one shared cache
  gives for every lane what separate lookups of its identifiers give.\<close>

theorem owner_cache_transparent:
  "owners_by_lane ids d by_lane [] = map (\<lambda>(lane, is). (lane, lane_owners_spec ids d is)) by_lane"
  by (rule owners_by_lane_cached) (simp add: cache_ok_def)

section \<open>What the assignment changes\<close>

text \<open>The steps before the owners are added touch only groups, memberships and the work item's lane.\<close>

definition lane_frame :: "db \<Rightarrow> db \<Rightarrow> bool" where
  "lane_frame d d' \<longleftrightarrow>
     (\<exists>gs us ws. d' = d\<lparr>d_groups := gs, d_user_groups := us, d_work_items := ws\<rparr>)"

interpretation lanes: frame lane_frame
proof
  show "lane_frame d d" for d
    unfolding lane_frame_def
    by (rule exI [of _ "d_groups d"], rule exI [of _ "d_user_groups d"], rule exI [of _ "d_work_items d"])
      simp
  show "lane_frame s t \<Longrightarrow> lane_frame t u \<Longrightarrow> lane_frame s u" for s t u
    unfolding lane_frame_def by fastforce
qed

lemma lane_frame_same:
  assumes "lane_frame d d'"
  shows "d_users d' = d_users d" "d_tenants d' = d_tenants d" "d_work_item_users d' = d_work_item_users d"
  using assms by (auto simp: lane_frame_def)

lemma lane_frame_writes:
  "lane_frame d (d\<lparr>d_groups := gs\<rparr>)" "lane_frame d (d\<lparr>d_user_groups := us\<rparr>)"
  "lane_frame d (d\<lparr>d_work_items := ws\<rparr>)"
  unfolding lane_frame_def
  by (rule exI [of _ gs], rule exI [of _ "d_user_groups d"], rule exI [of _ "d_work_items d"], simp)
    (rule exI [of _ "d_groups d"], rule exI [of _ us], rule exI [of _ "d_work_items d"], simp,
     rule exI [of _ "d_groups d"], rule exI [of _ "d_user_groups d"], rule exI [of _ ws], simp)

lemma set_lane_keeps: "lanes.keeps (set_lane_assignment wid g)"
  unfolding set_lane_assignment_def upd_work_item_def
  by (intro lanes.keeps_modify lane_frame_writes)

lemma find_lane_group_keeps: "lanes.keeps (find_or_create_lane_group sql_norm tenant lane)"
  unfolding find_or_create_lane_group_def Let_def
  by (intro lanes.keeps_intros lane_frame_writes)

lemma add_members_keeps: "lanes.keeps (add_group_members g us)"
  unfolding add_group_members_def add_group_member_def
  by (intro lanes.keeps_intros lane_frame_writes)

lemma enroll_keeps: "lanes.keeps (enroll_lane_owners sql_norm tenant by_lane)"
  unfolding enroll_lane_owners_def
  by (intro lanes.keeps_map_M)
    (auto intro!: lanes.keeps_intros find_lane_group_keeps add_members_keeps)

lemma initiator_keeps: "lanes.keeps (initiator p)"
  unfolding initiator_def by (intro lanes.keeps_intros)

lemma group_owners_keeps: "lanes.keeps (lane_group_owners ids wid g owners)"
  unfolding lane_group_owners_def by (intro lanes.keeps_intros set_lane_keeps)

text \<open>The owners that are computed for the item, before the missing ones are added.\<close>

definition computed_owners ::
  "(string \<Rightarrow> string) \<Rightarrow> process_instance_row \<Rightarrow> int \<Rightarrow> pyval \<Rightarrow> pyval \<Rightarrow> pyval \<Rightarrow> (int \<times> added_by) list svc" where
  "computed_owners sql_norm p wid lane_name task_data props =
     (let lane = normalize_lane_name lane_name; initiator_lanes = configured_initiator_lanes props
      in if lane = None \<or> the lane \<in> set initiator_lanes
         then bnd (initiator p) (\<lambda>u. ret [(usr_id u, AB_process_initiator)])
         else
           bnd (gets (tenant_identifiers_for (pi_tenant p))) (\<lambda>ids.
           bnd (gets (\<lambda>d. owners_by_lane ids d (filter (\<lambda>(l, _). l \<notin> set initiator_lanes)
                  (effective_lane_owners task_data props)) [])) (\<lambda>by_lane.
           bnd (enroll_lane_owners sql_norm (pi_tenant p) by_lane) (\<lambda>groups.
           bnd (case map_of groups (the lane) of
                  Some found \<Rightarrow> ret found
                | None \<Rightarrow> find_or_create_lane_group sql_norm (pi_tenant p) (the lane)) (\<lambda>found.
             lane_group_owners ids wid found (label_owners AB_lane_owner
               (case map_of by_lane (the lane) of None \<Rightarrow> [] | Some us \<Rightarrow> us) []))))))"

lemma assign_split:
  "assign_work_item_potential_owners sql_norm p wid lane_name task_data props =
     thn (set_lane_assignment wid None)
       (bnd (computed_owners sql_norm p wid lane_name task_data props)
         (add_missing_potential_owners (pi_tenant p) wid))"
  by (simp add: assign_work_item_potential_owners_def computed_owners_def Let_def)

lemma computed_keeps: "lanes.keeps (computed_owners sql_norm p wid lane_name task_data props)"
  unfolding computed_owners_def Let_def
  by (intro lanes.keeps_intros initiator_keeps enroll_keeps find_lane_group_keeps group_owners_keeps)

section \<open>Who is added\<close>

definition owner_row :: "string \<Rightarrow> int \<Rightarrow> int \<times> added_by \<Rightarrow> work_item_user_row" where
  "owner_row tenant wid e = \<lparr>wiu_tenant = tenant, wiu_work_item_id = wid, wiu_user_id = fst e,
     wiu_added_by = Some (snd e)\<rparr>"

lemma add_users_run:
  "for_each (add_work_item_user tenant wid) es d =
     (Inr (), d\<lparr>d_work_item_users := d_work_item_users d @ map (owner_row tenant wid) es\<rparr>)"
  by (induction es arbitrary: d)
    (simp_all add: add_work_item_user_def owner_row_def run_simps)

definition missing_owners :: "int \<Rightarrow> (int \<times> added_by) list \<Rightarrow> db \<Rightarrow> (int \<times> added_by) list" where
  "missing_owners wid owners d =
     sort_key fst (filter (\<lambda>(u, _). u \<notin> set (potential_owner_ids wid d)) owners)"

lemma add_missing_run:
  "add_missing_potential_owners tenant wid owners d =
     (Inr (), d\<lparr>d_work_item_users := d_work_item_users d @
        map (owner_row tenant wid) (missing_owners wid owners d)\<rparr>)"
  by (simp add: add_missing_potential_owners_def missing_owners_def run_simps add_users_run)

lemma assign_run:
  obtains (raised) e d1 where
    "computed_owners sql_norm p wid lane_name task_data props
       (final_state (set_lane_assignment wid None) d) = (Inl e, d1)"
    "assign_work_item_potential_owners sql_norm p wid lane_name task_data props d = (Inl e, d1)"
    "lane_frame d d1"
  | (assigned) owners d1 where
    "computed_owners sql_norm p wid lane_name task_data props
       (final_state (set_lane_assignment wid None) d) = (Inr owners, d1)"
    "assign_work_item_potential_owners sql_norm p wid lane_name task_data props d =
       (Inr (), d1\<lparr>d_work_item_users := d_work_item_users d @
          map (owner_row (pi_tenant p) wid) (missing_owners wid owners d)\<rparr>)"
    "lane_frame d d1"
proof -
  let ?c = "computed_owners sql_norm p wid lane_name task_data props"
  let ?s = "final_state (set_lane_assignment wid None) d"
  have s: "set_lane_assignment wid None d = (Inr (), ?s)"
    by (simp add: set_lane_assignment_def upd_work_item_def modify_def final_state_def)
  obtain r d1 where r: "?c ?s = (r, d1)" by (cases "?c ?s")
  have f: "lane_frame d d1"
    using lanes.keepsD [OF set_lane_keeps s] lanes.keepsD [OF computed_keeps r] lanes.R_trans by blast
  have same: "potential_owner_ids wid d1 = potential_owner_ids wid d"
    using lane_frame_same [OF f] by (simp add: potential_owner_ids_def)
  show thesis
  proof (cases r)
    case (Inl e)
    then show thesis using r f s by (intro raised [of e d1]) (simp_all add: assign_split thn_Inr bnd_Inl)
  next
    case (Inr owners)
    then show thesis
      using r f s same lane_frame_same [OF f]
      by (intro assigned [of owners d1])
        (simp_all add: assign_split thn_Inr bnd_Inr add_missing_run missing_owners_def)
  qed
qed

text \<open>Assigning potential owners never takes one away. Whether it returns or raises, the rows
  that were there stay as they were, in place, and every row that is added is one of the item, in
  the instance's tenant, for a user who was not yet a potential owner of it.\<close>

lemma potential_owners_only_added:
  "\<exists>added. d_work_item_users (snd (assign_work_item_potential_owners sql_norm p wid lane_name task_data props d))
      = d_work_item_users d @ added \<and>
    list_all (\<lambda>r. wiu_work_item_id r = wid \<and> wiu_tenant r = pi_tenant p \<and> wiu_added_by r \<noteq> None \<and>
      wiu_user_id r \<notin> set (potential_owner_ids wid d)) added"
proof (cases rule: assign_run [of sql_norm p wid lane_name task_data props d])
  case (raised e d1)
  then show ?thesis using lane_frame_same by auto
next
  case (assigned owners d1)
  then show ?thesis
    by (auto simp: list_all_iff owner_row_def missing_owners_def)
qed

lemma set_add_owner: "set (foldl add_owner us vs) \<subseteq> set us \<union> set vs"
  by (rule foldl_invariant) (auto simp: add_owner_def)

lemma lookup_owner_members: "u \<in> set (lookup_owner ids d i) \<Longrightarrow> u \<in> set (d_users d) \<and> user_belongs_to_tenant u ids"
  by (auto simp: lookup_owner_def tenant_members_def Let_def split: if_splits)

lemma lane_owners_members:
  assumes "u \<in> set (lane_owners_spec ids d is)"
  shows "u \<in> set (d_users d) \<and> user_belongs_to_tenant u ids"
proof -
  have "u \<in> set (concat (map (users_for_spec ids d) is))"
    using assms set_add_owner [of "[]" "concat (map (users_for_spec ids d) is)"]
    by (auto simp: lane_owners_spec_def)
  then show ?thesis by (auto simp: users_for_spec_def dest: lookup_owner_members split: if_splits)
qed

lemma label_owners_ids: "fst ` set (label_owners l us os) \<subseteq> fst ` set os \<union> usr_id ` set us"
  unfolding label_owners_def by (rule foldl_invariant) (auto simp: dom_update)

lemma default_owners_ids: "fst ` set (default_owners l us os) \<subseteq> fst ` set os \<union> usr_id ` set us"
  unfolding default_owners_def by (rule foldl_invariant) auto

text \<open>A user of the session who belongs to the tenant.\<close>

definition tenant_user :: "string \<Rightarrow> db \<Rightarrow> int \<Rightarrow> bool" where
  "tenant_user tenant d i \<longleftrightarrow>
     (\<exists>u \<in> set (d_users d). usr_id u = i \<and> user_belongs_to_tenant u (tenant_identifiers_for tenant d))"

lemma tenant_user_frame:
  "lane_frame d d' \<Longrightarrow> tenant_user tenant d' i = tenant_user tenant d i"
  by (auto simp: tenant_user_def lane_frame_def tenant_identifiers_for_def tenant_named_def)

lemma group_owners_run:
  "lane_group_owners ids wid (Some g) owners d =
     (let d' = final_state (set_lane_assignment wid (Some (grp_id g))) d
      in (Inr (default_owners AB_lane_assignment (tenant_group_members g ids d') owners), d'))"
  by (simp add: lane_group_owners_def set_lane_assignment_def upd_work_item_def run_simps final_state_def
      Let_def)

lemma group_owners_tenant:
  assumes "fst ` set owners \<subseteq> {i. tenant_user tenant d i}"
    and "lane_group_owners (tenant_identifiers_for tenant d) wid found owners d' = (Inr owners', d'')"
    and "lane_frame d d'"
  shows "fst ` set owners' \<subseteq> {i. tenant_user tenant d i}"
proof (cases found)
  case None
  then show ?thesis using assms by (simp add: lane_group_owners_def run_simps)
next
  case (Some g)
  define e where "e = final_state (set_lane_assignment wid (Some (grp_id g))) d'"
  let ?m = "tenant_group_members g (tenant_identifiers_for tenant d) e"
  have "owners' = default_owners AB_lane_assignment ?m owners"
    using assms(2) unfolding Some group_owners_run e_def [symmetric] by (auto simp: Let_def)
  moreover have "d_users e = d_users d"
    using lane_frame_same(1) [OF assms(3)]
    by (simp add: e_def final_state_def set_lane_assignment_def upd_work_item_def modify_def)
  then have "tenant_user tenant d (usr_id u)" if "u \<in> set ?m" for u
    using that by (auto simp: tenant_group_members_def tenant_user_def)
  then have "usr_id ` set ?m \<subseteq> {i. tenant_user tenant d i}" by (simp add: image_subset_iff)
  ultimately show ?thesis
    using subset_trans [OF default_owners_ids Un_least [OF assms(1)]] by simp
qed

lemma owners_by_lane_tenant:
  assumes "map_of (owners_by_lane (tenant_identifiers_for tenant d) d by_lane []) lane = Some us"
  shows "usr_id ` set us \<subseteq> {i. tenant_user tenant d i}"
proof -
  have "(lane, us) \<in> set (owners_by_lane (tenant_identifiers_for tenant d) d by_lane [])"
    using assms by (rule map_of_SomeD)
  then obtain "is" where "us = lane_owners_spec (tenant_identifiers_for tenant d) d is"
    using owners_by_lane_cached [of "tenant_identifiers_for tenant d" d "[]" by_lane]
    by (auto simp: cache_ok_def)
  then show ?thesis using lane_owners_members by (auto simp: tenant_user_def)
qed

lemma lane_frame_tenant: "lane_frame d d' \<Longrightarrow> tenant_identifiers_for tenant d' = tenant_identifiers_for tenant d"
  by (auto simp: lane_frame_def tenant_identifiers_for_def tenant_named_def)

lemma computed_owners_tenant:
  assumes "normalize_lane_name lane_name = Some lane" "lane \<notin> set (configured_initiator_lanes props)"
    and "computed_owners sql_norm p wid lane_name task_data props d = (Inr owners, d')"
  shows "fst ` set owners \<subseteq> {i. tenant_user (pi_tenant p) d i}"
proof -
  let ?ids = "tenant_identifiers_for (pi_tenant p) d"
  let ?by = "owners_by_lane ?ids d (filter (\<lambda>(l, _). l \<notin> set (configured_initiator_lanes props))
      (effective_lane_owners task_data props)) []"
  let ?named = "label_owners AB_lane_owner (case map_of ?by lane of None \<Rightarrow> [] | Some us \<Rightarrow> us) []"
  obtain groups d1 found d2 where
    steps: "enroll_lane_owners sql_norm (pi_tenant p) ?by d = (Inr groups, d1)"
      "(case map_of groups lane of Some found \<Rightarrow> ret found
        | None \<Rightarrow> find_or_create_lane_group sql_norm (pi_tenant p) lane) d1 = (Inr found, d2)"
      "lane_group_owners ?ids wid found ?named d2 = (Inr owners, d')"
    using assms(2,3) unfolding computed_owners_def Let_def assms(1) option.sel
    by (auto simp: run_simps bnd_Inr_iff)
  have "lanes.keeps (case map_of groups lane of Some found \<Rightarrow> ret found
        | None \<Rightarrow> find_or_create_lane_group sql_norm (pi_tenant p) lane)"
    by (intro lanes.keeps_intros find_lane_group_keeps)
  then have "lane_frame d1 d2" using steps(2) by (rule lanes.keepsD)
  then have "lane_frame d d2"
    using lanes.keepsD [OF enroll_keeps steps(1)] by (rule lanes.R_trans [rotated])
  moreover have "usr_id ` set (case map_of ?by lane of None \<Rightarrow> [] | Some us \<Rightarrow> us)
      \<subseteq> {i. tenant_user (pi_tenant p) d i}"
    by (cases "map_of ?by lane") (simp_all add: owners_by_lane_tenant)
  then have "fst ` set ?named \<subseteq> {i. tenant_user (pi_tenant p) d i}"
    using subset_trans [OF label_owners_ids Un_least] by simp
  ultimately show ?thesis using group_owners_tenant steps(3) by simp
qed

text \<open>C35: A lane task is offered only within the tenant. For a task in a lane that is not an initiator
  lane, every potential owner that is added is a user of the session who belongs to the tenant of
  the instance, whatever the groups and the \<^verbatim>\<open>lane_owners\<close> of the task data name.\<close>

theorem lane_owners_belong_to_tenant:
  assumes "normalize_lane_name lane_name = Some lane" and "lane \<notin> set (configured_initiator_lanes props)"
    and "assign_work_item_potential_owners sql_norm p wid lane_name task_data props d = (r, d')"
    and "row \<in> set (d_work_item_users d')" and "row \<notin> set (d_work_item_users d)"
  shows "tenant_user (pi_tenant p) d (wiu_user_id row)"
proof (cases rule: assign_run [of sql_norm p wid lane_name task_data props d])
  case (raised e d1)
  then show ?thesis using assms(3-5) lane_frame_same(3) by auto
next
  case (assigned owners d1)
  let ?s = "final_state (set_lane_assignment wid None) d"
  have "lane_frame d ?s" using set_lane_keeps by (auto simp: lanes.keeps_def final_state_def)
  moreover have "wiu_user_id row \<in> fst ` set owners"
    using assigned(2) assms(3-5) by (force simp: owner_row_def missing_owners_def)
  ultimately show ?thesis
    using computed_owners_tenant [OF assms(1,2) assigned(1)] tenant_user_frame by blast
qed

theorem lane_owners_belong_to_tenant_witness:
  "\<exists>d'. assign_work_item_potential_owners id one_instance 5 (PStr ''Review'')
       (PDict [(''lane_owners'', PDict [(''review'', PList [PStr ''user''])])]) PNone one_instance_db = (Inr (), d') \<and>
     map wiu_user_id (d_work_item_users d') = [1] \<and> tenant_user ''acme'' one_instance_db 1"
proof -
  let ?data = "PDict [(''lane_owners'', PDict [(''review'', PList [PStr ''user''])])]"
  let ?d = "one_instance_db"
  have lane: "normalize_lane_name (PStr ''Review'') = Some ''review''" by code_simp
  have props: "configured_initiator_lanes PNone = []" by (simp add: configured_initiator_lanes_def)
  have lanes: "effective_lane_owners ?data PNone = [(''review'', [''user''])]" by code_simp
  have named: "owners_by_lane (tenant_identifiers_for ''acme'' ?d) e [(''review'', [''user''])] []
      = [(''review'', [realm_user 1 ''acme''])]" if "d_users e = d_users ?d" for e
  proof -
    have "lookup_owner (tenant_identifiers_for ''acme'' ?d) ?d ''user'' = [realm_user 1 ''acme'']"
      by code_simp
    moreover have "lookup_owner ids e i = lookup_owner ids ?d i" for ids i
      using that by (simp add: lookup_owner_def tenant_members_def Let_def)
    moreover have "py_strip ''user'' = ''user''" by code_simp
    ultimately show ?thesis
      by (simp add: resolver_lane_owners_def users_for_def add_owner_def Let_def)
  qed
  have db: "d_groups ?d = []" "d_user_groups ?d = []" "d_work_items ?d = []" "d_work_item_users ?d = []"
    "d_users ?d = [realm_user 1 ''acme'']" "pi_tenant one_instance = ''acme''"
    "usr_id (realm_user 1 ''acme'') = 1"
    by (simp_all add: one_instance_db_def empty_db_def one_instance_def realm_user_def)
  let ?g = "\<lparr>grp_id = resolve_lane_assignment_id ''review'' (Some ''acme''),
      grp_name = Some (lane_group_identifier ''review'' ''acme''),
      grp_identifier = Some (lane_group_identifier ''review'' ''acme''), grp_authorization_key = None\<rparr>"
  let ?d1 = "?d\<lparr>d_groups := [?g], d_user_groups := [\<lparr>uga_id = 1, uga_user_id = 1, uga_group_id = grp_id ?g\<rparr>]\<rparr>"
  have same: "?d\<lparr>d_work_items := []\<rparr> = ?d" by (simp add: one_instance_db_def empty_db_def)
  have none: "set_lane_assignment 5 g e = (Inr (), e)" if "d_work_items e = []" for g and e :: db
    using that by (simp add: set_lane_assignment_def upd_work_item_def modify_def)
  have "find_or_create_lane_group id ''acme'' ''review'' ?d = (Inr (Some ?g), ?d\<lparr>d_groups := [?g]\<rparr>)"
    by (simp add: find_or_create_lane_group_def Let_def get_group_def legacy_group_def db run_simps)
  then have enroll: "enroll_lane_owners id ''acme'' [(''review'', [realm_user 1 ''acme''])] ?d
      = (Inr [(''review'', Some ?g)], ?d1)"
    by (simp add: enroll_lane_owners_def bnd_def thn_def ret_def add_group_members_def gets_def db
        add_group_member_def modify_def fresh_id_def)
  have owners: "default_owners AB_lane_assignment us [(1, AB_lane_owner)] = [(1, AB_lane_owner)]"
    if "usr_id ` set us \<subseteq> {1}" for us
    unfolding default_owners_def
    by (rule foldl_invariant [where P = "\<lambda>os. os = [(1, AB_lane_owner)]"]) (use that in auto)
  have members: "usr_id ` set (tenant_group_members g ids e) \<subseteq> {1}" if "d_users e = d_users ?d" for g ids e
    using that db by (auto simp: tenant_group_members_def)
  obtain d' where run: "assign_work_item_potential_owners id one_instance 5 (PStr ''Review'') ?data PNone ?d = (Inr (), d')"
    and one: "map wiu_user_id (d_work_item_users d') = [1]"
    by (simp add: assign_work_item_potential_owners_def lane props lanes named db none thn_Inr Let_def
        bnd_gets_run enroll bnd_Inr label_owners_def lane_group_owners_def ret_def owners members
        add_missing_run missing_owners_def potential_owner_ids_def owner_row_def
        del: owners_by_lane.simps)
  then obtain row where row: "row \<in> set (d_work_item_users d')" "wiu_user_id row = 1" by auto
  have "tenant_user (pi_tenant one_instance) ?d (wiu_user_id row)"
    by (rule lane_owners_belong_to_tenant [OF lane _ run row(1)]) (simp_all add: props db)
  then show ?thesis using run one row(2) db by auto
qed

section \<open>Validation of the initiator lanes\<close>

lemma requested_lanes_ok:
  "None \<notin> normalize_lane_name ` set vs \<Longrightarrow>
     \<exists>r. requested_lanes vs acc = Inr r \<and>
       fst ` set r = fst ` set acc \<union> set (List.map_filter normalize_lane_name vs)"
proof (induction vs arbitrary: acc)
  case (Cons v vs)
  obtain lane where lane: "normalize_lane_name v = Some lane" using Cons.prems by fastforce
  let ?acc = "if map_of acc lane = None
      then acc @ [(lane, case as_str v of None \<Rightarrow> [] | Some s \<Rightarrow> py_strip s)] else acc"
  have "None \<notin> normalize_lane_name ` set vs" using Cons.prems by simp
  from Cons.IH [OF this, of ?acc] obtain r where
    "requested_lanes vs ?acc = Inr r"
    "fst ` set r = fst ` set ?acc \<union> set (List.map_filter normalize_lane_name vs)" by blast
  moreover have "fst ` set ?acc = insert lane (fst ` set acc)"
    by (auto simp: map_of_eq_None_iff)
  ultimately show ?case using lane by (simp add: List.map_filter_def)
qed (simp add: List.map_filter_def)

lemma requested_lanes_blank:
  "None \<in> normalize_lane_name ` set vs \<Longrightarrow>
     requested_lanes vs acc = Inl (Err ValidationError (R_lane InitiatorLaneBlank))"
  by (induction vs arbitrary: acc) (auto split: option.split)

definition known_lane_names :: "string list \<Rightarrow> string set" where
  "known_lane_names names = set (List.map_filter (\<lambda>n. normalize_lane_name (PStr n)) names)"

lemma filter_snd_empty: "map snd (filter (\<lambda>(k, _). P k) xs) = [] \<longleftrightarrow> fst ` set xs \<subseteq> {k. \<not> P k}"
  by (auto simp: filter_empty_conv)

text \<open>The import check of \<^verbatim>\<open>initiator_lanes\<close> accepts exactly the usable configurations: none at all, or a
  list of lane names that all occur in the BPMN source and none of which has lane owners, each
  compared trimmed and ignoring case.\<close>

lemma validate_initiator_lanes_exact:
  "validate_initiator_lanes props names = Inr () \<longleftrightarrow>
     dict_get props INITIATOR_LANES_KEY = PNone \<or>
     (\<exists>vs. dict_get props INITIATOR_LANES_KEY = PList vs \<and>
        None \<notin> normalize_lane_name ` set vs \<and>
        set (configured_initiator_lanes (PDict props)) \<subseteq> known_lane_names names \<and>
        set (configured_initiator_lanes (PDict props)) \<inter>
          fst ` set (lane_owner_identifiers (dict_get props LANE_OWNERS_KEY)) = {})"
proof (cases "dict_get props INITIATOR_LANES_KEY")
  case (PList vs)
  have lanes: "configured_initiator_lanes (PDict props) = List.map_filter normalize_lane_name vs"
    by (simp add: configured_initiator_lanes_def PList)
  show ?thesis
  proof (cases "None \<in> normalize_lane_name ` set vs")
    case True
    then show ?thesis by (simp add: validate_initiator_lanes_def PList requested_lanes_blank)
  next
    case False
    then obtain r where r: "requested_lanes vs [] = Inr r"
      "fst ` set r = set (List.map_filter normalize_lane_name vs)"
      using requested_lanes_ok [of vs "[]"] by auto
    let ?owners = "fst ` set (lane_owner_identifiers (dict_get props LANE_OWNERS_KEY))"
    have "validate_initiator_lanes props names = Inr () \<longleftrightarrow>
        fst ` set r \<subseteq> {k. \<not> k \<notin> known_lane_names names} \<and> fst ` set r \<subseteq> {k. k \<notin> ?owners}"
      unfolding filter_snd_empty [symmetric]
      by (simp add: validate_initiator_lanes_def PList r(1) Let_def known_lane_names_def
          del: filter_empty_conv) blast?
    also have "\<dots> \<longleftrightarrow> fst ` set r \<subseteq> known_lane_names names \<and> fst ` set r \<inter> ?owners = {}"
      by blast
    finally show ?thesis using False by (simp add: r(2) lanes PList)
  qed
qed (simp_all add: validate_initiator_lanes_def)

end
