(* ===== verification/Commands.thy ===== *)
theory Commands
  imports Models
begin

text \<open>
  \<^verbatim>\<open>src/m8flow_core/application/commands.py\<close>, \<^verbatim>\<open>queries.py\<close> and
  \<^verbatim>\<open>src/m8flow_core/services/call_activities.py\<close>: the frozen dataclasses a host passes to
  \<^verbatim>\<open>execute_command\<close> and \<^verbatim>\<open>execute_query\<close>. One constructor per dataclass, the arguments in the
  order of its fields. BPMN and DMN sources are given as text.
\<close>

record call_activity_context =
  cac_tenant_id :: string
  cac_called_element :: string
  cac_parent_process_instance_id :: "int option"
  cac_parent_process_definition_id :: "int option"

record call_activity_definition =
  cad_process_id :: string
  cad_bpmn_xml :: string
  cad_dmn_xml :: "string option"

text \<open>
  A host's resolver returns nothing, one definition, a sequence, or something else, or raises. A
  member of a sequence that is not a definition is \<open>None\<close>.
\<close>

datatype resolver_result =
    Res_none
  | Res_one call_activity_definition
  | Res_seq "call_activity_definition option list"
  | Res_invalid

type_synonym call_activity_resolver = "call_activity_context \<Rightarrow> m8f_error + resolver_result"

datatype command =
    ClaimTaskCommand string int int
  | CompleteTaskCommand string int int "datetime option" "(string \<times> string) list option"
  | RecordProcessInstanceEventCommand string int event_arg "guid option" "int option" "datetime option"
  | CreateProcessInstanceCommand string string string int int int "string option" int
      "datetime option" "datetime option"
  | ImportBpmnProcessDefinitionCommand string string int string "string option" "string option"
      "(string \<times> pyval) list option" "string option" "string option" "string option"
      "datetime option" "datetime option"
  | InitializeProcessInstanceFromDefinitionCommand string int int "(string \<times> string) list option"
      "string option" int "datetime option" "string option" "call_activity_resolver option"
  | InitializeProcessInstanceWorkflowCommand string int string "string option" "datetime option"
      "string option" "call_activity_resolver option"
  | UpsertProcessInstanceMetadataCommand string int string string datetime "datetime option"
  | SuspendProcessInstanceCommand string int int "datetime option"
  | ResumeProcessInstanceCommand string int int "datetime option"
  | ErrorProcessInstanceCommand string int "int option" "datetime option"
  | RetryProcessInstanceCommand string int int "datetime option"
  | ScheduleProcessInstanceRetryCommand string int int datetime "datetime option"
  | TerminateProcessInstanceCommand string int int "datetime option"

datatype query =
    GetPendingTasksQuery string "int option"
  | GetProcessInstanceEventsQuery string int
  | GetProcessInstanceMetadataQuery string int
  | GetProcessInstanceQuery string int
  | ListErrorProcessInstancesQuery string
  | ListSuspendedProcessInstancesQuery string
  | ListTerminatedProcessInstancesQuery string
  | ListProcessInstancesQuery string "status_arg option"

fun command_tenant :: "command \<Rightarrow> string" where
  "command_tenant (ClaimTaskCommand t _ _) = t"
| "command_tenant (CompleteTaskCommand t _ _ _ _) = t"
| "command_tenant (RecordProcessInstanceEventCommand t _ _ _ _ _) = t"
| "command_tenant (CreateProcessInstanceCommand t _ _ _ _ _ _ _ _ _) = t"
| "command_tenant (ImportBpmnProcessDefinitionCommand t _ _ _ _ _ _ _ _ _ _ _) = t"
| "command_tenant (InitializeProcessInstanceFromDefinitionCommand t _ _ _ _ _ _ _ _) = t"
| "command_tenant (InitializeProcessInstanceWorkflowCommand t _ _ _ _ _ _) = t"
| "command_tenant (UpsertProcessInstanceMetadataCommand t _ _ _ _ _) = t"
| "command_tenant (SuspendProcessInstanceCommand t _ _ _) = t"
| "command_tenant (ResumeProcessInstanceCommand t _ _ _) = t"
| "command_tenant (ErrorProcessInstanceCommand t _ _ _) = t"
| "command_tenant (RetryProcessInstanceCommand t _ _ _) = t"
| "command_tenant (ScheduleProcessInstanceRetryCommand t _ _ _ _) = t"
| "command_tenant (TerminateProcessInstanceCommand t _ _ _) = t"

end
