(* ===== verification/Service_Tasks.thy ===== *)
theory Service_Tasks
  imports Json_Data
begin

text \<open>
  \<^verbatim>\<open>src/m8flow_core/services/service_tasks.py\<close> and the script engine of
  \<^verbatim>\<open>src/m8flow_core/services/workflow_runtime.py\<close> that routes service tasks to it: operation
  identifiers, the registry of connectors and the dispatch of a request. A connector is supplied by
  the host: its key, the commands it lists and what it does with a request. The registry is a
  dictionary in insertion order.
\<close>

section \<open>Operation identifiers\<close>

definition CONNECTOR_PROXY_EXECUTE_PATH :: "string \<Rightarrow> string \<Rightarrow> string" where
  "CONNECTOR_PROXY_EXECUTE_PATH key name = ''/v1/do/'' @ key @ ''/'' @ name"

definition normalize_non_blank :: "string \<Rightarrow> string \<Rightarrow> m8f_error + string" where
  "normalize_non_blank field v =
     (if py_strip v = [] then Inl (Err ValidationError (R_service (BlankField field)))
      else Inr (py_strip v))"

definition no_slash :: "string \<Rightarrow> string \<Rightarrow> m8f_error + unit" where
  "no_slash field v =
     (if CHR ''/'' \<in> set v then Inl (Err ValidationError (R_service (SlashInField field))) else Inr ())"

definition build_service_task_operation_id :: "string \<Rightarrow> string \<Rightarrow> m8f_error + string" where
  "build_service_task_operation_id connector_key command_name =
     rbind (normalize_non_blank ''connector_key'' connector_key) (\<lambda>k.
     rbind (normalize_non_blank ''command_name'' command_name) (\<lambda>c.
     rbind (no_slash ''connector_key'' k) (\<lambda>_.
     rbind (no_slash ''command_name'' c) (\<lambda>_. Inr (k @ ''/'' @ c)))))"

definition split_service_task_operation_id :: "string \<Rightarrow> m8f_error + string \<times> string" where
  "split_service_task_operation_id operation_id =
     rbind (normalize_non_blank ''operation_id'' operation_id) (\<lambda>n.
       case split_on (CHR ''/'') n of
         [k, c] \<Rightarrow> if py_strip k \<noteq> [] \<and> py_strip c \<noteq> [] then Inr (k, c)
                   else Inl (Err ValidationError (R_service MalformedOperationId))
       | _ \<Rightarrow> Inl (Err ValidationError (R_service MalformedOperationId)))"

definition build_connector_proxy_execute_path :: "string \<Rightarrow> string \<Rightarrow> m8f_error + string" where
  "build_connector_proxy_execute_path connector_key command_name =
     rbind (build_service_task_operation_id connector_key command_name) (\<lambda>i.
     rbind (split_service_task_operation_id i) (\<lambda>(k, c). Inr (CONNECTOR_PROXY_EXECUTE_PATH k c)))"

section \<open>Definitions, requests and results\<close>

record parameter_definition =
  prm_name :: string
  prm_type :: "string option"
  prm_required :: bool
  prm_description :: "string option"
  prm_metadata :: "(string \<times> pyval) list option"

record command_definition =
  cmd_connector_key :: string
  cmd_command_name :: string
  cmd_display_name :: "string option"
  cmd_description :: "string option"
  cmd_parameters :: "parameter_definition list"
  cmd_metadata :: "(string \<times> pyval) list option"

record service_task_context =
  stc_tenant_id :: string
  stc_process_instance_id :: "int option"
  stc_process_definition_id :: "int option"
  stc_task_guid :: "string option"
  stc_task_name :: "string option"
  stc_task_type :: "string option"
  stc_metadata :: "(string \<times> pyval) list option"

record service_task_request =
  str_operation_id :: string
  str_parameters :: "(string \<times> pyval) list option"
  str_context :: "service_task_context option"
  str_task_data :: "(string \<times> pyval) list option"
  str_callback_url :: "string option"
  str_metadata :: "(string \<times> pyval) list option"

record service_task_result =
  res_payload :: pyval
  res_metadata :: "(string \<times> pyval) list option"

text \<open>The constructors with their \<^verbatim>\<open>__post_init__\<close>.\<close>

definition ServiceTaskParameterDefinition :: "parameter_definition \<Rightarrow> m8f_error + parameter_definition" where
  "ServiceTaskParameterDefinition p =
     rbind (normalize_non_blank ''parameter name'' (prm_name p)) (\<lambda>n. Inr (p\<lparr>prm_name := n\<rparr>))"

definition ServiceTaskCommandDefinition :: "command_definition \<Rightarrow> m8f_error + command_definition" where
  "ServiceTaskCommandDefinition c =
     rbind (normalize_non_blank ''connector_key'' (cmd_connector_key c)) (\<lambda>k.
     rbind (normalize_non_blank ''command_name'' (cmd_command_name c)) (\<lambda>n.
     rbind (no_slash ''connector_key'' k) (\<lambda>_.
     rbind (no_slash ''command_name'' n) (\<lambda>_.
       Inr (c\<lparr>cmd_connector_key := k, cmd_command_name := n\<rparr>)))))"

definition cmd_operation_id :: "command_definition \<Rightarrow> m8f_error + string" where
  "cmd_operation_id c = build_service_task_operation_id (cmd_connector_key c) (cmd_command_name c)"

definition ServiceTaskContext :: "service_task_context \<Rightarrow> m8f_error + service_task_context" where
  "ServiceTaskContext c =
     rbind (normalize_non_blank ''tenant_id'' (stc_tenant_id c)) (\<lambda>t. Inr (c\<lparr>stc_tenant_id := t\<rparr>))"

definition ServiceTaskRequest :: "service_task_request \<Rightarrow> m8f_error + service_task_request" where
  "ServiceTaskRequest r = rbind (split_service_task_operation_id (str_operation_id r)) (\<lambda>_. Inr r)"

definition req_connector_key :: "service_task_request \<Rightarrow> m8f_error + string" where
  "req_connector_key r = rbind (split_service_task_operation_id (str_operation_id r)) (\<lambda>(k, _). Inr k)"

definition req_command_name :: "service_task_request \<Rightarrow> m8f_error + string" where
  "req_command_name r = rbind (split_service_task_operation_id (str_operation_id r)) (\<lambda>(_, c). Inr c)"

section \<open>The registry\<close>

record connector =
  con_key :: string
  con_commands :: "command_definition list"
  con_execute :: "service_task_request \<Rightarrow> m8f_error + service_task_result"

type_synonym registry = "(string \<times> connector) list"

definition register_connector :: "registry \<Rightarrow> connector \<Rightarrow> bool \<Rightarrow> m8f_error + registry" where
  "register_connector reg c replace_existing =
     rbind (normalize_non_blank ''connector.connector_key'' (con_key c)) (\<lambda>k.
     rbind (no_slash ''connector.connector_key'' k) (\<lambda>_.
       if map_of reg k \<noteq> None \<and> \<not> replace_existing
       then Inl (Err ValidationError (R_service (ConnectorExists k)))
       else Inr (AList.update k c reg)))"

fun register_all :: "registry \<Rightarrow> connector list \<Rightarrow> m8f_error + registry" where
  "register_all reg [] = Inr reg"
| "register_all reg (c # cs) = rbind (register_connector reg c False) (\<lambda>reg'. register_all reg' cs)"

definition ServiceTaskRegistry :: "connector list \<Rightarrow> m8f_error + registry" where
  "ServiceTaskRegistry connectors = register_all [] connectors"

definition unregister_connector :: "registry \<Rightarrow> string \<Rightarrow> m8f_error + registry" where
  "unregister_connector reg key =
     rbind (normalize_non_blank ''connector_key'' key) (\<lambda>k.
       if map_of reg k = None then Inl (Err NotFoundError (R_service (ConnectorNotFound k)))
       else Inr (AList.delete k reg))"

definition get_connector :: "registry \<Rightarrow> string \<Rightarrow> m8f_error + connector" where
  "get_connector reg key =
     rbind (normalize_non_blank ''connector_key'' key) (\<lambda>k.
       case map_of reg k of
         None \<Rightarrow> Inl (Err NotFoundError (R_service (ConnectorNotFound k))) | Some c \<Rightarrow> Inr c)"

definition list_connectors :: "registry \<Rightarrow> string list" where
  "list_connectors reg = map fst reg"

definition list_commands :: "registry \<Rightarrow> string option \<Rightarrow> m8f_error + command_definition list" where
  "list_commands reg key =
     (case key of
        Some k \<Rightarrow> rbind (get_connector reg k) (\<lambda>c. Inr (con_commands c))
      | None \<Rightarrow> Inr (concat (map (con_commands \<circ> snd) reg)))"

text \<open>The loop over the commands of a connector; either identifier may be refused.\<close>

fun find_command :: "string \<Rightarrow> string \<Rightarrow> command_definition list \<Rightarrow> m8f_error + command_definition option" where
  "find_command k n [] = Inr None"
| "find_command k n (c # cs) =
     rbind (cmd_operation_id c) (\<lambda>i.
     rbind (build_service_task_operation_id k n) (\<lambda>wanted.
       if i = wanted then Inr (Some c) else find_command k n cs))"

definition get_command :: "registry \<Rightarrow> string \<Rightarrow> m8f_error + command_definition" where
  "get_command reg operation_id =
     rbind (split_service_task_operation_id operation_id) (\<lambda>(k, n).
     rbind (get_connector reg k) (\<lambda>c.
     rbind (find_command k n (con_commands c)) (\<lambda>found.
       case found of
         None \<Rightarrow> Inl (Err NotFoundError (R_service (CommandNotFound operation_id)))
       | Some d \<Rightarrow> Inr d)))"

definition registry_execute :: "registry \<Rightarrow> service_task_request \<Rightarrow> m8f_error + service_task_result" where
  "registry_execute reg req =
     rbind (get_command reg (str_operation_id req)) (\<lambda>_.
     rbind (req_connector_key req) (\<lambda>k.
     rbind (get_connector reg k) (\<lambda>c. con_execute c req)))"

text \<open>The registry a call uses: an explicit one, else the active factory, else the default one.\<close>

type_synonym registry_factory = "unit \<Rightarrow> m8f_error + registry"

record registry_context =
  active_registry :: "registry_factory option"
  default_registry :: registry_factory

definition resolve_service_task_registry :: "registry_context \<Rightarrow> registry option \<Rightarrow> m8f_error + registry" where
  "resolve_service_task_registry ctx explicit =
     (case explicit of
        Some r \<Rightarrow> Inr r
      | None \<Rightarrow> (case active_registry ctx of Some f \<Rightarrow> f () | None \<Rightarrow> default_registry ctx ()))"

definition set_default_service_task_registry_factory ::
  "registry_factory \<Rightarrow> registry_context \<Rightarrow> registry_context" where
  "set_default_service_task_registry_factory f ctx = ctx\<lparr>default_registry := f\<rparr>"

definition service_task_registry_scope ::
  "registry_factory \<Rightarrow> (registry_context \<Rightarrow> 'a \<times> registry_context) \<Rightarrow> registry_context \<Rightarrow> 'a \<times> registry_context" where
  "service_task_registry_scope f body ctx =
     (case body (ctx\<lparr>active_registry := Some f\<rparr>) of
        (r, ctx') \<Rightarrow> (r, ctx'\<lparr>active_registry := active_registry ctx\<rparr>))"

definition initial_registry_context :: registry_context where
  "initial_registry_context = \<lparr>active_registry = None, default_registry = (\<lambda>_. ServiceTaskRegistry [])\<rparr>"

section \<open>The script engine's service calls\<close>

text \<open>\<^verbatim>\<open>json.dumps(v)\<close> with the default separators.\<close>

fun json_dumps :: "pyval \<Rightarrow> string" where
  "json_dumps PNone = ''null''"
| "json_dumps (PBool b) = (if b then ''true'' else ''false'')"
| "json_dumps (PInt i) = str_of_int i"
| "json_dumps (PFloat t) = t"
| "json_dumps (PStr s) = json_string s"
| "json_dumps (PList xs) = ''['' @ py_join '', '' (map json_dumps xs) @ '']''"
| "json_dumps (PDict d) =
     ''{'' @ py_join '', '' (map (\<lambda>(k, v). json_string k @ '': '' @ json_dumps v) d) @ ''}''"

text \<open>
  What \<^verbatim>\<open>call_service\<close> reads of the engine's task: its identifier, the name, class and result variable
  of its specification, its data and the data of its workflow.
\<close>

record service_task =
  svt_id :: string
  svt_spec_name :: "string option"
  svt_spec_type :: string
  svt_result_variable :: pyval
  svt_data :: pyval
  svt_workflow_data :: pyval

fun service_task_parameter_values ::
  "string \<Rightarrow> (string \<times> pyval) list \<Rightarrow> (string \<times> pyval) list \<Rightarrow> m8f_error + (string \<times> pyval) list" where
  "service_task_parameter_values op [] values = Inr values"
| "service_task_parameter_values op ((name, raw) # rest) values =
     (case as_dict raw of
        None \<Rightarrow> Inl (Err ServiceTaskExecutionError (R_service (ParameterNotMapping name)))
      | Some d \<Rightarrow>
          (case map_of d ''value'' of
             None \<Rightarrow> Inl (Err ServiceTaskExecutionError (R_service (ParameterMissingValue name)))
           | Some v \<Rightarrow> service_task_parameter_values op rest (dict_set name v values)))"

definition service_task_parameter_types :: "(string \<times> pyval) list \<Rightarrow> (string \<times> pyval) list" where
  "service_task_parameter_types params =
     List.map_filter (\<lambda>(name, raw). map_option (\<lambda>d. (name, dict_get d ''type'')) (as_dict raw)) params"

definition service_task_task_data :: "service_task \<Rightarrow> (string \<times> pyval) list option" where
  "service_task_task_data t =
     (let merged = AList.updates
            (map fst (case as_dict (svt_data t) of None \<Rightarrow> [] | Some d \<Rightarrow> d))
            (map snd (case as_dict (svt_data t) of None \<Rightarrow> [] | Some d \<Rightarrow> d))
            (case as_dict (svt_workflow_data t) of None \<Rightarrow> [] | Some d \<Rightarrow> d)
      in if merged = [] then None else Some merged)"

definition service_task_execution_context ::
  "string \<Rightarrow> int option \<Rightarrow> int option \<Rightarrow> m8f_error + service_task_context" where
  "service_task_execution_context tenant pid pdid =
     ServiceTaskContext \<lparr>stc_tenant_id = tenant, stc_process_instance_id = pid,
       stc_process_definition_id = pdid, stc_task_guid = None, stc_task_name = None,
       stc_task_type = None, stc_metadata = None\<rparr>"

text \<open>
  \<^verbatim>\<open>call_service\<close>: the request is built before the \<^verbatim>\<open>try\<close> block; inside it every exception that is not
  a \<^verbatim>\<open>ServiceTaskExecutionError\<close> becomes one.
\<close>

definition service_call_request ::
  "string \<Rightarrow> int option \<Rightarrow> int option \<Rightarrow> service_task \<Rightarrow> pyval \<Rightarrow> pyval \<Rightarrow> m8f_error + service_task_request" where
  "service_call_request tenant pid pdid t operation_name operation_params =
     (case as_str operation_name of
        None \<Rightarrow> Inl (Err ServiceTaskExecutionError (R_service MissingOperator))
      | Some name \<Rightarrow>
          if py_strip name = [] then Inl (Err ServiceTaskExecutionError (R_service MissingOperator))
          else case as_dict operation_params of
            None \<Rightarrow> Inl (Err ServiceTaskExecutionError (R_service MissingParameters))
          | Some params \<Rightarrow>
              rbind (service_task_parameter_values name params []) (\<lambda>values.
              rbind (ServiceTaskContext \<lparr>stc_tenant_id = tenant, stc_process_instance_id = pid,
                  stc_process_definition_id = pdid,
                  stc_task_guid = (if svt_id t = [] then None else Some (svt_id t)),
                  stc_task_name = svt_spec_name t, stc_task_type = Some (svt_spec_type t),
                  stc_metadata = Some [(''result_variable'', svt_result_variable t)]\<rparr>) (\<lambda>context.
                ServiceTaskRequest \<lparr>str_operation_id = name, str_parameters = Some values,
                  str_context = Some context, str_task_data = service_task_task_data t,
                  str_callback_url = None,
                  str_metadata = Some [(''parameter_types'', PDict (service_task_parameter_types params))]\<rparr>)))"

definition call_service ::
  "registry_context \<Rightarrow> string \<Rightarrow> int option \<Rightarrow> int option \<Rightarrow> service_task \<Rightarrow> pyval \<Rightarrow> pyval \<Rightarrow> m8f_error + string" where
  "call_service ctx tenant pid pdid t operation_name operation_params =
     rbind (service_call_request tenant pid pdid t operation_name operation_params) (\<lambda>request.
       case rbind (resolve_service_task_registry ctx None) (\<lambda>reg.
              rbind (registry_execute reg request) (\<lambda>result. Inr (json_dumps (res_payload result)))) of
         Inr s \<Rightarrow> Inr s
       | Inl e \<Rightarrow> if is_subclass (err_class e) ServiceTaskExecutionError then Inl e
                  else Inl (Err ServiceTaskExecutionError (R_service (ServiceFailed (str_operation_id request)))))"

section \<open>Identifiers are built and split\<close>

lemma normalize_Inr_iff: "normalize_non_blank f v = Inr w \<longleftrightarrow> w = py_strip v \<and> w \<noteq> []"
  by (auto simp: normalize_non_blank_def)

lemma no_slash_Inr_iff: "no_slash f v = Inr u \<longleftrightarrow> CHR ''/'' \<notin> set v"
  by (auto simp: no_slash_def)

lemma build_operation_id_Inr:
  "build_service_task_operation_id k c = Inr i \<longleftrightarrow>
     py_strip k \<noteq> [] \<and> py_strip c \<noteq> [] \<and> CHR ''/'' \<notin> set (py_strip k) \<and> CHR ''/'' \<notin> set (py_strip c) \<and>
     i = py_strip k @ ''/'' @ py_strip c"
  by (auto simp: build_service_task_operation_id_def rbind_Inr_iff normalize_Inr_iff no_slash_Inr_iff)

lemma split_on_none: "c \<notin> set xs \<Longrightarrow> split_on c xs = [xs]"
  by (induction xs) auto

lemma split_on_pair: "c \<notin> set xs \<Longrightarrow> c \<notin> set ys \<Longrightarrow> split_on c (xs @ c # ys) = [xs, ys]"
  by (induction xs) (auto simp: split_on_none)

lemma py_strip_join:
  assumes "py_strip k = k" "k \<noteq> []" "py_strip c = c" "c \<noteq> []"
  shows "py_strip (k @ x # c) = k @ x # c"
  using assms py_strip_fixedD(1) [OF assms(1,2)] py_strip_fixedD(2) [OF assms(3,4)]
  by (intro py_strip_id) auto

lemma split_built:
  assumes "build_service_task_operation_id k c = Inr i"
  shows "split_service_task_operation_id i = Inr (py_strip k, py_strip c)"
proof -
  have b: "py_strip k \<noteq> []" "py_strip c \<noteq> []" "CHR ''/'' \<notin> set (py_strip k)" "CHR ''/'' \<notin> set (py_strip c)"
    "i = py_strip k @ CHR ''/'' # py_strip c"
    using assms by (auto simp: build_operation_id_Inr)
  then have "py_strip i = i" using py_strip_join [of "py_strip k" "py_strip c"] by simp
  then show ?thesis
    using b split_on_pair [OF b(3,4)]
    by (simp add: split_service_task_operation_id_def normalize_non_blank_def)
qed

text \<open>An operation identifier that was built splits back into the trimmed connector key and command
  name, and building it again from these gives the same identifier.\<close>

lemma operation_id_roundtrip:
  assumes "build_service_task_operation_id k c = Inr i"
  shows "split_service_task_operation_id i = Inr (py_strip k, py_strip c) \<and>
    build_service_task_operation_id (py_strip k) (py_strip c) = Inr i \<and>
    build_connector_proxy_execute_path k c = Inr (''/v1/do/'' @ i)"
proof -
  have i: "i = py_strip k @ ''/'' @ py_strip c" using assms by (simp add: build_operation_id_Inr)
  have "build_service_task_operation_id (py_strip k) (py_strip c) = Inr i"
    using assms by (simp add: build_operation_id_Inr)
  moreover have "build_connector_proxy_execute_path k c = Inr (''/v1/do/'' @ i)"
    by (simp add: build_connector_proxy_execute_path_def assms split_built [OF assms]
        CONNECTOR_PROXY_EXECUTE_PATH_def) (simp add: i)
  ultimately show ?thesis using split_built [OF assms] by blast
qed

section \<open>The registry is a finite map\<close>

text \<open>What the registry needs of its dictionary: reading after writing and after deleting.\<close>

locale keyed_store =
  fixes lookup :: "'m \<Rightarrow> string \<Rightarrow> 'v option"
    and put :: "string \<Rightarrow> 'v \<Rightarrow> 'm \<Rightarrow> 'm"
    and del :: "string \<Rightarrow> 'm \<Rightarrow> 'm"
  assumes lookup_put: "lookup (put k v m) = (lookup m)(k \<mapsto> v)"
    and lookup_del: "lookup (del k m) = (lookup m)(k := None)"
begin

lemma put_other: "j \<noteq> k \<Longrightarrow> lookup (put k v m) j = lookup m j"
  by (simp add: lookup_put)

lemma put_put: "lookup (put k w (put k v m)) = lookup (put k w m)"
  by (simp add: lookup_put)

lemma del_put: "lookup m k = None \<Longrightarrow> lookup (del k (put k v m)) = lookup m"
  by (auto simp: lookup_put lookup_del)

end

interpretation connectors: keyed_store map_of AList.update AList.delete
  by unfold_locales (simp_all add: update_conv' delete_conv')

text \<open>
  A run of a registry: registrations, with or without \<^verbatim>\<open>replace\<close>, and removals, in any order and with
  keys as callers write them. A call that raises leaves the dictionary as it was.
\<close>

datatype registry_op = Register connector bool | Unregister string

definition registry_step :: "registry \<Rightarrow> registry_op \<Rightarrow> registry" where
  "registry_step reg op =
     (case (case op of Register c rep \<Rightarrow> register_connector reg c rep
                     | Unregister key \<Rightarrow> unregister_connector reg key) of
        Inl _ \<Rightarrow> reg | Inr reg' \<Rightarrow> reg')"

text \<open>
  What the history of a run, latest call first, says of a key: the connector that holds it is the one
  of the latest registration under a key that reads the same without surrounding white space, if that
  key has no slash, and if the registration either replaced or found the key free; a removal frees it.
\<close>

fun holder :: "registry_op list \<Rightarrow> string \<Rightarrow> connector option" where
  "holder [] k = None"
| "holder (Register c rep # past) k =
     (if py_strip (con_key c) = k \<and> k \<noteq> [] \<and> CHR ''/'' \<notin> set k \<and> (rep \<or> holder past k = None)
      then Some c else holder past k)"
| "holder (Unregister key # past) k = (if py_strip key = k then None else holder past k)"

lemma holder_valid: "holder past k = Some c \<Longrightarrow> k \<noteq> []"
  by (induction past k rule: holder.induct) (auto split: if_splits)

lemma registry_step_lookup:
  assumes "map_of reg = holder past"
  shows "map_of (registry_step reg op) = holder (op # past)"
proof (cases op)
  case (Register c rep)
  then show ?thesis
    using assms
    by (auto simp: fun_eq_iff registry_step_def register_connector_def normalize_non_blank_def
        no_slash_def connectors.lookup_put split: if_splits)
next
  case (Unregister key)
  then show ?thesis
    using assms holder_valid [of past]
    by (auto simp: fun_eq_iff registry_step_def unregister_connector_def normalize_non_blank_def
        connectors.lookup_del split: if_splits)
qed

lemma registry_run_lookup: "map_of (foldl registry_step [] ops) = holder (rev ops)"
proof (induction ops rule: rev_induct)
  case Nil
  show ?case by (simp add: fun_eq_iff)
next
  case (snoc op ops)
  then show ?case using registry_step_lookup by simp
qed

lemma registry_step_distinct:
  "distinct (map fst reg) \<Longrightarrow> distinct (map fst (registry_step reg op))"
  by (auto simp: registry_step_def register_connector_def unregister_connector_def normalize_non_blank_def
      no_slash_def distinct_update distinct_delete split: registry_op.splits)

lemma registry_run_distinct: "distinct (map fst (foldl registry_step [] ops))"
  by (induction ops rule: rev_induct) (auto intro: registry_step_distinct)

text \<open>C28: After any sequence of registrations and removals, failed ones included, a key names the connector
  of its latest registration that was not undone: every spelling of the key that differs in
  surrounding white space finds it, a blank key is refused, and a key that nobody holds is not found;
  a further registration is refused exactly for a blank key, a key with a slash, or a key that is held
  when it does not replace; a removal exactly for a blank key or a key nobody holds; and the registry
  lists each held key once and no other.\<close>

theorem registry_refines_map:
  fixes ops key c rep
  defines "reg \<equiv> foldl registry_step [] ops"
  defines "held \<equiv> holder (rev ops)"
  defines "k \<equiv> py_strip key"
  defines "n \<equiv> py_strip (con_key c)"
  shows "get_connector reg key =
      (if k = [] then Inl (Err ValidationError (R_service (BlankField ''connector_key'')))
       else case held k of None \<Rightarrow> Inl (Err NotFoundError (R_service (ConnectorNotFound k)))
                         | Some con \<Rightarrow> Inr con) \<and>
    map_sum id (\<lambda>_. ()) (register_connector reg c rep) =
      (if n = [] then Inl (Err ValidationError (R_service (BlankField ''connector.connector_key'')))
       else if CHR ''/'' \<in> set n
       then Inl (Err ValidationError (R_service (SlashInField ''connector.connector_key'')))
       else if held n \<noteq> None \<and> \<not> rep then Inl (Err ValidationError (R_service (ConnectorExists n)))
       else Inr ()) \<and>
    map_sum id (\<lambda>_. ()) (unregister_connector reg key) =
      (if k = [] then Inl (Err ValidationError (R_service (BlankField ''connector_key'')))
       else if held k = None then Inl (Err NotFoundError (R_service (ConnectorNotFound k)))
       else Inr ()) \<and>
    distinct (list_connectors reg) \<and> set (list_connectors reg) = dom held"
proof -
  have map: "map_of reg = held" unfolding reg_def held_def by (rule registry_run_lookup)
  have "distinct (list_connectors reg)"
    unfolding list_connectors_def reg_def by (rule registry_run_distinct)
  moreover have "set (list_connectors reg) = dom held"
    by (simp add: list_connectors_def dom_map_of_conv_image_fst flip: map)
  ultimately show ?thesis
    unfolding k_def n_def
    by (simp add: map get_connector_def register_connector_def unregister_connector_def
        normalize_non_blank_def no_slash_def)
qed

section \<open>Dispatch of a request\<close>

text \<open>Every command a connector lists went through the constructor of command definitions.\<close>

definition commands_ok :: "registry \<Rightarrow> bool" where
  "commands_ok reg \<longleftrightarrow>
     list_all (\<lambda>(_, c). list_all (\<lambda>d. \<exists>i. cmd_operation_id d = Inr i) (con_commands c)) reg"

lemma find_command_run:
  assumes "list_all (\<lambda>d. \<exists>i. cmd_operation_id d = Inr i) ds" and "build_service_task_operation_id k n = Inr i"
  shows "find_command k n ds = Inr (find (\<lambda>d. cmd_operation_id d = Inr i) ds)"
  using assms(1) by (induction ds) (auto simp: assms(2))

lemma split_parts:
  assumes "split_service_task_operation_id op = Inr (k, n)"
  shows "py_strip k \<noteq> []" "py_strip n \<noteq> []" "CHR ''/'' \<notin> set k" "CHR ''/'' \<notin> set n"
proof -
  have no_sep: "c \<notin> set w" if "w \<in> set (split_on c xs)" for c w xs
    using that by (induction xs arbitrary: w) (auto split: if_splits list.splits)
  have parts: "split_on (CHR ''/'') (py_strip op) = [k, n] \<and> py_strip k \<noteq> [] \<and> py_strip n \<noteq> []"
    using assms
    by (auto simp: split_service_task_operation_id_def rbind_Inr_iff normalize_Inr_iff
        split: list.splits if_splits)
  then show "py_strip k \<noteq> []" "py_strip n \<noteq> []" "CHR ''/'' \<notin> set k" "CHR ''/'' \<notin> set n"
    using no_sep [of _ "CHR ''/''" "py_strip op"] by auto
qed

lemma set_py_strip: "set (py_strip s) \<subseteq> set s"
  unfolding py_strip_def py_lstrip_def py_rstrip_def
  by (metis set_dropWhileD set_rev subsetI)

text \<open>A service task request is executed exactly by the connector registered under its key, and only
  when that connector lists the command; otherwise it is refused as not found, and nothing is
  executed.\<close>

lemma registry_execute_dispatch:
  assumes "commands_ok reg" and "split_service_task_operation_id (str_operation_id req) = Inr (k, n)"
  shows "registry_execute reg req =
    (case map_of reg (py_strip k) of
       None \<Rightarrow> Inl (Err NotFoundError (R_service (ConnectorNotFound (py_strip k))))
     | Some c \<Rightarrow>
         if Inr (py_strip k @ ''/'' @ py_strip n) \<in> cmd_operation_id ` set (con_commands c)
         then con_execute c req
         else Inl (Err NotFoundError (R_service (CommandNotFound (str_operation_id req)))))"
proof -
  let ?i = "py_strip k @ ''/'' @ py_strip n"
  note parts = split_parts [OF assms(2)]
  have built: "build_service_task_operation_id k n = Inr ?i"
    using parts set_py_strip [of k] set_py_strip [of n] by (auto simp: build_operation_id_Inr)
  have get: "get_connector reg k = (case map_of reg (py_strip k) of
      None \<Rightarrow> Inl (Err NotFoundError (R_service (ConnectorNotFound (py_strip k)))) | Some c \<Rightarrow> Inr c)"
    using parts by (simp add: get_connector_def normalize_non_blank_def)
  show ?thesis
  proof (cases "map_of reg (py_strip k)")
    case None
    then show ?thesis by (simp add: registry_execute_def get_command_def assms(2) get)
  next
    case (Some c)
    then have "list_all (\<lambda>d. \<exists>i. cmd_operation_id d = Inr i) (con_commands c)"
      using assms(1) map_of_SomeD [OF Some] by (force simp: commands_ok_def list_all_iff)
    note found = find_command_run [OF this built]
    show ?thesis
    proof (cases "find (\<lambda>d. cmd_operation_id d = Inr ?i) (con_commands c)")
      case None
      then have "Inr ?i \<notin> cmd_operation_id ` set (con_commands c)" by (auto simp: find_None_iff)
      then show ?thesis
        using Some None found by (simp add: registry_execute_def get_command_def assms(2) get)
    next
      case (Some d)
      then have "Inr ?i \<in> cmd_operation_id ` set (con_commands c)" by (auto dest!: find_SomeD intro!: rev_image_eqI)
      then show ?thesis
        using \<open>map_of reg (py_strip k) = Some c\<close> Some found
        by (simp add: registry_execute_def get_command_def req_connector_key_def assms(2) get)
    qed
  qed
qed

definition mail_connector :: connector where
  "mail_connector = \<lparr>con_key = ''mail'', con_commands = [\<lparr>cmd_connector_key = ''mail'',
     cmd_command_name = ''send'', cmd_display_name = None, cmd_description = None,
     cmd_parameters = [], cmd_metadata = None\<rparr>],
     con_execute = (\<lambda>_. Inr \<lparr>res_payload = PNone, res_metadata = None\<rparr>)\<rparr>"

definition mail_request :: service_task_request where
  "mail_request = \<lparr>str_operation_id = ''mail/send'', str_parameters = None, str_context = None,
     str_task_data = None, str_callback_url = None, str_metadata = None\<rparr>"

lemma mail_dispatched:
  "registry_execute [(''mail'', mail_connector)] mail_request =
     Inr \<lparr>res_payload = PNone, res_metadata = None\<rparr>"
proof -
  have id: "build_service_task_operation_id ''mail'' ''send'' = Inr ''mail/send''"
    "split_service_task_operation_id ''mail/send'' = Inr (''mail'', ''send'')"
    "py_strip ''mail'' = ''mail''" "py_strip ''send'' = ''send''" by code_simp+
  have ok: "commands_ok [(''mail'', mail_connector)]"
    by (simp add: commands_ok_def mail_connector_def cmd_operation_id_def id)
  have "split_service_task_operation_id (str_operation_id mail_request) = Inr (''mail'', ''send'')"
    by (simp add: mail_request_def id(2) [simplified])
  from registry_execute_dispatch [OF ok this] show ?thesis
    unfolding id(3,4) by (simp add: mail_connector_def cmd_operation_id_def id(1) [simplified])
qed

section \<open>Failures of service calls\<close>

lemma request_errors:
  assumes "service_call_request tenant pid pdid t name params = Inl e"
  shows "err_class e = ServiceTaskExecutionError \<or>
    (\<exists>s. name = PStr s \<and> err_class e = ValidationError \<and>
       (py_strip tenant = [] \<or> (\<exists>why. split_service_task_operation_id s = Inl why)))"
proof -
  have param_err: "err_class e = ServiceTaskExecutionError"
    if "service_task_parameter_values op ps vs = Inl e" for op ps vs
    using that by (induction op ps vs rule: service_task_parameter_values.induct)
      (auto split: option.splits)
  have split_err: "err_class e = ValidationError" if "split_service_task_operation_id s = Inl e" for s
    using that
    by (auto simp: split_service_task_operation_id_def normalize_non_blank_def split: list.splits if_splits)
  show ?thesis
    using assms param_err split_err
    by (auto simp: service_call_request_def rbind_def ServiceTaskContext_def ServiceTaskRequest_def
        normalize_non_blank_def split: option.splits if_splits sum.splits elim!: as_str.elims)
qed

text \<open>A failing service call with a well-formed operation identifier always surfaces as a
  \<^verbatim>\<open>ServiceTaskExecutionError\<close>, whatever the registry or the connector raised, so that the failure
  handling of the workflow run recognizes it.\<close>

lemma service_call_failures:
  assumes "call_service ctx tenant pid pdid t (PStr op) params = Inl e"
    and "split_service_task_operation_id op = Inr kn" and "py_strip tenant \<noteq> []"
  shows "is_subclass (err_class e) ServiceTaskExecutionError"
proof (cases "service_call_request tenant pid pdid t (PStr op) params")
  case (Inl e')
  then have "e' = e" using assms(1) by (simp add: call_service_def)
  then have "err_class e = ServiceTaskExecutionError" using request_errors [OF Inl] assms(2,3) by auto
  then show ?thesis by (simp add: sub_refl)
next
  case (Inr r)
  then show ?thesis
    using assms(1) by (auto simp: call_service_def sub_refl split: sum.splits if_splits)
qed

text \<open>An operation identifier without a slash is not a service task failure: the request is built
  before the handler of \<^verbatim>\<open>call_service\<close> is entered, so the call raises a plain \<^verbatim>\<open>ValidationError\<close>,
  which is not a \<^verbatim>\<open>ServiceTaskExecutionError\<close>.\<close>

lemma malformed_operation_escapes:
  "call_service ctx ''acme'' pid pdid t (PStr ''mail'') (PDict []) =
     Inl (Err ValidationError (R_service MalformedOperationId)) \<and>
   \<not> is_subclass ValidationError ServiceTaskExecutionError"
proof -
  have id: "split_service_task_operation_id ''mail'' = Inl (Err ValidationError (R_service MalformedOperationId))"
    "py_strip ''mail'' = ''mail''" "py_strip ''acme'' = ''acme''" by code_simp+
  have "\<not> is_subclass ValidationError ServiceTaskExecutionError"
    by (simp add: is_subclass_step [of ValidationError] is_subclass_step [of BpmnCoreError]
        is_subclass_step [of Py_ValueError] is_subclass_top)
  then show ?thesis
    using id
    by (simp add: call_service_def service_call_request_def ServiceTaskContext_def ServiceTaskRequest_def
        normalize_non_blank_def)
qed

end
