(* ===== verification/Call_Activities.thy ===== *)
theory Call_Activities
  imports Commands Service_Tasks
begin

text \<open>
  The part of \<^verbatim>\<open>src/m8flow_core/services/workflow_runtime.py\<close> that turns BPMN sources into a workflow:
  selecting the process, loading the definitions of called processes through the host's resolver,
  and building the workflow. The BPMN parser is SpiffWorkflow's: it is a parameter, the record
  \<open>bpmn_parser\<close> of the operations the code calls on it, over an unknown type of parser states.
\<close>

section \<open>The parser\<close>

text \<open>
  \<open>prs_called p i\<close> is \<^verbatim>\<open>parser.get_process_parser(i)\<close> with its \<^verbatim>\<open>called_element_ids()\<close>, \<open>None\<close> for a
  process the parser does not have. Sources are text; \<^verbatim>\<open>_coerce_xml_bytes\<close> encodes them for the parser.
\<close>

record ('p, 'w) bpmn_parser =
  prs_new :: "bool \<Rightarrow> 'p"
  prs_add_bpmn :: "'p \<Rightarrow> string \<Rightarrow> string \<Rightarrow> m8f_error + 'p"
  prs_add_dmn :: "'p \<Rightarrow> string \<Rightarrow> string \<Rightarrow> m8f_error + 'p"
  prs_process_ids :: "'p \<Rightarrow> string list"
  prs_called :: "'p \<Rightarrow> string \<Rightarrow> pyval list option"
  prs_workflow :: "'p \<Rightarrow> string \<Rightarrow> service_task_context option \<Rightarrow> m8f_error + 'w"

definition has_process :: "('p, 'w) bpmn_parser \<Rightarrow> 'p \<Rightarrow> string \<Rightarrow> bool" where
  "has_process P p i \<longleftrightarrow> prs_called P p i \<noteq> None"

definition select_process_identifier ::
  "('p, 'w) bpmn_parser \<Rightarrow> string \<Rightarrow> string option \<Rightarrow> m8f_error + string" where
  "select_process_identifier P xml process_id =
     rbind (prs_add_bpmn P (prs_new P True) xml ''definition-process-selector.bpmn'') (\<lambda>p.
       case process_id of
         None \<Rightarrow> (case prs_process_ids P p of
                    [i] \<Rightarrow> Inr i | _ \<Rightarrow> Inl (Err ValidationError (R_workflow ProcessIdRequired)))
       | Some i \<Rightarrow> if i \<in> set (prs_process_ids P p) then Inr i
                   else Inl (Err NotFoundError (R_workflow (ProcessIdNotFound i))))"

section \<open>Called processes\<close>

definition call_error :: "call_activity_reason \<Rightarrow> m8f_error + 'a" where
  "call_error why = Inl (Err CallActivityResolutionError (R_call why))"

text \<open>What the resolver answered, as the one definition for the called element.\<close>

definition the_definition :: "string \<Rightarrow> resolver_result \<Rightarrow> m8f_error + call_activity_definition" where
  "the_definition called result =
     (case result of
        Res_none \<Rightarrow> call_error (NoChildDefinition called)
      | Res_invalid \<Rightarrow> call_error (InvalidResolverResult called)
      | Res_one c \<Rightarrow> Inr c
      | Res_seq cs \<Rightarrow>
          (case cs of
             [] \<Rightarrow> call_error (NoChildDefinition called)
           | [Some c] \<Rightarrow> Inr c
           | [None] \<Rightarrow> call_error (InvalidChildDefinition called)
           | _ \<Rightarrow> call_error (AmbiguousChildDefinition called (length cs))))"

text \<open>The inner \<^verbatim>\<open>try\<close>: errors of the parser become resolution errors.\<close>

definition load_definition ::
  "('p, 'w) bpmn_parser \<Rightarrow> 'p \<Rightarrow> string \<Rightarrow> call_activity_definition \<Rightarrow> m8f_error + 'p" where
  "load_definition P p called c =
     (case rbind (prs_add_bpmn P p (cad_bpmn_xml c) (''called-process-'' @ called @ ''.bpmn'')) (\<lambda>p1.
             if cad_process_id c \<notin> set (prs_process_ids P p1)
             then call_error (ProcessNotExecutable (cad_process_id c))
             else case cad_dmn_xml c of
               None \<Rightarrow> Inr p1
             | Some x \<Rightarrow> prs_add_dmn P p1 x (''called-process-'' @ called @ ''.dmn'')) of
        Inr p' \<Rightarrow> Inr p'
      | Inl e \<Rightarrow> if is_subclass (err_class e) CallActivityResolutionError then Inl e
                 else call_error (InvalidChildDefinition called))"

definition resolve_called ::
  "('p, 'w) bpmn_parser \<Rightarrow> call_activity_resolver option \<Rightarrow> call_activity_context option \<Rightarrow> 'p \<Rightarrow> string \<Rightarrow>
   m8f_error + 'p" where
  "resolve_called P resolver context p called =
     (case resolver of
        None \<Rightarrow> call_error (NoResolver called)
      | Some rs \<Rightarrow>
          (case context of
             None \<Rightarrow> Inl (Err ValidationError (R_call NoResolverContext))
           | Some cx \<Rightarrow>
               rbind (case rs (cx\<lparr>cac_called_element := called\<rparr>) of
                        Inr r \<Rightarrow> Inr r
                      | Inl e \<Rightarrow> if is_subclass (err_class e) CallActivityResolutionError then Inl e
                                 else call_error (ResolverFailed called)) (\<lambda>result.
               rbind (the_definition called result) (\<lambda>c.
                 if cad_process_id c \<noteq> called
                 then call_error (ProcessIdMismatch (cad_process_id c) called)
                 else load_definition P p called c))))"

text \<open>The for-loop over the called elements of one process: it loads what is missing and pushes each.\<close>

fun inspect_called ::
  "('p, 'w) bpmn_parser \<Rightarrow> call_activity_resolver option \<Rightarrow> call_activity_context option \<Rightarrow> string \<Rightarrow>
   pyval list \<Rightarrow> 'p \<Rightarrow> string list \<Rightarrow> m8f_error + 'p \<times> string list" where
  "inspect_called P resolver context i [] p pending = Inr (p, pending)"
| "inspect_called P resolver context i (v # vs) p pending =
     (case as_str v of
        None \<Rightarrow> call_error (NoCalledElement i)
      | Some called \<Rightarrow>
          if py_strip called = [] then call_error (NoCalledElement i)
          else rbind (if has_process P p called then Inr p else resolve_called P resolver context p called) (\<lambda>p'.
                 inspect_called P resolver context i vs p' (called # pending)))"

text \<open>
  The while-loop. The top of the stack is the head of the list, and \<open>None\<close> stands for a run that
  does not end.
\<close>

partial_function (option) load_pending ::
  "('p, 'w) bpmn_parser \<Rightarrow> call_activity_resolver option \<Rightarrow> call_activity_context option \<Rightarrow> 'p \<Rightarrow>
   string list \<Rightarrow> string list \<Rightarrow> (m8f_error + 'p) option" where
  "load_pending P resolver context p pending inspected =
     (case pending of
        [] \<Rightarrow> Some (Inr p)
      | i # rest \<Rightarrow>
          if i \<in> set inspected then load_pending P resolver context p rest inspected
          else case prs_called P p i of
            None \<Rightarrow> Some (call_error (CalledProcessNotFound i))
          | Some vs \<Rightarrow>
              (case inspect_called P resolver context i vs p rest of
                 Inl e \<Rightarrow> Some (Inl e)
               | Inr (p', pending') \<Rightarrow> load_pending P resolver context p' pending' (i # inspected)))"

definition load_called_process_definitions ::
  "('p, 'w) bpmn_parser \<Rightarrow> 'p \<Rightarrow> string option \<Rightarrow> call_activity_resolver option \<Rightarrow>
   call_activity_context option \<Rightarrow> (m8f_error + 'p) option" where
  "load_called_process_definitions P p root_id resolver context =
     (case root_id of
        Some i \<Rightarrow> load_pending P resolver context p [i] []
      | None \<Rightarrow>
          (case prs_process_ids P p of
             [i] \<Rightarrow> load_pending P resolver context p [i] []
           | _ \<Rightarrow> Some (Inl (Err ValidationError (R_workflow ProcessIdRequired)))))"

section \<open>Building the workflow\<close>

definition build_workflow ::
  "('p, 'w) bpmn_parser \<Rightarrow> string \<Rightarrow> string option \<Rightarrow> string option \<Rightarrow> service_task_context option \<Rightarrow>
   call_activity_resolver option \<Rightarrow> call_activity_context option \<Rightarrow> (m8f_error + 'w) option" where
  "build_workflow P xml dmn process_id service_context resolver context =
     (case prs_add_bpmn P (prs_new P (dmn = None)) xml ''runtime-workflow.bpmn'' of
        Inl e \<Rightarrow> Some (Inl e)
      | Inr p \<Rightarrow>
          map_option (\<lambda>loaded.
            rbind loaded (\<lambda>p1.
            rbind (case dmn of None \<Rightarrow> Inr p1 | Some x \<Rightarrow> prs_add_dmn P p1 x ''runtime-workflow.dmn'') (\<lambda>p2.
              case process_id of
                Some i \<Rightarrow> prs_workflow P p2 i service_context
              | None \<Rightarrow>
                  (case prs_process_ids P p2 of
                     [i] \<Rightarrow> prs_workflow P p2 i service_context
                   | _ \<Rightarrow> Inl (Err ValidationError (R_workflow ProcessIdRequired))))))
            (load_called_process_definitions P p process_id resolver context))"

section \<open>The loading loop ends\<close>

lemma inspect_called_pending:
  assumes "inspect_called P resolver context i vs p pending = Inr (p', pending')"
  shows "\<exists>ss. vs = map PStr ss \<and> pending' = rev ss @ pending"
  using assms
proof (induction vs arbitrary: p pending)
  case (Cons v vs)
  obtain called where v: "v = PStr called"
    using Cons.prems by (cases v) (auto simp: call_error_def)
  then obtain p1 where "inspect_called P resolver context i vs p1 (called # pending) = Inr (p', pending')"
    using Cons.prems by (auto simp: call_error_def rbind_Inr_iff split: if_splits)
  from Cons.IH [OF this] obtain ss where "vs = map PStr ss" "pending' = rev ss @ called # pending" by blast
  then show ?case using v by (intro exI [of _ "called # ss"]) simp
qed simp

text \<open>C22: Loading the called processes ends whenever the processes that can be called form a finite set,
  also when they call each other in cycles: the loop then returns a parser or an error.\<close>

theorem load_called_terminates:
  assumes "finite U" and "set pending \<subseteq> U"
    and "\<And>p i ss. i \<in> U \<Longrightarrow> prs_called P p i = Some (map PStr ss) \<Longrightarrow> set ss \<subseteq> U"
  shows "\<exists>r. load_pending P resolver context p pending inspected = Some r"
  using assms(2)
proof (induction "(card (U - set inspected), length pending)" arbitrary: p pending inspected
    rule: less_induct)
  case less
  show ?case
  proof (cases pending)
    case Nil
    then show ?thesis by (subst load_pending.simps) simp
  next
    case (Cons i rest)
    show ?thesis
    proof (cases "i \<in> set inspected")
      case True
      have "\<exists>r. load_pending P resolver context p rest inspected = Some r"
        using less.prems Cons by (intro less.hyps) auto
      then show ?thesis using True Cons by (subst load_pending.simps) simp
    next
      case False
      have i: "i \<in> U" using less.prems Cons by simp
      have smaller: "card (U - set (i # inspected)) < card (U - set inspected)"
        using assms(1) i False by (intro psubset_card_mono) auto
      have "\<exists>r. load_pending P resolver context p' pending' (i # inspected) = Some r"
        if vs: "prs_called P p i = Some vs" "inspect_called P resolver context i vs p rest = Inr (p', pending')"
        for vs p' pending'
      proof (rule less.hyps)
        show "(card (U - set (i # inspected)), length pending') < (card (U - set inspected), length pending)"
          using smaller by (simp add: less_prod_def)
        obtain ss where ss: "vs = map PStr ss" "pending' = rev ss @ rest"
          using inspect_called_pending [OF vs(2)] by blast
        then show "set pending' \<subseteq> U" using assms(3) [OF i] vs(1) less.prems Cons by auto
      qed
      then show ?thesis
        using False Cons by (subst load_pending.simps) (auto split: option.splits sum.splits prod.splits)
    qed
  qed
qed

text \<open>A parser over a fixed library of processes, for the concrete inputs: sources are process names.\<close>

definition library_parser_of :: "(string \<Rightarrow> 'w) \<Rightarrow> (string \<times> string list) list \<Rightarrow> (string list, 'w) bpmn_parser" where
  "library_parser_of g lib = \<lparr>prs_new = (\<lambda>_. []),
     prs_add_bpmn = (\<lambda>p x _. if map_of lib x = None then Inl (Err Py_ValueError (R_workflow (EngineFailure x)))
                            else Inr (p @ [x])),
     prs_add_dmn = (\<lambda>p _ _. Inr p), prs_process_ids = (\<lambda>p. p),
     prs_called = (\<lambda>p i. if i \<in> set p then map_option (map PStr) (map_of lib i) else None),
     prs_workflow = (\<lambda>p i _. Inr (g i))\<rparr>"

abbreviation library_parser :: "(string \<times> string list) list \<Rightarrow> (string list, string) bpmn_parser" where
  "library_parser \<equiv> library_parser_of id"

definition library_resolver :: call_activity_resolver where
  "library_resolver cx = Inr (Res_one \<lparr>cad_process_id = cac_called_element cx,
     cad_bpmn_xml = cac_called_element cx, cad_dmn_xml = None\<rparr>)"

definition library_context :: call_activity_context where
  "library_context = \<lparr>cac_tenant_id = ''acme'', cac_called_element = [],
     cac_parent_process_instance_id = None, cac_parent_process_definition_id = None\<rparr>"

theorem load_called_terminates_witness:
  "\<exists>r. load_pending (library_parser [(''a'', [''b'']), (''b'', [''a''])]) (Some library_resolver)
     (Some library_context) [''a''] [''a''] [] = Some r"
proof (rule load_called_terminates [where U = "{''a'', ''b''}"])
  show "set ss \<subseteq> {''a'', ''b''}"
    if "i \<in> {''a'', ''b''}"
      and "prs_called (library_parser [(''a'', [''b'']), (''b'', [''a''])]) p i = Some (map PStr ss)" for p i ss
  proof -
    have inj: "map PStr xs = map PStr ys \<Longrightarrow> xs = ys" for xs ys
      by (induction xs arbitrary: ys) (auto simp: Cons_eq_map_conv)
    show ?thesis using that by (auto simp: library_parser_of_def split: if_splits dest!: inj)
  qed
qed simp_all

section \<open>All called processes are loaded\<close>

text \<open>What the code relies on of the parser: adding a source keeps the processes it already has.\<close>

definition parser_keeps :: "('p, 'w) bpmn_parser \<Rightarrow> bool" where
  "parser_keeps P \<longleftrightarrow>
     (\<forall>p x f p'. prs_add_bpmn P p x f = Inr p' \<longrightarrow>
        (\<forall>i vs. prs_called P p i = Some vs \<longrightarrow> prs_called P p' i = Some vs) \<and>
        set (prs_process_ids P p) \<subseteq> set (prs_process_ids P p')) \<and>
     (\<forall>p x f p'. prs_add_dmn P p x f = Inr p' \<longrightarrow>
        (\<forall>i vs. prs_called P p i = Some vs \<longrightarrow> prs_called P p' i = Some vs) \<and>
        set (prs_process_ids P p) \<subseteq> set (prs_process_ids P p'))"

text \<open>The parser has grown: what it had it has, unchanged.\<close>

definition grows :: "('p, 'w) bpmn_parser \<Rightarrow> 'p \<Rightarrow> 'p \<Rightarrow> bool" where
  "grows P p p' \<longleftrightarrow> (\<forall>i vs. prs_called P p i = Some vs \<longrightarrow> prs_called P p' i = Some vs) \<and>
     set (prs_process_ids P p) \<subseteq> set (prs_process_ids P p')"

lemma grows_refl: "grows P p p"
  by (simp add: grows_def)

lemma grows_trans: "grows P p q \<Longrightarrow> grows P q r \<Longrightarrow> grows P p r"
  by (auto simp: grows_def)

lemma load_definition_grows:
  assumes "parser_keeps P" and "load_definition P p called c = Inr p'"
  shows "grows P p p' \<and> cad_process_id c \<in> set (prs_process_ids P p')"
proof -
  obtain p1 where p1: "prs_add_bpmn P p (cad_bpmn_xml c) (''called-process-'' @ called @ ''.bpmn'') = Inr p1"
    "cad_process_id c \<in> set (prs_process_ids P p1)"
    "(case cad_dmn_xml c of None \<Rightarrow> Inr p1
      | Some x \<Rightarrow> prs_add_dmn P p1 x (''called-process-'' @ called @ ''.dmn'')) = Inr p'"
    using assms(2) unfolding load_definition_def
    by (auto simp: call_error_def rbind_def split: sum.splits if_splits)
  have "grows P p p1" using assms(1) p1(1) unfolding parser_keeps_def grows_def by blast
  moreover have "grows P p1 p'"
    using assms(1) p1(3) unfolding parser_keeps_def grows_def by (auto split: option.splits)
  ultimately show ?thesis using p1(2) grows_trans by (auto simp: grows_def)
qed

lemma resolve_called_grows:
  assumes "parser_keeps P" and "resolve_called P resolver context p called = Inr p'"
  shows "grows P p p' \<and> called \<in> set (prs_process_ids P p')"
proof -
  obtain c where "load_definition P p called c = Inr p'" "cad_process_id c = called"
    using assms(2) by (auto simp: resolve_called_def call_error_def rbind_Inr_iff split: option.splits if_splits)
  then show ?thesis using load_definition_grows [OF assms(1)] by blast
qed

lemma inspect_called_grows:
  assumes "parser_keeps P" and "inspect_called P resolver context i vs p pending = Inr (p', pending')"
  shows "grows P p p'"
  using assms(2)
proof (induction vs arbitrary: p pending)
  case (Cons v vs)
  obtain called where v: "v = PStr called" using Cons.prems by (cases v) (auto simp: call_error_def)
  then obtain p1 where p1: "inspect_called P resolver context i vs p1 (called # pending) = Inr (p', pending')"
    "(if has_process P p called then Inr p else resolve_called P resolver context p called) = Inr p1"
    using Cons.prems by (auto simp: call_error_def rbind_Inr_iff split: if_splits)
  have "grows P p p1"
  proof (cases "has_process P p called")
    case True
    then show ?thesis using p1(2) by (simp add: grows_refl)
  next
    case False
    then show ?thesis using p1(2) resolve_called_grows [OF assms(1)] by simp
  qed
  then show ?case using Cons.IH [OF p1(1)] by (rule grows_trans)
qed (simp add: grows_refl)

text \<open>A set of processes that the parser has, together with everything they call.\<close>

definition call_closed :: "('p, 'w) bpmn_parser \<Rightarrow> 'p \<Rightarrow> string set \<Rightarrow> string set \<Rightarrow> bool" where
  "call_closed P p S T \<longleftrightarrow> (\<forall>i \<in> S. \<exists>ss. prs_called P p i = Some (map PStr ss) \<and> set ss \<subseteq> T)"

lemma call_closed_grows: "call_closed P p S T \<Longrightarrow> grows P p p' \<Longrightarrow> T \<subseteq> T' \<Longrightarrow> call_closed P p' S T'"
  unfolding call_closed_def grows_def by (meson subset_trans)

lemma call_closed_insert:
  "call_closed P p (insert i S) T \<longleftrightarrow>
     (\<exists>ss. prs_called P p i = Some (map PStr ss) \<and> set ss \<subseteq> T) \<and> call_closed P p S T"
  by (auto simp: call_closed_def)

lemma load_pending_induct [consumes 1, case_names step]:
  assumes "load_pending P resolver cx p pending inspected = Some r"
    and "\<And>load P resolver cx p pending inspected r.
      (\<And>P resolver cx p pending inspected r. load P resolver cx p pending inspected = Some r \<Longrightarrow>
         Q P resolver cx p pending inspected r) \<Longrightarrow>
      (case pending of
         [] \<Rightarrow> Some (Inr p)
       | i # rest \<Rightarrow>
           if i \<in> set inspected then load P resolver cx p rest inspected
           else case prs_called P p i of
             None \<Rightarrow> Some (call_error (CalledProcessNotFound i))
           | Some vs \<Rightarrow>
               (case inspect_called P resolver cx i vs p rest of
                  Inl e \<Rightarrow> Some (Inl e)
                | Inr (p', pending') \<Rightarrow> load P resolver cx p' pending' (i # inspected))) = Some r \<Longrightarrow>
      Q P resolver cx p pending inspected r"
  shows "Q P resolver cx p pending inspected r"
  by (rule load_pending.raw_induct
    [of "\<lambda>x r. case x of (((((P, resolver), cx), p), pending), inspected) \<Rightarrow> Q P resolver cx p pending inspected r",
      unfolded prod.case, OF _ assms(1)]) (rule assms(2))

lemma load_pending_closed:
  assumes "load_pending P resolver context p pending inspected = Some r" and "r = Inr p'"
    and "call_closed P p (set inspected) (set pending \<union> set inspected)" and "parser_keeps P"
  shows "grows P p p' \<and> (\<exists>S. set pending \<union> set inspected \<subseteq> S \<and> call_closed P p' S S)"
  using assms
proof (induction rule: load_pending_induct)
  case (step load P resolver cx p pending inspected r)
  note IH = step.IH
  show ?case
  proof (cases pending)
    case Nil
    then have "p' = p" using step by simp
    then show ?thesis using step Nil grows_refl by auto
  next
    case (Cons i rest)
    show ?thesis
    proof (cases "i \<in> set inspected")
      case True
      then have "load P resolver cx p rest inspected = Some r" using step Cons by simp
      moreover have "set pending \<union> set inspected = set rest \<union> set inspected" using True Cons by auto
      ultimately show ?thesis using IH [of P resolver cx p rest inspected r] step by simp
    next
      case False
      then obtain vs q pending' where steps: "prs_called P p i = Some vs"
        "inspect_called P resolver cx i vs p rest = Inr (q, pending')"
        "load P resolver cx q pending' (i # inspected) = Some r"
        using step Cons by (auto simp: call_error_def split: option.splits sum.splits)
      obtain ss where ss: "vs = map PStr ss" "pending' = rev ss @ rest"
        using inspect_called_pending [OF steps(2)] by blast
      have grow: "grows P p q" by (rule inspect_called_grows [OF \<open>parser_keeps P\<close> steps(2)])
      have "call_closed P q (set inspected) (set pending' \<union> set (i # inspected))"
        by (rule call_closed_grows [OF step.prems(2) grow]) (use Cons ss in auto)
      moreover have "prs_called P q i = Some (map PStr ss)"
        using grow steps(1) ss by (simp add: grows_def)
      ultimately have "call_closed P q (set (i # inspected)) (set pending' \<union> set (i # inspected))"
        using ss by (auto simp: call_closed_insert)
      from IH [OF steps(3) \<open>r = Inr p'\<close> this \<open>parser_keeps P\<close>]
      have later: "grows P q p'" "\<exists>S. set pending' \<union> set (i # inspected) \<subseteq> S \<and> call_closed P p' S S"
        by blast+
      moreover have "set pending \<union> set inspected \<subseteq> set pending' \<union> set (i # inspected)"
        using Cons ss by auto
      ultimately show ?thesis using grows_trans [OF grow later(1)] by (meson subset_trans)
    qed
  qed
qed

text \<open>C21: When loading succeeds, the parser has the root process, every process it calls, everything those
  call, and so on; every call names a process.\<close>

theorem called_processes_loaded:
  assumes "parser_keeps P"
    and "load_called_process_definitions P p (Some i) resolver context = Some (Inr p')"
  shows "\<exists>S. i \<in> S \<and> call_closed P p' S S"
proof -
  have "load_pending P resolver context p [i] [] = Some (Inr p')"
    using assms(2) by (simp add: load_called_process_definitions_def)
  from load_pending_closed [OF this refl _ assms(1)] show ?thesis by (auto simp: call_closed_def)
qed

lemma library_parser_keeps: "parser_keeps (library_parser_of g lib)"
  by (auto simp: parser_keeps_def library_parser_of_def split: if_splits)

lemma library_run:
  "load_pending (library_parser_of g [(''a'', [''b'']), (''b'', [''a''])]) (Some library_resolver)
     (Some cx) [''a''] [''a''] [] = Some (Inr [''a'', ''b''])"
proof -
  have strip: "py_strip ''a'' = ''a''" "py_strip ''b'' = ''b''" by code_simp+
  show ?thesis
    by (subst load_pending.simps, subst load_pending.simps, subst load_pending.simps,
        subst load_pending.simps)
      (simp add: library_parser_of_def strip [simplified] has_process_def resolve_called_def
        library_resolver_def the_definition_def load_definition_def)
qed

theorem called_processes_loaded_witness:
  "\<exists>S. ''a'' \<in> S \<and> call_closed (library_parser [(''a'', [''b'']), (''b'', [''a''])]) [''a'', ''b''] S S"
  using called_processes_loaded [of "library_parser [(''a'', [''b'']), (''b'', [''a''])]" "[''a'']" "''a''"
      "Some library_resolver" "Some library_context" "[''a'', ''b'']", OF library_parser_keeps]
  by (simp add: load_called_process_definitions_def library_run)

section \<open>A root that is not named\<close>

text \<open>
  The root is inferred before the called definitions are loaded; afterwards the parser has several
  processes, and a request that did not name the root is refused as if the file itself had several.
\<close>

lemma unnamed_build:
  assumes "parser_keeps P"
    and "prs_add_bpmn P (prs_new P (dmn = None)) xml ''runtime-workflow.bpmn'' = Inr p" and "prs_process_ids P p = [i]"
    and "load_called_process_definitions P p None resolver context = Some (Inr p1)"
    and "(case dmn of None \<Rightarrow> Inr p1 | Some x \<Rightarrow> prs_add_dmn P p1 x ''runtime-workflow.dmn'') = Inr p2"
    and "j \<in> set (prs_process_ids P p1)" and "j \<noteq> i"
  shows "build_workflow P xml dmn None cx resolver context =
      Some (Inl (Err ValidationError (R_workflow ProcessIdRequired)))"
    "build_workflow P xml dmn (Some i) cx resolver context = Some (prs_workflow P p2 i cx)"
proof -
  have run: "load_pending P resolver context p [i] [] = Some (Inr p1)"
    using assms(3,4) by (simp add: load_called_process_definitions_def)
  from load_pending_closed [OF this refl _ assms(1)] have "grows P p p1" by (simp add: call_closed_def)
  then have "i \<in> set (prs_process_ids P p1)" using assms(3) by (auto simp: grows_def)
  moreover have "set (prs_process_ids P p1) \<subseteq> set (prs_process_ids P p2)"
    using assms(1,5) by (cases dmn) (auto simp: parser_keeps_def)
  ultimately have "i \<in> set (prs_process_ids P p2)" "j \<in> set (prs_process_ids P p2)" using assms(6) by auto
  then show "build_workflow P xml dmn None cx resolver context =
      Some (Inl (Err ValidationError (R_workflow ProcessIdRequired)))"
    using assms(2,4,5,7)
    by (cases "prs_process_ids P p2") (auto simp: build_workflow_def split: list.splits)
  show "build_workflow P xml dmn (Some i) cx resolver context = Some (prs_workflow P p2 i cx)"
    using assms(2,5) run by (simp add: build_workflow_def load_called_process_definitions_def)
qed

end
