(* ===== verification/Authorization.thy ===== *)
theory Authorization
  imports Tenant_Users Commands
begin

text \<open>
  \<^verbatim>\<open>src/m8flow_core/services/authorization.py\<close>: the command keys and their specifications, the
  request, the database policy, the policy hook, and the helpers that create groups, principals,
  permission targets and grants. A host's own policy is a parameter: any function from a request
  to a computation over the session.
\<close>

section \<open>Command keys, resource types, roles\<close>

definition TASK_CLAIM_COMMAND :: string where "TASK_CLAIM_COMMAND = ''task.claim''"
definition TASK_COMPLETE_COMMAND :: string where "TASK_COMPLETE_COMMAND = ''task.complete''"
definition PROCESS_START_COMMAND :: string where "PROCESS_START_COMMAND = ''process.start''"
definition PROCESS_CREATE_COMMAND :: string where "PROCESS_CREATE_COMMAND = ''process.create''"
definition PROCESS_DEFINITION_IMPORT_COMMAND :: string where
  "PROCESS_DEFINITION_IMPORT_COMMAND = ''process_definition.import''"
definition PROCESS_WORKFLOW_INITIALIZE_COMMAND :: string where
  "PROCESS_WORKFLOW_INITIALIZE_COMMAND = ''process.initialize_workflow''"
definition PROCESS_METADATA_UPSERT_COMMAND :: string where
  "PROCESS_METADATA_UPSERT_COMMAND = ''process.metadata.upsert''"
definition PROCESS_EVENT_RECORD_COMMAND :: string where
  "PROCESS_EVENT_RECORD_COMMAND = ''process.event.record''"
definition PROCESS_SUSPEND_COMMAND :: string where "PROCESS_SUSPEND_COMMAND = ''process.suspend''"
definition PROCESS_RESUME_COMMAND :: string where "PROCESS_RESUME_COMMAND = ''process.resume''"
definition PROCESS_ERROR_COMMAND :: string where "PROCESS_ERROR_COMMAND = ''process.error''"
definition PROCESS_RETRY_COMMAND :: string where "PROCESS_RETRY_COMMAND = ''process.retry''"
definition PROCESS_TERMINATE_COMMAND :: string where
  "PROCESS_TERMINATE_COMMAND = ''process.terminate''"

lemmas command_key_defs = TASK_CLAIM_COMMAND_def TASK_COMPLETE_COMMAND_def
  PROCESS_START_COMMAND_def PROCESS_CREATE_COMMAND_def PROCESS_DEFINITION_IMPORT_COMMAND_def
  PROCESS_WORKFLOW_INITIALIZE_COMMAND_def PROCESS_METADATA_UPSERT_COMMAND_def
  PROCESS_EVENT_RECORD_COMMAND_def PROCESS_SUSPEND_COMMAND_def PROCESS_RESUME_COMMAND_def
  PROCESS_ERROR_COMMAND_def PROCESS_RETRY_COMMAND_def PROCESS_TERMINATE_COMMAND_def

text \<open>The members of \<^verbatim>\<open>PermissionResourceType\<close>, \<^verbatim>\<open>PermissionAction\<close> and \<^verbatim>\<open>PermitDeny\<close>, by value.\<close>

definition RESOURCE_TASK :: string where "RESOURCE_TASK = ''task''"
definition RESOURCE_PROCESS_DEFINITION :: string where
  "RESOURCE_PROCESS_DEFINITION = ''process_definition''"
definition RESOURCE_PROCESS_INSTANCE :: string where
  "RESOURCE_PROCESS_INSTANCE = ''process_instance''"
definition RESOURCE_PROCESS_MODEL :: string where "RESOURCE_PROCESS_MODEL = ''process_model''"
definition RESOURCE_TENANT :: string where "RESOURCE_TENANT = ''tenant''"

definition permission_resource_types :: "string list" where
  "permission_resource_types = [RESOURCE_PROCESS_DEFINITION, RESOURCE_PROCESS_INSTANCE,
     RESOURCE_PROCESS_MODEL, RESOURCE_TASK, RESOURCE_TENANT]"

lemmas resource_defs = RESOURCE_TASK_def RESOURCE_PROCESS_DEFINITION_def
  RESOURCE_PROCESS_INSTANCE_def RESOURCE_PROCESS_MODEL_def RESOURCE_TENANT_def

definition ACTION_ALL :: string where "ACTION_ALL = ''all''"
definition ACTION_CREATE :: string where "ACTION_CREATE = ''create''"
definition ACTION_EXECUTE :: string where "ACTION_EXECUTE = ''execute''"
definition ACTION_START :: string where "ACTION_START = ''start''"
definition ACTION_UPDATE :: string where "ACTION_UPDATE = ''update''"

definition permission_actions :: "string list" where
  "permission_actions =
     [ACTION_ALL, ACTION_CREATE, ''delete'', ACTION_EXECUTE, ''read'', ACTION_START, ACTION_UPDATE]"

lemmas action_defs = ACTION_ALL_def ACTION_CREATE_def ACTION_EXECUTE_def ACTION_START_def
  ACTION_UPDATE_def

definition PERMIT :: string where "PERMIT = ''permit''"
definition DENY :: string where "DENY = ''deny''"

definition ROLE_USER :: string where "ROLE_USER = ''user''"
definition ROLE_MANAGER :: string where "ROLE_MANAGER = ''manager''"
definition ROLE_ADMIN :: string where "ROLE_ADMIN = ''admin''"

definition BASIC_ROLE_NAMES :: "string list" where
  "BASIC_ROLE_NAMES = [ROLE_USER, ROLE_MANAGER, ROLE_ADMIN]"

definition V1_BASIC_ROLE_COMMAND_KEYS :: "(string \<times> string list) list" where
  "V1_BASIC_ROLE_COMMAND_KEYS =
    [(ROLE_USER, [PROCESS_START_COMMAND, TASK_CLAIM_COMMAND, TASK_COMPLETE_COMMAND]),
     (ROLE_MANAGER, [TASK_CLAIM_COMMAND, TASK_COMPLETE_COMMAND]),
     (ROLE_ADMIN, [PROCESS_START_COMMAND, TASK_CLAIM_COMMAND, TASK_COMPLETE_COMMAND,
        PROCESS_DEFINITION_IMPORT_COMMAND, PROCESS_SUSPEND_COMMAND, PROCESS_RESUME_COMMAND,
        PROCESS_RETRY_COMMAND, PROCESS_TERMINATE_COMMAND])]"

section \<open>Command specifications\<close>

record command_authorization_spec =
  spec_command_key :: string
  spec_permission :: string
  spec_resource_type :: string
  spec_actor_field_name :: "string option"

definition mk_spec :: "string \<Rightarrow> string \<Rightarrow> string \<Rightarrow> string option \<Rightarrow> command_authorization_spec" where
  "mk_spec k p r a = \<lparr>spec_command_key = k, spec_permission = p, spec_resource_type = r,
     spec_actor_field_name = a\<rparr>"

text \<open>\<^verbatim>\<open>type(command)\<close>, as the name of the dataclass.\<close>

fun command_type :: "command \<Rightarrow> string" where
  "command_type (ClaimTaskCommand _ _ _) = ''ClaimTaskCommand''"
| "command_type (CompleteTaskCommand _ _ _ _ _) = ''CompleteTaskCommand''"
| "command_type (RecordProcessInstanceEventCommand _ _ _ _ _ _) = ''RecordProcessInstanceEventCommand''"
| "command_type (CreateProcessInstanceCommand _ _ _ _ _ _ _ _ _ _) = ''CreateProcessInstanceCommand''"
| "command_type (ImportBpmnProcessDefinitionCommand _ _ _ _ _ _ _ _ _ _ _ _) = ''ImportBpmnProcessDefinitionCommand''"
| "command_type (InitializeProcessInstanceFromDefinitionCommand _ _ _ _ _ _ _ _ _) =
     ''InitializeProcessInstanceFromDefinitionCommand''"
| "command_type (InitializeProcessInstanceWorkflowCommand _ _ _ _ _ _ _) = ''InitializeProcessInstanceWorkflowCommand''"
| "command_type (UpsertProcessInstanceMetadataCommand _ _ _ _ _ _) = ''UpsertProcessInstanceMetadataCommand''"
| "command_type (SuspendProcessInstanceCommand _ _ _ _) = ''SuspendProcessInstanceCommand''"
| "command_type (ResumeProcessInstanceCommand _ _ _ _) = ''ResumeProcessInstanceCommand''"
| "command_type (ErrorProcessInstanceCommand _ _ _ _) = ''ErrorProcessInstanceCommand''"
| "command_type (RetryProcessInstanceCommand _ _ _ _) = ''RetryProcessInstanceCommand''"
| "command_type (ScheduleProcessInstanceRetryCommand _ _ _ _ _) = ''ScheduleProcessInstanceRetryCommand''"
| "command_type (TerminateProcessInstanceCommand _ _ _ _) = ''TerminateProcessInstanceCommand''"

text \<open>The one table of specifications, keyed by the type of the command.\<close>

definition COMMAND_AUTHORIZATION_SPECS :: "(string \<times> command_authorization_spec) list" where
  "COMMAND_AUTHORIZATION_SPECS =
    [(''ClaimTaskCommand'',
        mk_spec TASK_CLAIM_COMMAND ACTION_EXECUTE RESOURCE_TASK (Some ''user_id'')),
     (''CompleteTaskCommand'',
        mk_spec TASK_COMPLETE_COMMAND ACTION_EXECUTE RESOURCE_TASK (Some ''user_id'')),
     (''CreateProcessInstanceCommand'',
        mk_spec PROCESS_CREATE_COMMAND ACTION_CREATE RESOURCE_PROCESS_INSTANCE
          (Some ''process_initiator_id'')),
     (''ImportBpmnProcessDefinitionCommand'',
        mk_spec PROCESS_DEFINITION_IMPORT_COMMAND ACTION_CREATE RESOURCE_PROCESS_DEFINITION
          (Some ''user_id'')),
     (''InitializeProcessInstanceFromDefinitionCommand'',
        mk_spec PROCESS_START_COMMAND ACTION_START RESOURCE_PROCESS_MODEL
          (Some ''process_initiator_id'')),
     (''InitializeProcessInstanceWorkflowCommand'',
        mk_spec PROCESS_WORKFLOW_INITIALIZE_COMMAND ACTION_EXECUTE RESOURCE_PROCESS_INSTANCE None),
     (''UpsertProcessInstanceMetadataCommand'',
        mk_spec PROCESS_METADATA_UPSERT_COMMAND ACTION_UPDATE RESOURCE_PROCESS_INSTANCE None),
     (''RecordProcessInstanceEventCommand'',
        mk_spec PROCESS_EVENT_RECORD_COMMAND ACTION_CREATE RESOURCE_PROCESS_INSTANCE (Some ''user_id'')),
     (''SuspendProcessInstanceCommand'',
        mk_spec PROCESS_SUSPEND_COMMAND ACTION_EXECUTE RESOURCE_PROCESS_INSTANCE (Some ''user_id'')),
     (''ResumeProcessInstanceCommand'',
        mk_spec PROCESS_RESUME_COMMAND ACTION_EXECUTE RESOURCE_PROCESS_INSTANCE (Some ''user_id'')),
     (''ErrorProcessInstanceCommand'',
        mk_spec PROCESS_ERROR_COMMAND ACTION_EXECUTE RESOURCE_PROCESS_INSTANCE (Some ''user_id'')),
     (''RetryProcessInstanceCommand'',
        mk_spec PROCESS_RETRY_COMMAND ACTION_EXECUTE RESOURCE_PROCESS_INSTANCE (Some ''user_id'')),
     (''ScheduleProcessInstanceRetryCommand'',
        mk_spec PROCESS_RETRY_COMMAND ACTION_EXECUTE RESOURCE_PROCESS_INSTANCE (Some ''user_id'')),
     (''TerminateProcessInstanceCommand'',
        mk_spec PROCESS_TERMINATE_COMMAND ACTION_EXECUTE RESOURCE_PROCESS_INSTANCE (Some ''user_id''))]"

definition authorization_spec_for_command :: "command \<Rightarrow> m8f_error + command_authorization_spec" where
  "authorization_spec_for_command c =
     (case map_of COMMAND_AUTHORIZATION_SPECS (command_type c) of
        None \<Rightarrow> Inl (Err Py_TypeError (R_auth UnsupportedCommandType))
      | Some sp \<Rightarrow> Inr sp)"

text \<open>
  \<^verbatim>\<open>getattr(command, name)\<close> for the names of the user fields of the dataclasses; the fields hold an
  \<^verbatim>\<open>int\<close>, or \<^verbatim>\<open>None\<close> where the dataclass allows it, and another name is an \<^verbatim>\<open>AttributeError\<close>.
\<close>

fun user_attributes :: "command \<Rightarrow> (string \<times> int option) list" where
  "user_attributes (ClaimTaskCommand _ _ u) = [(''user_id'', Some u)]"
| "user_attributes (CompleteTaskCommand _ _ u _ _) = [(''user_id'', Some u)]"
| "user_attributes (RecordProcessInstanceEventCommand _ _ _ _ u _) = [(''user_id'', u)]"
| "user_attributes (CreateProcessInstanceCommand _ _ _ u _ _ _ _ _ _) = [(''process_initiator_id'', Some u)]"
| "user_attributes (ImportBpmnProcessDefinitionCommand _ _ u _ _ _ _ _ _ _ _ _) = [(''user_id'', Some u)]"
| "user_attributes (InitializeProcessInstanceFromDefinitionCommand _ _ u _ _ _ _ _ _) =
     [(''process_initiator_id'', Some u)]"
| "user_attributes (SuspendProcessInstanceCommand _ _ u _) = [(''user_id'', Some u)]"
| "user_attributes (ResumeProcessInstanceCommand _ _ u _) = [(''user_id'', Some u)]"
| "user_attributes (ErrorProcessInstanceCommand _ _ u _) = [(''user_id'', u)]"
| "user_attributes (RetryProcessInstanceCommand _ _ u _) = [(''user_id'', Some u)]"
| "user_attributes (ScheduleProcessInstanceRetryCommand _ _ u _ _) = [(''user_id'', Some u)]"
| "user_attributes (TerminateProcessInstanceCommand _ _ u _) = [(''user_id'', Some u)]"
| "user_attributes _ = []"

definition actor_user_id_from_command :: "command \<Rightarrow> m8f_error + int option" where
  "actor_user_id_from_command c =
     rbind (authorization_spec_for_command c) (\<lambda>sp.
       case spec_actor_field_name sp of
         None \<Rightarrow> Inr None
       | Some name \<Rightarrow>
           (case map_of (user_attributes c) name of
              None \<Rightarrow> Inl (Err Py_AttributeError (R_auth (UnknownField name)))
            | Some u \<Rightarrow> Inr u))"

text \<open>The dictionary comprehension \<^verbatim>\<open>COMMAND_AUTHORIZATION_SPECS_BY_KEY\<close>: a later entry replaces an
  earlier one with the same key.\<close>

definition authorization_spec_for_command_key ::
  "string \<Rightarrow> m8f_error + command_authorization_spec" where
  "authorization_spec_for_command_key key =
     (case map_of (map (\<lambda>(_, sp). (spec_command_key sp, sp)) (rev COMMAND_AUTHORIZATION_SPECS)) key of
        None \<Rightarrow> Inl (Err Py_KeyError (R_auth (UnknownCommandKey key)))
      | Some sp \<Rightarrow> Inr sp)"

section \<open>Requests, decisions and the policy hook\<close>

datatype id_arg = Id_int int | Id_str string

fun py_str :: "id_arg \<Rightarrow> string" where
  "py_str (Id_int i) = str_of_int i"
| "py_str (Id_str s) = s"

record authorization_request =
  req_tenant_id :: string
  req_actor_user_id :: int
  req_command_key :: string
  req_permission :: string
  req_resource_type :: string
  req_resource_id :: string
  req_metadata :: "(string \<times> pyval) list option"

datatype authorization_decision = Decision (allowed: bool) (decision_reason: "string option")

type_synonym policy = "authorization_request \<Rightarrow> authorization_decision svc"

record policy_context =
  active_policy :: "policy option"
  default_policy :: policy

text \<open>\<^verbatim>\<open>x or y\<close> for an optional string: the empty string counts as absent.\<close>

definition str_or :: "string option \<Rightarrow> string \<Rightarrow> string" where
  "str_or v w = (case v of None \<Rightarrow> w | Some s \<Rightarrow> if s = [] then w else s)"

definition permission_resource_type :: "string \<Rightarrow> m8f_error + string" where
  "permission_resource_type v =
     (if v \<in> set permission_resource_types then Inr v
      else Inl (Err Py_ValueError (R_auth (UnknownResourceType v))))"

definition build_authorization_request ::
  "string \<Rightarrow> int \<Rightarrow> string \<Rightarrow> string option \<Rightarrow> string option \<Rightarrow> id_arg option \<Rightarrow>
   (string \<times> pyval) list option \<Rightarrow> m8f_error + authorization_request" where
  "build_authorization_request tenant actor key permission resource_type resource_id metadata =
     (case authorization_spec_for_command_key key of
        Inl e \<Rightarrow> Inl e
      | Inr sp \<Rightarrow>
          (case permission_resource_type (str_or resource_type (spec_resource_type sp)) of
             Inl e \<Rightarrow> Inl e
           | Inr rt \<Rightarrow> Inr
               \<lparr>req_tenant_id = tenant, req_actor_user_id = actor, req_command_key = key,
                req_permission = str_or permission (spec_permission sp),
                req_resource_type = rt,
                req_resource_id = (case resource_id of None \<Rightarrow> tenant | Some i \<Rightarrow> py_str i),
                req_metadata = metadata\<rparr>))"

definition resolve_authorization_policy :: "policy_context \<Rightarrow> policy option \<Rightarrow> policy" where
  "resolve_authorization_policy ctx explicit =
     (case explicit of
        Some p \<Rightarrow> p
      | None \<Rightarrow> (case active_policy ctx of Some p \<Rightarrow> p | None \<Rightarrow> default_policy ctx))"

definition set_default_authorization_policy_factory ::
  "policy \<Rightarrow> policy_context \<Rightarrow> policy_context" where
  "set_default_authorization_policy_factory p ctx = ctx\<lparr>default_policy := p\<rparr>"

text \<open>
  \<^verbatim>\<open>authorization_policy_scope\<close>: the body runs with the policy active, and the previous active policy
  is restored however the body ends.
\<close>

definition authorization_policy_scope ::
  "policy \<Rightarrow> (policy_context \<Rightarrow> 'a \<times> policy_context) \<Rightarrow> policy_context \<Rightarrow> 'a \<times> policy_context" where
  "authorization_policy_scope p body ctx =
     (case body (ctx\<lparr>active_policy := Some p\<rparr>) of
        (r, ctx') \<Rightarrow> (r, ctx'\<lparr>active_policy := active_policy ctx\<rparr>))"

definition require_command_authorization ::
  "policy_context \<Rightarrow> string \<Rightarrow> int \<Rightarrow> string \<Rightarrow> string option \<Rightarrow> id_arg option \<Rightarrow>
   (string \<times> pyval) list option \<Rightarrow> unit svc" where
  "require_command_authorization ctx tenant actor key resource_type resource_id metadata =
     bnd (lift_result
       (build_authorization_request tenant actor key None resource_type resource_id metadata)) (\<lambda>req.
     bnd (resolve_authorization_policy ctx None req) (\<lambda>dec.
       if allowed dec then ret ()
       else raise (Err AuthorizationError (R_auth (NotAuthorized actor key tenant)))))"


section \<open>The database policy\<close>

definition group_identifier_applies_to_tenant :: "string option \<Rightarrow> string set \<Rightarrow> bool" where
  "group_identifier_applies_to_tenant group_identifier ids =
     (case group_identifier of
        None \<Rightarrow> False
      | Some g \<Rightarrow>
          (let normalized = py_strip g in
           if normalized = [] then False
           else (case partition_on (CHR '':'') normalized of
                   (tenant_prefix, separator, rest) \<Rightarrow>
                     if \<not> separator then True else tenant_prefix \<in> ids)))"

definition tenant_role_group_identifier :: "string \<Rightarrow> string \<Rightarrow> string" where
  "tenant_role_group_identifier tenant role = py_strip tenant @ '':'' @ py_strip role"

text \<open>The join of principals, groups and memberships, then the filter on the group's identifier.\<close>

definition group_principal_ids :: "int \<Rightarrow> string set \<Rightarrow> db \<Rightarrow> int list" where
  "group_principal_ids uid ids d =
     [pri_id p. p \<leftarrow> d_principals d, g \<leftarrow> d_groups d, a \<leftarrow> d_user_groups d,
        pri_group_id p = Some (grp_id g) \<and> uga_group_id a = grp_id g \<and> uga_user_id a = uid
        \<and> group_identifier_applies_to_tenant (grp_identifier g) ids]"

definition principal_ids_for_user :: "int \<Rightarrow> string set \<Rightarrow> db \<Rightarrow> int list" where
  "principal_ids_for_user uid ids d =
     [pri_id p. p \<leftarrow> d_principals d,
        pri_user_id p = Some uid \<or> pri_id p \<in> set (group_principal_ids uid ids d)]"

definition permission_assignments_for_user ::
  "int \<Rightarrow> string set \<Rightarrow> db \<Rightarrow> permission_assignment_row list" where
  "permission_assignments_for_user uid ids d =
     filter (\<lambda>a. pa_principal_id a \<in> set (principal_ids_for_user uid ids d)) (d_assignments d)"

definition normalize_resource_component :: "string option \<Rightarrow> string option" where
  "normalize_resource_component v = nonblank v"

definition permission_target_of :: "permission_assignment_row \<Rightarrow> db \<Rightarrow> permission_target_row option" where
  "permission_target_of a d = find (\<lambda>t. pt_id t = pa_permission_target_id a) (d_targets d)"

definition permission_assignment_matches_request ::
  "permission_assignment_row \<Rightarrow> permission_target_row option \<Rightarrow> authorization_request \<Rightarrow> bool" where
  "permission_assignment_matches_request a target req =
     (case target of
        None \<Rightarrow> False
      | Some t \<Rightarrow>
          if pa_permission a \<notin> {req_permission req, ACTION_ALL} then False
          else if pt_command t \<noteq> None \<and> pt_command t \<noteq> Some (req_command_key req) then False
          else
            (let target_type = normalize_resource_component (Some (pt_resource_type t));
                 target_id = normalize_resource_component (pt_resource_id t);
                 request_type = normalize_resource_component (Some (req_resource_type req));
                 request_id = normalize_resource_component (Some (req_resource_id req)) in
             if target_type = None \<or> request_type = None then False
             else if target_type = Some RESOURCE_TENANT
             then target_id = None \<or> target_id = Some (req_tenant_id req)
             else if target_type \<noteq> request_type then False
             else target_id = None \<or> target_id = request_id))"

definition matching_assignments ::
  "int \<Rightarrow> authorization_request \<Rightarrow> db \<Rightarrow> permission_assignment_row list" where
  "matching_assignments uid req d =
     filter (\<lambda>a. permission_assignment_matches_request a (permission_target_of a d) req)
       (permission_assignments_for_user uid (tenant_identifiers_for (req_tenant_id req) d) d)"

definition DatabaseAuthorizationPolicy_authorize :: policy where
  "DatabaseAuthorizationPolicy_authorize req =
     bnd (gets (get_user (req_actor_user_id req))) (\<lambda>user.
       case user of
         None \<Rightarrow> raise (Err NotFoundError (R_lookup (UserNotFound (req_actor_user_id req))))
       | Some u \<Rightarrow>
           bnd (gets (matching_assignments (usr_id u) req)) (\<lambda>matching.
             if list_ex (\<lambda>a. pa_grant_type a = DENY) matching
             then ret (Decision False (Some (''A deny permission matched '' @ req_command_key req
                    @ '' on '' @ req_resource_type req @ '':'' @ req_resource_id req)))
             else if list_ex (\<lambda>a. pa_grant_type a = PERMIT) matching
             then ret (Decision True None)
             else ret (Decision False (Some (''No matching permission grant was found for ''
                    @ req_command_key req @ '' on '' @ req_resource_type req @ '':''
                    @ req_resource_id req)))))"

text \<open>The context of a process that has installed nothing: the database policy decides.\<close>

definition initial_policy_context :: policy_context where
  "initial_policy_context =
     \<lparr>active_policy = None, default_policy = DatabaseAuthorizationPolicy_authorize\<rparr>"

section \<open>Groups, principals, targets and grants\<close>

text \<open>
  \<^verbatim>\<open>_get_or_create\<close>: look the row up; otherwise insert it unless a row with the same unique columns
  exists (\<open>conflict\<close>), and look it up again. \<open>violates\<close> says that the values break a constraint that
  is not a uniqueness constraint, which the conflict clause does not cover. The table is given by
  its reader and its writer, a new row by a function of its primary key.
\<close>

definition insert_on_conflict_do_nothing ::
  "(db \<Rightarrow> 'r list) \<Rightarrow> ('r list \<Rightarrow> db \<Rightarrow> db) \<Rightarrow> ('r \<Rightarrow> int) \<Rightarrow> ('r \<Rightarrow> bool) \<Rightarrow> (int \<Rightarrow> 'r) \<Rightarrow>
   bool \<Rightarrow> unit svc" where
  "insert_on_conflict_do_nothing rows put key conflict mk violates =
     (if violates then raise (Err Sa_IntegrityError (R_auth CommandColumnNotNull))
      else modify (\<lambda>d. if exists_row conflict (rows d) then d
                       else put (rows d @ [mk (fresh_id key (rows d))]) d))"

definition get_or_create ::
  "(db \<Rightarrow> 'r list) \<Rightarrow> ('r list \<Rightarrow> db \<Rightarrow> db) \<Rightarrow> ('r \<Rightarrow> int) \<Rightarrow> ('r \<Rightarrow> bool) \<Rightarrow> ('r \<Rightarrow> bool) \<Rightarrow>
   (int \<Rightarrow> 'r) \<Rightarrow> bool \<Rightarrow> 'r svc" where
  "get_or_create rows put key lookup conflict mk violates =
     bnd (gets (\<lambda>d. find lookup (rows d))) (\<lambda>existing.
       case existing of
         Some r \<Rightarrow> ret r
       | None \<Rightarrow>
           thn (insert_on_conflict_do_nothing rows put key conflict mk violates)
             (bnd (gets (\<lambda>d. find lookup (rows d))) (\<lambda>reloaded.
                case reloaded of
                  Some r \<Rightarrow> ret r
                | None \<Rightarrow> raise (Err Py_RuntimeError (R_auth CannotCreateRow)))))"

definition put_groups :: "group_row list \<Rightarrow> db \<Rightarrow> db" where
  "put_groups rs d = d\<lparr>d_groups := rs\<rparr>"
definition put_user_groups :: "user_group_row list \<Rightarrow> db \<Rightarrow> db" where
  "put_user_groups rs d = d\<lparr>d_user_groups := rs\<rparr>"
definition put_principals :: "principal_row list \<Rightarrow> db \<Rightarrow> db" where
  "put_principals rs d = d\<lparr>d_principals := rs\<rparr>"
definition put_targets :: "permission_target_row list \<Rightarrow> db \<Rightarrow> db" where
  "put_targets rs d = d\<lparr>d_targets := rs\<rparr>"
definition put_assignments :: "permission_assignment_row list \<Rightarrow> db \<Rightarrow> db" where
  "put_assignments rs d = d\<lparr>d_assignments := rs\<rparr>"

lemmas put_defs = put_groups_def put_user_groups_def put_principals_def put_targets_def
  put_assignments_def

definition authorization_key_for :: "string \<Rightarrow> string" where
  "authorization_key_for identifier = ''authorization:'' @ identifier"

definition find_or_create_group :: "string \<Rightarrow> string option \<Rightarrow> group_row svc" where
  "find_or_create_group identifier name =
     bnd (gets (\<lambda>d. find (\<lambda>g. grp_identifier g = Some identifier) (d_groups d))) (\<lambda>existing.
       case existing of
         Some g \<Rightarrow> ret g
       | None \<Rightarrow>
           (let k = authorization_key_for identifier in
            get_or_create d_groups put_groups grp_id
              (\<lambda>g. grp_authorization_key g = Some k) (\<lambda>g. grp_authorization_key g = Some k)
              (\<lambda>i. \<lparr>grp_id = i, grp_name = Some (str_or name identifier),
                     grp_identifier = Some identifier, grp_authorization_key = Some k\<rparr>) False))"

definition add_user_to_group :: "int \<Rightarrow> string \<Rightarrow> string option \<Rightarrow> user_group_row svc" where
  "add_user_to_group uid group_identifier group_name =
     bnd (find_or_create_group group_identifier group_name) (\<lambda>g.
       (let same = (\<lambda>a. uga_user_id a = uid \<and> uga_group_id a = grp_id g) in
        get_or_create d_user_groups put_user_groups uga_id same same
          (\<lambda>i. \<lparr>uga_id = i, uga_user_id = uid, uga_group_id = grp_id g\<rparr>) False))"

definition find_or_create_principal_for_user :: "int \<Rightarrow> principal_row svc" where
  "find_or_create_principal_for_user uid =
     (let same = (\<lambda>p. pri_user_id p = Some uid) in
      get_or_create d_principals put_principals pri_id same same
        (\<lambda>i. \<lparr>pri_id = i, pri_user_id = Some uid, pri_group_id = None\<rparr>) False)"

definition find_or_create_principal_for_group :: "int \<Rightarrow> principal_row svc" where
  "find_or_create_principal_for_group gid =
     (let same = (\<lambda>p. pri_group_id p = Some gid) in
      get_or_create d_principals put_principals pri_id same same
        (\<lambda>i. \<lparr>pri_id = i, pri_user_id = None, pri_group_id = Some gid\<rparr>) False)"

text \<open>
  The unique key of a target has no conflict on a null identifier or a null command; the column
  \<^verbatim>\<open>command\<close> is not nullable.
\<close>

definition find_or_create_permission_target ::
  "string option \<Rightarrow> string \<Rightarrow> id_arg option \<Rightarrow> permission_target_row svc" where
  "find_or_create_permission_target command resource_type resource_id =
     bnd (lift_result (permission_resource_type (py_strip resource_type))) (\<lambda>rt.
       (let rid = map_option (\<lambda>i. py_strip (py_str i)) resource_id;
            cmd = nonblank command in
        if rid = Some []
        then raise (Err InvalidPermissionTargetError (R_auth BlankResourceId))
        else get_or_create d_targets put_targets pt_id
               (\<lambda>t. pt_resource_type t = rt \<and> pt_resource_id t = rid \<and> pt_command t = cmd)
               (\<lambda>t. pt_resource_type t = rt \<and> pt_resource_id t = rid \<and> pt_command t = cmd
                    \<and> rid \<noteq> None \<and> cmd \<noteq> None)
               (\<lambda>i. \<lparr>pt_id = i, pt_command = cmd, pt_resource_type = rt, pt_resource_id = rid\<rparr>)
               (cmd = None)))"

text \<open>
  An inserted assignment takes the grant type as given; a change of an existing one goes through
  the column's validator.
\<close>

definition find_or_create_permission_assignment ::
  "int \<Rightarrow> int \<Rightarrow> string \<Rightarrow> string \<Rightarrow> permission_assignment_row svc" where
  "find_or_create_permission_assignment principal_id target_id permission grant_type =
     (let same = (\<lambda>a. pa_principal_id a = principal_id \<and> pa_permission_target_id a = target_id
                     \<and> pa_permission a = permission) in
      bnd (get_or_create d_assignments put_assignments pa_id same same
        (\<lambda>i. \<lparr>pa_id = i, pa_principal_id = principal_id, pa_permission_target_id = target_id,
               pa_grant_type = grant_type, pa_permission = permission\<rparr>) False) (\<lambda>a.
        if pa_grant_type a = grant_type then ret a
        else if grant_type \<notin> {PERMIT, DENY}
        then raise (Err Py_ValueError (R_auth (UnknownGrantType grant_type)))
        else thn (modify (\<lambda>d. d\<lparr>d_assignments :=
                    update_where (\<lambda>r. pa_id r = pa_id a) (\<lambda>r. r\<lparr>pa_grant_type := grant_type\<rparr>)
                      (d_assignments d)\<rparr>))
               (ret (a\<lparr>pa_grant_type := grant_type\<rparr>))))"

definition grant_permission_to_group ::
  "string \<Rightarrow> string \<Rightarrow> string option \<Rightarrow> string \<Rightarrow> id_arg option \<Rightarrow> string \<Rightarrow> string option \<Rightarrow>
   permission_assignment_row svc" where
  "grant_permission_to_group group_identifier permission command resource_type resource_id
      grant_type group_name =
     bnd (find_or_create_group group_identifier group_name) (\<lambda>g.
     bnd (find_or_create_principal_for_group (grp_id g)) (\<lambda>p.
     bnd (find_or_create_permission_target command resource_type resource_id) (\<lambda>t.
       find_or_create_permission_assignment (pri_id p) (pt_id t) permission grant_type)))"

definition grant_permission_to_user ::
  "int \<Rightarrow> string \<Rightarrow> string option \<Rightarrow> string \<Rightarrow> id_arg option \<Rightarrow> string \<Rightarrow>
   permission_assignment_row svc" where
  "grant_permission_to_user uid permission command resource_type resource_id grant_type =
     bnd (find_or_create_principal_for_user uid) (\<lambda>p.
     bnd (find_or_create_permission_target command resource_type resource_id) (\<lambda>t.
       find_or_create_permission_assignment (pri_id p) (pt_id t) permission grant_type))"

definition grant_command_permissions_to_group ::
  "string \<Rightarrow> string list \<Rightarrow> string \<Rightarrow> string option \<Rightarrow> permission_assignment_row list svc" where
  "grant_command_permissions_to_group group_identifier command_keys grant_type group_name =
     map_M (\<lambda>key.
       bnd (lift_result (authorization_spec_for_command_key key)) (\<lambda>sp.
         grant_permission_to_group group_identifier (spec_permission sp)
           (Some (spec_command_key sp)) RESOURCE_TENANT
           (Some (Id_str (fst (partition_on (CHR '':'') group_identifier)))) grant_type group_name))
       command_keys"

definition ensure_v1_role :: "string \<Rightarrow> string \<Rightarrow> int list \<Rightarrow> group_row svc" where
  "ensure_v1_role tenant role user_ids =
     (if role \<notin> set BASIC_ROLE_NAMES then raise (Err Py_KeyError (R_auth (UnknownV1Role role)))
      else
      case map_of V1_BASIC_ROLE_COMMAND_KEYS role of
        None \<Rightarrow> raise (Err Py_KeyError (R_auth (UnknownV1Role role)))
      | Some keys \<Rightarrow>
          (let identifier = tenant_role_group_identifier tenant role in
           bnd (find_or_create_group identifier (Some role)) (\<lambda>g.
             thn (for_each (\<lambda>uid.
                    bnd (add_user_to_group uid identifier (Some role)) (\<lambda>_. ret ())) user_ids)
               (bnd (grant_command_permissions_to_group identifier keys PERMIT (Some role)) (\<lambda>_.
                  ret g)))))"

section \<open>Tables as the helpers use them\<close>

text \<open>
  The laws of \<open>get_or_create\<close> on a table. Every table it is used on is an interpretation.
\<close>

locale auth_table = table rows put key
  for rows :: "db \<Rightarrow> 'r list"
    and put :: "'r list \<Rightarrow> db \<Rightarrow> db"
    and key :: "'r \<Rightarrow> int"
begin

definition fits :: "('r \<Rightarrow> bool) \<Rightarrow> ('r \<Rightarrow> bool) \<Rightarrow> (int \<Rightarrow> 'r) \<Rightarrow> bool" where
  "fits lookup conflict mk \<longleftrightarrow> (\<forall>i. lookup (mk i)) \<and> (\<forall>r. conflict r \<longrightarrow> lookup r)"

lemma fitsI: "(\<And>i. lookup (mk i)) \<Longrightarrow> (\<And>r. conflict r \<Longrightarrow> lookup r) \<Longrightarrow> fits lookup conflict mk"
  by (simp add: fits_def)

lemma goc_run:
  assumes "fits lookup conflict mk"
  shows "get_or_create rows put key lookup conflict mk violates d =
    (case find lookup (rows d) of
       Some r \<Rightarrow> (Inr r, d)
     | None \<Rightarrow>
         if violates then (Inl (Err Sa_IntegrityError (R_auth CommandColumnNotNull)), d)
         else (Inr (mk (fresh_id key (rows d))), put (rows d @ [mk (fresh_id key (rows d))]) d))"
proof (cases "find lookup (rows d)")
  case None
  then have "\<not> exists_row conflict (rows d)"
    using assms by (auto simp: fits_def exists_row_def list_ex_iff find_None_iff)
  with None assms show ?thesis
    by (simp add: get_or_create_def insert_on_conflict_do_nothing_def comp_defs rows_put find_append
        fits_def)
qed (simp add: get_or_create_def comp_defs)

lemma goc_result:
  assumes "fits lookup conflict mk"
    and "get_or_create rows put key lookup conflict mk violates d = (Inr r, d')"
  shows "lookup r \<and> r \<in> set (rows d') \<and> find lookup (rows d') = Some r"
  using assms(2) unfolding goc_run [OF assms(1)]
  by (auto split: option.splits if_splits dest: find_SomeD
      simp: rows_put find_append assms(1) [unfolded fits_def])

lemma goc_state:
  assumes "fits lookup conflict mk"
  shows "snd (get_or_create rows put key lookup conflict mk violates d) = d
    \<or> snd (get_or_create rows put key lookup conflict mk violates d)
        = put (rows d @ [mk (fresh_id key (rows d))]) d"
  unfolding goc_run [OF assms] by (auto split: option.splits)

lemma goc_rel:
  assumes "fits lookup conflict mk" and "R d d"
    and "R d (put (rows d @ [mk (fresh_id key (rows d))]) d)"
  shows "R d (snd (get_or_create rows put key lookup conflict mk violates d))"
  using goc_state [OF assms(1), of violates d] assms(2,3) by auto

lemma goc_returns:
  assumes "fits lookup conflict mk"
  shows "\<exists>r d'. get_or_create rows put key lookup conflict mk False d = (Inr r, d')"
  unfolding goc_run [OF assms] by (auto split: option.splits)

lemma goc_again:
  assumes "fits lookup conflict mk"
    and "get_or_create rows put key lookup conflict mk violates d = (Inr r, d')"
  shows "get_or_create rows put key lookup conflict mk violates d' = (Inr r, d')"
  using goc_result [OF assms] goc_run [OF assms(1)] by simp

end

interpretation groups: auth_table d_groups put_groups grp_id
  by unfold_locales (simp add: put_defs)

interpretation user_groups: auth_table d_user_groups put_user_groups uga_id
  by unfold_locales (simp add: put_defs)

interpretation principals: auth_table d_principals put_principals pri_id
  by unfold_locales (simp add: put_defs)

interpretation targets: auth_table d_targets put_targets pt_id
  by unfold_locales (simp add: put_defs)

interpretation assignments: auth_table d_assignments put_assignments pa_id
  by unfold_locales (simp add: put_defs)

section \<open>What the database policy decides\<close>

text \<open>
  The specification: a principal id is held by a user directly, or through a membership in a group
  whose identifier applies to the tenant.
\<close>

definition holds_principal :: "int \<Rightarrow> string set \<Rightarrow> int \<Rightarrow> db \<Rightarrow> bool" where
  "holds_principal uid ids pid d \<longleftrightarrow>
     (\<exists>p \<in> set (d_principals d). pri_id p = pid \<and>
        (pri_user_id p = Some uid \<or>
         (\<exists>g \<in> set (d_groups d). \<exists>m \<in> set (d_user_groups d).
            pri_group_id p = Some (grp_id g) \<and> uga_group_id m = grp_id g \<and> uga_user_id m = uid \<and>
            group_identifier_applies_to_tenant (grp_identifier g) ids)))"

definition grant_applies :: "string \<Rightarrow> authorization_request \<Rightarrow> db \<Rightarrow> bool" where
  "grant_applies gt req d \<longleftrightarrow>
     (\<exists>a \<in> set (d_assignments d). pa_grant_type a = gt \<and>
        holds_principal (req_actor_user_id req) (tenant_identifiers_for (req_tenant_id req) d)
          (pa_principal_id a) d \<and>
        permission_assignment_matches_request a (permission_target_of a d) req)"

lemma in_group_principal_ids:
  "pid \<in> set (group_principal_ids uid ids d) \<longleftrightarrow>
     (\<exists>p \<in> set (d_principals d). pri_id p = pid \<and>
        (\<exists>g \<in> set (d_groups d). \<exists>m \<in> set (d_user_groups d).
            pri_group_id p = Some (grp_id g) \<and> uga_group_id m = grp_id g \<and> uga_user_id m = uid \<and>
            group_identifier_applies_to_tenant (grp_identifier g) ids))"
  by (auto simp: group_principal_ids_def)

lemma in_principal_ids_for_user:
  "pid \<in> set (principal_ids_for_user uid ids d) \<longleftrightarrow> holds_principal uid ids pid d"
  by (auto simp: principal_ids_for_user_def in_group_principal_ids holds_principal_def)

lemma matching_iff:
  "a \<in> set (matching_assignments uid req d) \<longleftrightarrow>
     a \<in> set (d_assignments d) \<and>
     holds_principal uid (tenant_identifiers_for (req_tenant_id req) d) (pa_principal_id a) d \<and>
     permission_assignment_matches_request a (permission_target_of a d) req"
  by (simp add: matching_assignments_def permission_assignments_for_user_def
      in_principal_ids_for_user)

lemma database_policy_run:
  assumes "get_user (req_actor_user_id req) d = Some u"
  shows "\<exists>why. DatabaseAuthorizationPolicy_authorize req d =
    (Inr (Decision (grant_applies PERMIT req d \<and> \<not> grant_applies DENY req d) why), d)"
proof -
  have id: "usr_id u = req_actor_user_id req" using assms by (rule get_user_id)
  have ex: "list_ex (\<lambda>a. pa_grant_type a = gt) (matching_assignments (usr_id u) req d)
      \<longleftrightarrow> grant_applies gt req d" for gt
    unfolding list_ex_iff Bex_def matching_iff grant_applies_def id by blast
  show ?thesis
    unfolding DatabaseAuthorizationPolicy_authorize_def comp_defs
    by (simp add: assms ex)
qed

lemma database_policy_unknown_user:
  assumes "get_user (req_actor_user_id req) d = None"
  shows "DatabaseAuthorizationPolicy_authorize req d =
    (Inl (Err NotFoundError (R_lookup (UserNotFound (req_actor_user_id req)))), d)"
  using assms by (simp add: DatabaseAuthorizationPolicy_authorize_def comp_defs)

lemma database_policy_read_only: "snd (DatabaseAuthorizationPolicy_authorize req d) = d"
proof (cases "get_user (req_actor_user_id req) d")
  case None
  then show ?thesis by (simp add: database_policy_unknown_user)
next
  case (Some u)
  then show ?thesis using database_policy_run by fastforce
qed

text \<open>C3: The database policy decides exactly by the grants: for a known user the request is allowed
  when some permit grant applies to it and no deny grant does (deny overrides permit, no grant is a
  refusal), and the decision changes nothing in the session.\<close>

theorem database_policy_exact:
  assumes "get_user (req_actor_user_id req) d = Some u"
  shows "\<exists>dec. DatabaseAuthorizationPolicy_authorize req d = (Inr dec, d) \<and>
    (allowed dec \<longleftrightarrow> grant_applies PERMIT req d \<and> \<not> grant_applies DENY req d)"
  using database_policy_run [OF assms] by fastforce

theorem database_policy_exact_witness:
  "\<exists>dec. DatabaseAuthorizationPolicy_authorize
      \<lparr>req_tenant_id = ''acme'', req_actor_user_id = 1, req_command_key = ''task.claim'',
       req_permission = ''execute'', req_resource_type = ''task'', req_resource_id = ''7'',
       req_metadata = None\<rparr>
      ((empty_db 0)\<lparr>d_users := [realm_user 1 ''acme'']\<rparr>) =
      (Inr dec, (empty_db 0)\<lparr>d_users := [realm_user 1 ''acme'']\<rparr>) \<and> \<not> allowed dec"
  using database_policy_exact [of "\<lparr>req_tenant_id = ''acme'', req_actor_user_id = 1,
       req_command_key = ''task.claim'', req_permission = ''execute'', req_resource_type = ''task'',
       req_resource_id = ''7'', req_metadata = None\<rparr>"
      "(empty_db 0)\<lparr>d_users := [realm_user 1 ''acme'']\<rparr>" "realm_user 1 ''acme''"]
  by (simp add: get_user_def realm_user_def empty_db_def grant_applies_def)

section \<open>Granting roles\<close>

text \<open>
  What a permitting helper may change: rows are only added to the tables of groups, memberships,
  principals and targets, no permit is lost, no deny appears, every other table stays.
\<close>

definition rows_granting :: "string \<Rightarrow> db \<Rightarrow> permission_assignment_row set" where
  "rows_granting gt d = {a \<in> set (d_assignments d). pa_grant_type a = gt}"

definition grant_frame :: "db \<Rightarrow> db \<Rightarrow> bool" where
  "grant_frame d d' \<longleftrightarrow>
     prefix (d_groups d) (d_groups d') \<and>
     prefix (d_user_groups d) (d_user_groups d') \<and>
     prefix (d_principals d) (d_principals d') \<and>
     prefix (d_targets d) (d_targets d') \<and>
     (distinct (map pt_id (d_targets d)) \<longrightarrow> distinct (map pt_id (d_targets d'))) \<and>
     rows_granting PERMIT d \<subseteq> rows_granting PERMIT d' \<and>
     rows_granting DENY d' \<subseteq> rows_granting DENY d \<and>
     d_users d' = d_users d \<and> d_tenants d' = d_tenants d"

interpretation grant: frame grant_frame
proof unfold_locales
  show "grant_frame s s" for s by (simp add: grant_frame_def)
  show "grant_frame s u" if "grant_frame s t" "grant_frame t u" for s t u
    using that unfolding grant_frame_def

    by (elim conjE, intro conjI) (erule (1) prefix_order.trans | erule (1) subset_trans | simp)+
qed

lemma PERMIT_DENY [simp]: "PERMIT \<noteq> DENY" "DENY \<noteq> PERMIT"
  by (simp_all add: PERMIT_def DENY_def)

lemma grant_frame_put:
  "grant_frame d (put_groups (d_groups d @ gs) d)"
  "grant_frame d (put_user_groups (d_user_groups d @ ms) d)"
  "grant_frame d (put_principals (d_principals d @ ps) d)"
  "pa_grant_type a \<noteq> DENY \<Longrightarrow> grant_frame d (put_assignments (d_assignments d @ [a]) d)"
  by (auto simp: grant_frame_def put_defs rows_granting_def)

lemma grant_frame_put_target:
  "pt_id (mk (fresh_id pt_id (d_targets d))) = fresh_id pt_id (d_targets d) \<Longrightarrow>
   grant_frame d (put_targets (d_targets d @ [mk (fresh_id pt_id (d_targets d))]) d)"
  using distinct_fresh [of pt_id "d_targets d" mk] by (auto simp: grant_frame_def put_defs rows_granting_def)

lemma find_or_create_group_keeps: "grant.keeps (find_or_create_group i n)"
  unfolding find_or_create_group_def Let_def
  by (intro grant.keeps_bnd grant.keeps_gets grant.keeps_option grant.keeps_ret grant.keepsI
      groups.goc_rel [where R = grant_frame] groups.fitsI grant.R_refl grant_frame_put) simp_all

lemma add_user_to_group_keeps: "grant.keeps (add_user_to_group u i n)"
  unfolding add_user_to_group_def Let_def
  by (rule grant.keeps_bnd [OF find_or_create_group_keeps],
      intro grant.keepsI user_groups.goc_rel [where R = grant_frame] user_groups.fitsI grant.R_refl grant_frame_put) simp_all

lemma principal_keeps: "grant.keeps (find_or_create_principal_for_group gid)"
  unfolding find_or_create_principal_for_group_def Let_def
  by (intro grant.keepsI principals.goc_rel [where R = grant_frame] principals.fitsI grant.R_refl grant_frame_put) simp_all

lemma target_keeps: "grant.keeps (find_or_create_permission_target c rt ri)"
  unfolding find_or_create_permission_target_def Let_def
  by (intro grant.keeps_bnd grant.keeps_lift grant.keeps_if grant.keeps_raise,
      intro grant.keepsI targets.goc_rel [where R = grant_frame] targets.fitsI grant.R_refl grant_frame_put_target) simp_all

lemma assignment_keeps: "grant.keeps (find_or_create_permission_assignment p t perm PERMIT)"
proof -
  have upd: "grant_frame d (d\<lparr>d_assignments := update_where (\<lambda>r. pa_id r = i)
      (\<lambda>r. r\<lparr>pa_grant_type := PERMIT\<rparr>) (d_assignments d)\<rparr>)" for d i
  proof -
    let ?d = "d\<lparr>d_assignments := update_where (\<lambda>r. pa_id r = i)
      (\<lambda>r. r\<lparr>pa_grant_type := PERMIT\<rparr>) (d_assignments d)\<rparr>"
    have "rows_granting PERMIT d \<subseteq> rows_granting PERMIT ?d"
      by (auto simp: rows_granting_def intro: update_where_unchanged)
    moreover have "rows_granting DENY ?d \<subseteq> rows_granting DENY d"
      by (auto simp: rows_granting_def set_update_where split: if_splits)
    ultimately show ?thesis by (simp add: grant_frame_def)
  qed
  show ?thesis
    unfolding find_or_create_permission_assignment_def Let_def
    by (intro grant.keeps_bnd grant.keeps_if grant.keeps_raise grant.keeps_ret grant.keeps_thn
        grant.keeps_modify upd, intro grant.keepsI assignments.goc_rel [where R = grant_frame] assignments.fitsI
        grant.R_refl grant_frame_put) simp_all
qed

text \<open>The group with an identifier, membership in it, and a permit it holds.\<close>

definition group_named :: "string \<Rightarrow> db \<Rightarrow> group_row option" where
  "group_named i d = find (\<lambda>g. grp_identifier g = Some i) (d_groups d)"

definition member_of :: "int \<Rightarrow> group_row \<Rightarrow> db \<Rightarrow> bool" where
  "member_of u g d \<longleftrightarrow> (\<exists>m \<in> set (d_user_groups d). uga_user_id m = u \<and> uga_group_id m = grp_id g)"

definition permits :: "group_row \<Rightarrow> string \<Rightarrow> string \<Rightarrow> string \<Rightarrow> string \<Rightarrow> db \<Rightarrow> bool" where
  "permits g perm cmd rt rid d \<longleftrightarrow>
     (\<exists>a \<in> rows_granting PERMIT d. \<exists>p \<in> set (d_principals d). \<exists>t.
        pri_group_id p = Some (grp_id g) \<and> pa_principal_id a = pri_id p \<and> pa_permission a = perm \<and>
        permission_target_of a d = Some t \<and> pt_command t = Some cmd \<and> pt_resource_type t = rt \<and>
        pt_resource_id t = Some rid)"

lemma group_named_mono: "grant_frame d d' \<Longrightarrow> group_named i d = Some g \<Longrightarrow> group_named i d' = Some g"
  unfolding group_named_def grant_frame_def by (elim conjE) (rule find_prefix)

lemma member_of_mono: "grant_frame d d' \<Longrightarrow> member_of u g d \<Longrightarrow> member_of u g d'"
  unfolding member_of_def grant_frame_def by (elim conjE) (meson set_mono_prefix subsetD)

lemma permits_mono:
  assumes "grant_frame d d'" "permits g perm cmd rt rid d"
  shows "permits g perm cmd rt rid d'"
proof -
  obtain a p t where a: "a \<in> rows_granting PERMIT d" "p \<in> set (d_principals d)"
    "pri_group_id p = Some (grp_id g)" "pa_principal_id a = pri_id p" "pa_permission a = perm"
    "permission_target_of a d = Some t" "pt_command t = Some cmd" "pt_resource_type t = rt"
    "pt_resource_id t = Some rid"
    using assms(2) unfolding permits_def by blast
  have "a \<in> rows_granting PERMIT d'" "p \<in> set (d_principals d')"
    using assms(1) a(1,2) set_mono_prefix unfolding grant_frame_def by blast+
  moreover have "permission_target_of a d' = Some t"
    using assms(1) a(6) unfolding permission_target_of_def grant_frame_def
    by (elim conjE) (rule find_prefix)
  ultimately show ?thesis using a unfolding permits_def by blast
qed

lemma find_or_create_group_found:
  "group_named i d = Some g \<Longrightarrow> find_or_create_group i n d = (Inr g, d)"
  by (simp add: find_or_create_group_def group_named_def comp_defs)

lemma find_or_create_group_effect:
  assumes "\<forall>g \<in> set (d_groups d). grp_authorization_key g = Some (authorization_key_for i)
             \<longrightarrow> grp_identifier g = Some i"
  shows "\<exists>g d'. find_or_create_group i n d = (Inr g, d') \<and> group_named i d' = Some g"
proof (cases "group_named i d")
  case (Some g)
  then show ?thesis using find_or_create_group_found by blast
next
  case None
  then have none: "find (\<lambda>g. grp_identifier g = Some i) (d_groups d) = None"
    "find (\<lambda>g. grp_authorization_key g = Some (authorization_key_for i)) (d_groups d) = None"
    using assms by (auto simp: group_named_def find_None_iff)
  then show ?thesis
    unfolding find_or_create_group_def Let_def
    by (simp add: comp_defs groups.goc_run [OF groups.fitsI] group_named_def put_defs find_append)
qed

lemma add_user_effect:
  assumes "group_named i d = Some g"
  shows "\<exists>m d'. add_user_to_group u i n d = (Inr m, d') \<and> member_of u g d'"
proof -
  let ?same = "\<lambda>a. uga_user_id a = u \<and> uga_group_id a = grp_id g"
  let ?mk = "\<lambda>j. \<lparr>uga_id = j, uga_user_id = u, uga_group_id = grp_id g\<rparr>"
  have fits: "user_groups.fits ?same ?same ?mk" by (rule user_groups.fitsI) simp_all
  obtain m d' where r: "get_or_create d_user_groups put_user_groups uga_id ?same ?same ?mk False d
      = (Inr m, d')" using user_groups.goc_returns [OF fits] by blast
  then have "add_user_to_group u i n d = (Inr m, d')"
    by (simp add: add_user_to_group_def bnd_def Let_def find_or_create_group_found [OF assms])
  moreover have "member_of u g d'"
    using user_groups.goc_result [OF fits r] by (auto simp: member_of_def)
  ultimately show ?thesis by blast
qed

lemma principal_effect:
  "\<exists>p d'. find_or_create_principal_for_group gid d = (Inr p, d') \<and> p \<in> set (d_principals d')
     \<and> pri_group_id p = Some gid"
proof -
  have fits: "principals.fits (\<lambda>p. pri_group_id p = Some gid) (\<lambda>p. pri_group_id p = Some gid)
      (\<lambda>i. \<lparr>pri_id = i, pri_user_id = None, pri_group_id = Some gid\<rparr>)"
    by (rule principals.fitsI) simp_all
  then show ?thesis
    unfolding find_or_create_principal_for_group_def Let_def
    using principals.goc_returns [OF fits, of d] principals.goc_result [OF fits] by blast
qed

lemma target_effect:
  assumes "permission_resource_type (py_strip rt) = Inr rt" and "nonblank (Some c) = Some c"
    and "py_strip r = r" "r \<noteq> []" and "distinct (map pt_id (d_targets d))"
  shows "\<exists>t d'. find_or_create_permission_target (Some c) rt (Some (Id_str r)) d = (Inr t, d') \<and>
    find (\<lambda>x. pt_id x = pt_id t) (d_targets d') = Some t \<and> pt_command t = Some c \<and>
    pt_resource_type t = rt \<and> pt_resource_id t = Some r"
proof -
  let ?look = "\<lambda>t. pt_resource_type t = rt \<and> pt_resource_id t = Some r \<and> pt_command t = Some c"
  let ?mk = "\<lambda>i. \<lparr>pt_id = i, pt_command = Some c, pt_resource_type = rt, pt_resource_id = Some r\<rparr>"
  have fits: "targets.fits ?look ?look ?mk" by (rule targets.fitsI) simp_all
  have eq: "find_or_create_permission_target (Some c) rt (Some (Id_str r)) =
      get_or_create d_targets put_targets pt_id ?look ?look ?mk False"
    using assms by (simp add: find_or_create_permission_target_def lift_result_def bnd_def Let_def fun_eq_iff)
  obtain t d' where r: "get_or_create d_targets put_targets pt_id ?look ?look ?mk False d = (Inr t, d')"
    using targets.goc_returns [OF fits] by blast
  have "grant_frame d d'"
    using grant.keepsD [OF target_keeps] r unfolding eq [symmetric] by blast
  then have "distinct (map pt_id (d_targets d'))" using assms(5) by (simp add: grant_frame_def)
  then show ?thesis
    using r targets.goc_result [OF fits r] find_unique [of pt_id "d_targets d'" t] unfolding eq by blast
qed

lemma assignment_effect:
  "\<exists>a d'. find_or_create_permission_assignment p t perm PERMIT d = (Inr a, d') \<and>
     a \<in> rows_granting PERMIT d' \<and> pa_principal_id a = p \<and> pa_permission_target_id a = t \<and>
     pa_permission a = perm \<and> d_targets d' = d_targets d \<and> d_principals d' = d_principals d"
proof -
  let ?same = "\<lambda>a. pa_principal_id a = p \<and> pa_permission_target_id a = t \<and> pa_permission a = perm"
  let ?mk = "\<lambda>i. \<lparr>pa_id = i, pa_principal_id = p, pa_permission_target_id = t,
      pa_grant_type = PERMIT, pa_permission = perm\<rparr>"
  let ?goc = "get_or_create d_assignments put_assignments pa_id ?same ?same ?mk False"
  let ?set = "\<lambda>r. r\<lparr>pa_grant_type := PERMIT\<rparr>"
  have fits: "assignments.fits ?same ?same ?mk" by (rule assignments.fitsI) simp_all
  obtain a d' where r: "?goc d = (Inr a, d')" using assignments.goc_returns [OF fits] by blast
  have a: "?same a" "a \<in> set (d_assignments d')" using assignments.goc_result [OF fits r] by auto
  have d': "d_targets d' = d_targets d" "d_principals d' = d_principals d"
    using assignments.goc_state [OF fits, of False d] unfolding r by (auto simp: put_defs)
  have mem: "?set a \<in> set (update_where (\<lambda>r. pa_id r = pa_id a) ?set (d_assignments d'))"
    using a(2) by (rule in_update_where) simp
  show ?thesis
    using a d' mem
    by (cases "pa_grant_type a = PERMIT")
      (auto simp: find_or_create_permission_assignment_def Let_def bnd_def r comp_defs rows_granting_def)
qed

lemma grant_to_group_effect:
  assumes "group_named i d = Some g" "distinct (map pt_id (d_targets d))"
    and "permission_resource_type (py_strip rt) = Inr rt" "nonblank (Some c) = Some c"
    and "py_strip r = r" "r \<noteq> []"
  shows "\<exists>a d'. grant_permission_to_group i perm (Some c) rt (Some (Id_str r)) PERMIT n d = (Inr a, d')
    \<and> permits g perm c rt r d' \<and> grant_frame d d'"
proof -
  obtain p d1 where p: "find_or_create_principal_for_group (grp_id g) d = (Inr p, d1)"
    "p \<in> set (d_principals d1)" "pri_group_id p = Some (grp_id g)"
    using principal_effect by blast
  have f1: "grant_frame d d1" using grant.keepsD [OF principal_keeps p(1)] .
  then have dist: "distinct (map pt_id (d_targets d1))" using assms(2) by (simp add: grant_frame_def)
  obtain t d2 where t: "find_or_create_permission_target (Some c) rt (Some (Id_str r)) d1 = (Inr t, d2)"
    "find (\<lambda>x. pt_id x = pt_id t) (d_targets d2) = Some t" "pt_command t = Some c"
    "pt_resource_type t = rt" "pt_resource_id t = Some r"
    using target_effect [OF assms(3-6) dist] by blast
  have f2: "grant_frame d1 d2" using grant.keepsD [OF target_keeps t(1)] .
  obtain a d3 where a: "find_or_create_permission_assignment (pri_id p) (pt_id t) perm PERMIT d2 = (Inr a, d3)"
    "a \<in> rows_granting PERMIT d3" "pa_principal_id a = pri_id p" "pa_permission_target_id a = pt_id t"
    "pa_permission a = perm" "d_targets d3 = d_targets d2" "d_principals d3 = d_principals d2"
    using assignment_effect by blast
  have f3: "grant_frame d2 d3" using grant.keepsD [OF assignment_keeps a(1)] .
  have "p \<in> set (d_principals d3)"
    using p(2) f2 a(7) set_mono_prefix unfolding grant_frame_def by auto
  moreover have "permission_target_of a d3 = Some t"
    using t(2) a(4,6) by (simp add: permission_target_of_def)
  ultimately have "permits g perm c rt r d3"
    unfolding permits_def using p(3) a(2,3,5) t(3-5) by blast
  moreover have "grant_permission_to_group i perm (Some c) rt (Some (Id_str r)) PERMIT n d = (Inr a, d3)"
    by (simp add: grant_permission_to_group_def bnd_def find_or_create_group_found [OF assms(1)] p(1) t(1) a(1))
  ultimately show ?thesis using f1 f2 f3 grant.R_trans by blast
qed

lemma specs_trimmed:
  "list_all (\<lambda>(_, sp). nonblank (Some (spec_command_key sp)) = Some (spec_command_key sp))
     COMMAND_AUTHORIZATION_SPECS"
  by code_simp

lemma spec_for_key:
  assumes "authorization_spec_for_command_key k = Inr sp"
  shows "spec_command_key sp = k \<and> nonblank (Some k) = Some k"
proof -
  have "sp \<in> snd ` set COMMAND_AUTHORIZATION_SPECS \<and> spec_command_key sp = k"
    using assms unfolding authorization_spec_for_command_key_def
    by (force split: option.splits dest!: map_of_SomeD)
  then show ?thesis using specs_trimmed by (auto simp: list_all_iff)
qed

lemma tenant_resource_type: "permission_resource_type (py_strip RESOURCE_TENANT) = Inr RESOURCE_TENANT"
  by code_simp

lemma grant_commands_effect:
  assumes "\<forall>k \<in> set ks. \<exists>sp. authorization_spec_for_command_key k = Inr sp"
    and "group_named i d = Some g" "distinct (map pt_id (d_targets d))"
    and "fst (partition_on (CHR '':'') i) = r" "py_strip r = r" "r \<noteq> []"
  shows "\<exists>as d'. grant_command_permissions_to_group i ks PERMIT n d = (Inr as, d') \<and>
    grant_frame d d' \<and>
    (\<forall>k \<in> set ks. \<forall>sp. authorization_spec_for_command_key k = Inr sp \<longrightarrow>
       permits g (spec_permission sp) k RESOURCE_TENANT r d')"
  using assms(1-3)
proof (induction ks arbitrary: d)
  case Nil
  then show ?case by (simp add: grant_command_permissions_to_group_def ret_def grant.R_refl)
next
  case (Cons k ks)
  obtain sp where sp: "authorization_spec_for_command_key k = Inr sp" using Cons.prems(1) by auto
  note key = spec_for_key [OF sp]
  obtain a d1 where a: "grant_permission_to_group i (spec_permission sp) (Some k) RESOURCE_TENANT
      (Some (Id_str r)) PERMIT n d = (Inr a, d1)" "permits g (spec_permission sp) k RESOURCE_TENANT r d1"
      "grant_frame d d1"
    using grant_to_group_effect [OF Cons.prems(2,3) tenant_resource_type _ assms(5,6)] key by blast
  have d1: "group_named i d1 = Some g" "distinct (map pt_id (d_targets d1))"
    using group_named_mono [OF a(3) Cons.prems(2)] a(3) Cons.prems(3) by (simp_all add: grant_frame_def)
  obtain as d2 where as: "grant_command_permissions_to_group i ks PERMIT n d1 = (Inr as, d2)"
    "grant_frame d1 d2" "\<forall>k \<in> set ks. \<forall>sp. authorization_spec_for_command_key k = Inr sp \<longrightarrow>
       permits g (spec_permission sp) k RESOURCE_TENANT r d2"
    using Cons.IH [OF _ d1] Cons.prems(1) by auto
  have "grant_command_permissions_to_group i (k # ks) PERMIT n d = (Inr (a # as), d2)"
    using as(1) key by (simp add: grant_command_permissions_to_group_def bnd_def lift_result_def ret_def
        sp assms(4) a(1))
  moreover have "permits g (spec_permission sp) k RESOURCE_TENANT r d2"
    using permits_mono [OF as(2) a(2)] .
  ultimately show ?case using grant.R_trans [OF a(3) as(2)] as(3) sp by auto
qed

lemma add_users_effect:
  assumes "group_named i d = Some g"
  shows "\<exists>d'. for_each (\<lambda>u. bnd (add_user_to_group u i n) (\<lambda>_. ret ())) us d = (Inr (), d') \<and>
    grant_frame d d' \<and> (\<forall>u \<in> set us. member_of u g d')"
  using assms
proof (induction us arbitrary: d)
  case Nil
  then show ?case by (simp add: ret_def grant.R_refl)
next
  case (Cons u us)
  obtain m d1 where m: "add_user_to_group u i n d = (Inr m, d1)" "member_of u g d1"
    using add_user_effect [OF Cons.prems] by blast
  have f: "grant_frame d d1" using grant.keepsD [OF add_user_to_group_keeps m(1)] .
  obtain d2 where d2: "for_each (\<lambda>u. bnd (add_user_to_group u i n) (\<lambda>_. ret ())) us d1 = (Inr (), d2)"
    "grant_frame d1 d2" "\<forall>u \<in> set us. member_of u g d2"
    using Cons.IH [OF group_named_mono [OF f Cons.prems]] by blast
  have "for_each (\<lambda>u. bnd (add_user_to_group u i n) (\<lambda>_. ret ())) (u # us) d = (Inr (), d2)"
    using d2(1) by (simp add: thn_Inr bnd_Inr m(1) ret_run)
  then show ?case
    using d2(3) member_of_mono [OF d2(2) m(2)] grant.R_trans [OF f d2(2)] by auto
qed

text \<open>A colon-free prefix is what the partition at the colon returns.\<close>

lemma partition_on_prefix:
  "c \<notin> set xs \<Longrightarrow> partition_on c (xs @ c # ys) = (xs, True, ys)"
  by (induction xs) auto

lemma role_commands_known:
  "map_of V1_BASIC_ROLE_COMMAND_KEYS role = Some ks \<Longrightarrow>
     role \<in> set BASIC_ROLE_NAMES \<and> py_strip role = role \<and>
     (\<forall>k \<in> set ks. \<exists>sp. authorization_spec_for_command_key k = Inr sp)"
proof -
  have all: "list_all (\<lambda>(r, ks). r \<in> set BASIC_ROLE_NAMES \<and> py_strip r = r \<and>
      list_all (\<lambda>k. \<not> isl (authorization_spec_for_command_key k)) ks) V1_BASIC_ROLE_COMMAND_KEYS"
    by code_simp
  assume "map_of V1_BASIC_ROLE_COMMAND_KEYS role = Some ks"
  then have "(role, ks) \<in> set V1_BASIC_ROLE_COMMAND_KEYS" by (rule map_of_SomeD)
  then have "role \<in> set BASIC_ROLE_NAMES" "py_strip role = role"
    "\<And>k. k \<in> set ks \<Longrightarrow> \<not> isl (authorization_spec_for_command_key k)"
    using all unfolding list_all_iff by (blast, blast, blast)
  moreover have "\<exists>sp. r = Inr sp" if "\<not> isl r" for r :: "m8f_error + command_authorization_spec"
    using that by (cases r) simp_all
  ultimately show ?thesis by blast
qed

text \<open>Running the whole helper: the group exists, holds every command of the role, and every user
  given is a member.\<close>

lemma ensure_v1_role_effect:
  assumes "map_of V1_BASIC_ROLE_COMMAND_KEYS role = Some ks"
    and "py_strip tenant = tenant" "tenant \<noteq> []" "CHR '':'' \<notin> set tenant"
    and "distinct (map pt_id (d_targets d))"
    and "\<forall>g \<in> set (d_groups d).
           grp_authorization_key g = Some (authorization_key_for (tenant @ '':'' @ role))
             \<longrightarrow> grp_identifier g = Some (tenant @ '':'' @ role)"
  shows "\<exists>g d'. ensure_v1_role tenant role us d = (Inr g, d') \<and> grant_frame d d' \<and>
    group_named (tenant @ '':'' @ role) d' = Some g \<and> (\<forall>u \<in> set us. member_of u g d') \<and>
    (\<forall>k \<in> set ks. \<forall>sp. authorization_spec_for_command_key k = Inr sp \<longrightarrow>
       permits g (spec_permission sp) k RESOURCE_TENANT tenant d')"
proof -
  let ?i = "tenant @ '':'' @ role"
  note known = role_commands_known [OF assms(1)]
  have i: "tenant_role_group_identifier tenant role = ?i"
    using known assms(2) by (simp add: tenant_role_group_identifier_def)
  have part: "fst (partition_on (CHR '':'') ?i) = tenant"
    using partition_on_prefix [OF assms(4), of role] by simp
  obtain g d1 where g: "find_or_create_group ?i (Some role) d = (Inr g, d1)" "group_named ?i d1 = Some g"
    using find_or_create_group_effect [OF assms(6)] by blast
  have f1: "grant_frame d d1" using grant.keepsD [OF find_or_create_group_keeps g(1)] .
  obtain d2 where d2: "for_each (\<lambda>u. bnd (add_user_to_group u ?i (Some role)) (\<lambda>_. ret ())) us d1
      = (Inr (), d2)" "grant_frame d1 d2" "\<forall>u \<in> set us. member_of u g d2"
    using add_users_effect [OF g(2)] by blast
  have g2: "group_named ?i d2 = Some g" "distinct (map pt_id (d_targets d2))"
    using group_named_mono [OF d2(2) g(2)] f1 d2(2) assms(5) by (simp_all add: grant_frame_def)
  obtain as d3 where d3: "grant_command_permissions_to_group ?i ks PERMIT (Some role) d2 = (Inr as, d3)"
    "grant_frame d2 d3" "\<forall>k \<in> set ks. \<forall>sp. authorization_spec_for_command_key k = Inr sp \<longrightarrow>
       permits g (spec_permission sp) k RESOURCE_TENANT tenant d3"
    using grant_commands_effect [OF _ g2 part assms(2,3)] known by blast
  have "ensure_v1_role tenant role us d = (Inr g, d3)"
    using known by (simp add: ensure_v1_role_def Let_def assms(1) i bnd_Inr thn_Inr g(1) [simplified] d2(1) [simplified]
        d3(1) [simplified] ret_run)
  then show ?thesis
    using d3 d2(3) member_of_mono [OF d3(2)] group_named_mono [OF d3(2) g2(1)]
      grant.R_trans [OF grant.R_trans [OF f1 d2(2)] d3(2)] by blast
qed

lemma role_group_applies:
  assumes "py_strip tenant = tenant" "tenant \<noteq> []" "CHR '':'' \<notin> set tenant"
    and "py_strip role = role" "role \<noteq> []"
  shows "group_identifier_applies_to_tenant (Some (tenant @ '':'' @ role)) (tenant_identifiers_for tenant d)"
proof -
  have "py_strip (tenant @ '':'' @ role) = tenant @ '':'' @ role"
    using py_strip_fixedD [OF assms(1,2)] py_strip_fixedD [OF assms(4,5)] assms(2,5)
    by (intro py_strip_id) simp_all
  moreover have "tenant \<in> tenant_identifiers_for tenant d"
    using assms(1,2) by (simp add: tenant_identifiers_for_def nonblank_def List.map_filter_def)
  ultimately show ?thesis
    using partition_on_prefix [OF assms(3), of role]
    by (simp add: group_identifier_applies_to_tenant_def Let_def)
qed

lemma tenant_grant_matches:
  assumes "pa_permission a = req_permission req" "pt_command t = Some (req_command_key req)"
    and "pt_resource_type t = RESOURCE_TENANT" "pt_resource_id t = Some (req_tenant_id req)"
    and "py_strip (req_tenant_id req) = req_tenant_id req" "req_tenant_id req \<noteq> []"
    and "req_resource_type req \<in> set permission_resource_types"
  shows "permission_assignment_matches_request a (Some t) req"
proof -
  have "list_all (\<lambda>r. nonblank (Some r) = Some r) permission_resource_types" by code_simp
  then have "nonblank (Some (req_resource_type req)) \<noteq> None"
    using assms(7) by (auto simp: list_all_iff)
  moreover have "nonblank (Some RESOURCE_TENANT) = Some RESOURCE_TENANT" by code_simp
  ultimately show ?thesis
    using assms(1-6)
    by (simp add: permission_assignment_matches_request_def normalize_resource_component_def Let_def
        nonblank_def)
qed

lemma permits_grant_applies:
  assumes "permits g (req_permission req) (req_command_key req) RESOURCE_TENANT (req_tenant_id req) d"
    and "g \<in> set (d_groups d)" "member_of (req_actor_user_id req) g d"
    and "group_identifier_applies_to_tenant (grp_identifier g) (tenant_identifiers_for (req_tenant_id req) d)"
    and "py_strip (req_tenant_id req) = req_tenant_id req" "req_tenant_id req \<noteq> []"
    and "req_resource_type req \<in> set permission_resource_types"
  shows "grant_applies PERMIT req d"
proof -
  obtain a p t where a: "a \<in> rows_granting PERMIT d" "p \<in> set (d_principals d)"
    "pri_group_id p = Some (grp_id g)" "pa_principal_id a = pri_id p"
    "pa_permission a = req_permission req" "permission_target_of a d = Some t"
    "pt_command t = Some (req_command_key req)" "pt_resource_type t = RESOURCE_TENANT"
    "pt_resource_id t = Some (req_tenant_id req)"
    using assms(1) unfolding permits_def by blast
  have "holds_principal (req_actor_user_id req) (tenant_identifiers_for (req_tenant_id req) d)
      (pa_principal_id a) d"
    using a(2-4) assms(2-4) unfolding holds_principal_def member_of_def by force
  moreover have "permission_assignment_matches_request a (permission_target_of a d) req"
    unfolding a(6) using tenant_grant_matches [OF a(5,7-9) assms(5-7)] .
  ultimately show ?thesis
    using a(1) unfolding grant_applies_def rows_granting_def by blast
qed

section \<open>The hook that the services call\<close>

text \<open>The request a service builds, as a value.\<close>

lemma build_request_fields:
  assumes "build_authorization_request tenant u k None rt rid md = Inr req"
    and "authorization_spec_for_command_key k = Inr sp"
  shows "req_tenant_id req = tenant \<and> req_actor_user_id req = u \<and> req_command_key req = k \<and>
    req_permission req = spec_permission sp \<and> req_resource_type req \<in> set permission_resource_types"
  using assms by (auto simp: build_authorization_request_def permission_resource_type_def str_or_def
      split: if_splits)

lemma require_authorization_run:
  assumes "build_authorization_request tenant u k None rt rid md = Inr req"
    and "get_user (req_actor_user_id req) d = Some w"
  shows "require_command_authorization initial_policy_context tenant u k rt rid md d =
    (if grant_applies PERMIT req d \<and> \<not> grant_applies DENY req d then (Inr (), d)
     else (Inl (Err AuthorizationError (R_auth (NotAuthorized u k tenant))), d))"
proof -
  obtain why where "DatabaseAuthorizationPolicy_authorize req d =
      (Inr (Decision (grant_applies PERMIT req d \<and> \<not> grant_applies DENY req d) why), d)"
    using database_policy_run [OF assms(2)] by blast
  then show ?thesis
    by (simp add: require_command_authorization_def assms(1) run_simps resolve_authorization_policy_def
        initial_policy_context_def bnd_Inr)
qed

lemma require_authorization_read_only:
  "snd (require_command_authorization initial_policy_context tenant u k rt rid md d) = d"
proof (cases "build_authorization_request tenant u k None rt rid md")
  case (Inr req)
  show ?thesis
  proof (cases "DatabaseAuthorizationPolicy_authorize req d")
    case (Pair r d')
    then have "d' = d" using database_policy_read_only [of req d] by simp
    with Pair Inr show ?thesis
      by (cases r) (simp_all add: require_command_authorization_def run_simps
          resolve_authorization_policy_def initial_policy_context_def bnd_Inl bnd_Inr)
  qed
qed (simp add: require_command_authorization_def run_simps)

text \<open>C2: Granting a basic role works end to end. The tenant id must be trimmed, not empty and free of
  colons, target ids must be unique, and no group of another name may sit under the authorization key
  of the role's group. Then, for a known role, \<^verbatim>\<open>ensure_v1_role\<close> returns, and afterwards the
  authorization check of every known user it was given, for every command of the role in that tenant
  and whatever the resource, passes unless a deny grant applies to the request, in which case it is
  refused; no deny row is added, and the check writes nothing.\<close>

theorem role_grant_effective:
  assumes "map_of V1_BASIC_ROLE_COMMAND_KEYS role = Some ks"
    and "py_strip tenant = tenant" "tenant \<noteq> []" "CHR '':'' \<notin> set tenant"
    and "distinct (map pt_id (d_targets d))"
    and "\<forall>g \<in> set (d_groups d).
           grp_authorization_key g = Some (authorization_key_for (tenant @ '':'' @ role))
             \<longrightarrow> grp_identifier g = Some (tenant @ '':'' @ role)"
    and "u \<in> set us" "k \<in> set ks" "get_user u d = Some w"
    and "build_authorization_request tenant u k None rt rid md = Inr req"
  shows "\<exists>g d'. ensure_v1_role tenant role us d = (Inr g, d') \<and>
    require_command_authorization initial_policy_context tenant u k rt rid md d' =
      (if grant_applies DENY req d'
       then (Inl (Err AuthorizationError (R_auth (NotAuthorized u k tenant))), d')
       else (Inr (), d')) \<and>
    {a \<in> set (d_assignments d'). pa_grant_type a = DENY} \<subseteq> {a \<in> set (d_assignments d). pa_grant_type a = DENY}"
proof -
  obtain g d' where g: "ensure_v1_role tenant role us d = (Inr g, d')" "grant_frame d d'"
    "group_named (tenant @ '':'' @ role) d' = Some g" "\<forall>u \<in> set us. member_of u g d'"
    "\<forall>k \<in> set ks. \<forall>sp. authorization_spec_for_command_key k = Inr sp \<longrightarrow>
       permits g (spec_permission sp) k RESOURCE_TENANT tenant d'"
    using ensure_v1_role_effect [OF assms(1-6)] by blast
  note known = role_commands_known [OF assms(1)]
  obtain sp where sp: "authorization_spec_for_command_key k = Inr sp" using known assms(8) by blast
  note f = build_request_fields [OF assms(10) sp]
  have gin: "g \<in> set (d_groups d')" "grp_identifier g = Some (tenant @ '':'' @ role)"
    using find_SomeD [OF g(3) [unfolded group_named_def]] by auto
  have role: "role \<noteq> []"
    using known by (auto simp: BASIC_ROLE_NAMES_def ROLE_USER_def ROLE_MANAGER_def ROLE_ADMIN_def)
  have "grant_applies PERMIT req d'"
    using permits_grant_applies [of g req d'] role_group_applies [OF assms(2-4) _ role, of d'] known f
      g(4,5) sp gin assms(2,3,7,8) by auto
  moreover have "get_user (req_actor_user_id req) d' = Some w"
    using assms(9) f g(2) by (simp add: get_user_def grant_frame_def)
  moreover have "rows_granting DENY d' \<subseteq> rows_granting DENY d"
    using g(2) by (simp add: grant_frame_def)
  ultimately show ?thesis
    using require_authorization_run [OF assms(10)] g(1) by (auto simp: rows_granting_def)
qed

text \<open>A deny row of another user's principal is in the table.\<close>

theorem role_grant_effective_witness:
  "\<exists>g d'. ensure_v1_role ''acme'' ''user'' [1]
       ((empty_db 0)\<lparr>d_users := [realm_user 1 ''acme''],
          d_principals := [\<lparr>pri_id = 5, pri_user_id = Some 2, pri_group_id = None\<rparr>],
          d_assignments := [\<lparr>pa_id = 1, pa_principal_id = 5, pa_permission_target_id = 1,
             pa_grant_type = DENY, pa_permission = ''execute''\<rparr>]\<rparr>) = (Inr g, d') \<and>
     require_command_authorization initial_policy_context ''acme'' 1 ''task.claim'' None (Some (Id_int 7))
       None d' =
      (if grant_applies DENY \<lparr>req_tenant_id = ''acme'', req_actor_user_id = 1, req_command_key = ''task.claim'',
          req_permission = ''execute'', req_resource_type = ''task'', req_resource_id = ''7'',
          req_metadata = None\<rparr> d'
       then (Inl (Err AuthorizationError (R_auth (NotAuthorized 1 ''task.claim'' ''acme''))), d')
       else (Inr (), d'))"
proof -
  let ?d = "(empty_db 0)\<lparr>d_users := [realm_user 1 ''acme''],
          d_principals := [\<lparr>pri_id = 5, pri_user_id = Some 2, pri_group_id = None\<rparr>],
          d_assignments := [\<lparr>pa_id = 1, pa_principal_id = 5, pa_permission_target_id = 1,
             pa_grant_type = DENY, pa_permission = ''execute''\<rparr>]\<rparr>"
  have "map_of V1_BASIC_ROLE_COMMAND_KEYS ''user'' =
      Some [''process.start'', ''task.claim'', ''task.complete'']" by code_simp
  moreover have "py_strip ''acme'' = ''acme''" by code_simp
  moreover have "build_authorization_request ''acme'' 1 ''task.claim'' None None (Some (Id_int 7)) None =
    Inr \<lparr>req_tenant_id = ''acme'', req_actor_user_id = 1, req_command_key = ''task.claim'',
      req_permission = ''execute'', req_resource_type = ''task'', req_resource_id = ''7'',
      req_metadata = None\<rparr>" by code_simp
  moreover have "get_user 1 ?d = Some (realm_user 1 ''acme'')" by (simp add: get_user_def realm_user_def)
  moreover have "d_targets ?d = []" "d_groups ?d = []" by (simp_all add: empty_db_def)
  ultimately show ?thesis
    using role_grant_effective [of "''user''" "[''process.start'', ''task.claim'', ''task.complete'']"
        "''acme''" ?d 1 "[1]" "''task.claim''" "realm_user 1 ''acme''" None "Some (Id_int 7)" None]
    by fastforce
qed

text \<open>C4: Role groups do not reach across tenants. A user with no personal principal, whose groups all
  carry a tenant prefix that does not name the requested tenant, is refused every command there.\<close>

theorem foreign_groups_refused:
  assumes "get_user u d = Some w"
    and "\<forall>p \<in> set (d_principals d). pri_user_id p \<noteq> Some u"
    and "\<forall>m \<in> set (d_user_groups d). \<forall>g \<in> set (d_groups d).
           uga_user_id m = u \<and> uga_group_id m = grp_id g \<longrightarrow>
             (\<exists>t r. grp_identifier g = Some (t @ '':'' @ r) \<and> py_strip (t @ '':'' @ r) = t @ '':'' @ r
                \<and> CHR '':'' \<notin> set t \<and> t \<notin> tenant_identifiers_for tenant d)"
    and "build_authorization_request tenant u k None rt rid md = Inr req"
  shows "require_command_authorization initial_policy_context tenant u k rt rid md d =
    (Inl (Err AuthorizationError (R_auth (NotAuthorized u k tenant))), d)"
proof -
  obtain sp where sp: "authorization_spec_for_command_key k = Inr sp"
    using assms(4) by (auto simp: build_authorization_request_def split: sum.splits)
  note f = build_request_fields [OF assms(4) sp]
  have foreign: "\<not> group_identifier_applies_to_tenant (Some (t @ '':'' @ r)) ids"
    if "py_strip (t @ '':'' @ r) = t @ '':'' @ r" "CHR '':'' \<notin> set t" "t \<notin> ids" for t r ids
    using that partition_on_prefix [of "CHR '':''" t r]
    by (simp add: group_identifier_applies_to_tenant_def Let_def)
  have "\<not> holds_principal u (tenant_identifiers_for tenant d) pid d" for pid
    unfolding holds_principal_def using assms(2,3) foreign by metis
  then have "\<not> grant_applies PERMIT req d" using f by (simp add: grant_applies_def)
  then show ?thesis using require_authorization_run [OF assms(4)] f assms(1) by simp
qed

theorem foreign_groups_refused_witness:
  "require_command_authorization initial_policy_context ''acme'' 1 ''task.claim'' None (Some (Id_int 7)) None
     ((empty_db 0)\<lparr>d_users := [realm_user 1 ''acme''],
        d_groups := [\<lparr>grp_id = 1, grp_name = None, grp_identifier = Some ''other:user'',
          grp_authorization_key = None\<rparr>],
        d_user_groups := [\<lparr>uga_id = 1, uga_user_id = 1, uga_group_id = 1\<rparr>]\<rparr>) =
   (Inl (Err AuthorizationError (R_auth (NotAuthorized 1 ''task.claim'' ''acme''))),
     (empty_db 0)\<lparr>d_users := [realm_user 1 ''acme''],
        d_groups := [\<lparr>grp_id = 1, grp_name = None, grp_identifier = Some ''other:user'',
          grp_authorization_key = None\<rparr>],
        d_user_groups := [\<lparr>uga_id = 1, uga_user_id = 1, uga_group_id = 1\<rparr>]\<rparr>)"
    (is "require_command_authorization _ _ _ _ _ _ _ ?d = _")
proof (rule foreign_groups_refused)
  have "py_strip (''other'' @ '':'' @ ''user'') = ''other'' @ '':'' @ ''user''" by code_simp
  moreover have "''other'' \<notin> tenant_identifiers_for ''acme'' ?d"
    by (simp add: tenant_identifiers_for_def tenant_named_def empty_db_def List.map_filter_def
        nonblank_def py_strip_def py_lstrip_def py_rstrip_def py_isspace_def code_point_def)
  ultimately show "\<forall>m \<in> set (d_user_groups ?d). \<forall>g \<in> set (d_groups ?d).
      uga_user_id m = 1 \<and> uga_group_id m = grp_id g \<longrightarrow>
        (\<exists>t r. grp_identifier g = Some (t @ '':'' @ r) \<and> py_strip (t @ '':'' @ r) = t @ '':'' @ r
           \<and> CHR '':'' \<notin> set t \<and> t \<notin> tenant_identifiers_for ''acme'' ?d)"
    by simp (intro exI [of _ "''other''"] exI [of _ "''user''"], simp)
  show "build_authorization_request ''acme'' 1 ''task.claim'' None None (Some (Id_int 7)) None =
    Inr \<lparr>req_tenant_id = ''acme'', req_actor_user_id = 1, req_command_key = ''task.claim'',
      req_permission = ''execute'', req_resource_type = ''task'', req_resource_id = ''7'',
      req_metadata = None\<rparr>" by code_simp
qed (simp_all add: get_user_def realm_user_def empty_db_def)

end
