(* ===== verification/Work_Items.thy ===== *)
theory Work_Items
  imports Models
begin

text \<open>
  \<^verbatim>\<open>src/m8flow_core/services/work_items.py\<close> and the properties of \<^verbatim>\<open>models/work_item.py\<close>: the claim
  state of a work item and its transitions. A transition that assigns attributes of a loaded row is
  a function on the row; \<open>ensure_work_item\<close> works on the session.
\<close>

section \<open>Definitions\<close>

definition ensure_work_item ::
  "string \<Rightarrow> int \<Rightarrow> guid \<Rightarrow> int option \<Rightarrow> datetime option \<Rightarrow> work_item_row svc" where
  "ensure_work_item tenant pid task_guid lane occurred_at =
     upsert_row d_work_items (\<lambda>rs d. d\<lparr>d_work_items := rs\<rparr>) wi_id
       (\<lambda>w. wi_tenant w = tenant \<and> wi_task_guid w = Some task_guid)
       (\<lambda>i. \<lparr>wi_id = i, wi_tenant = tenant, wi_process_instance_id = pid,
              wi_task_guid = Some task_guid, wi_lane_assignment_id = lane,
              wi_completed_by_user_id = None, wi_actual_owner_id = None, wi_task_status = READY,
              wi_completed = False, wi_updated_at = occurred_at, wi_created_at = occurred_at\<rparr>)
       (\<lambda>w. if lane \<noteq> None then w\<lparr>wi_lane_assignment_id := lane\<rparr> else w)"

definition claim_work_item :: "int \<Rightarrow> datetime \<Rightarrow> work_item_row \<Rightarrow> work_item_row" where
  "claim_work_item uid ts w =
     w\<lparr>wi_actual_owner_id := Some uid, wi_task_status := CLAIMED, wi_updated_at := Some ts\<rparr>"

definition complete_work_item :: "int \<Rightarrow> datetime \<Rightarrow> work_item_row \<Rightarrow> work_item_row" where
  "complete_work_item uid ts w =
     w\<lparr>wi_completed := True, wi_completed_by_user_id := Some uid, wi_actual_owner_id := Some uid,
       wi_task_status := COMPLETED, wi_updated_at := Some ts\<rparr>"

definition close_work_item ::
  "work_item_state \<Rightarrow> datetime \<Rightarrow> int option \<Rightarrow> work_item_row \<Rightarrow> work_item_row" where
  "close_work_item st ts uid w =
     (let w' = w\<lparr>wi_completed := True, wi_completed_by_user_id := uid, wi_task_status := st,
                 wi_updated_at := Some ts\<rparr>
      in if uid \<noteq> None then w'\<lparr>wi_actual_owner_id := uid\<rparr> else w')"

definition reopen_work_item :: "datetime \<Rightarrow> work_item_row \<Rightarrow> work_item_row" where
  "reopen_work_item ts w =
     w\<lparr>wi_completed := False, wi_completed_by_user_id := None, wi_actual_owner_id := None,
       wi_task_status := READY, wi_updated_at := Some ts\<rparr>"

definition prepare_work_item_for_ready_state :: "datetime \<Rightarrow> work_item_row \<Rightarrow> work_item_row" where
  "prepare_work_item_for_ready_state ts w =
     w\<lparr>wi_task_status := READY, wi_completed := False, wi_completed_by_user_id := None,
       wi_actual_owner_id := None, wi_updated_at := Some ts\<rparr>"

lemmas work_item_transitions = claim_work_item_def complete_work_item_def close_work_item_def
  reopen_work_item_def prepare_work_item_for_ready_state_def

section \<open>Properties of the mapped class\<close>

text \<open>The task of a work item, its definition, and the process instance: the relationships followed.\<close>

definition task_model :: "work_item_row \<Rightarrow> db \<Rightarrow> task_row option" where
  "task_model w d = (case wi_task_guid w of None \<Rightarrow> None
     | Some g \<Rightarrow> find (\<lambda>t. tk_guid t = g) (d_tasks d))"

definition task_definition_of :: "task_row \<Rightarrow> db \<Rightarrow> task_definition_row option" where
  "task_definition_of t d = find (\<lambda>x. td_id x = tk_task_definition_id t) (d_task_defs d)"

definition work_item_definition :: "work_item_row \<Rightarrow> db \<Rightarrow> task_definition_row option" where
  "work_item_definition w d = Option.bind (task_model w d) (\<lambda>t. task_definition_of t d)"

definition instance_of :: "work_item_row \<Rightarrow> db \<Rightarrow> process_instance_row option" where
  "instance_of w d = find (\<lambda>p. pi_id p = wi_process_instance_id w) (d_instances d)"

definition task_name :: "work_item_row \<Rightarrow> db \<Rightarrow> string option" where
  "task_name w d =
     Option.bind (work_item_definition w d) (\<lambda>t.
       case as_str (dict_get (td_properties_json t) ''__m8f_task_identifier'') of
         Some s \<Rightarrow> Some s | None \<Rightarrow> Some (td_bpmn_identifier t))"

definition task_title :: "work_item_row \<Rightarrow> db \<Rightarrow> string option" where
  "task_title w d = Option.bind (work_item_definition w d) td_bpmn_name"

definition task_type :: "work_item_row \<Rightarrow> db \<Rightarrow> string option" where
  "task_type w d = map_option td_typename (work_item_definition w d)"

definition process_model_display_name :: "work_item_row \<Rightarrow> db \<Rightarrow> string option" where
  "process_model_display_name w d = map_option pi_process_model_display_name (instance_of w d)"

definition bpmn_process_identifier :: "work_item_row \<Rightarrow> db \<Rightarrow> string option" where
  "bpmn_process_identifier w d = map_option pi_process_model_identifier (instance_of w d)"

definition lane_name :: "work_item_row \<Rightarrow> db \<Rightarrow> string option" where
  "lane_name w d =
     (case task_model w d of
        None \<Rightarrow> None
      | Some t \<Rightarrow>
          (let v = dict_get (tk_properties_json t) ''lane'';
               v' = (if v = PNone then
                       (case tk_runtime_info t of None \<Rightarrow> v | Some info \<Rightarrow> dict_get info ''lane'')
                     else v)
           in as_str v'))"

definition json_metadata :: "work_item_row \<Rightarrow> db \<Rightarrow> (string \<times> pyval) list option" where
  "json_metadata w d =
     (case task_model w d of
        None \<Rightarrow> None
      | Some t \<Rightarrow>
          (let metadata = tk_properties_json t;
               definition_row = Option.bind (instance_of w d) (\<lambda>p.
                 Option.bind (pi_bpmn_process_definition_id p) (\<lambda>i.
                   find (\<lambda>x. pd_id x = i) (d_definitions d)))
           in case definition_row of
                None \<Rightarrow> Some metadata
              | Some pd \<Rightarrow>
                  (case as_dict (dict_get (pd_properties_json pd) ''lane_owners'') of
                     None \<Rightarrow> Some metadata
                   | Some owners \<Rightarrow> Some (dict_set ''lane_owners'' (PDict owners) metadata))))"

section \<open>The claim state is consistent\<close>

text \<open>
  The invariant of a row: the completed flag is the status, an open unclaimed item has no owner, a
  claimed one has, and only a closed item records who completed it.
\<close>

definition closed_states :: "work_item_state list" where
  "closed_states = [COMPLETED, TERMINATED, CANCELLED, WI_ERROR]"

definition work_item_ok :: "work_item_row \<Rightarrow> bool" where
  "work_item_ok w \<longleftrightarrow>
     (wi_completed w \<longleftrightarrow> wi_task_status w \<in> set closed_states) \<and>
     (wi_task_status w = READY \<longrightarrow> wi_actual_owner_id w = None) \<and>
     (wi_task_status w = CLAIMED \<longrightarrow> wi_actual_owner_id w \<noteq> None) \<and>
     (\<not> wi_completed w \<longrightarrow> wi_completed_by_user_id w = None)"

text \<open>The transitions of a work item, as the services take them.\<close>

inductive work_item_step :: "work_item_row \<Rightarrow> work_item_row \<Rightarrow> bool" where
  step_claim: "\<not> wi_completed w \<Longrightarrow> wi_actual_owner_id w \<in> {None, Some uid} \<Longrightarrow>
    work_item_step w (claim_work_item uid ts w)"
| step_complete: "\<not> wi_completed w \<Longrightarrow> wi_actual_owner_id w = Some uid \<Longrightarrow>
    work_item_step w (complete_work_item uid ts w)"
| step_close: "\<not> wi_completed w \<Longrightarrow> st \<in> set closed_states \<Longrightarrow>
    work_item_step w (close_work_item st ts uid w)"
| step_reopen: "work_item_step w (reopen_work_item ts w)"
| step_prepare: "work_item_step w (prepare_work_item_for_ready_state ts w)"

inductive_cases work_item_stepE: "work_item_step w w'"

lemma transitions_ok:
  "work_item_ok w \<Longrightarrow> \<not> wi_completed w \<Longrightarrow> work_item_ok (claim_work_item uid ts w)"
  "work_item_ok (complete_work_item uid ts w)"
  "st \<in> set closed_states \<Longrightarrow> work_item_ok (close_work_item st ts u w)"
  "work_item_ok (reopen_work_item ts w)"
  "work_item_ok (prepare_work_item_for_ready_state ts w)"
  by (auto simp: work_item_ok_def work_item_transitions closed_states_def Let_def)

lemma transition_keys [simp]:
  "wi_id (claim_work_item uid ts w) = wi_id w" "wi_tenant (claim_work_item uid ts w) = wi_tenant w"
  "wi_id (complete_work_item uid ts w) = wi_id w" "wi_tenant (complete_work_item uid ts w) = wi_tenant w"
  "wi_id (close_work_item st ts u w) = wi_id w" "wi_tenant (close_work_item st ts u w) = wi_tenant w"
  "wi_id (reopen_work_item ts w) = wi_id w" "wi_tenant (reopen_work_item ts w) = wi_tenant w"
  "wi_id (prepare_work_item_for_ready_state ts w) = wi_id w"
  "wi_tenant (prepare_work_item_for_ready_state ts w) = wi_tenant w"
  by (simp_all add: work_item_transitions Let_def)

text \<open>C29: Every transition of a work item keeps its claim state consistent, along every sequence of
  transitions from a consistent row.\<close>

theorem work_item_state_invariant:
  assumes "work_item_step\<^sup>*\<^sup>* w w'" and "work_item_ok w"
  shows "work_item_ok w' \<and> wi_id w' = wi_id w \<and> wi_tenant w' = wi_tenant w"
  using assms(1)
proof (induction rule: rtranclp_induct)
  case base
  then show ?case using assms(2) by simp
next
  case (step v v')
  from step.hyps(2) show ?case
    by (rule work_item_stepE) (use step.IH in \<open>simp_all add: transitions_ok\<close>)
qed

theorem work_item_state_invariant_witness:
  "let w = \<lparr>wi_id = 1, wi_tenant = ''acme'', wi_process_instance_id = 1, wi_task_guid = None,
       wi_lane_assignment_id = None, wi_completed_by_user_id = None, wi_actual_owner_id = None,
       wi_task_status = READY, wi_completed = False, wi_updated_at = None, wi_created_at = None\<rparr>
   in work_item_ok (complete_work_item 7 20 (claim_work_item 7 10 w))"
proof -
  let ?w = "\<lparr>wi_id = 1, wi_tenant = ''acme'', wi_process_instance_id = 1, wi_task_guid = None,
     wi_lane_assignment_id = None, wi_completed_by_user_id = None, wi_actual_owner_id = None,
     wi_task_status = READY, wi_completed = False, wi_updated_at = None, wi_created_at = None\<rparr>"
  have "work_item_step ?w (claim_work_item 7 10 ?w)" by (rule step_claim) simp_all
  moreover have "work_item_step (claim_work_item 7 10 ?w)
      (complete_work_item 7 20 (claim_work_item 7 10 ?w))"
    by (rule step_complete) (simp_all add: claim_work_item_def)
  ultimately have "work_item_step\<^sup>*\<^sup>* ?w (complete_work_item 7 20 (claim_work_item 7 10 ?w))" by simp
  moreover have "work_item_ok ?w" by (simp add: work_item_ok_def closed_states_def)
  ultimately have "work_item_ok (complete_work_item 7 20 (claim_work_item 7 10 ?w))"
    using work_item_state_invariant by blast
  then show ?thesis by (simp only: Let_def)
qed

end
