(* ===== verification/Scheduler_Jobs.thy ===== *)
theory Scheduler_Jobs
  imports Models
begin

text \<open>
  \<^verbatim>\<open>src/m8flow_core/services/scheduler_jobs.py\<close>: the keys of scheduler jobs, insert-or-update by tenant
  and key, the due jobs in order, and deletion.
\<close>

section \<open>Definitions\<close>

definition scheduler_job_type :: "scheduler_job_type \<Rightarrow> m8f_error + scheduler_job_type" where
  "scheduler_job_type t =
     (if known_job_type t then Inr t
      else Inl (Err Py_ValueError (R_column (UnknownJobType (job_type_value t)))))"

definition id_part :: "string \<Rightarrow> int option \<Rightarrow> string list" where
  "id_part tag i = (case i of None \<Rightarrow> [] | Some n \<Rightarrow> [tag @ str_of_int n])"

definition build_scheduler_job_key ::
  "scheduler_job_type \<Rightarrow> int option \<Rightarrow> int option \<Rightarrow> string option \<Rightarrow> m8f_error + string" where
  "build_scheduler_job_key t pid pdid qualifier =
     (case scheduler_job_type t of
        Inl e \<Rightarrow> Inl e
      | Inr t' \<Rightarrow>
          if qualifier \<noteq> None \<and> py_strip (the qualifier) = []
          then Inl (Err ValidationError (R_job BlankQualifier))
          else
            (let parts = [job_type_value t'] @ id_part ''pi:'' pid @ id_part ''pd:'' pdid @
                   (case qualifier of None \<Rightarrow> [] | Some q \<Rightarrow> [''q:'' @ py_strip q])
             in if length parts = 1 then Inl (Err ValidationError (R_job EmptyJobKey))
                else Inr (py_join ''|'' parts)))"

definition put_jobs :: "scheduler_job_row list \<Rightarrow> db \<Rightarrow> db" where
  "put_jobs rs d = d\<lparr>d_jobs := rs\<rparr>"

definition has_job_key :: "string \<Rightarrow> string \<Rightarrow> scheduler_job_row \<Rightarrow> bool" where
  "has_job_key tenant key j \<longleftrightarrow> job_tenant j = tenant \<and> job_key j = key"

text \<open>The row that is inserted, and the assignments to a row that exists.\<close>

definition new_scheduler_job ::
  "string \<Rightarrow> string \<Rightarrow> scheduler_job_type \<Rightarrow> datetime \<Rightarrow> int option \<Rightarrow> int option \<Rightarrow> pyval \<Rightarrow>
   datetime \<Rightarrow> datetime option \<Rightarrow> int \<Rightarrow> scheduler_job_row" where
  "new_scheduler_job tenant key t run_at pid pdid payload occurred_at created_at i =
     \<lparr>job_id = i, job_tenant = tenant, job_key = key, job_type = t,
      job_process_instance_id = pid, job_bpmn_process_definition_id = pdid,
      job_locked_by = None, job_locked_at = None, job_run_at = run_at,
      job_payload_json = payload, job_updated_at = occurred_at,
      job_created_at = (case created_at of None \<Rightarrow> occurred_at | Some c \<Rightarrow> c)\<rparr>"

definition rewritten_scheduler_job ::
  "scheduler_job_type \<Rightarrow> datetime \<Rightarrow> int option \<Rightarrow> int option \<Rightarrow> pyval \<Rightarrow>
   datetime \<Rightarrow> datetime option \<Rightarrow> scheduler_job_row \<Rightarrow> scheduler_job_row" where
  "rewritten_scheduler_job t run_at pid pdid payload occurred_at created_at j =
     j\<lparr>job_type := t, job_process_instance_id := pid,
       job_bpmn_process_definition_id := pdid, job_locked_by := None,
       job_locked_at := None, job_run_at := run_at, job_payload_json := payload,
       job_updated_at := occurred_at,
       job_created_at := (case created_at of None \<Rightarrow> job_created_at j | Some c \<Rightarrow> c)\<rparr>"

lemmas job_row_defs = new_scheduler_job_def rewritten_scheduler_job_def

definition upsert_scheduler_job ::
  "string \<Rightarrow> string \<Rightarrow> scheduler_job_type \<Rightarrow> datetime \<Rightarrow> int option \<Rightarrow> int option \<Rightarrow>
   (string \<times> pyval) list option \<Rightarrow> datetime option \<Rightarrow> datetime option \<Rightarrow> scheduler_job_row svc" where
  "upsert_scheduler_job tenant key t run_at pid pdid payload updated_at created_at =
     bnd (lift_result (scheduler_job_type t)) (\<lambda>t'.
     bnd (gets (resolve_timestamp updated_at)) (\<lambda>occurred_at.
       (let p = PDict (case payload of None \<Rightarrow> [] | Some v \<Rightarrow> v) in
        upsert_row d_jobs put_jobs job_id (has_job_key tenant key)
          (new_scheduler_job tenant key t' run_at pid pdid p occurred_at created_at)
          (rewritten_scheduler_job t' run_at pid pdid p occurred_at created_at))))"

definition is_due :: "datetime \<Rightarrow> string option \<Rightarrow> scheduler_job_row \<Rightarrow> bool" where
  "is_due now tenant j \<longleftrightarrow>
     job_locked_by j = None \<and> job_run_at j \<le> now \<and> (tenant = None \<or> tenant = Some (job_tenant j))"

definition job_order :: "scheduler_job_row \<Rightarrow> datetime \<times> int" where
  "job_order j = (job_run_at j, job_id j)"

definition list_due_scheduler_jobs ::
  "datetime option \<Rightarrow> int \<Rightarrow> string option \<Rightarrow> scheduler_job_row list svc" where
  "list_due_scheduler_jobs now limit tenant =
     (if limit \<le> 0 then raise (Err ValidationError (R_job NonPositiveLimit))
      else gets (\<lambda>d. take (nat limit)
             (sort_key job_order (filter (is_due (resolve_timestamp now d) tenant) (d_jobs d)))))"

definition delete_scheduler_job :: "string \<Rightarrow> string \<Rightarrow> bool svc" where
  "delete_scheduler_job tenant key =
     bnd (gets (\<lambda>d. exists_row (has_job_key tenant key) (d_jobs d))) (\<lambda>found.
       thn (modify (\<lambda>d. put_jobs (filter (\<lambda>j. \<not> has_job_key tenant key j) (d_jobs d)) d))
         (ret found))"

section \<open>Jobs are keyed\<close>

interpretation jobs: table d_jobs put_jobs job_id
  by unfold_locales (simp add: put_jobs_def)

text \<open>The constraints of the table: the primary key, and one job for a tenant and a key.\<close>

definition jobs_ok :: "db \<Rightarrow> bool" where
  "jobs_ok d \<longleftrightarrow> distinct (map job_id (d_jobs d)) \<and>
     distinct (map (\<lambda>j. (job_tenant j, job_key j)) (d_jobs d))"

definition job_named :: "string \<Rightarrow> string \<Rightarrow> db \<Rightarrow> scheduler_job_row option" where
  "job_named tenant key d = find (has_job_key tenant key) (d_jobs d)"

lemma job_row_keys [simp]:
  "job_id (new_scheduler_job tn k t r p q w o' c i) = i"
  "job_id (rewritten_scheduler_job t r p q w o' c j) = job_id j"
  "job_tenant (rewritten_scheduler_job t r p q w o' c j) = job_tenant j"
  "job_key (rewritten_scheduler_job t r p q w o' c j) = job_key j"
  "has_job_key tn k (new_scheduler_job tn k t r p q w o' c i)"
  "has_job_key x y (rewritten_scheduler_job t r p q w o' c j) = has_job_key x y j"
  by (simp_all add: job_row_defs has_job_key_def)

lemma upsert_job_known:
  assumes "known_job_type t"
  shows "upsert_scheduler_job tenant key t run_at pid pdid payload upd cre d =
    upsert_row d_jobs put_jobs job_id (has_job_key tenant key)
      (new_scheduler_job tenant key t run_at pid pdid
         (PDict (case payload of None \<Rightarrow> [] | Some v \<Rightarrow> v)) (resolve_timestamp upd d) cre)
      (rewritten_scheduler_job t run_at pid pdid
         (PDict (case payload of None \<Rightarrow> [] | Some v \<Rightarrow> v)) (resolve_timestamp upd d) cre) d"
  using assms by (simp add: upsert_scheduler_job_def scheduler_job_type_def run_simps Let_def)

lemma upsert_job_unknown_type:
  assumes "\<not> known_job_type t"
  shows "upsert_scheduler_job tenant key t run_at pid pdid payload upd cre d =
    (Inl (Err Py_ValueError (R_column (UnknownJobType (job_type_value t)))), d)"
  using assms by (simp add: upsert_scheduler_job_def scheduler_job_type_def run_simps)

lemma upsert_job_result:
  assumes "known_job_type t"
  shows "\<exists>j d'. upsert_scheduler_job tenant key t run_at pid pdid payload upd cre d = (Inr j, d') \<and>
    has_job_key tenant key j \<and> job_type j = t \<and> job_run_at j = run_at \<and> \<not> is_locked j \<and>
    job_process_instance_id j = pid \<and> job_bpmn_process_definition_id j = pdid \<and>
    job_payload_json j = PDict (case payload of None \<Rightarrow> [] | Some v \<Rightarrow> v) \<and>
    job_updated_at j = resolve_timestamp upd d"
  by (simp add: upsert_job_known [OF assms] jobs.upsert_run split: option.split)
    (auto simp: job_row_defs has_job_key_def is_locked_def dest!: find_SomeD)

lemma upsert_job_table:
  assumes "upsert_scheduler_job tenant key t run_at pid pdid payload upd cre d = (Inr j, d')"
    and "jobs_ok d"
  shows "job_named tenant key d' = Some j \<and>
    filter (\<lambda>x. \<not> has_job_key tenant key x) (d_jobs d') =
      filter (\<lambda>x. \<not> has_job_key tenant key x) (d_jobs d) \<and>
    jobs_ok d' \<and> d' = d\<lparr>d_jobs := d_jobs d'\<rparr>"
proof -
  have t: "known_job_type t"
    using assms(1) upsert_job_unknown_type by (cases "known_job_type t") auto
  note u = assms(1) [unfolded upsert_job_known [OF t]]
  have ids: "distinct (map job_id (d_jobs d))" using assms(2) by (simp add: jobs_ok_def)
  have "distinct (map (\<lambda>j. (job_tenant j, job_key j)) (d_jobs d'))"
  proof (cases "find (has_job_key tenant key) (d_jobs d)")
    case None
    have "(tenant, key) \<notin> (\<lambda>j. (job_tenant j, job_key j)) ` set (d_jobs d)"
      using None by (auto simp: find_None_iff has_job_key_def)
    then show ?thesis
      using u None assms(2)
      by (auto simp: jobs.upsert_run jobs.rows_put jobs_ok_def new_scheduler_job_def)
  next
    case (Some r)
    then show ?thesis
      using u assms(2) by (auto simp: jobs.upsert_run jobs.rows_put jobs_ok_def map_update_where)
  qed
  moreover have "d' = d\<lparr>d_jobs := d_jobs d'\<rparr>"
    using u by (auto simp: jobs.upsert_run put_jobs_def split: option.splits)
  ultimately show ?thesis
    using jobs.upsert_lookup [OF u ids] jobs.upsert_others [OF u ids] jobs.upsert_keys [OF u ids]
    by (simp add: job_named_def jobs_ok_def)
qed

text \<open>C15: Scheduling a job writes exactly one job: after the call the tenant has one job under the key,
  with the given type, time and payload and unlocked, whether the key was free or taken; all other
  jobs and tables are unchanged and keys stay unique.\<close>

theorem upsert_scheduler_job_spec:
  assumes "known_job_type t" and "jobs_ok d"
  shows "\<exists>j d'. upsert_scheduler_job tenant key t run_at pid pdid payload upd cre d = (Inr j, d') \<and>
    filter (has_job_key tenant key) (d_jobs d') = [j] \<and>
    job_type j = t \<and> job_run_at j = run_at \<and> \<not> is_locked j \<and>
    job_process_instance_id j = pid \<and> job_bpmn_process_definition_id j = pdid \<and>
    job_payload_json j = PDict (case payload of None \<Rightarrow> [] | Some v \<Rightarrow> v) \<and>
    filter (\<lambda>x. \<not> has_job_key tenant key x) (d_jobs d') =
      filter (\<lambda>x. \<not> has_job_key tenant key x) (d_jobs d) \<and>
    jobs_ok d' \<and> d' = d\<lparr>d_jobs := d_jobs d'\<rparr>"
proof -
  obtain j d' where r: "upsert_scheduler_job tenant key t run_at pid pdid payload upd cre d = (Inr j, d')"
    and j: "job_type j = t" "job_run_at j = run_at" "\<not> is_locked j" "job_process_instance_id j = pid"
      "job_bpmn_process_definition_id j = pdid"
      "job_payload_json j = PDict (case payload of None \<Rightarrow> [] | Some v \<Rightarrow> v)"
    using upsert_job_result [OF assms(1)] by metis
  note table = upsert_job_table [OF r assms(2)]
  have "filter (has_job_key tenant key) (d_jobs d') = [j]"
    using table by (intro unique_key_filter [where key = "\<lambda>j. (job_tenant j, job_key j)" and k = "(tenant, key)"])
      (auto simp: job_named_def jobs_ok_def has_job_key_def)
  then show ?thesis using r j table by blast
qed

theorem upsert_scheduler_job_spec_witness:
  "\<exists>j d'. upsert_scheduler_job ''acme'' ''k'' JT_process_retry 5 (Some 1) None None None None (empty_db 0)
     = (Inr j, d') \<and> filter (has_job_key ''acme'' ''k'') (d_jobs d') = [j] \<and> job_run_at j = 5"
  using upsert_scheduler_job_spec [of JT_process_retry "empty_db 0" "''acme''" "''k''" 5 "Some 1" None
      None None None]
  by (auto simp: jobs_ok_def empty_db_def)

section \<open>Due jobs\<close>

lemma list_due_run:
  assumes "0 < limit"
  shows "list_due_scheduler_jobs now limit tenant d =
    (Inr (take (nat limit) (sort_key job_order
        (filter (is_due (resolve_timestamp now d) tenant) (d_jobs d)))), d)"
  using assms by (simp add: list_due_scheduler_jobs_def run_simps)

lemma sort_take_least:
  assumes "x \<in> set (take n (sort_key f xs))" "y \<in> set (sort_key f xs)" "y \<notin> set (take n (sort_key f xs))"
  shows "f x \<le> f y"
proof -
  have "y \<in> set (drop n (sort_key f xs))"
    using assms(2,3) by (metis Un_iff append_take_drop_id set_append)
  moreover have "sorted (map f (take n (sort_key f xs)) @ map f (drop n (sort_key f xs)))"
    by (metis append_take_drop_id map_append sorted_sort_key)
  ultimately show ?thesis using assms(1) by (auto simp: sorted_append)
qed

text \<open>The due jobs come earliest first: the result is sorted by run time and id, holds only unlocked
  jobs of the tenant whose time has come, has as many as there are up to the limit, and every due job
  left out is not before any job returned. Nothing is written.\<close>

lemma list_due_scheduler_jobs_spec:
  assumes "list_due_scheduler_jobs now limit tenant d = (Inr js, d')"
  shows "d' = d \<and> 0 < limit \<and> sorted (map job_order js) \<and>
    (\<forall>j. j \<in> set js \<longrightarrow> j \<in> set (d_jobs d) \<and> is_due (resolve_timestamp now d) tenant j) \<and>
    length js = min (nat limit) (length (filter (is_due (resolve_timestamp now d) tenant) (d_jobs d))) \<and>
    (\<forall>i j. i \<in> set js \<and> j \<in> set (d_jobs d) \<and> is_due (resolve_timestamp now d) tenant j \<and> j \<notin> set js
       \<longrightarrow> job_order i \<le> job_order j)"
proof (cases "0 < limit")
  case False
  then show ?thesis using assms by (simp add: list_due_scheduler_jobs_def raise_def)
next
  case True
  let ?due = "filter (is_due (resolve_timestamp now d) tenant) (d_jobs d)"
  have js: "js = take (nat limit) (sort_key job_order ?due)" and "d' = d"
    using assms list_due_run [OF True] by auto
  have "sorted (map job_order js)"
    unfolding js take_map [symmetric] by (rule sorted_wrt_take [OF sorted_sort_key])
  moreover have "j \<in> set (d_jobs d) \<and> is_due (resolve_timestamp now d) tenant j" if "j \<in> set js" for j
    using that set_take_subset [of "nat limit" "sort_key job_order ?due"] unfolding js by auto
  moreover have "length js = min (nat limit) (length ?due)" unfolding js by simp
  moreover have "job_order i \<le> job_order j"
    if "i \<in> set js" "j \<in> set (d_jobs d)" "is_due (resolve_timestamp now d) tenant j" "j \<notin> set js" for i j
    using that sort_take_least [of i "nat limit" job_order ?due j] unfolding js by simp
  ultimately show ?thesis using True \<open>d' = d\<close> by blast
qed

section \<open>Deleting a job\<close>

lemma delete_job_run:
  "delete_scheduler_job tenant key d =
     (Inr (job_named tenant key d \<noteq> None),
      d\<lparr>d_jobs := filter (\<lambda>j. \<not> has_job_key tenant key j) (d_jobs d)\<rparr>)"
proof -
  have "exists_row (has_job_key tenant key) (d_jobs d) = (job_named tenant key d \<noteq> None)"
    by (auto simp: exists_row_def list_ex_iff job_named_def find_None_iff)
  then show ?thesis by (simp add: delete_scheduler_job_def run_simps put_jobs_def)
qed

section \<open>Job keys identify jobs\<close>

lemma job_type_value_inj:
  "known_job_type t \<Longrightarrow> known_job_type u \<Longrightarrow> job_type_value t = job_type_value u \<Longrightarrow> t = u"
  by (cases t; cases u) simp_all

lemma job_type_value_no_bar: "known_job_type t \<Longrightarrow> CHR ''|'' \<notin> set (job_type_value t)"
  by (cases t) simp_all

definition bar_part :: "string list \<Rightarrow> string" where
  "bar_part ps = concat (map ((@) ''|'') ps)"

lemma bar_part_hd: "bar_part ps = [] \<or> hd (bar_part ps) = CHR ''|''"
  by (cases ps) (simp_all add: bar_part_def)

lemma str_of_int_no_bar: "CHR ''|'' \<notin> set (str_of_int i)"
  using str_of_int_chars [of "CHR ''|''" i] by (auto simp: code_point_def)

lemma id_part_eq:
  assumes "bar_part (id_part tag i) @ u = bar_part (id_part tag j) @ v"
    and "u = [] \<or> hd u = CHR ''|''" "v = [] \<or> hd v = CHR ''|''"
    and "take (Suc (length tag)) u \<noteq> CHR ''|'' # tag" "take (Suc (length tag)) v \<noteq> CHR ''|'' # tag"
  shows "i = j \<and> u = v"
proof (cases i)
  case None
  then show ?thesis
    using assms(1,4) by (cases j) (auto simp: id_part_def bar_part_def)
next
  case (Some n)
  then show ?thesis
  proof (cases j)
    case None
    then show ?thesis using assms(1,5) Some by (auto simp: id_part_def bar_part_def)
  next
    case (Some m)
    have "str_of_int n @ u = str_of_int m @ v"
      using assms(1) \<open>i = Some n\<close> Some by (simp add: id_part_def bar_part_def)
    then have "str_of_int n = str_of_int m \<and> u = v"
      using assms(2,3) str_of_int_no_bar by (intro separated_eq)
    then show ?thesis using \<open>i = Some n\<close> Some str_of_int_inj by simp
  qed
qed

lemma build_key_form:
  assumes "build_scheduler_job_key t pid pdid q = Inr k"
  shows "known_job_type t \<and>
    k = job_type_value t @ bar_part (id_part ''pi:'' pid) @ bar_part (id_part ''pd:'' pdid) @
      bar_part (case q of None \<Rightarrow> [] | Some s \<Rightarrow> [''q:'' @ py_strip s])"
proof -
  have t: "known_job_type t"
    using assms by (auto simp: build_scheduler_job_key_def scheduler_job_type_def split: if_splits)
  then have "k = py_join ''|'' ([job_type_value t] @ id_part ''pi:'' pid @ id_part ''pd:'' pdid @
      (case q of None \<Rightarrow> [] | Some s \<Rightarrow> [''q:'' @ py_strip s]))"
    using assms by (auto simp: build_scheduler_job_key_def scheduler_job_type_def Let_def split: if_splits)
  then show ?thesis using t by (simp add: py_join_def bar_part_def cong: map_cong)
qed

text \<open>C16: A job key identifies its job: two calls that build the same key had the same job type, process
  instance, process definition and (trimmed) qualifier, whatever characters the qualifier has.\<close>

theorem scheduler_job_key_injective:
  assumes "build_scheduler_job_key t pid pdid q = Inr k" and "build_scheduler_job_key t' pid' pdid' q' = Inr k"
  shows "t = t' \<and> pid = pid' \<and> pdid = pdid' \<and> map_option py_strip q = map_option py_strip q'"
proof -
  let ?Q = "\<lambda>q. bar_part (case q of None \<Rightarrow> [] | Some s \<Rightarrow> [''q:'' @ py_strip s])"
  let ?P = "\<lambda>i. bar_part (id_part ''pi:'' i)"
  let ?D = "\<lambda>i. bar_part (id_part ''pd:'' i)"
  have Q: "?Q x = [] \<or> hd (?Q x) = CHR ''|''" "take (Suc (length ''pd:'')) (?Q x) \<noteq> CHR ''|'' # ''pd:''" for x
    by (auto simp: bar_part_def split: option.split)
  have D: "?D x @ ?Q y = [] \<or> hd (?D x @ ?Q y) = CHR ''|''" "take (Suc (length ''pi:'')) (?D x @ ?Q y) \<noteq> CHR ''|'' # ''pi:''" for x y
    by (auto simp: bar_part_def id_part_def split: option.split)
  have P: "?P x @ ?D y @ ?Q z = [] \<or> hd (?P x @ ?D y @ ?Q z) = CHR ''|''" for x y z
    by (auto simp: bar_part_def id_part_def split: option.split)
  note f = build_key_form [OF assms(1)] build_key_form [OF assms(2)]
  then have "job_type_value t @ ?P pid @ ?D pdid @ ?Q q = job_type_value t' @ ?P pid' @ ?D pdid' @ ?Q q'"
    by metis
  then have "job_type_value t = job_type_value t' \<and> ?P pid @ ?D pdid @ ?Q q = ?P pid' @ ?D pdid' @ ?Q q'"
    using separated_eq [of _ _ _ _ "CHR ''|''"] job_type_value_no_bar f P by blast
  then have t: "t = t'" and "?P pid @ ?D pdid @ ?Q q = ?P pid' @ ?D pdid' @ ?Q q'"
    using job_type_value_inj f by auto
  then have "pid = pid' \<and> ?D pdid @ ?Q q = ?D pdid' @ ?Q q'"
    using id_part_eq [OF _ D(1) D(1) D(2) D(2)] by blast
  moreover from this have "pdid = pdid' \<and> ?Q q = ?Q q'"
    using id_part_eq [OF _ Q(1) Q(1) Q(2) Q(2)] by blast
  ultimately show ?thesis
    using t by (cases q; cases q') (simp_all add: bar_part_def)
qed

theorem scheduler_job_key_injective_witness:
  "\<exists>k. build_scheduler_job_key JT_process_retry (Some 7) None None = Inr k \<and>
     (\<forall>pid. build_scheduler_job_key JT_process_retry pid None None = Inr k \<longrightarrow> pid = Some 7)"
proof -
  obtain k where k: "build_scheduler_job_key JT_process_retry (Some 7) None None = Inr k"
    by (simp add: build_scheduler_job_key_def scheduler_job_type_def id_part_def)
  show ?thesis using k scheduler_job_key_injective [OF k] by blast
qed

end
