(* ===== verification/Py_Datetime.thy ===== *)
theory Py_Datetime
  imports Models
begin

text \<open>
  The parts of Python's \<^verbatim>\<open>datetime\<close> the services use on UTC timestamps, for a timestamp given as
  microseconds since the epoch: the proleptic Gregorian date, \<^verbatim>\<open>isoformat\<close>, \<^verbatim>\<open>fromisoformat\<close>, and the
  conversions between a datetime and whole seconds.
\<close>

section \<open>Dates\<close>

text \<open>
  The year, month and day of a day number, counted from 1970-01-01. Years are taken from March, so
  that the leap day is the last day of the year; \<open>era\<close> is a span of 400 years, 146097 days.
\<close>

definition civil_from_days :: "int \<Rightarrow> int \<times> int \<times> int" where
  "civil_from_days z =
     (let z' = z + 719468;
          era = z' div 146097;
          doe = z' mod 146097;
          yoe = (doe - doe div 1460 + doe div 36524 - doe div 146096) div 365;
          doy = doe - (365 * yoe + yoe div 4 - yoe div 100);
          mp = (5 * doy + 2) div 153;
          day = doy - (153 * mp + 2) div 5 + 1;
          month = (if mp < 10 then mp + 3 else mp - 9);
          year = yoe + era * 400 + (if month \<le> 2 then 1 else 0)
      in (year, month, day))"

definition days_from_civil :: "int \<Rightarrow> int \<Rightarrow> int \<Rightarrow> int" where
  "days_from_civil y m d =
     (let y' = (if m \<le> 2 then y - 1 else y);
          era = y' div 400;
          yoe = y' mod 400;
          doy = (153 * (if m > 2 then m - 3 else m + 9) + 2) div 5 + d - 1;
          doe = yoe * 365 + yoe div 4 - yoe div 100 + doy
      in era * 146097 + doe - 719468)"

definition micros_per_second :: int where "micros_per_second = 1000000"
definition micros_per_day :: int where "micros_per_day = 86400 * micros_per_second"

section \<open>isoformat\<close>

text \<open>A non-negative number with leading zeros to a width.\<close>

definition zero_pad :: "nat \<Rightarrow> int \<Rightarrow> string" where
  "zero_pad w n = (let s = str_of_nat (nat n) in replicate (w - length s) (CHR ''0'') @ s)"

text \<open>
  The date and time of a local time in microseconds: the fraction is printed only when there is one.
  An offset is printed as its sign, hours and minutes, and finer parts when it has them.
\<close>

definition iso_local :: "int \<Rightarrow> string" where
  "iso_local t =
     (let day = t div micros_per_day;
          us = t mod micros_per_day;
          secs = us div micros_per_second;
          frac = us mod micros_per_second
      in case civil_from_days day of (y, m, d) \<Rightarrow>
        zero_pad 4 y @ ''-'' @ zero_pad 2 m @ ''-'' @ zero_pad 2 d @ ''T'' @
        zero_pad 2 (secs div 3600) @ '':'' @ zero_pad 2 (secs div 60 mod 60) @ '':'' @
        zero_pad 2 (secs mod 60) @ (if frac = 0 then [] else ''.'' @ zero_pad 6 frac))"

definition iso_offset :: "int \<Rightarrow> string" where
  "iso_offset off =
     (let a = \<bar>off\<bar>; secs = a div micros_per_second; frac = a mod micros_per_second
      in (if off < 0 then ''-'' else ''+'') @ zero_pad 2 (secs div 3600) @ '':'' @
         zero_pad 2 (secs div 60 mod 60) @
         (if secs mod 60 = 0 \<and> frac = 0 then []
          else '':'' @ zero_pad 2 (secs mod 60) @ (if frac = 0 then [] else ''.'' @ zero_pad 6 frac)))"

definition isoformat :: "datetime \<Rightarrow> string" where
  "isoformat t = iso_local t @ iso_offset 0"

section \<open>fromisoformat\<close>

definition slice :: "nat \<Rightarrow> nat \<Rightarrow> string \<Rightarrow> string" where
  "slice i n s = take n (drop i s)"

definition is_digit :: "char \<Rightarrow> bool" where
  "is_digit c \<longleftrightarrow> 48 \<le> code_point c \<and> code_point c \<le> 57"

definition digits_value :: "string \<Rightarrow> int" where
  "digits_value s = foldl (\<lambda>n c. 10 * n + (int (code_point c) - 48)) 0 s"

text \<open>A field of exactly \<open>n\<close> decimal digits.\<close>

definition parse_digits :: "nat \<Rightarrow> string \<Rightarrow> int option" where
  "parse_digits n s = (if length s = n \<and> list_all is_digit s then Some (digits_value s) else None)"

text \<open>
  Where the date ends: the forms are \<open>YYYY-MM-DD\<close>, \<open>YYYYMMDD\<close>, \<open>YYYY-Www\<close>, \<open>YYYY-Www-D\<close>, \<open>YYYYWww\<close>
  and \<open>YYYYWwwD\<close>; the character after it separates the time and can be any.
\<close>

definition date_length :: "string \<Rightarrow> nat option" where
  "date_length s =
     (if length s < 7 then None
      else if length s = 7 then Some 7
      else if s ! 4 = CHR ''-'' then
        (if s ! 5 = CHR ''W'' then
           (if length s > 8 \<and> s ! 8 = CHR ''-'' then
              (if length s = 9 then None
               else if length s > 10 \<and> is_digit (s ! 10) then Some 8 else Some 10)
            else Some 8)
         else Some 10)
      else if s ! 4 = CHR ''W'' then
        (let k = 7 + length (takeWhile is_digit (drop 7 s))
         in if k < 9 then Some k else if even k then Some 7 else Some 8)
      else Some 8)"

definition is_leap :: "int \<Rightarrow> bool" where
  "is_leap y \<longleftrightarrow> 4 dvd y \<and> (100 dvd y \<longrightarrow> 400 dvd y)"

definition days_in_month :: "int \<Rightarrow> int \<Rightarrow> int" where
  "days_in_month y m =
     (if m = 2 then (if is_leap y then 29 else 28) else if m \<in> {4, 6, 9, 11} then 30 else 31)"

definition valid_date :: "int \<Rightarrow> int \<Rightarrow> int \<Rightarrow> bool" where
  "valid_date y m d \<longleftrightarrow> 1 \<le> y \<and> y \<le> 9999 \<and> 1 \<le> m \<and> m \<le> 12 \<and> 1 \<le> d \<and> d \<le> days_in_month y m"

text \<open>
  The day number of an ISO week date; day 0 was a Thursday, so that weekday 0 is a Monday. The last
  week of the year 9999 reaches into the next, which is out of range.
\<close>

definition weekday :: "int \<Rightarrow> int" where
  "weekday day = (day + 3) mod 7"

definition iso_week_day :: "int \<Rightarrow> int \<Rightarrow> int \<Rightarrow> int option" where
  "iso_week_day y w d =
     (let jan1 = days_from_civil y 1 1;
          first_monday = (if weekday jan1 > 3 then jan1 - weekday jan1 + 7 else jan1 - weekday jan1);
          long_year = (weekday jan1 = 3 \<or> (weekday jan1 = 2 \<and> is_leap y));
          day = first_monday + (w - 1) * 7 + d - 1
      in if 1 \<le> y \<and> y \<le> 9999 \<and> 1 \<le> w \<and> (w \<le> 52 \<or> (w = 53 \<and> long_year)) \<and> 1 \<le> d \<and> d \<le> 7 \<and>
            day < days_from_civil 10000 1 1
         then Some day else None)"

definition parse_isoformat_date :: "string \<Rightarrow> int option" where
  "parse_isoformat_date s =
     Option.bind (parse_digits 4 (slice 0 4 s)) (\<lambda>y.
       (let sep = (slice 4 1 s = ''-''); pos = (if sep then 5 else 4)
        in if slice pos 1 s = ''W'' then
             Option.bind (parse_digits 2 (slice (pos + 1) 2 s)) (\<lambda>w.
               if length s > pos + 3 then
                 (if (slice (pos + 3) 1 s = ''-'') \<noteq> sep then None
                  else Option.bind (parse_digits 1 (slice (if sep then pos + 4 else pos + 3) 1 s)) (iso_week_day y w))
               else iso_week_day y w 1)
           else
             Option.bind (parse_digits 2 (slice pos 2 s)) (\<lambda>m.
               if (slice (pos + 2) 1 s = ''-'') \<noteq> sep then None
               else Option.bind (parse_digits 2 (slice (if sep then pos + 3 else pos + 2) 2 s)) (\<lambda>d.
                 if valid_date y m d then Some (days_from_civil y m d) else None))))"

text \<open>
  The fraction of a second: up to six digits count, more are cut. Then hours, minutes, seconds and
  the fraction, with colons throughout or not at all, as a number of microseconds.
\<close>

definition parse_fraction :: "string \<Rightarrow> int option" where
  "parse_fraction s =
     (if s = [] then Some 0
      else if hd s \<in> {CHR ''.'', CHR '',''} \<and> tl s \<noteq> [] \<and> list_all is_digit (tl s)
      then Some (digits_value (take 6 (tl s)) * 10 ^ (6 - length (take 6 (tl s))))
      else None)"

definition parse_hms :: "string \<Rightarrow> (int \<times> int \<times> int \<times> int) option" where
  "parse_hms s =
     Option.bind (parse_digits 2 (slice 0 2 s)) (\<lambda>h.
       if length s = 2 then Some (h, 0, 0, 0)
       else (let sep = (s ! 2 = CHR '':''); p1 = (if sep then 3 else 2)
             in Option.bind (parse_digits 2 (slice p1 2 s)) (\<lambda>m.
                  if length s = p1 + 2 then Some (h, m, 0, 0)
                  else if sep \<and> s ! (p1 + 2) \<noteq> CHR '':'' then None
                  else (let p2 = (if sep then p1 + 3 else p1 + 2)
                        in Option.bind (parse_digits 2 (slice p2 2 s)) (\<lambda>sec.
                             map_option (\<lambda>us. (h, m, sec, us)) (parse_fraction (drop (p2 + 2) s)))))))"

definition micros_of :: "int \<times> int \<times> int \<times> int \<Rightarrow> int" where
  "micros_of t = (case t of (h, m, s, us) \<Rightarrow> ((h * 60 + m) * 60 + s) * micros_per_second + us)"

text \<open>
  The offset starts at the first minus sign, else at the first plus sign, else at the first \<open>Z\<close>. An
  offset must stay below a day.
\<close>

definition offset_start :: "string \<Rightarrow> nat option" where
  "offset_start s =
     (if CHR ''-'' \<in> set s then Some (length (takeWhile (\<lambda>c. c \<noteq> CHR ''-'') s))
      else if CHR ''+'' \<in> set s then Some (length (takeWhile (\<lambda>c. c \<noteq> CHR ''+'') s))
      else if CHR ''Z'' \<in> set s then Some (length (takeWhile (\<lambda>c. c \<noteq> CHR ''Z'') s))
      else None)"

definition parse_offset :: "string \<Rightarrow> int option" where
  "parse_offset s =
     (if s = ''Z'' then Some 0
      else if hd s = CHR ''Z'' \<or> length s \<in> {1, 2, 4} then None
      else Option.bind (parse_hms (tl s)) (\<lambda>t.
             if micros_of t < micros_per_day
             then Some (if hd s = CHR ''-'' then - micros_of t else micros_of t) else None))"

definition parse_isoformat_time :: "string \<Rightarrow> (int \<times> int option) option" where
  "parse_isoformat_time s =
     (if length s < 2 then None
      else Option.bind (parse_hms (case offset_start s of None \<Rightarrow> s | Some i \<Rightarrow> take i s)) (\<lambda>(h, m, sec, us).
        if h < 24 \<and> m < 60 \<and> sec < 60 then
          (case offset_start s of
             None \<Rightarrow> Some (micros_of (h, m, sec, us), None)
           | Some i \<Rightarrow> map_option (\<lambda>off. (micros_of (h, m, sec, us), Some off)) (parse_offset (drop i s)))
        else None))"

text \<open>The local time in microseconds and the offset, if there is one.\<close>

definition fromisoformat :: "string \<Rightarrow> (int \<times> int option) option" where
  "fromisoformat s =
     Option.bind (date_length s) (\<lambda>n.
     Option.bind (parse_isoformat_date (take n s)) (\<lambda>day.
       if drop (n + 1) s = [] then Some (day * micros_per_day, None)
       else map_option (\<lambda>(us, off). (day * micros_per_day + us, off)) (parse_isoformat_time (drop (n + 1) s))))"

section \<open>Instants and seconds\<close>

text \<open>A datetime without an offset is taken as UTC, as the services do with \<^verbatim>\<open>replace(tzinfo=UTC)\<close>.\<close>

definition parse_instant :: "string \<Rightarrow> m8f_error + datetime" where
  "parse_instant s =
     (case fromisoformat s of
        None \<Rightarrow> Inl (Err Py_ValueError (R_timer (TimerBadTimestamp s)))
      | Some (us, off) \<Rightarrow> Inr (us - (case off of None \<Rightarrow> 0 | Some x \<Rightarrow> x)))"

text \<open>
  \<^verbatim>\<open>math.ceil(t.timestamp())\<close>. The timestamp is a double: the quotient rounded to 53 significant bits,
  ties to even, so that instants far from the epoch lose their microseconds. \<open>bits n\<close> is the length
  of a number in base two.
\<close>

function bits :: "int \<Rightarrow> nat" where
  "bits n = (if n \<le> 0 then 0 else Suc (bits (n div 2)))"
  by pat_completeness auto
termination
  by (relation "measure nat") auto

declare bits.simps [simp del]

definition round_half_even :: "int \<Rightarrow> int \<Rightarrow> int" where
  "round_half_even a b =
     (let q = a div b; r = a mod b
      in if 2 * r < b \<or> (2 * r = b \<and> even q) then q else q + 1)"

definition timestamp_ceil :: "datetime \<Rightarrow> int" where
  "timestamp_ceil t =
     (let k = 53 - bits (\<bar>t\<bar> div micros_per_second);
          n = round_half_even (t * 2 ^ k) micros_per_second
      in - ((- n) div 2 ^ k))"

text \<open>\<^verbatim>\<open>datetime.fromtimestamp(float(n), UTC)\<close> for whole seconds: the year must be in range.\<close>

definition fromtimestamp :: "int \<Rightarrow> m8f_error + datetime" where
  "fromtimestamp n =
     (if days_from_civil 1 1 1 * 86400 \<le> n \<and> n < days_from_civil 10000 1 1 * 86400
      then Inr (n * micros_per_second)
      else Inl (Err Py_ValueError (R_timer (TimerBadTimestamp (str_of_int n)))))"

end
