(* ===== verification/Process_Instances.thy ===== *)
theory Process_Instances
  imports Authorization Work_Items Scheduler_Jobs Py_Datetime
begin

text \<open>
  \<^verbatim>\<open>src/m8flow_core/services/process_instances.py\<close>: creation and listing of process instances, the
  event log, metadata, and the lifecycle transitions that do not run the workflow engine. Each
  transition is guarded the way the code guards it: membership of the actor, the instance within the
  tenant, authorization, then the status. An operation that returns the mapped object returns the
  row as it stands after its writes.
\<close>

section \<open>Loading and listing\<close>

definition is_instance :: "string \<Rightarrow> int \<Rightarrow> process_instance_row \<Rightarrow> bool" where
  "is_instance tenant pid p \<longleftrightarrow> pi_tenant p = tenant \<and> pi_id p = pid"

definition instance_for :: "string \<Rightarrow> int \<Rightarrow> db \<Rightarrow> process_instance_row option" where
  "instance_for tenant pid d = find (is_instance tenant pid) (d_instances d)"

definition load_process_instance :: "string \<Rightarrow> int \<Rightarrow> process_instance_row svc" where
  "load_process_instance tenant pid =
     bnd (gets (instance_for tenant pid)) (\<lambda>p.
       case p of
         None \<Rightarrow> raise (Err NotFoundError (R_lookup (ProcessInstanceNotFound pid tenant)))
       | Some r \<Rightarrow> ret r)"

definition get_process_instance :: "string \<Rightarrow> int \<Rightarrow> process_instance_row svc" where
  "get_process_instance tenant pid = load_process_instance tenant pid"

definition list_process_instances ::
  "string \<Rightarrow> status_arg option \<Rightarrow> process_instance_row list svc" where
  "list_process_instances tenant status =
     (case status of
        None \<Rightarrow> gets (\<lambda>d. sort_key pi_id (filter (\<lambda>p. pi_tenant p = tenant) (d_instances d)))
      | Some a \<Rightarrow>
          bnd (lift_result (normalize_status a)) (\<lambda>st.
            gets (\<lambda>d. sort_key pi_id
              (filter (\<lambda>p. pi_tenant p = tenant \<and> pi_status p = st) (d_instances d)))))"

definition list_error_process_instances :: "string \<Rightarrow> process_instance_row list svc" where
  "list_error_process_instances tenant = list_process_instances tenant (Some (Status PIS_error))"

definition list_suspended_process_instances :: "string \<Rightarrow> process_instance_row list svc" where
  "list_suspended_process_instances tenant = list_process_instances tenant (Some (Status PIS_suspended))"

definition list_terminated_process_instances :: "string \<Rightarrow> process_instance_row list svc" where
  "list_terminated_process_instances tenant = list_process_instances tenant (Some (Status PIS_terminated))"

section \<open>Creation\<close>

definition create_process_instance ::
  "string \<Rightarrow> string \<Rightarrow> string \<Rightarrow> int \<Rightarrow> int \<Rightarrow> int \<Rightarrow> string option \<Rightarrow> int \<Rightarrow> datetime option \<Rightarrow>
   datetime option \<Rightarrow> process_instance_row svc" where
  "create_process_instance tenant model display_name initiator pdid bpid summary version
      created_at updated_at =
     bnd (ensure_user_belongs_to_tenant tenant initiator) (\<lambda>_.
     bnd (gets (\<lambda>d. (resolve_timestamp created_at d, fresh_id pi_id (d_instances d)))) (\<lambda>(occurred_at, i).
       (let p = \<lparr>pi_id = i, pi_tenant = tenant, pi_process_model_identifier = model,
            pi_process_model_display_name = display_name, pi_summary = summary,
            pi_process_initiator_id = initiator, pi_bpmn_process_definition_id = Some pdid,
            pi_bpmn_process_id = Some bpid, pi_workflow_engine_version = None,
            pi_status = PIS_not_started, pi_started_at = None, pi_ended_at = None,
            pi_task_updated_at = None,
            pi_updated_at = Some (case updated_at of None \<Rightarrow> occurred_at | Some u \<Rightarrow> u),
            pi_created_at = Some occurred_at, pi_version_control_type = None,
            pi_version_control_identifier = None, pi_last_milestone_bpmn_name = None,
            pi_bpmn_version_id = None\<rparr>
        in thn (modify (\<lambda>d. d\<lparr>d_instances := d_instances d @ [p]\<rparr>)) (ret p))))"

section \<open>The event log\<close>

text \<open>Assigning \<^verbatim>\<open>event_type\<close> runs the column's validator, which also sets the category.\<close>

definition validate_event_type :: "event_arg \<Rightarrow> m8f_error + event_type \<times> event_category" where
  "validate_event_type a =
     (case event_category_for_type a of
        None \<Rightarrow> Inl (Err ValidationError (R_column (UnknownEventType (event_key a))))
      | Some tc \<Rightarrow> Inr tc)"

definition record_process_instance_event ::
  "string \<Rightarrow> int \<Rightarrow> event_arg \<Rightarrow> datetime option \<Rightarrow> guid option \<Rightarrow> int option \<Rightarrow> event_row svc" where
  "record_process_instance_event tenant pid ev occurred_at task_guid user_id =
     thn (case user_id of None \<Rightarrow> ret ()
          | Some u \<Rightarrow> bnd (ensure_user_belongs_to_tenant tenant u) (\<lambda>_. ret ()))
     (bnd (load_process_instance tenant pid) (\<lambda>_.
      bnd (lift_result (validate_event_type ev)) (\<lambda>(t, c).
      bnd (gets (\<lambda>d. \<lparr>ev_id = fresh_id ev_id (d_events d), ev_tenant = tenant,
             ev_task_guid = task_guid, ev_process_instance_id = pid, ev_event_type = t,
             ev_category = c, ev_occurred_at = resolve_timestamp occurred_at d,
             ev_user_id = user_id\<rparr>)) (\<lambda>e.
        thn (modify (\<lambda>d. d\<lparr>d_events := d_events d @ [e]\<rparr>)) (ret e)))))"

definition get_process_instance_events :: "string \<Rightarrow> int \<Rightarrow> event_row list svc" where
  "get_process_instance_events tenant pid =
     bnd (load_process_instance tenant pid) (\<lambda>_.
       gets (\<lambda>d. sort_key (\<lambda>e. (ev_occurred_at e, ev_id e))
         (filter (\<lambda>e. ev_tenant e = tenant \<and> ev_process_instance_id e = pid) (d_events d))))"

section \<open>Metadata\<close>

definition put_metadata :: "metadata_row list \<Rightarrow> db \<Rightarrow> db" where
  "put_metadata rs d = d\<lparr>d_metadata := rs\<rparr>"

definition has_metadata_key :: "string \<Rightarrow> int \<Rightarrow> string \<Rightarrow> metadata_row \<Rightarrow> bool" where
  "has_metadata_key tenant pid key m \<longleftrightarrow>
     md_tenant m = tenant \<and> md_process_instance_id m = pid \<and> md_key m = key"

definition upsert_process_instance_metadata ::
  "string \<Rightarrow> int \<Rightarrow> string \<Rightarrow> string \<Rightarrow> datetime \<Rightarrow> datetime option \<Rightarrow> metadata_row svc" where
  "upsert_process_instance_metadata tenant pid key v updated_at created_at =
     bnd (load_process_instance tenant pid) (\<lambda>_.
       upsert_row d_metadata put_metadata md_id (has_metadata_key tenant pid key)
         (\<lambda>i. \<lparr>md_id = i, md_tenant = tenant, md_process_instance_id = pid, md_key = key,
                md_value = v, md_updated_at = updated_at,
                md_created_at = (case created_at of None \<Rightarrow> updated_at | Some c \<Rightarrow> c)\<rparr>)
         (\<lambda>m. m\<lparr>md_value := v, md_updated_at := updated_at,
                md_created_at := (case created_at of None \<Rightarrow> md_created_at m | Some c \<Rightarrow> c)\<rparr>))"

definition get_process_instance_metadata :: "string \<Rightarrow> int \<Rightarrow> metadata_row list svc" where
  "get_process_instance_metadata tenant pid =
     bnd (load_process_instance tenant pid) (\<lambda>_.
       gets (\<lambda>d. sort_key (\<lambda>m. (md_key m, md_id m))
         (filter (\<lambda>m. md_tenant m = tenant \<and> md_process_instance_id m = pid) (d_metadata d))))"

section \<open>Closing and reopening the runtime state\<close>

text \<open>
  The loops over \<^verbatim>\<open>process_instance.tasks\<close> and \<^verbatim>\<open>process_instance.work_items\<close> assign to each row
  alone, so each is one write to the rows of the instance. \<open>instance_task_guids\<close> are the tasks of
  the instance that satisfy a condition; their future tasks are the rows with the same guid.
\<close>

definition instance_task_guids :: "int \<Rightarrow> (task_row \<Rightarrow> bool) \<Rightarrow> db \<Rightarrow> guid list" where
  "instance_task_guids pid c d =
     map tk_guid (filter (\<lambda>t. tk_process_instance_id t = pid \<and> c t) (d_tasks d))"

definition close_task_row :: "datetime \<Rightarrow> task_row \<Rightarrow> task_row" where
  "close_task_row ts t =
     (if tk_state t \<noteq> TS_COMPLETED then t\<lparr>tk_state := TS_TERMINATED\<rparr> else t)\<lparr>tk_ended_at := Some ts\<rparr>"

definition close_process_instance_runtime_state :: "int \<Rightarrow> datetime \<Rightarrow> int option \<Rightarrow> unit svc" where
  "close_process_instance_runtime_state pid ts user_id =
     modify (\<lambda>d. d\<lparr>
       d_instances := update_where (\<lambda>p. pi_id p = pid) (\<lambda>p. p\<lparr>pi_task_updated_at := Some ts\<rparr>)
         (d_instances d),
       d_tasks := update_where (\<lambda>t. tk_process_instance_id t = pid) (close_task_row ts) (d_tasks d),
       d_future := update_where (\<lambda>f. ft_guid f \<in> set (instance_task_guids pid (\<lambda>_. True) d))
         (\<lambda>f. f\<lparr>ft_completed := True, ft_archived := True, ft_updated_at := ts\<rparr>) (d_future d),
       d_work_items := update_where (\<lambda>w. wi_process_instance_id w = pid \<and> \<not> wi_completed w)
         (close_work_item TERMINATED ts user_id) (d_work_items d)\<rparr>)"

definition reopen_task_row :: "task_row \<Rightarrow> task_row" where
  "reopen_task_row t = t\<lparr>tk_state := TS_READY, tk_started_at := None, tk_ended_at := None\<rparr>"

definition reopen_process_instance_runtime_state :: "int \<Rightarrow> datetime \<Rightarrow> unit svc" where
  "reopen_process_instance_runtime_state pid ts =
     modify (\<lambda>d. d\<lparr>
       d_instances := update_where (\<lambda>p. pi_id p = pid) (\<lambda>p. p\<lparr>pi_task_updated_at := Some ts\<rparr>)
         (d_instances d),
       d_tasks := update_where (\<lambda>t. tk_process_instance_id t = pid \<and> tk_state t = TS_TERMINATED)
         reopen_task_row (d_tasks d),
       d_future := update_where
         (\<lambda>f. ft_guid f \<in> set (instance_task_guids pid (\<lambda>t. tk_state t = TS_TERMINATED) d))
         (\<lambda>f. f\<lparr>ft_completed := False, ft_archived := False, ft_updated_at := ts\<rparr>) (d_future d),
       d_work_items := update_where (\<lambda>w. wi_process_instance_id w = pid \<and>
           (wi_task_status w = TERMINATED \<or> wi_completed w)) (reopen_work_item ts) (d_work_items d)\<rparr>)"

section \<open>Lifecycle transitions\<close>

definition instance_authorization :: "policy_context \<Rightarrow> string \<Rightarrow> int \<Rightarrow> string \<Rightarrow> int \<Rightarrow> unit svc" where
  "instance_authorization ctx tenant uid key pid =
     require_command_authorization ctx tenant uid key (Some RESOURCE_PROCESS_INSTANCE)
       (Some (Id_int pid)) None"

definition suspend_process_instance ::
  "policy_context \<Rightarrow> string \<Rightarrow> int \<Rightarrow> int \<Rightarrow> datetime option \<Rightarrow> process_instance_row svc" where
  "suspend_process_instance ctx tenant pid uid suspended_at =
     bnd (ensure_user_belongs_to_tenant tenant uid) (\<lambda>_.
     bnd (load_process_instance tenant pid) (\<lambda>p.
     thn (instance_authorization ctx tenant uid PROCESS_SUSPEND_COMMAND (pi_id p))
       (if pi_status p = PIS_suspended then ret p
        else if has_terminal_status (pi_status p)
        then raise (Err InvalidStateError (R_lifecycle CannotSuspendTerminal))
        else
          bnd (gets (resolve_timestamp suspended_at)) (\<lambda>occurred_at.
          thn (upd_instance (pi_id p) (\<lambda>r. r\<lparr>pi_status := PIS_suspended, pi_updated_at := Some occurred_at\<rparr>))
          (thn (record_process_instance_event tenant pid (Event process_instance_suspended)
                 (Some occurred_at) None (Some uid))
             (load_process_instance tenant pid))))))"

definition error_process_instance ::
  "string \<Rightarrow> int \<Rightarrow> int option \<Rightarrow> datetime option \<Rightarrow> process_instance_row svc" where
  "error_process_instance tenant pid user_id errored_at =
     thn (case user_id of None \<Rightarrow> ret ()
          | Some u \<Rightarrow> bnd (ensure_user_belongs_to_tenant tenant u) (\<lambda>_. ret ()))
     (bnd (load_process_instance tenant pid) (\<lambda>p.
        if pi_status p = PIS_error then ret p
        else if pi_status p = PIS_complete
        then raise (Err InvalidStateError (R_lifecycle CannotErrorCompleted))
        else if pi_status p = PIS_terminated
        then raise (Err InvalidStateError (R_lifecycle CannotErrorTerminated))
        else
          bnd (gets (resolve_timestamp errored_at)) (\<lambda>occurred_at.
          thn (upd_instance (pi_id p) (\<lambda>r. r\<lparr>pi_status := PIS_error, pi_ended_at := Some occurred_at,
                 pi_updated_at := Some occurred_at\<rparr>))
          (thn (close_process_instance_runtime_state (pi_id p) occurred_at user_id)
          (thn (record_process_instance_event tenant pid (Event process_instance_error)
                 (Some occurred_at) None user_id)
             (load_process_instance tenant pid))))))"

definition process_retry_scheduler_job_key :: "int \<Rightarrow> m8f_error + string" where
  "process_retry_scheduler_job_key pid = build_scheduler_job_key JT_process_retry (Some pid) None None"

definition schedule_process_instance_retry ::
  "policy_context \<Rightarrow> string \<Rightarrow> int \<Rightarrow> int \<Rightarrow> datetime \<Rightarrow> datetime option \<Rightarrow> scheduler_job_row svc" where
  "schedule_process_instance_retry ctx tenant pid uid retry_at scheduled_at =
     bnd (ensure_user_belongs_to_tenant tenant uid) (\<lambda>_.
     bnd (load_process_instance tenant pid) (\<lambda>p.
     thn (instance_authorization ctx tenant uid PROCESS_RETRY_COMMAND (pi_id p))
       (if pi_status p \<noteq> PIS_error
        then raise (Err InvalidStateError (R_lifecycle OnlyErroredScheduled))
        else
          bnd (gets (resolve_timestamp scheduled_at)) (\<lambda>occurred_at.
          bnd (lift_result (process_retry_scheduler_job_key (pi_id p))) (\<lambda>key.
            upsert_scheduler_job tenant key JT_process_retry retry_at (Some (pi_id p))
              (pi_bpmn_process_definition_id p)
              (Some [(''requested_by_user_id'', PInt uid), (''scheduled_at'', PStr (isoformat occurred_at))])
              (Some occurred_at) (Some occurred_at))))))"

definition terminate_process_instance ::
  "policy_context \<Rightarrow> string \<Rightarrow> int \<Rightarrow> int \<Rightarrow> datetime option \<Rightarrow> process_instance_row svc" where
  "terminate_process_instance ctx tenant pid uid terminated_at =
     bnd (ensure_user_belongs_to_tenant tenant uid) (\<lambda>_.
     bnd (load_process_instance tenant pid) (\<lambda>p.
     thn (instance_authorization ctx tenant uid PROCESS_TERMINATE_COMMAND (pi_id p))
       (if pi_status p = PIS_terminated then ret p
        else if pi_status p = PIS_complete \<or> pi_status p = PIS_error
        then raise (Err InvalidStateError (R_lifecycle CannotTerminateEnded))
        else
          bnd (gets (resolve_timestamp terminated_at)) (\<lambda>occurred_at.
          thn (upd_instance (pi_id p) (\<lambda>r. r\<lparr>pi_status := PIS_terminated,
                 pi_ended_at := Some occurred_at, pi_updated_at := Some occurred_at\<rparr>))
          (thn (close_process_instance_runtime_state (pi_id p) occurred_at (Some uid))
          (thn (record_process_instance_event tenant pid (Event process_instance_terminated)
                 (Some occurred_at) None (Some uid))
             (load_process_instance tenant pid)))))))"

definition delete_scheduled_process_retry_job :: "string \<Rightarrow> int \<Rightarrow> unit svc" where
  "delete_scheduled_process_retry_job tenant pid =
     bnd (lift_result (process_retry_scheduler_job_key pid)) (\<lambda>key.
       bnd (delete_scheduler_job tenant key) (\<lambda>_. ret ()))"

section \<open>Running the operations\<close>

lemma load_run [run_simps]:
  "load_process_instance tenant pid d =
     (case instance_for tenant pid d of
        None \<Rightarrow> (Inl (Err NotFoundError (R_lookup (ProcessInstanceNotFound pid tenant))), d)
      | Some p \<Rightarrow> (Inr p, d))"
  by (simp add: load_process_instance_def run_simps split: option.split)

lemma bnd_load_run [run_simps]:
  "bnd (load_process_instance tenant pid) f d =
     (case instance_for tenant pid d of
        None \<Rightarrow> (Inl (Err NotFoundError (R_lookup (ProcessInstanceNotFound pid tenant))), d)
      | Some p \<Rightarrow> f p d)"
  by (simp add: bnd_def load_run split: option.split)

lemma instance_for_keys: "instance_for tenant pid d = Some p \<Longrightarrow> pi_id p = pid \<and> pi_tenant p = tenant \<and> p \<in> set (d_instances d)"
  by (auto simp: instance_for_def is_instance_def dest: find_SomeD)

lemma ensure_member_run:
  "tenant_member tenant uid d \<Longrightarrow> bnd (ensure_user_belongs_to_tenant tenant uid) f d =
     f (the (get_user uid d)) d"
  by (auto simp: tenant_member_def ensure_user_run bnd_def)

lemma ensure_not_member:
  "\<not> tenant_member tenant uid d \<Longrightarrow> \<exists>e. bnd (ensure_user_belongs_to_tenant tenant uid) f d = (Inl e, d)"
  by (auto simp: tenant_member_def ensure_user_run bnd_def split: option.split)

lemma not_member_unchanged:
  assumes "\<not> tenant_member tenant uid d"
    and "bnd (ensure_user_belongs_to_tenant tenant uid) f d = (r, d')"
  shows "d' = d"
  using ensure_not_member [OF assms(1), of f] assms(2) by auto

text \<open>The event a lifecycle operation appends.\<close>

definition new_event ::
  "string \<Rightarrow> int \<Rightarrow> event_type \<Rightarrow> datetime \<Rightarrow> guid option \<Rightarrow> int option \<Rightarrow> db \<Rightarrow> event_row" where
  "new_event tenant pid t ts g user d =
     \<lparr>ev_id = fresh_id ev_id (d_events d), ev_tenant = tenant, ev_task_guid = g,
      ev_process_instance_id = pid, ev_event_type = t,
      ev_category = (if t \<in> set process_lifecycle_events then Cat_process else Cat_task),
      ev_occurred_at = ts, ev_user_id = user\<rparr>"

definition actor_ok :: "string \<Rightarrow> int option \<Rightarrow> db \<Rightarrow> bool" where
  "actor_ok tenant user d \<longleftrightarrow> (case user of None \<Rightarrow> True | Some u \<Rightarrow> tenant_member tenant u d)"

lemma actor_run:
  "actor_ok tenant user d \<Longrightarrow>
     thn (case user of None \<Rightarrow> ret () | Some u \<Rightarrow> bnd (ensure_user_belongs_to_tenant tenant u) (\<lambda>_. ret ())) m d
     = m d"
  by (auto simp: actor_ok_def thn_def ensure_member_run bnd_def ret_def tenant_member_def ensure_user_run
      split: option.splits)

lemma actor_refused:
  "\<not> actor_ok tenant user d \<Longrightarrow>
     \<exists>e. thn (case user of None \<Rightarrow> ret () | Some u \<Rightarrow> bnd (ensure_user_belongs_to_tenant tenant u) (\<lambda>_. ret ())) m d
       = (Inl e, d)"
  by (auto simp: actor_ok_def thn_def bnd_def ret_def tenant_member_def ensure_user_run
      split: option.splits)

lemma actor_refused_unchanged:
  assumes "\<not> actor_ok tenant user d"
    and "thn (case user of None \<Rightarrow> ret () | Some u \<Rightarrow> bnd (ensure_user_belongs_to_tenant tenant u) (\<lambda>_. ret ())) m d
       = (r, d')"
  shows "d' = d"
  using actor_refused [OF assms(1), of m] assms(2) by auto

lemma record_event_run:
  assumes "actor_ok tenant user d" and "instance_for tenant pid d = Some p"
  shows "record_process_instance_event tenant pid (Event t) (Some ts) g user d =
    (Inr (new_event tenant pid t ts g user d),
     d\<lparr>d_events := d_events d @ [new_event tenant pid t ts g user d]\<rparr>)"
  unfolding record_process_instance_event_def
  by (simp add: actor_run [OF assms(1)] run_simps assms(2) validate_event_type_def
      event_category_Event resolve_timestamp_def new_event_def)

text \<open>Membership and the lookup of an instance read only some tables and columns.\<close>

lemma tenant_member_cong:
  "d_users d' = d_users d \<Longrightarrow> d_tenants d' = d_tenants d \<Longrightarrow> tenant_member t u d' = tenant_member t u d"
  by (simp add: tenant_member_def get_user_def tenant_identifiers_for_def tenant_named_def)

lemma actor_ok_cong:
  assumes "d_users d' = d_users d" "d_tenants d' = d_tenants d"
  shows "actor_ok t u d' = actor_ok t u d"
  by (simp add: actor_ok_def tenant_member_cong [OF assms] split: option.split)

lemma instance_for_update:
  assumes "\<And>p. pi_id (f p) = pi_id p" "\<And>p. pi_tenant (f p) = pi_tenant p"
  shows "find (is_instance tenant pid) (update_where c f rows) =
    map_option (\<lambda>p. if c p then f p else p) (find (is_instance tenant pid) rows)"
  using assms by (intro find_update_where) (simp add: is_instance_def)

lemma instance_for_other_tables [simp]:
  "instance_for tenant pid (d\<lparr>d_events := es\<rparr>) = instance_for tenant pid d"
  "instance_for tenant pid (d\<lparr>d_work_items := ws\<rparr>) = instance_for tenant pid d"
  "instance_for tenant pid (d\<lparr>d_future := fs\<rparr>) = instance_for tenant pid d"
  "instance_for tenant pid (d\<lparr>d_tasks := ts\<rparr>) = instance_for tenant pid d"
  "instance_for tenant pid (d\<lparr>d_jobs := js\<rparr>) = instance_for tenant pid d"
  by (simp_all add: instance_for_def)

lemma instance_for_write:
  assumes "instance_for tenant pid d = Some p"
    and "\<And>p. pi_id (f p) = pi_id p" "\<And>p. pi_tenant (f p) = pi_tenant p"
  shows "instance_for tenant pid (d\<lparr>d_instances := update_where (\<lambda>r. pi_id r = pid) f (d_instances d)\<rparr>)
    = Some (f p)"
  using assms instance_for_keys [OF assms(1)] by (simp add: instance_for_def instance_for_update)

text \<open>A host policy that permits everything.\<close>

definition permit_all_context :: policy_context where
  "permit_all_context = \<lparr>active_policy = Some (\<lambda>_. ret (Decision True None)),
     default_policy = DatabaseAuthorizationPolicy_authorize\<rparr>"

lemma one_instance_member: "tenant_member ''acme'' 1 one_instance_db"
  unfolding tenant_member_def
  by (rule exI [of _ "realm_user 1 ''acme''"]) code_simp

lemma one_instance_lookup: "instance_for ''acme'' 1 one_instance_db = Some one_instance"
  by (simp add: instance_for_def is_instance_def one_instance_db_def one_instance_def empty_db_def)

lemma instance_commands_known:
  "\<exists>sp. authorization_spec_for_command_key PROCESS_SUSPEND_COMMAND = Inr sp"
  "\<exists>sp. authorization_spec_for_command_key PROCESS_RETRY_COMMAND = Inr sp"
  "\<exists>sp. authorization_spec_for_command_key PROCESS_TERMINATE_COMMAND = Inr sp"
  "\<exists>sp. authorization_spec_for_command_key PROCESS_RESUME_COMMAND = Inr sp"
  by (simp_all add: authorization_spec_for_command_key_def COMMAND_AUTHORIZATION_SPECS_def mk_spec_def
      command_key_defs)

lemma permit_all_authorizes:
  assumes "\<exists>sp. authorization_spec_for_command_key key = Inr sp"
  shows "instance_authorization permit_all_context tenant uid key pid d = (Inr (), d)"
  using assms
  by (auto simp: instance_authorization_def require_command_authorization_def run_simps
      build_authorization_request_def str_or_def permission_resource_type_def
      permission_resource_types_def resource_defs permit_all_context_def resolve_authorization_policy_def)

text \<open>Assign to the instance, append an event, return the instance: the tail of every transition.\<close>

lemma transition_run:
  assumes "actor_ok tenant user d" and "instance_for tenant pid d = Some p"
    and "\<And>p. pi_id (f p) = pi_id p" "\<And>p. pi_tenant (f p) = pi_tenant p"
  shows "thn (upd_instance pid f)
      (thn (record_process_instance_event tenant pid (Event t) (Some ts) g user)
        (load_process_instance tenant pid)) d =
    (Inr (f p), d\<lparr>d_instances := update_where (\<lambda>r. pi_id r = pid) f (d_instances d),
       d_events := d_events d @ [new_event tenant pid t ts g user d]\<rparr>)"
proof -
  let ?d = "d\<lparr>d_instances := update_where (\<lambda>r. pi_id r = pid) f (d_instances d)\<rparr>"
  note here = instance_for_write [OF assms(2-4)]
  have "actor_ok tenant user ?d" using assms(1) actor_ok_cong [of ?d d] by simp
  note rec = record_event_run [OF this here, of t ts g]
  have "new_event tenant pid t ts g user ?d = new_event tenant pid t ts g user d"
    by (simp add: new_event_def)
  then show ?thesis using here rec by (simp add: upd_defs run_simps thn_Inr)
qed

text \<open>Suspending on every branch. For a member whose policy permits it, a suspended instance is returned
  as it is, a terminal one is refused without a change, and any other becomes suspended at the given
  time, with one event that names the actor and nothing else changed.\<close>

lemma suspend_process_instance_spec:
  assumes "tenant_member tenant uid d" and "instance_for tenant pid d = Some p"
    and "instance_authorization ctx tenant uid PROCESS_SUSPEND_COMMAND pid d = (Inr (), d)"
  shows "suspend_process_instance ctx tenant pid uid ts d =
    (if pi_status p = PIS_suspended then (Inr p, d)
     else if has_terminal_status (pi_status p)
     then (Inl (Err InvalidStateError (R_lifecycle CannotSuspendTerminal)), d)
     else
       (Inr (p\<lparr>pi_status := PIS_suspended, pi_updated_at := Some (resolve_timestamp ts d)\<rparr>),
        d\<lparr>d_instances := update_where (\<lambda>r. pi_id r = pid)
            (\<lambda>r. r\<lparr>pi_status := PIS_suspended, pi_updated_at := Some (resolve_timestamp ts d)\<rparr>)
            (d_instances d),
          d_events := d_events d @
            [new_event tenant pid process_instance_suspended (resolve_timestamp ts d) None (Some uid) d]\<rparr>))"
proof -
  have pid: "pi_id p = pid" using instance_for_keys [OF assms(2)] by simp
  have "actor_ok tenant (Some uid) d" using assms(1) by (simp add: actor_ok_def)
  note run = transition_run [OF this assms(2)]
  show ?thesis
    unfolding suspend_process_instance_def
    by (simp add: ensure_member_run [OF assms(1)] run_simps assms(2,3) pid thn_Inr run)
qed

lemma suspend_running_instance:
  "\<exists>d p. instance_for ''acme'' 1 d = Some p \<and> pi_status p = PIS_running \<and>
     suspend_process_instance (permit_all_context) ''acme'' 1 1 (Some 7) d =
       (Inr (p\<lparr>pi_status := PIS_suspended, pi_updated_at := Some 7\<rparr>),
        d\<lparr>d_instances := update_where (\<lambda>r. pi_id r = 1)
            (\<lambda>r. r\<lparr>pi_status := PIS_suspended, pi_updated_at := Some 7\<rparr>) (d_instances d),
          d_events := d_events d @
            [new_event ''acme'' 1 process_instance_suspended 7 None (Some 1) d]\<rparr>)"
proof -
  have auth: "instance_authorization permit_all_context ''acme'' 1 PROCESS_SUSPEND_COMMAND 1 one_instance_db
      = (Inr (), one_instance_db)" by (rule permit_all_authorizes [OF instance_commands_known(1)])
  show ?thesis
    using suspend_process_instance_spec [OF one_instance_member one_instance_lookup auth, of "Some 7"]
    by (intro exI [of _ one_instance_db] exI [of _ one_instance])
      (simp add: one_instance_lookup one_instance_def terminal_iff resolve_timestamp_def)
qed

section \<open>Ending an instance\<close>

text \<open>Everything the instance had open is closed, and everything of other instances is as before.\<close>

definition runtime_closed :: "int \<Rightarrow> db \<Rightarrow> bool" where
  "runtime_closed pid d \<longleftrightarrow>
     list_all (\<lambda>w. wi_process_instance_id w = pid \<longrightarrow> wi_completed w) (d_work_items d) \<and>
     list_all (\<lambda>t. tk_process_instance_id t = pid \<longrightarrow>
        tk_state t \<in> {TS_COMPLETED, TS_TERMINATED} \<and> tk_ended_at t \<noteq> None) (d_tasks d) \<and>
     list_all (\<lambda>f. ft_guid f \<in> set (instance_task_guids pid (\<lambda>_. True) d) \<longrightarrow>
        ft_completed f \<and> ft_archived f) (d_future d)"

definition other_instances_kept :: "int \<Rightarrow> db \<Rightarrow> db \<Rightarrow> bool" where
  "other_instances_kept pid d d' \<longleftrightarrow>
     filter (\<lambda>p. pi_id p \<noteq> pid) (d_instances d') = filter (\<lambda>p. pi_id p \<noteq> pid) (d_instances d) \<and>
     filter (\<lambda>t. tk_process_instance_id t \<noteq> pid) (d_tasks d') =
       filter (\<lambda>t. tk_process_instance_id t \<noteq> pid) (d_tasks d) \<and>
     filter (\<lambda>w. wi_process_instance_id w \<noteq> pid) (d_work_items d') =
       filter (\<lambda>w. wi_process_instance_id w \<noteq> pid) (d_work_items d) \<and>
     filter (\<lambda>f. ft_guid f \<notin> set (instance_task_guids pid (\<lambda>_. True) d)) (d_future d') =
       filter (\<lambda>f. ft_guid f \<notin> set (instance_task_guids pid (\<lambda>_. True) d)) (d_future d)"

lemma close_run:
  "close_process_instance_runtime_state pid ts u d =
     (Inr (), final_state (close_process_instance_runtime_state pid ts u) d)"
  by (simp add: close_process_instance_runtime_state_def modify_def final_state_def)

lemma close_task_row_keys [simp]:
  "tk_guid (close_task_row ts t) = tk_guid t"
  "tk_process_instance_id (close_task_row ts t) = tk_process_instance_id t"
  "tk_tenant (close_task_row ts t) = tk_tenant t"
  by (simp_all add: close_task_row_def)

lemma close_work_item_instance [simp]:
  "wi_process_instance_id (close_work_item st ts u w) = wi_process_instance_id w"
  "wi_completed (close_work_item st ts u w)"
  by (simp_all add: close_work_item_def Let_def)

lemma instance_task_guids_close:
  "instance_task_guids pid (\<lambda>_. True) (final_state (close_process_instance_runtime_state pid ts u) d) =
     instance_task_guids pid (\<lambda>_. True) d"
  by (simp add: instance_task_guids_def close_process_instance_runtime_state_def final_state_def
      modify_def filter_update_where map_update_where)

lemma close_closes:
  "runtime_closed pid (final_state (close_process_instance_runtime_state pid ts u) d)"
  unfolding runtime_closed_def instance_task_guids_close
  by (simp add: close_process_instance_runtime_state_def final_state_def modify_def
      list_all_update_where)
    (auto simp: list_all_iff close_task_row_def)

lemma close_keeps_others:
  "other_instances_kept pid d (final_state (close_process_instance_runtime_state pid ts u) d)"
  unfolding other_instances_kept_def
  by (auto simp: close_process_instance_runtime_state_def final_state_def modify_def
      intro!: filter_update_other)

lemma closing_state:
  assumes "actor_ok tenant user d" and "instance_for tenant pid d = Some p"
    and "\<And>p. pi_id (f p) = pi_id p" "\<And>p. pi_tenant (f p) = pi_tenant p"
    and d1: "d1 = final_state (close_process_instance_runtime_state pid ts user)
      (d\<lparr>d_instances := update_where (\<lambda>r. pi_id r = pid) f (d_instances d)\<rparr>)"
  shows "thn (upd_instance pid f) (thn (close_process_instance_runtime_state pid ts user)
      (thn (record_process_instance_event tenant pid (Event t) (Some ts) g user)
        (load_process_instance tenant pid))) d =
      (Inr ((f p)\<lparr>pi_task_updated_at := Some ts\<rparr>), d1\<lparr>d_events := d_events d @ [new_event tenant pid t ts g user d]\<rparr>) \<and>
    instance_for tenant pid d1 = Some ((f p)\<lparr>pi_task_updated_at := Some ts\<rparr>)"
proof -
  let ?d1 = "d\<lparr>d_instances := update_where (\<lambda>r. pi_id r = pid) f (d_instances d)\<rparr>"
  let ?close = "close_process_instance_runtime_state pid ts user"
  let ?p = "(f p)\<lparr>pi_task_updated_at := Some ts\<rparr>"
  have keep: "d_users d1 = d_users d" "d_tenants d1 = d_tenants d" "d_events d1 = d_events d"
    by (simp_all add: d1 final_state_def close_process_instance_runtime_state_def modify_def)
  have here: "instance_for tenant pid d1 = Some ?p"
    using instance_for_write [OF assms(2-4)] instance_for_keys [OF assms(2)] assms(3)
    by (simp add: d1 final_state_def close_process_instance_runtime_state_def modify_def instance_for_def
        instance_for_update)
  have "actor_ok tenant user d1" using assms(1) actor_ok_cong [OF keep(1,2)] by simp
  note rec = record_event_run [OF this here, of t ts g]
  have ev: "new_event tenant pid t ts g user d1 = new_event tenant pid t ts g user d"
    by (simp add: new_event_def keep(3))
  have "?close ?d1 = (Inr (), d1)" using close_run [of pid ts user ?d1] by (simp add: d1)
  then show ?thesis
    using rec here by (simp add: upd_defs run_simps thn_Inr ev keep(3))
qed

lemma closing_run:
  assumes "actor_ok tenant user d" and "instance_for tenant pid d = Some p"
    and "\<And>p. pi_id (f p) = pi_id p" "\<And>p. pi_tenant (f p) = pi_tenant p"
  shows "\<exists>d'. thn (upd_instance pid f) (thn (close_process_instance_runtime_state pid ts user)
      (thn (record_process_instance_event tenant pid (Event t) (Some ts) g user)
        (load_process_instance tenant pid))) d = (Inr ((f p)\<lparr>pi_task_updated_at := Some ts\<rparr>), d') \<and>
    instance_for tenant pid d' = Some ((f p)\<lparr>pi_task_updated_at := Some ts\<rparr>) \<and>
    runtime_closed pid d' \<and> other_instances_kept pid d d' \<and>
    d_events d' = d_events d @ [new_event tenant pid t ts g user d]"
proof -
  let ?d1 = "d\<lparr>d_instances := update_where (\<lambda>r. pi_id r = pid) f (d_instances d)\<rparr>"
  let ?d3 = "(final_state (close_process_instance_runtime_state pid ts user) ?d1)
    \<lparr>d_events := d_events d @ [new_event tenant pid t ts g user d]\<rparr>"
  note run = closing_state [OF assms refl, of ts t g]
  have "runtime_closed pid ?d3"
    using close_closes [of pid ts user ?d1] by (simp add: runtime_closed_def instance_task_guids_def)
  moreover have "other_instances_kept pid d ?d3"
  proof -
    have "filter (\<lambda>p. pi_id p \<noteq> pid) (update_where (\<lambda>r. pi_id r = pid) f (d_instances d)) =
        filter (\<lambda>p. pi_id p \<noteq> pid) (d_instances d)"
      using assms(3) by (intro filter_update_other) simp
    then show ?thesis
      using close_keeps_others [of pid ?d1 ts user]
      by (simp add: other_instances_kept_def instance_task_guids_def)
  qed
  ultimately show ?thesis using run by (intro exI [of _ ?d3]) simp
qed

text \<open>C11: Terminating a live instance ends it and closes everything it had open. For a permitted member
  and an instance that is neither terminated, complete nor errored, the call returns the instance as
  terminated with its end time; no work item of it is left open, every task of it is completed or
  terminated, its future tasks are archived, one event names the actor, and no row of another
  instance has changed.\<close>

theorem terminate_process_instance_spec:
  assumes "tenant_member tenant uid d" and "instance_for tenant pid d = Some p"
    and "instance_authorization ctx tenant uid PROCESS_TERMINATE_COMMAND pid d = (Inr (), d)"
    and "\<not> has_terminal_status (pi_status p)"
  shows "\<exists>p' d'. terminate_process_instance ctx tenant pid uid ts d = (Inr p', d') \<and>
    instance_for tenant pid d' = Some p' \<and> pi_status p' = PIS_terminated \<and>
    pi_ended_at p' = Some (resolve_timestamp ts d) \<and>
    runtime_closed pid d' \<and> other_instances_kept pid d d' \<and>
    d_events d' = d_events d @
      [new_event tenant pid process_instance_terminated (resolve_timestamp ts d) None (Some uid) d]"
proof -
  have pid: "pi_id p = pid" using instance_for_keys [OF assms(2)] by simp
  let ?ts = "resolve_timestamp ts d"
  let ?f = "\<lambda>r. r\<lparr>pi_status := PIS_terminated, pi_ended_at := Some ?ts, pi_updated_at := Some ?ts\<rparr>"
  have actor: "actor_ok tenant (Some uid) d" using assms(1) by (simp add: actor_ok_def)
  have eq: "terminate_process_instance ctx tenant pid uid ts d =
      thn (upd_instance pid ?f) (thn (close_process_instance_runtime_state pid ?ts (Some uid))
        (thn (record_process_instance_event tenant pid (Event process_instance_terminated)
           (Some ?ts) None (Some uid)) (load_process_instance tenant pid))) d"
    unfolding terminate_process_instance_def
    using assms(4)
    by (simp add: ensure_member_run [OF assms(1)] run_simps assms(2,3) pid thn_Inr terminal_iff)
  have ids: "\<And>r. pi_id (?f r) = pi_id r" "\<And>r. pi_tenant (?f r) = pi_tenant r" by simp_all
  show ?thesis
    unfolding eq
    using closing_run [OF actor assms(2), where f = ?f and t = process_instance_terminated and ts = ?ts
        and g = None, OF ids] by auto
qed

theorem terminate_process_instance_spec_witness:
  "\<exists>p' d'. terminate_process_instance permit_all_context ''acme'' 1 1 (Some 7) one_instance_db = (Inr p', d') \<and>
     pi_status p' = PIS_terminated \<and> pi_ended_at p' = Some 7 \<and> runtime_closed 1 d'"
proof -
  have "\<not> has_terminal_status (pi_status one_instance)" by (simp add: one_instance_def terminal_iff)
  from terminate_process_instance_spec [OF one_instance_member one_instance_lookup
      permit_all_authorizes [OF instance_commands_known(3)] this, of "Some 7"]
  show ?thesis by (auto simp: resolve_timestamp_def)
qed

lemma error_equation:
  assumes "actor_ok tenant user d" and "instance_for tenant pid d = Some p"
  shows "error_process_instance tenant pid user ts d =
    (if pi_status p = PIS_error then (Inr p, d)
     else if pi_status p = PIS_complete
     then (Inl (Err InvalidStateError (R_lifecycle CannotErrorCompleted)), d)
     else if pi_status p = PIS_terminated
     then (Inl (Err InvalidStateError (R_lifecycle CannotErrorTerminated)), d)
     else thn (upd_instance pid (\<lambda>r. r\<lparr>pi_status := PIS_error, pi_ended_at := Some (resolve_timestamp ts d),
         pi_updated_at := Some (resolve_timestamp ts d)\<rparr>))
      (thn (close_process_instance_runtime_state pid (resolve_timestamp ts d) user)
      (thn (record_process_instance_event tenant pid (Event process_instance_error)
         (Some (resolve_timestamp ts d)) None user) (load_process_instance tenant pid))) d)"
  using instance_for_keys [OF assms(2)] unfolding error_process_instance_def
  by (simp add: actor_run [OF assms(1)] run_simps assms(2))

lemma error_instance_run:
  assumes "actor_ok tenant user d" and "instance_for tenant pid d = Some p"
  shows "if pi_status p = PIS_error
    then error_process_instance tenant pid user ts d = (Inr p, d)
    else if pi_status p \<in> {PIS_complete, PIS_terminated}
    then \<exists>why. error_process_instance tenant pid user ts d = (Inl (Err InvalidStateError why), d)
    else \<exists>p' d'. error_process_instance tenant pid user ts d = (Inr p', d') \<and>
      instance_for tenant pid d' = Some p' \<and> pi_status p' = PIS_error \<and>
      pi_ended_at p' = Some (resolve_timestamp ts d) \<and>
      runtime_closed pid d' \<and> other_instances_kept pid d d' \<and>
      d_events d' = d_events d @
        [new_event tenant pid process_instance_error (resolve_timestamp ts d) None user d]"
proof -
  let ?ts = "resolve_timestamp ts d"
  let ?f = "\<lambda>r. r\<lparr>pi_status := PIS_error, pi_ended_at := Some ?ts, pi_updated_at := Some ?ts\<rparr>"
  note eq = error_equation [OF assms, of ts]
  have ids: "\<And>r. pi_id (?f r) = pi_id r" "\<And>r. pi_tenant (?f r) = pi_tenant r" by simp_all
  show ?thesis
    unfolding eq
    using closing_run [OF assms, where f = ?f and t = process_instance_error and ts = ?ts
        and g = None, OF ids] by auto
qed

text \<open>C12: Marking an instance as errored, on every branch: an errored instance is returned unchanged, a
  complete or terminated one is refused unchanged, and any other is errored with its end time, all it
  had open closed, one event appended and the rows of other instances untouched.\<close>

theorem error_process_instance_spec:
  assumes "actor_ok tenant user d" and "instance_for tenant pid d = Some p"
  shows "if pi_status p = PIS_error
    then error_process_instance tenant pid user ts d = (Inr p, d)
    else if pi_status p \<in> {PIS_complete, PIS_terminated}
    then \<exists>why. error_process_instance tenant pid user ts d = (Inl (Err InvalidStateError why), d)
    else \<exists>p' d'. error_process_instance tenant pid user ts d = (Inr p', d') \<and>
      instance_for tenant pid d' = Some p' \<and> pi_status p' = PIS_error \<and>
      pi_ended_at p' = Some (resolve_timestamp ts d) \<and>
      runtime_closed pid d' \<and> other_instances_kept pid d d' \<and>
      d_events d' = d_events d @
        [new_event tenant pid process_instance_error (resolve_timestamp ts d) None user d]"
  using assms by (rule error_instance_run)

theorem error_process_instance_spec_witness:
  "\<exists>p' d'. error_process_instance ''acme'' 1 None (Some 7) one_instance_db = (Inr p', d') \<and>
     pi_status p' = PIS_error \<and> runtime_closed 1 d'"
proof -
  have "actor_ok ''acme'' None one_instance_db" by (simp add: actor_ok_def)
  from error_process_instance_spec [OF this one_instance_lookup, of "Some 7"]
  show ?thesis by (auto simp: one_instance_def split: if_splits)
qed

section \<open>A refused command leaves no trace\<close>

lemma authorization_read_only:
  "snd (instance_authorization initial_policy_context tenant uid key pid d) = d"
  by (simp add: instance_authorization_def require_authorization_read_only)

text \<open>
  What the guards of a lifecycle command establish before its body runs: either an error in the
  same session, or a member, the instance and a permission.
\<close>

lemma guarded_command:
  assumes "\<And>p. tenant_member tenant uid d \<Longrightarrow> instance_for tenant pid d = Some p \<Longrightarrow>
      instance_authorization initial_policy_context tenant uid key pid d = (Inr (), d) \<Longrightarrow>
      body p d = (Inl e, d') \<Longrightarrow> d' = d"
    and "bnd (ensure_user_belongs_to_tenant tenant uid) (\<lambda>_.
      bnd (load_process_instance tenant pid) (\<lambda>p.
        thn (instance_authorization initial_policy_context tenant uid key (pi_id p)) (body p))) d = (Inl e, d')"
  shows "d' = d"
proof (cases "tenant_member tenant uid d")
  case False
  then show ?thesis using assms(2) by (rule not_member_unchanged)
next
  case True
  show ?thesis
  proof (cases "instance_for tenant pid d")
    case None
    then show ?thesis using assms(2) True by (simp add: ensure_member_run run_simps)
  next
    case (Some p)
    have pid: "pi_id p = pid" using instance_for_keys [OF Some] by simp
    obtain r d1 where r: "instance_authorization initial_policy_context tenant uid key pid d = (r, d1)"
      by (cases "instance_authorization initial_policy_context tenant uid key pid d") auto
    have "d1 = d" using authorization_read_only [of tenant uid key pid d] r by simp
    then show ?thesis
      using assms(1) [OF True Some] assms(2) True Some r
      by (cases r) (auto simp: ensure_member_run run_simps pid thn_Inl thn_Inr)
  qed
qed

lemma suspend_atomic:
  assumes "suspend_process_instance initial_policy_context tenant pid uid ts d = (Inl e, d')"
  shows "d' = d"
  using assms unfolding suspend_process_instance_def
proof (rule guarded_command [rotated])
  fix p assume a: "tenant_member tenant uid d" "instance_for tenant pid d = Some p"
  have "actor_ok tenant (Some uid) d" using a(1) by (simp add: actor_ok_def)
  note run = transition_run [OF this a(2)]
  assume "(if pi_status p = PIS_suspended then ret p
      else if has_terminal_status (pi_status p)
      then raise (Err InvalidStateError (R_lifecycle CannotSuspendTerminal))
      else bnd (gets (resolve_timestamp ts)) (\<lambda>occurred_at.
        thn (upd_instance (pi_id p) (\<lambda>r. r\<lparr>pi_status := PIS_suspended, pi_updated_at := Some occurred_at\<rparr>))
        (thn (record_process_instance_event tenant pid (Event process_instance_suspended)
               (Some occurred_at) None (Some uid))
           (load_process_instance tenant pid)))) d = (Inl e, d')"
  then show "d' = d"
    using instance_for_keys [OF a(2)] by (simp add: run_simps run split: if_splits)
qed

lemma terminate_atomic:
  assumes "terminate_process_instance initial_policy_context tenant pid uid ts d = (Inl e, d')"
  shows "d' = d"
  using assms unfolding terminate_process_instance_def
proof (rule guarded_command [rotated])
  fix p assume a: "tenant_member tenant uid d" "instance_for tenant pid d = Some p"
  have actor: "actor_ok tenant (Some uid) d" using a(1) by (simp add: actor_ok_def)
  let ?ts = "resolve_timestamp ts d"
  let ?f = "\<lambda>r. r\<lparr>pi_status := PIS_terminated, pi_ended_at := Some ?ts, pi_updated_at := Some ?ts\<rparr>"
  obtain d2 q where run: "thn (upd_instance pid ?f) (thn (close_process_instance_runtime_state pid ?ts (Some uid))
      (thn (record_process_instance_event tenant pid (Event process_instance_terminated)
         (Some ?ts) None (Some uid)) (load_process_instance tenant pid))) d = (Inr q, d2)"
    using closing_run [OF actor a(2), of ?f ?ts process_instance_terminated None] by auto
  assume "(if pi_status p = PIS_terminated then ret p
      else if pi_status p = PIS_complete \<or> pi_status p = PIS_error
      then raise (Err InvalidStateError (R_lifecycle CannotTerminateEnded))
      else bnd (gets (resolve_timestamp ts)) (\<lambda>occurred_at.
        thn (upd_instance (pi_id p) (\<lambda>r. r\<lparr>pi_status := PIS_terminated,
               pi_ended_at := Some occurred_at, pi_updated_at := Some occurred_at\<rparr>))
        (thn (close_process_instance_runtime_state (pi_id p) occurred_at (Some uid))
        (thn (record_process_instance_event tenant pid (Event process_instance_terminated)
               (Some occurred_at) None (Some uid))
           (load_process_instance tenant pid))))) d = (Inl e, d')"
  then show "d' = d"
    using instance_for_keys [OF a(2)] run by (simp add: run_simps split: if_splits)
qed

lemma error_atomic:
  assumes "error_process_instance tenant pid user ts d = (Inl e, d')"
  shows "d' = d"
proof (cases "actor_ok tenant user d \<and> instance_for tenant pid d \<noteq> None")
  case True
  then obtain p where p: "actor_ok tenant user d" "instance_for tenant pid d = Some p" by auto
  let ?ts = "resolve_timestamp ts d"
  let ?f = "\<lambda>r. r\<lparr>pi_status := PIS_error, pi_ended_at := Some ?ts, pi_updated_at := Some ?ts\<rparr>"
  obtain d2 q where "thn (upd_instance pid ?f) (thn (close_process_instance_runtime_state pid ?ts user)
      (thn (record_process_instance_event tenant pid (Event process_instance_error)
         (Some ?ts) None user) (load_process_instance tenant pid))) d = (Inr q, d2)"
    using closing_run [OF p, of ?f ?ts process_instance_error None] by auto
  then show ?thesis
    using assms instance_for_keys [OF p(2)] unfolding error_process_instance_def
    by (simp add: actor_run [OF p(1)] run_simps p(2) split: if_splits)
next
  case False
  show ?thesis
  proof (cases "actor_ok tenant user d")
    case False
    then show ?thesis using assms unfolding error_process_instance_def by (rule actor_refused_unchanged)
  next
    case True
    then show ?thesis
      using assms False unfolding error_process_instance_def by (simp add: actor_run run_simps)
  qed
qed

lemma schedule_atomic:
  assumes "schedule_process_instance_retry initial_policy_context tenant pid uid at_time ts d = (Inl e, d')"
  shows "d' = d"
  using assms unfolding schedule_process_instance_retry_def
proof (rule guarded_command [rotated])
  fix p
  obtain k where k: "process_retry_scheduler_job_key (pi_id p) = Inr k"
    by (auto simp: process_retry_scheduler_job_key_def build_scheduler_job_key_def
        scheduler_job_type_def id_part_def)
  have "\<exists>j d2. upsert_scheduler_job tenant k JT_process_retry at_time pid' pdid payload u c d = (Inr j, d2)"
    for pid' pdid payload u c
    using upsert_job_result [of JT_process_retry] by (metis known_job_type.simps(3))
  then show "d' = d" if "(if pi_status p \<noteq> PIS_error
      then raise (Err InvalidStateError (R_lifecycle OnlyErroredScheduled))
      else bnd (gets (resolve_timestamp ts)) (\<lambda>occurred_at.
        bnd (lift_result (process_retry_scheduler_job_key (pi_id p))) (\<lambda>key.
          upsert_scheduler_job tenant key JT_process_retry at_time (Some (pi_id p))
            (pi_bpmn_process_definition_id p)
            (Some [(''requested_by_user_id'', PInt uid), (''scheduled_at'', PStr (isoformat occurred_at))])
            (Some occurred_at) (Some occurred_at)))) d = (Inl e, d')"
    using that by (auto simp: run_simps k split: if_splits) (metis Inl_Inr_False prod.inject)
qed

text \<open>C17: Four lifecycle commands fail atomically under the database policy: whenever suspending,
  terminating, erroring or scheduling the retry of an instance raises, the session is exactly as it
  was. Resuming and retrying are not among them: both write the new status before they touch the
  workflow and the potential owners, and a retry runs the workflow, whose service tasks may fail.\<close>

theorem lifecycle_failure_atomic:
  "(suspend_process_instance initial_policy_context tenant pid uid ts d = (Inl e, d') \<longrightarrow> d' = d) \<and>
   (terminate_process_instance initial_policy_context tenant pid uid ts d = (Inl e, d') \<longrightarrow> d' = d) \<and>
   (error_process_instance tenant pid user ts d = (Inl e, d') \<longrightarrow> d' = d) \<and>
   (schedule_process_instance_retry initial_policy_context tenant pid uid at_time ts d = (Inl e, d') \<longrightarrow> d' = d)"
  by (intro conjI impI; erule suspend_atomic terminate_atomic error_atomic schedule_atomic)

theorem lifecycle_failure_atomic_witness:
  "let d = one_instance_db\<lparr>d_instances := [one_instance\<lparr>pi_status := PIS_complete\<rparr>]\<rparr>
   in \<exists>e. error_process_instance ''acme'' 1 None (Some 7) d = (Inl e, d)"
proof -
  let ?d = "one_instance_db\<lparr>d_instances := [one_instance\<lparr>pi_status := PIS_complete\<rparr>]\<rparr>"
  obtain e d' where "error_process_instance ''acme'' 1 None (Some 7) ?d = (Inl e, d')"
    by (simp add: error_process_instance_def run_simps instance_for_def is_instance_def one_instance_def)
  then show ?thesis using lifecycle_failure_atomic by (simp only: Let_def) blast
qed

section \<open>Reopening\<close>

text \<open>What closing at \<open>ts\<close> and then reopening at \<open>ts'\<close> does to the rows of an instance.\<close>

lemma reopen_forgets_close:
  "reopen_work_item ts' (close_work_item st ts user w) = reopen_work_item ts' w"
  "wi_completed (close_work_item st ts user w)"
  "wi_process_instance_id (close_work_item st ts user w) = wi_process_instance_id w"
  by (simp_all add: reopen_work_item_def close_work_item_def Let_def)

lemma close_reopen_items:
  "update_where (\<lambda>w. wi_process_instance_id w = pid \<and> (wi_task_status w = TERMINATED \<or> wi_completed w)) (reopen_work_item ts')
     (update_where (\<lambda>w. wi_process_instance_id w = pid \<and> \<not> wi_completed w) (close_work_item TERMINATED ts user) ws) =
   map (\<lambda>w. if wi_process_instance_id w = pid
      then w\<lparr>wi_completed := False, wi_completed_by_user_id := None, wi_actual_owner_id := None,
             wi_task_status := READY, wi_updated_at := Some ts'\<rparr> else w) ws"
  unfolding reopen_work_item_def [symmetric]
  by (induction ws) (simp_all add: reopen_forgets_close)

lemma close_reopen_tasks:
  "update_where (\<lambda>t. tk_process_instance_id t = pid \<and> tk_state t = TS_TERMINATED) reopen_task_row
     (update_where (\<lambda>t. tk_process_instance_id t = pid) (close_task_row ts) rows) =
   map (\<lambda>t. if tk_process_instance_id t \<noteq> pid then t
      else if tk_state t = TS_COMPLETED then t\<lparr>tk_ended_at := Some ts\<rparr>
      else t\<lparr>tk_state := TS_READY, tk_started_at := None, tk_ended_at := None\<rparr>) rows"
proof (induction rows)
  case (Cons t rows)
  then show ?case
    by (cases "tk_state t = TS_COMPLETED") (simp_all add: reopen_task_row_def close_task_row_def)
qed simp

lemma closed_task_fields:
  "tk_guid (close_task_row ts t) = tk_guid t"
  "tk_process_instance_id (close_task_row ts t) = tk_process_instance_id t"
  "tk_state (close_task_row ts t) = TS_TERMINATED \<longleftrightarrow> tk_state t \<noteq> TS_COMPLETED"
  by (simp_all add: close_task_row_def)

lemma set_task_guids:
  "set (instance_task_guids pid c d) =
     {tk_guid t |t. t \<in> set (d_tasks d) \<and> tk_process_instance_id t = pid \<and> c t}"
  by (auto simp: instance_task_guids_def)

lemma closed_task_guids:
  assumes "d_tasks d1 = update_where (\<lambda>t. tk_process_instance_id t = pid) (close_task_row ts) (d_tasks d)"
  shows "set (instance_task_guids pid (\<lambda>t. tk_state t = TS_TERMINATED) d1) =
    {tk_guid t |t. t \<in> set (d_tasks d) \<and> tk_process_instance_id t = pid \<and> tk_state t \<noteq> TS_COMPLETED}"
proof -
  have "map tk_guid (filter (\<lambda>t. tk_process_instance_id t = pid \<and> tk_state t = TS_TERMINATED)
      (update_where (\<lambda>t. tk_process_instance_id t = pid) (close_task_row ts) rows)) =
    map tk_guid (filter (\<lambda>t. tk_process_instance_id t = pid \<and> tk_state t \<noteq> TS_COMPLETED) rows)" for rows
    by (induction rows) (simp_all add: closed_task_fields)
  then show ?thesis unfolding instance_task_guids_def assms by auto
qed

lemma close_reopen_future:
  assumes "A \<subseteq> B"
  shows "update_where (\<lambda>f. ft_guid f \<in> A) (\<lambda>f. f\<lparr>ft_completed := False, ft_archived := False, ft_updated_at := ts'\<rparr>)
     (update_where (\<lambda>f. ft_guid f \<in> B) (\<lambda>f. f\<lparr>ft_completed := True, ft_archived := True, ft_updated_at := ts\<rparr>) rows) =
   map (\<lambda>f. if ft_guid f \<in> A then f\<lparr>ft_completed := False, ft_archived := False, ft_updated_at := ts'\<rparr>
      else if ft_guid f \<in> B then f\<lparr>ft_completed := True, ft_archived := True, ft_updated_at := ts\<rparr> else f) rows"
  using assms by (induction rows) auto

lemma closed_tables:
  assumes d0: "d0 = d\<lparr>d_instances := update_where (\<lambda>r. pi_id r = pid) f (d_instances d)\<rparr>"
    and d1: "d1 = (final_state (close_process_instance_runtime_state pid ts user) d0)\<lparr>d_events := es\<rparr>"
    and "\<And>r. pi_id (f r) = pi_id r"
  shows "d_work_items d1 = update_where (\<lambda>w. wi_process_instance_id w = pid \<and> \<not> wi_completed w)
      (close_work_item TERMINATED ts user) (d_work_items d)"
    "d_tasks d1 = update_where (\<lambda>t. tk_process_instance_id t = pid) (close_task_row ts) (d_tasks d)"
    "d_future d1 = update_where (\<lambda>f. ft_guid f \<in> {tk_guid t |t. t \<in> set (d_tasks d) \<and> tk_process_instance_id t = pid})
      (\<lambda>f. f\<lparr>ft_completed := True, ft_archived := True, ft_updated_at := ts\<rparr>) (d_future d)"
    "filter (\<lambda>r. pi_id r \<noteq> pid) (d_instances d1) = filter (\<lambda>r. pi_id r \<noteq> pid) (d_instances d)"
    "d1 = d\<lparr>d_instances := d_instances d1, d_tasks := d_tasks d1, d_future := d_future d1,
      d_work_items := d_work_items d1, d_events := es\<rparr>"
  using assms(3) by (simp_all add: d1 d0 close_process_instance_runtime_state_def modify_def final_state_def
      set_task_guids filter_update_other)

lemma reopened_tables:
  assumes "d2 = final_state (reopen_process_instance_runtime_state pid ts) d1"
  shows "d_work_items d2 = update_where (\<lambda>w. wi_process_instance_id w = pid \<and> (wi_task_status w = TERMINATED \<or> wi_completed w))
      (reopen_work_item ts) (d_work_items d1)"
    "d_tasks d2 = update_where (\<lambda>t. tk_process_instance_id t = pid \<and> tk_state t = TS_TERMINATED) reopen_task_row (d_tasks d1)"
    "d_future d2 = update_where (\<lambda>f. ft_guid f \<in> set (instance_task_guids pid (\<lambda>t. tk_state t = TS_TERMINATED) d1))
      (\<lambda>f. f\<lparr>ft_completed := False, ft_archived := False, ft_updated_at := ts\<rparr>) (d_future d1)"
    "filter (\<lambda>r. pi_id r \<noteq> pid) (d_instances d2) = filter (\<lambda>r. pi_id r \<noteq> pid) (d_instances d1)"
    "d2 = d1\<lparr>d_instances := d_instances d2, d_tasks := d_tasks d2, d_future := d_future d2,
      d_work_items := d_work_items d2\<rparr>"
  by (simp_all add: assms reopen_process_instance_runtime_state_def modify_def final_state_def filter_update_other)

text \<open>C32: An error and the reopening that a retry begins with do not cancel out. When a live instance errors
  and its runtime state is reopened, every work item of the instance is ready, unowned and open,
  also the items that users had completed before the error, whose completer is forgotten; yet the
  tasks of those items stay completed, with their end time overwritten by the time of the error,
  while the tasks that the error terminated are ready again with their times cleared. The future
  tasks of the reopened tasks are open, those of the completed tasks stay archived. Nothing of
  another instance changes, and no other table but the event log does.\<close>

theorem reopen_reverts_completed_items:
  assumes "actor_ok tenant user d" and "instance_for tenant pid d = Some p"
    and "pi_status p \<notin> {PIS_error, PIS_complete, PIS_terminated}"
  shows "\<exists>q d1 d2. error_process_instance tenant pid user (Some ts) d = (Inr q, d1) \<and>
    reopen_process_instance_runtime_state pid ts' d1 = (Inr (), d2) \<and>
    d_work_items d2 = map (\<lambda>w. if wi_process_instance_id w = pid
       then w\<lparr>wi_completed := False, wi_completed_by_user_id := None, wi_actual_owner_id := None,
              wi_task_status := READY, wi_updated_at := Some ts'\<rparr> else w) (d_work_items d) \<and>
    d_tasks d2 = map (\<lambda>t. if tk_process_instance_id t \<noteq> pid then t
       else if tk_state t = TS_COMPLETED then t\<lparr>tk_ended_at := Some ts\<rparr>
       else t\<lparr>tk_state := TS_READY, tk_started_at := None, tk_ended_at := None\<rparr>) (d_tasks d) \<and>
    d_future d2 = map (\<lambda>f.
       if ft_guid f \<in> {tk_guid t |t. t \<in> set (d_tasks d) \<and> tk_process_instance_id t = pid \<and> tk_state t \<noteq> TS_COMPLETED}
       then f\<lparr>ft_completed := False, ft_archived := False, ft_updated_at := ts'\<rparr>
       else if ft_guid f \<in> {tk_guid t |t. t \<in> set (d_tasks d) \<and> tk_process_instance_id t = pid}
       then f\<lparr>ft_completed := True, ft_archived := True, ft_updated_at := ts\<rparr> else f) (d_future d) \<and>
    filter (\<lambda>r. pi_id r \<noteq> pid) (d_instances d2) = filter (\<lambda>r. pi_id r \<noteq> pid) (d_instances d) \<and>
    d2 = d\<lparr>d_instances := d_instances d2, d_tasks := d_tasks d2, d_future := d_future d2,
      d_work_items := d_work_items d2,
      d_events := d_events d @ [new_event tenant pid process_instance_error ts None user d]\<rparr>"
proof -
  let ?f = "\<lambda>r. r\<lparr>pi_status := PIS_error, pi_ended_at := Some ts, pi_updated_at := Some ts\<rparr>"
  define d0 where "d0 = d\<lparr>d_instances := update_where (\<lambda>r. pi_id r = pid) ?f (d_instances d)\<rparr>"
  define d1 where "d1 = (final_state (close_process_instance_runtime_state pid ts user) d0)
    \<lparr>d_events := d_events d @ [new_event tenant pid process_instance_error ts None user d]\<rparr>"
  define d2 where "d2 = final_state (reopen_process_instance_runtime_state pid ts') d1"
  have ids: "\<And>r. pi_id (?f r) = pi_id r" "\<And>r. pi_tenant (?f r) = pi_tenant r" by simp_all
  have err: "\<exists>q. error_process_instance tenant pid user (Some ts) d = (Inr q, d1)"
    using closing_state [OF assms(1,2) ids refl, of ts process_instance_error None] assms(3)
    by (simp add: error_equation [OF assms(1,2)] resolve_timestamp_def d1_def d0_def)
  have reopen: "reopen_process_instance_runtime_state pid ts' d1 = (Inr (), d2)"
    by (simp add: d2_def final_state_def reopen_process_instance_runtime_state_def modify_def)
  note d1 = closed_tables [OF d0_def d1_def ids(1)]
  note d2 = reopened_tables [OF d2_def]
  let ?A = "{tk_guid t |t. t \<in> set (d_tasks d) \<and> tk_process_instance_id t = pid \<and> tk_state t \<noteq> TS_COMPLETED}"
  let ?B = "{tk_guid t |t. t \<in> set (d_tasks d) \<and> tk_process_instance_id t = pid}"
  have "?A \<subseteq> ?B" by blast
  note future = close_reopen_future [OF this, of ts' ts "d_future d"]
  have "d_future d2 = map (\<lambda>f. if ft_guid f \<in> ?A then f\<lparr>ft_completed := False, ft_archived := False, ft_updated_at := ts'\<rparr>
      else if ft_guid f \<in> ?B then f\<lparr>ft_completed := True, ft_archived := True, ft_updated_at := ts\<rparr> else f) (d_future d)"
    unfolding d2(3) d1(3) closed_task_guids [OF d1(2)] by (rule future)
  moreover have "d2 = d\<lparr>d_instances := d_instances d2, d_tasks := d_tasks d2, d_future := d_future d2,
      d_work_items := d_work_items d2,
      d_events := d_events d @ [new_event tenant pid process_instance_error ts None user d]\<rparr>"
    by (subst d2(5), subst d1(5)) simp
  ultimately show ?thesis
    using err reopen d2(1) [unfolded d1(1) close_reopen_items] d2(2) [unfolded d1(2) close_reopen_tasks]
      d2(4) [unfolded d1(4)] by blast
qed

definition completed_item :: work_item_row where
  "completed_item = \<lparr>wi_id = 3, wi_tenant = ''acme'', wi_process_instance_id = 1,
     wi_task_guid = None, wi_lane_assignment_id = None, wi_completed_by_user_id = Some 1,
     wi_actual_owner_id = Some 1, wi_task_status = COMPLETED, wi_completed = True,
     wi_updated_at = None, wi_created_at = None\<rparr>"

theorem reopen_reverts_completed_items_witness:
  "\<exists>q d1 d2 w. error_process_instance ''acme'' 1 None (Some 7) (one_instance_db\<lparr>d_work_items := [completed_item]\<rparr>) = (Inr q, d1) \<and>
     reopen_process_instance_runtime_state 1 9 d1 = (Inr (), d2) \<and> d_work_items d2 = [w] \<and>
     wi_id w = 3 \<and> wi_task_status w = READY \<and> wi_completed_by_user_id w = None"
proof -
  let ?d = "one_instance_db\<lparr>d_work_items := [completed_item]\<rparr>"
  have "actor_ok ''acme'' None ?d" by (simp add: actor_ok_def)
  moreover have "instance_for ''acme'' 1 ?d = Some one_instance"
    using one_instance_lookup by (simp add: instance_for_def)
  moreover have "pi_status one_instance \<notin> {PIS_error, PIS_complete, PIS_terminated}"
    by (simp add: one_instance_def)
  ultimately obtain q d1 d2 where *: "error_process_instance ''acme'' 1 None (Some 7) ?d = (Inr q, d1)"
    "reopen_process_instance_runtime_state 1 9 d1 = (Inr (), d2)"
    "d_work_items d2 = map (\<lambda>w. if wi_process_instance_id w = 1
       then w\<lparr>wi_completed := False, wi_completed_by_user_id := None, wi_actual_owner_id := None,
              wi_task_status := READY, wi_updated_at := Some 9\<rparr> else w) (d_work_items ?d)"
    using reopen_reverts_completed_items [of "''acme''" None ?d 1 one_instance 7 9] by blast
  then show ?thesis using *(3) by (simp add: completed_item_def)
qed

section \<open>Metadata\<close>

interpretation metadata: table d_metadata put_metadata md_id
  by unfold_locales (simp add: put_metadata_def)

text \<open>Metadata written is read back: after an upsert the instance has exactly one value under the key,
  the one written; the values under other keys and of other instances are untouched.\<close>

lemma upsert_metadata_roundtrip:
  assumes "upsert_process_instance_metadata tenant pid key v ts created d = (Inr m, d')"
    and "distinct (map md_id (d_metadata d))"
    and "distinct (map (\<lambda>m. (md_tenant m, md_process_instance_id m, md_key m)) (d_metadata d))"
  shows "filter (has_metadata_key tenant pid key) (d_metadata d') = [m] \<and> md_value m = v \<and>
    filter (\<lambda>x. \<not> has_metadata_key tenant pid key x) (d_metadata d') =
      filter (\<lambda>x. \<not> has_metadata_key tenant pid key x) (d_metadata d) \<and>
    (\<exists>ms. get_process_instance_metadata tenant pid d' = (Inr ms, d') \<and> m \<in> set ms)"
proof -
  let ?key = "\<lambda>m. (md_tenant m, md_process_instance_id m, md_key m)"
  let ?mk = "\<lambda>i. \<lparr>md_id = i, md_tenant = tenant, md_process_instance_id = pid, md_key = key,
      md_value = v, md_updated_at = ts, md_created_at = (case created of None \<Rightarrow> ts | Some c \<Rightarrow> c)\<rparr>"
  let ?upd = "\<lambda>m. m\<lparr>md_value := v, md_updated_at := ts,
      md_created_at := (case created of None \<Rightarrow> md_created_at m | Some c \<Rightarrow> c)\<rparr>"
  obtain p where p: "instance_for tenant pid d = Some p"
    using assms(1) by (auto simp: upsert_process_instance_metadata_def run_simps split: option.splits)
  then have u: "upsert_row d_metadata put_metadata md_id (has_metadata_key tenant pid key) ?mk ?upd d
      = (Inr m :: m8f_error + metadata_row, d')"
    using assms(1) by (simp add: upsert_process_instance_metadata_def run_simps)
  have k: "\<And>i. has_metadata_key tenant pid key (?mk i)"
      "\<And>r. has_metadata_key tenant pid key r \<Longrightarrow> has_metadata_key tenant pid key (?upd r)"
    by (simp_all add: has_metadata_key_def)
  note found = metadata.upsert_lookup [OF u assms(2) k]
  have "(tenant, pid, key) \<notin> ?key ` set (d_metadata d)"
    if "find (has_metadata_key tenant pid key) (d_metadata d) = None"
    using that by (auto simp: find_None_iff has_metadata_key_def)
  then have "distinct (map ?key (d_metadata d'))"
    using u assms(3)
    by (auto simp: metadata.upsert_run metadata.rows_put map_update_where split: option.splits)
  then have one: "filter (has_metadata_key tenant pid key) (d_metadata d') = [m]"
    using found by (rule unique_key_filter [where k = "(tenant, pid, key)"]) (auto simp: has_metadata_key_def)
  then have "m \<in> set (d_metadata d')" "has_metadata_key tenant pid key m" by (auto dest: filter_eq_ConsD)
  moreover have "instance_for tenant pid d' = Some p"
    using u p by (auto simp: metadata.upsert_run put_metadata_def instance_for_def split: option.splits)
  moreover have "md_value m = v" using u by (auto simp: metadata.upsert_run split: option.splits)
  ultimately show ?thesis
    using one metadata.upsert_others [OF u assms(2) k]
    by (simp add: get_process_instance_metadata_def run_simps has_metadata_key_def)
qed

lemma upsert_metadata_example:
  "\<exists>m d'. upsert_process_instance_metadata ''acme'' 1 ''k'' ''v'' 5 None one_instance_db = (Inr m, d') \<and>
     filter (has_metadata_key ''acme'' 1 ''k'') (d_metadata d') = [m] \<and> md_value m = ''v''"
proof -
  have none: "d_metadata one_instance_db = []" by (simp add: one_instance_db_def empty_db_def)
  obtain m d' where r: "upsert_process_instance_metadata ''acme'' 1 ''k'' ''v'' 5 None one_instance_db = (Inr m, d')"
    by (simp add: upsert_process_instance_metadata_def run_simps one_instance_lookup metadata.upsert_run none)
  then show ?thesis using upsert_metadata_roundtrip [OF r] none by simp
qed

end
