(* ===== verification/Workflow_State.thy ===== *)
theory Workflow_State
  imports Json_Data Lane_Assignment Call_Activities Process_Instances
begin

text \<open>
  The part of \<^verbatim>\<open>src/m8flow_core/services/workflow_runtime.py\<close> that stores a workflow of the engine in
  the tables and reads it back: the serialized state, the process definition with its task
  definitions, the BPMN process row, the task rows, and the scheduler job of the next timer.

  The engine is SpiffWorkflow's. It is a parameter: the record \<open>spiff_engine\<close> of the operations the
  code calls, over an unknown type of workflows. An operation that changes a workflow returns the
  changed one, together with the exception it raised if it raised one, because a workflow that
  failed in the middle of a run is stored too. \<open>spiff_task\<close> is what the code reads of a task.
\<close>

section \<open>The engine\<close>

text \<open>
  \<open>sp_dict\<close> and \<open>sp_spec_dict\<close> are the serializer's dictionaries of the task and of its
  specification; \<open>sp_timer_type\<close> is the class of the event definition when it is a timer;
  \<open>sp_top_level\<close> tells that the task belongs to the top-level workflow, and \<open>sp_parent_spec\<close> is the name of
  the specification of its workflow when that workflow has a parent.
\<close>

record spiff_task =
  sp_id :: string
  sp_spec_name :: pyval
  sp_spec_type :: string
  sp_spec_dict :: pyval
  sp_dict :: pyval
  sp_lane :: pyval
  sp_data :: pyval
  sp_timer_type :: "string option"
  sp_internal_data :: pyval
  sp_top_level :: bool
  sp_parent_spec :: "pyval option"

text \<open>
  \<open>en_tasks w st m\<close> is \<^verbatim>\<open>workflow.get_tasks(state=st)\<close>, with \<^verbatim>\<open>manual=True\<close> when \<open>m\<close> holds. \<open>en_state_name\<close>
  is \<^verbatim>\<open>TaskState.get_name\<close>, \<open>None\<close> for a value that is no state. \<open>en_literal_eval\<close> is Python's
  \<^verbatim>\<open>ast.literal_eval\<close>, \<open>None\<close> where it raises, and \<open>en_has_timer_start\<close> and \<open>en_lane_names\<close> are the
  queries of a parsed XML source for its timer start events and the names of its lanes.
\<close>

record 'w spiff_engine =
  en_serialize_json :: "'w \<Rightarrow> string"
  en_to_dict :: "'w \<Rightarrow> pyval"
  en_deserialize_json :: "string \<Rightarrow> service_task_context option \<Rightarrow> m8f_error + 'w"
  en_completed :: "'w \<Rightarrow> bool"
  en_tasks :: "'w \<Rightarrow> task_state \<Rightarrow> bool \<Rightarrow> spiff_task list"
  en_data :: "'w \<Rightarrow> (string \<times> pyval) list"
  en_update_data :: "(string \<times> pyval) list \<Rightarrow> 'w \<Rightarrow> 'w"
  en_update_root_data :: "(string \<times> pyval) list \<Rightarrow> 'w \<Rightarrow> 'w"
  en_set_task_data :: "string \<Rightarrow> (string \<times> pyval) list \<Rightarrow> 'w \<Rightarrow> 'w"
  en_get_task :: "'w \<Rightarrow> string \<Rightarrow> m8f_error option"
  en_complete_task :: "string \<Rightarrow> 'w \<Rightarrow> m8f_error option \<times> 'w"
  en_reset_task :: "string \<Rightarrow> (string \<times> pyval) list \<Rightarrow> 'w \<Rightarrow> m8f_error option \<times> 'w"
  en_run_all :: "'w \<Rightarrow> m8f_error option \<times> 'w"
  en_refresh_waiting :: "'w \<Rightarrow> m8f_error option \<times> 'w"
  en_set_event_value :: "string \<Rightarrow> pyval \<Rightarrow> 'w \<Rightarrow> 'w"
  en_state_name :: "int \<Rightarrow> task_state option"
  en_literal_eval :: "string \<Rightarrow> pyval option"
  en_has_timer_start :: "string \<Rightarrow> m8f_error + bool"
  en_lane_names :: "string \<Rightarrow> m8f_error + string list"

definition malformed :: "string \<Rightarrow> m8f_error" where
  "malformed what = Err ValidationError (R_workflow (MalformedWorkflow what))"

definition WORKFLOW_STATE_SERIALIZER_VERSION :: string where
  "WORKFLOW_STATE_SERIALIZER_VERSION = ''5''"

definition restore_workflow :: "'w spiff_engine \<Rightarrow> string \<Rightarrow> service_task_context option \<Rightarrow> 'w svc" where
  "restore_workflow en state service_context = lift_result (en_deserialize_json en state service_context)"

definition serialize_workflow_dict :: "'w spiff_engine \<Rightarrow> 'w \<Rightarrow> m8f_error + (string \<times> pyval) list" where
  "serialize_workflow_dict en w =
     (case as_dict (en_to_dict en w) of
        None \<Rightarrow> Inl (malformed ''workflow'')
      | Some sw \<Rightarrow>
          Inr (if dict_get sw ''serializer_version'' = PNone
               then dict_set ''serializer_version'' (PStr WORKFLOW_STATE_SERIALIZER_VERSION) sw else sw))"

section \<open>The relationships followed\<close>

definition process_definition_of :: "process_instance_row \<Rightarrow> db \<Rightarrow> process_definition_row option" where
  "process_definition_of p d =
     Option.bind (pi_bpmn_process_definition_id p) (\<lambda>i. find (\<lambda>r. pd_id r = i) (d_definitions d))"

definition bpmn_process_of :: "process_instance_row \<Rightarrow> db \<Rightarrow> bpmn_process_row option" where
  "bpmn_process_of p d = Option.bind (pi_bpmn_process_id p) (\<lambda>i. find (\<lambda>r. bp_id r = i) (d_processes d))"

section \<open>Task definitions\<close>

definition prefixed :: "string option \<Rightarrow> string \<Rightarrow> string" where
  "prefixed pre s = (case pre of None \<Rightarrow> s | Some p \<Rightarrow> p @ ''::'' @ s)"

definition put_task_defs :: "task_definition_row list \<Rightarrow> db \<Rightarrow> db" where
  "put_task_defs rs d = d\<lparr>d_task_defs := rs\<rparr>"

definition is_task_definition :: "string \<Rightarrow> int \<Rightarrow> string \<Rightarrow> task_definition_row \<Rightarrow> bool" where
  "is_task_definition tenant pdid ident t \<longleftrightarrow>
     td_tenant t = tenant \<and> td_process_definition_id t = pdid \<and> td_bpmn_identifier t = ident"

definition upsert_task_definition_from_payload ::
  "string \<Rightarrow> int \<Rightarrow> string \<Rightarrow> (string \<times> pyval) list \<Rightarrow> datetime \<Rightarrow> task_definition_row svc" where
  "upsert_task_definition_from_payload tenant pdid ident payload ts =
     (let props = (if map_of payload ''__m8f_task_identifier'' = None
                   then dict_set ''__m8f_task_identifier'' (PStr ident) payload else payload);
          name = as_str (dict_get props ''bpmn_name'')
      in case as_str (dict_get props ''typename'') of
           None \<Rightarrow> raise (malformed ''typename'')
         | Some ty \<Rightarrow>
             if ty = [] then raise (malformed ''typename'')
             else upsert_row d_task_defs put_task_defs td_id (is_task_definition tenant pdid ident)
               (\<lambda>i. \<lparr>td_id = i, td_tenant = tenant, td_process_definition_id = pdid,
                      td_bpmn_identifier = ident, td_bpmn_name = name, td_typename = ty,
                      td_properties_json = props, td_updated_at = Some ts, td_created_at = Some ts\<rparr>)
               (\<lambda>t. t\<lparr>td_bpmn_name := name, td_typename := ty, td_properties_json := props,
                      td_updated_at := Some ts\<rparr>))"

definition upsert_task_definition ::
  "string \<Rightarrow> int \<Rightarrow> spiff_task \<Rightarrow> string option \<Rightarrow> datetime \<Rightarrow> task_definition_row svc" where
  "upsert_task_definition tenant pdid t pre ts =
     (case as_dict (sp_spec_dict t) of
        None \<Rightarrow> raise (malformed ''task spec'')
      | Some payload \<Rightarrow>
          (case as_str (sp_spec_name t) of
             None \<Rightarrow> raise (malformed ''task spec identifier'')
           | Some ident \<Rightarrow>
               if ident = [] then raise (malformed ''task spec identifier'')
               else upsert_task_definition_from_payload tenant pdid (prefixed pre ident)
                 (dict_set ''__m8f_task_identifier'' (PStr ident) payload) ts))"

definition task_definition_identifier_prefix :: "spiff_task \<Rightarrow> string option" where
  "task_definition_identifier_prefix t =
     (case sp_parent_spec t of
        None \<Rightarrow> None
      | Some v \<Rightarrow> (case as_str v of None \<Rightarrow> None | Some n \<Rightarrow> if n = [] then None else Some n))"

definition sync_serialized_task_specs ::
  "string \<Rightarrow> int \<Rightarrow> string option \<Rightarrow> (string \<times> pyval) list \<Rightarrow> datetime \<Rightarrow> unit svc" where
  "sync_serialized_task_specs tenant pdid pre spec ts =
     (case as_dict (dict_get spec ''task_specs'') of
        None \<Rightarrow> raise (malformed ''task specs'')
      | Some specs \<Rightarrow>
          for_each (\<lambda>(ident, v).
            case as_dict v of
              None \<Rightarrow> ret ()
            | Some payload \<Rightarrow>
                bnd (upsert_task_definition_from_payload tenant pdid (prefixed pre ident)
                       (dict_set ''__m8f_task_identifier'' (PStr ident) payload) ts) (\<lambda>_. ret ())) specs)"

section \<open>The process definition\<close>

text \<open>The properties the serialized specification gives, under the program's own and the other stored ones.\<close>

definition merge_properties ::
  "(string \<times> pyval) list \<Rightarrow> (string \<times> pyval) list \<Rightarrow> (string \<times> pyval) list" where
  "merge_properties spec existing =
     foldl (\<lambda>m (k, v). if take 6 k = ''__m8f_'' \<or> map_of m k = None then dict_set k v m else m)
       (AList.delete ''task_specs'' spec) existing"

definition sync_definition_row ::
  "process_instance_row \<Rightarrow> (string \<times> pyval) list \<Rightarrow> string \<Rightarrow> datetime \<Rightarrow> process_definition_row \<Rightarrow>
   process_definition_row" where
  "sync_definition_row p spec name ts r =
     (let r1 = (if explicit_process_model_identifier r = None
                then set_process_model_identifier (pi_process_model_identifier p) r else r)
      in r1\<lparr>pd_bpmn_identifier := name,
            pd_properties_json := merge_properties spec (pd_properties_json r1),
            pd_updated_at := Some ts\<rparr>)"

definition sync_process_definition_from_workflow ::
  "process_instance_row \<Rightarrow> (string \<times> pyval) list \<Rightarrow> datetime \<Rightarrow> unit svc" where
  "sync_process_definition_from_workflow p sw ts =
     bnd (gets (process_definition_of p)) (\<lambda>pd.
       case pd of
         None \<Rightarrow> ret ()
       | Some r \<Rightarrow>
           (case as_dict (dict_get sw ''spec'') of
              None \<Rightarrow> raise (malformed ''spec'')
            | Some spec \<Rightarrow>
                (case as_str (dict_get spec ''name'') of
                   None \<Rightarrow> raise (malformed ''spec name'')
                 | Some name \<Rightarrow>
                     thn (upd_definition (pd_id r) (sync_definition_row p spec name ts))
                     (thn (sync_serialized_task_specs (pi_tenant p) (pd_id r) None spec ts)
                       (case as_dict (dict_get sw ''subprocess_specs'') of
                          None \<Rightarrow> ret ()
                        | Some subs \<Rightarrow>
                            for_each (\<lambda>(n, v).
                              case as_dict v of
                                None \<Rightarrow> ret ()
                              | Some sub \<Rightarrow> sync_serialized_task_specs (pi_tenant p) (pd_id r) (Some n) sub ts) subs)))))"

section \<open>The BPMN process row\<close>

definition runtime_only_keys :: "string list" where
  "runtime_only_keys =
     [''serializer_version'', ''spec'', ''subprocess_specs'', ''subprocesses'', ''tasks'', ''data'']"

definition sync_bpmn_process_from_workflow ::
  "process_instance_row \<Rightarrow> (string \<times> pyval) list \<Rightarrow> string \<Rightarrow> unit svc" where
  "sync_bpmn_process_from_workflow p sw state =
     bnd (gets (bpmn_process_of p)) (\<lambda>bp.
       case bp of
         None \<Rightarrow> ret ()
       | Some b \<Rightarrow>
           thn (upd_process (bp_id b)
                 (\<lambda>r. r\<lparr>bp_properties_json := filter (\<lambda>(k, _). k \<notin> set runtime_only_keys) sw\<rparr>))
           (bnd (create_or_update_from_payload (pi_tenant p)
                  (Some (dict_set WORKFLOW_STATE_JSON_DATA_KEY (PStr state)
                    (case as_dict (dict_get sw ''data'') of None \<Rightarrow> [] | Some v \<Rightarrow> v)))) (\<lambda>h.
              upd_process (bp_id b) (\<lambda>r. r\<lparr>bp_json_data_hash := h\<rparr>))))"

section \<open>Task rows\<close>

type_synonym serialized_row = "string \<times> string \<times> (string \<times> pyval) list"

definition serialized_task_row ::
  "string option \<Rightarrow> string \<times> pyval \<Rightarrow> m8f_error + serialized_row list" where
  "serialized_task_row pre = (\<lambda>(guid, v).
     case as_dict v of
       None \<Rightarrow> Inr []
     | Some payload \<Rightarrow>
         (case as_str (dict_get payload ''task_spec'') of
            None \<Rightarrow> Inl (malformed ''task spec identifier'')
          | Some name \<Rightarrow> Inr [(guid, prefixed pre name, payload)]))"

function iter_serialized_task_rows ::
  "string option \<Rightarrow> (string \<times> pyval) list \<Rightarrow> m8f_error + serialized_row list" where
  "iter_serialized_task_rows pre sw =
     rbind (case as_dict (dict_get sw ''tasks'') of
              None \<Rightarrow> Inr [] | Some ts \<Rightarrow> collect_results (serialized_task_row pre) ts) (\<lambda>rows.
     rbind (case as_dict (dict_get sw ''subprocesses'') of
              None \<Rightarrow> Inr []
            | Some subs \<Rightarrow>
                collect_results (\<lambda>kv.
                  case as_dict (snd kv) of
                    None \<Rightarrow> Inr []
                  | Some sub \<Rightarrow>
                      (case as_str (dict_get sub ''spec'') of
                         None \<Rightarrow> Inl (malformed ''subprocess spec'')
                       | Some name \<Rightarrow> iter_serialized_task_rows (Some name) sub)) subs) (\<lambda>more.
       Inr (concat rows @ concat more)))"
  by pat_completeness auto


definition dict_size :: "(string \<times> pyval) list \<Rightarrow> nat" where
  "dict_size d = size_list (size_prod (\<lambda>_. 0) size) d"

lemma as_dict_size: "as_dict v = Some d \<Longrightarrow> dict_size d < size v"
  by (cases v) (auto simp: dict_size_def)

lemma entry_size: "kv \<in> set d \<Longrightarrow> size (snd kv) \<le> dict_size d"
  unfolding dict_size_def by (erule size_list_estimation') (cases kv, simp)

lemma dict_get_size: "size (dict_get d k) \<le> dict_size d"
proof (cases "map_of d k")
  case (Some v)
  then show ?thesis using entry_size [OF map_of_SomeD [OF Some]] by (simp add: dict_get_def)
qed (simp add: dict_get_def)

termination iter_serialized_task_rows
proof (relation "measure (\<lambda>(pre, sw). dict_size sw)")
  fix sw rows subs kv sub name
  assume "as_dict (dict_get sw ''subprocesses'') = Some subs" "kv \<in> set subs" "as_dict (snd kv) = Some sub"
  then have "dict_size sub < dict_size sw"
    using as_dict_size [of "snd kv" sub] entry_size [of kv subs] as_dict_size [of "dict_get sw ''subprocesses''" subs]
      dict_get_size [of sw "''subprocesses''"] by linarith
  then show "((Some name, sub), pre, sw) \<in> measure (\<lambda>(pre, sw). dict_size sw)" for pre :: "string option" by simp
qed simp

declare iter_serialized_task_rows.simps [simp del]

text \<open>A state is an integer; Python's booleans are.\<close>

fun as_int :: "pyval \<Rightarrow> int option" where
  "as_int (PInt i) = Some i"
| "as_int (PBool b) = Some (if b then 1 else 0)"
| "as_int _ = None"

definition task_runtime_info ::
  "guid \<Rightarrow> task_state option \<Rightarrow> task_definition_row \<Rightarrow> (string \<times> pyval) list" where
  "task_runtime_info guid st td =
     [(''spiff_task_id'', PStr guid),
      (''spiff_task_state'', case st of None \<Rightarrow> PNone | Some s \<Rightarrow> PStr (task_state_name s)),
      (''manual'', case map_of (td_properties_json td) ''manual'' of None \<Rightarrow> PBool False | Some v \<Rightarrow> v),
      (''lane'', dict_get (td_properties_json td) ''lane'')]"

definition task_is_terminal :: "task_state \<Rightarrow> bool" where
  "task_is_terminal st \<longleftrightarrow> st \<in> {TS_COMPLETED, TS_CANCELLED, TS_ERROR}"

definition get_task :: "guid \<Rightarrow> db \<Rightarrow> task_row option" where
  "get_task guid d = find (\<lambda>t. tk_guid t = guid) (d_tasks d)"

text \<open>
  The two branches that write the row: a new one needs the BPMN process of the instance; on an
  existing one the foreign keys are assigned before the column's validator sees the state.
\<close>

definition insert_task_row ::
  "process_instance_row \<Rightarrow> task_definition_row \<Rightarrow> guid \<Rightarrow> task_state option \<Rightarrow> (string \<times> pyval) list \<Rightarrow>
   string \<Rightarrow> string \<Rightarrow> datetime \<Rightarrow> unit svc" where
  "insert_task_row p td guid st props h h0 ts =
     (case pi_bpmn_process_id p of
        None \<Rightarrow> raise (Err ValidationError (R_workflow NoBpmnProcess))
      | Some b \<Rightarrow>
          (case st of
             None \<Rightarrow> raise (malformed ''task state'')
           | Some s \<Rightarrow>
               modify (\<lambda>d. d\<lparr>d_tasks := d_tasks d @
                 [\<lparr>tk_guid = guid, tk_tenant = pi_tenant p, tk_bpmn_process_id = b,
                   tk_process_instance_id = pi_id p, tk_task_definition_id = td_id td, tk_state = s,
                   tk_properties_json = props, tk_json_data_hash = h, tk_python_env_data_hash = h0,
                   tk_runtime_info = Some (task_runtime_info guid st td), tk_started_at = Some ts,
                   tk_ended_at = (if task_is_terminal s then Some ts else None)\<rparr>]\<rparr>)))"

definition assign_task_keys :: "process_instance_row \<Rightarrow> task_definition_row \<Rightarrow> task_row \<Rightarrow> task_row" where
  "assign_task_keys p td t =
     t\<lparr>tk_bpmn_process_id := (case pi_bpmn_process_id p of None \<Rightarrow> tk_bpmn_process_id t | Some b \<Rightarrow> b),
       tk_process_instance_id := pi_id p, tk_task_definition_id := td_id td\<rparr>"

definition rewrite_task_row ::
  "process_instance_row \<Rightarrow> task_definition_row \<Rightarrow> guid \<Rightarrow> task_state option \<Rightarrow> (string \<times> pyval) list \<Rightarrow>
   string \<Rightarrow> string \<Rightarrow> datetime \<Rightarrow> unit svc" where
  "rewrite_task_row p td guid st props h h0 ts =
     thn (upd_task guid (assign_task_keys p td))
       (case st of
          None \<Rightarrow> raise (malformed ''task state'')
        | Some s \<Rightarrow>
            upd_task guid (\<lambda>t. t\<lparr>tk_state := s, tk_properties_json := props, tk_json_data_hash := h,
              tk_python_env_data_hash := h0, tk_runtime_info := Some (task_runtime_info guid st td),
              tk_started_at := (case tk_started_at t of None \<Rightarrow> Some ts | Some x \<Rightarrow> Some x),
              tk_ended_at := (if task_is_terminal s then Some ts else None)\<rparr>))"

definition upsert_task_model_from_payload ::
  "'w spiff_engine \<Rightarrow> process_instance_row \<Rightarrow> task_definition_row \<Rightarrow> (string \<times> pyval) list \<Rightarrow> datetime \<Rightarrow>
   guid svc" where
  "upsert_task_model_from_payload en p td payload ts =
     (case as_str (dict_get payload ''id'') of
        None \<Rightarrow> raise (malformed ''task guid'')
      | Some guid \<Rightarrow>
          if guid = [] then raise (malformed ''task guid'')
          else bnd (gets (get_task guid)) (\<lambda>existing.
            (let props = AList.delete ''data'' payload;
                 data = (case as_dict (dict_get payload ''data'') of None \<Rightarrow> [] | Some v \<Rightarrow> v)
             in bnd (create_or_update_from_payload (pi_tenant p) (Some data)) (\<lambda>h.
                bnd (create_or_update_from_payload (pi_tenant p) (Some [])) (\<lambda>h0.
                  (case as_int (dict_get props ''state'') of
                     None \<Rightarrow> raise (malformed ''task state'')
                   | Some i \<Rightarrow>
                       thn ((if existing = None then insert_task_row else rewrite_task_row)
                              p td guid (en_state_name en i) props h h0 ts)
                         (ret guid)))))))"

definition upsert_task_model ::
  "'w spiff_engine \<Rightarrow> process_instance_row \<Rightarrow> task_definition_row \<Rightarrow> spiff_task \<Rightarrow> datetime \<Rightarrow> guid svc" where
  "upsert_task_model en p td t ts =
     (case as_dict (sp_dict t) of
        None \<Rightarrow> raise (malformed ''task'')
      | Some payload \<Rightarrow> upsert_task_model_from_payload en p td payload ts)"

definition task_definitions_by_identifier ::
  "string \<Rightarrow> int \<Rightarrow> db \<Rightarrow> (string \<times> task_definition_row) list" where
  "task_definitions_by_identifier tenant pdid d =
     rev (map (\<lambda>t. (td_bpmn_identifier t, t))
       (filter (\<lambda>t. td_tenant t = tenant \<and> td_process_definition_id t = pdid) (d_task_defs d)))"

definition sync_task_models_from_workflow ::
  "'w spiff_engine \<Rightarrow> process_instance_row \<Rightarrow> (string \<times> pyval) list \<Rightarrow> datetime \<Rightarrow> unit svc" where
  "sync_task_models_from_workflow en p sw ts =
     (case pi_bpmn_process_definition_id p of
        None \<Rightarrow> raise (Err ValidationError (R_workflow NoProcessDefinition))
      | Some pdid \<Rightarrow>
          bnd (gets (task_definitions_by_identifier (pi_tenant p) pdid)) (\<lambda>defs.
          bnd (lift_result (iter_serialized_task_rows None sw)) (\<lambda>rows.
            if rows = [] then raise (malformed ''task rows'')
            else for_each (\<lambda>(_, ident, payload).
              case map_of defs ident of
                None \<Rightarrow> raise (malformed ident)
              | Some td \<Rightarrow> bnd (upsert_task_model_from_payload en p td payload ts) (\<lambda>_. ret ())) rows)))"

section \<open>Timers\<close>

definition FORCED_DUE_TIMER_EVENT_VALUE :: string where
  "FORCED_DUE_TIMER_EVENT_VALUE = ''1970-01-01T00:00:00+00:00''"

text \<open>An event value is a timestamp, or a dictionary for a timer that recurs.\<close>

definition waiting_timer_event_value :: "spiff_task \<Rightarrow> m8f_error + pyval" where
  "waiting_timer_event_value t =
     (case as_dict (sp_internal_data t) of
        None \<Rightarrow> Inl (Err ValidationError (R_timer TimerMissingInternalData))
      | Some d \<Rightarrow>
          (case dict_get d ''event_value'' of
             PStr s \<Rightarrow> Inr (PStr s)
           | PDict v \<Rightarrow> Inr (PDict v)
           | _ \<Rightarrow> Inl (Err ValidationError (R_timer TimerMissingEventValue))))"

definition forced_due_timer_event_value :: "pyval \<Rightarrow> m8f_error + pyval" where
  "forced_due_timer_event_value v =
     (case v of
        PStr s \<Rightarrow> Inr (PStr FORCED_DUE_TIMER_EVENT_VALUE)
      | PDict d \<Rightarrow> Inr (PDict (dict_set ''next'' (PStr FORCED_DUE_TIMER_EVENT_VALUE) d))
      | _ \<Rightarrow> Inl (Err ValidationError (R_timer TimerMissingEventValue)))"

definition timer_event_run_at_in_seconds :: "pyval \<Rightarrow> m8f_error + int" where
  "timer_event_run_at_in_seconds v =
     rbind (case v of
              PDict d \<Rightarrow>
                (case as_str (dict_get d ''next'') of
                   None \<Rightarrow> Inl (Err ValidationError (R_timer TimerMissingNext))
                 | Some s \<Rightarrow> if s = [] then Inl (Err ValidationError (R_timer TimerMissingNext)) else Inr s)
            | PStr s \<Rightarrow> Inr s
            | _ \<Rightarrow> Inl (Err Py_TypeError (R_timer TimerMissingEventValue))) (\<lambda>s.
     rbind (parse_instant s) (\<lambda>due_at. Inr (timestamp_ceil due_at)))"

text \<open>The payload of a waiting timer: when it is due, its task, and the dictionary that is stored.\<close>

record timer_payload =
  tp_run_at :: int
  tp_task_guid :: string
  tp_task_spec_name :: pyval
  tp_json :: "(string \<times> pyval) list"

definition timer_payload_of :: "spiff_task \<Rightarrow> m8f_error + timer_payload" where
  "timer_payload_of t =
     rbind (waiting_timer_event_value t) (\<lambda>v.
     rbind (timer_event_run_at_in_seconds v) (\<lambda>n.
       Inr \<lparr>tp_run_at = n, tp_task_guid = sp_id t, tp_task_spec_name = sp_spec_name t, tp_json =
         [(''task_guid'', PStr (sp_id t)), (''task_spec_name'', sp_spec_name t),
          (''task_spec_type'', PStr (sp_spec_type t)),
          (''event_definition_type'', PStr (the (sp_timer_type t))),
          (''event_value'', v), (''run_at_in_seconds'', PInt n)]\<rparr>))"

definition is_start_event :: "spiff_task \<Rightarrow> bool" where
  "is_start_event t \<longleftrightarrow> sp_spec_type t = ''StartEvent'' \<and> sp_top_level t"

definition collect_waiting_timer_payloads ::
  "'w spiff_engine \<Rightarrow> 'w \<Rightarrow> bool \<Rightarrow> m8f_error + timer_payload list" where
  "collect_waiting_timer_payloads en w start_events =
     rbind (collect_results timer_payload_of
              (filter (\<lambda>t. sp_timer_type t \<noteq> None \<and> is_start_event t = start_events) (en_tasks en w TS_WAITING False)))
       (\<lambda>ps. Inr (sort_key (\<lambda>t. (tp_run_at t, tp_task_guid t)) ps))"

definition collect_intermediate_timer_payloads :: "'w spiff_engine \<Rightarrow> 'w \<Rightarrow> m8f_error + timer_payload list" where
  "collect_intermediate_timer_payloads en w = collect_waiting_timer_payloads en w False"

definition collect_timer_start_payloads :: "'w spiff_engine \<Rightarrow> 'w \<Rightarrow> m8f_error + timer_payload list" where
  "collect_timer_start_payloads en w = collect_waiting_timer_payloads en w True"

definition sync_intermediate_timer_scheduler_job ::
  "'w spiff_engine \<Rightarrow> process_instance_row \<Rightarrow> 'w \<Rightarrow> datetime \<Rightarrow> unit svc" where
  "sync_intermediate_timer_scheduler_job en p w ts =
     bnd (lift_result (build_scheduler_job_key JT_intermediate_timer (Some (pi_id p)) None None)) (\<lambda>key.
     bnd (lift_result (collect_intermediate_timer_payloads en w)) (\<lambda>payloads.
       if payloads = [] then bnd (delete_scheduler_job (pi_tenant p) key) (\<lambda>_. ret ())
       else
         bnd (lift_result (fromtimestamp (Min (tp_run_at ` set payloads)))) (\<lambda>run_at.
         bnd (upsert_scheduler_job (pi_tenant p) key JT_intermediate_timer run_at (Some (pi_id p))
                (pi_bpmn_process_definition_id p)
                (Some [(''scheduled_from'', PStr ''workflow_runtime''),
                       (''timer_tasks'', PList (map (\<lambda>t. PDict (tp_json t)) payloads))])
                (Some ts) (Some ts)) (\<lambda>_. ret ()))))"

section \<open>Storing a workflow\<close>

definition persist_workflow_state ::
  "'w spiff_engine \<Rightarrow> process_instance_row \<Rightarrow> 'w \<Rightarrow> datetime \<Rightarrow> unit svc" where
  "persist_workflow_state en p w ts =
     thn (upd_instance (pi_id p)
           (\<lambda>r. r\<lparr>pi_workflow_engine_version := Some WORKFLOW_STATE_SERIALIZER_VERSION\<rparr>))
     (bnd (lift_result (serialize_workflow_dict en w)) (\<lambda>sw.
      thn (sync_process_definition_from_workflow p sw ts)
      (thn (sync_bpmn_process_from_workflow p sw (en_serialize_json en w))
      (thn (sync_task_models_from_workflow en p sw ts)
           (sync_intermediate_timer_scheduler_job en p w ts)))))"

definition persist_workflow_recovery_state ::
  "'w spiff_engine \<Rightarrow> process_instance_row \<Rightarrow> 'w \<Rightarrow> unit svc" where
  "persist_workflow_recovery_state en p w =
     thn (upd_instance (pi_id p)
           (\<lambda>r. r\<lparr>pi_workflow_engine_version := Some WORKFLOW_STATE_SERIALIZER_VERSION\<rparr>))
     (bnd (lift_result (serialize_workflow_dict en w)) (\<lambda>sw.
        sync_bpmn_process_from_workflow p sw (en_serialize_json en w)))"

section \<open>A concrete engine\<close>

text \<open>
  An engine for the concrete inputs of the witnesses: its workflows are lists of ready manual tasks,
  it stores every workflow as the same text, and its operations change nothing.
\<close>

definition list_engine :: "spiff_task list spiff_engine" where
  "list_engine = \<lparr>en_serialize_json = (\<lambda>_. ''[]''), en_to_dict = (\<lambda>_. PDict []),
     en_deserialize_json = (\<lambda>_ _. Inr []), en_completed = (\<lambda>w. w = []),
     en_tasks = (\<lambda>w st m. if st = TS_READY then w else []), en_data = (\<lambda>_. []),
     en_update_data = (\<lambda>_ w. w), en_update_root_data = (\<lambda>_ w. w), en_set_task_data = (\<lambda>_ _ w. w),
     en_get_task = (\<lambda>_ _. None), en_complete_task = (\<lambda>_ w. (None, w)), en_reset_task = (\<lambda>_ _ w. (None, w)),
     en_run_all = (\<lambda>w. (None, w)), en_refresh_waiting = (\<lambda>w. (None, w)), en_set_event_value = (\<lambda>_ _ w. w),
     en_state_name = (\<lambda>i. if i = 16 then Some TS_READY else None), en_literal_eval = (\<lambda>_. None),
     en_has_timer_start = (\<lambda>_. Inr False), en_lane_names = (\<lambda>_. Inr [])\<rparr>"

definition a_user_task :: spiff_task where
  "a_user_task = \<lparr>sp_id = ''t1'', sp_spec_name = PStr ''Review'', sp_spec_type = ''UserTask'',
     sp_spec_dict = PDict [(''typename'', PStr ''UserTask'')],
     sp_dict = PDict [(''id'', PStr ''t1''), (''state'', PInt 16)], sp_lane = PNone, sp_data = PNone,
     sp_timer_type = None, sp_internal_data = PNone, sp_top_level = True, sp_parent_spec = None\<rparr>"

definition a_bpmn_process :: bpmn_process_row where
  "a_bpmn_process = \<lparr>bp_id = 1, bp_tenant = ''acme'', bp_guid = None, bp_top_level_process_id = None,
     bp_direct_parent_process_id = None, bp_process_definition_id = 1, bp_properties_json = [],
     bp_json_data_hash = [], bp_started_at = None, bp_ended_at = None\<rparr>"

text \<open>The instance of the session of one instance, with a definition and a BPMN process.\<close>

definition a_started_instance :: process_instance_row where
  "a_started_instance = one_instance\<lparr>pi_bpmn_process_definition_id := Some 1, pi_bpmn_process_id := Some 1\<rparr>"

definition a_started_db :: db where
  "a_started_db = one_instance_db\<lparr>d_instances := [a_started_instance], d_processes := [a_bpmn_process]\<rparr>"

section \<open>A stored workflow is read back\<close>

lemma map_of_insort: "map_of (insort_key fst (k, v) xs) = (map_of xs)(k \<mapsto> v)"
  by (induction xs) (auto simp: fun_upd_twist)

lemma map_of_sort: "map_of (sort_key fst xs) = map_of xs"
  by (induction xs) (auto simp: map_of_insort)

lemma dict_get_normalized:
  "dict_get (normalized_payload (Some d)) k = (case map_of d k of None \<Rightarrow> PNone | Some v \<Rightarrow> sort_keys v)"
proof -
  have "map_of (map (\<lambda>(k, v). (k, sort_keys v)) d) k = map_option sort_keys (map_of d k)"
    by (induction d) auto
  then show ?thesis by (simp add: dict_get_def normalized_payload_def map_of_sort split: option.split)
qed

lemma find_process_update:
  "find (\<lambda>r. bp_id r = i) (update_where (\<lambda>r. bp_id r = i) f rows) = map_option f (find (\<lambda>r. bp_id r = i) rows)"
  if "\<And>r. bp_id (f r) = bp_id r"
  using that by (rule_tac find_update_hit) simp

lemma sync_process_state:
  assumes "bpmn_process_of p d = Some b" and "bp_tenant b = pi_tenant p"
    and "sync_bpmn_process_from_workflow p sw state d = (Inr u, d')"
  shows "workflow_state_json p d' = Some state"
proof -
  obtain i where i: "pi_bpmn_process_id p = Some i" "find (\<lambda>r. bp_id r = i) (d_processes d) = Some b"
    using assms(1) by (auto simp: bpmn_process_of_def bind_eq_Some_conv)
  then have id: "bp_id b = i" by (auto dest: find_SomeD)
  let ?data = "dict_set WORKFLOW_STATE_JSON_DATA_KEY (PStr state)
      (case as_dict (dict_get sw ''data'') of None \<Rightarrow> [] | Some v \<Rightarrow> v)"
  let ?props = "\<lambda>r. r\<lparr>bp_properties_json := filter (\<lambda>(k, _). k \<notin> set runtime_only_keys) sw\<rparr>"
  let ?d1 = "d\<lparr>d_processes := update_where (\<lambda>r. bp_id r = i) ?props (d_processes d)\<rparr>"
  obtain h d2 where h: "create_or_update_from_payload (pi_tenant p) (Some ?data) ?d1 = (Inr h, d2)"
    "d' = d2\<lparr>d_processes := update_where (\<lambda>r. bp_id r = i) (\<lambda>r. r\<lparr>bp_json_data_hash := h\<rparr>) (d_processes d2)\<rparr>"
    using assms(3) i id unfolding sync_bpmn_process_from_workflow_def
    by (auto simp: bnd_gets_run thn_modify_run modify_run assms(1) upd_process_def bnd_Inr_iff)
  have "d2 = ?d1\<lparr>d_json := d_json d2\<rparr>"
    using store_payload_frame [of "pi_tenant p" ?d1 "Some ?data"] h(1) by (simp add: json_frame_def)
  then have "d_processes d2 = d_processes (?d1\<lparr>d_json := d_json d2\<rparr>)" by (rule arg_cong [of _ _ d_processes])
  then have json: "d_processes d2 = d_processes ?d1" by simp
  have "find (\<lambda>r. bp_id r = i) (d_processes d') = Some ((?props b)\<lparr>bp_json_data_hash := h\<rparr>)"
    using h(2) json i by (simp add: find_process_update)
  moreover obtain r where "get_for_tenant (pi_tenant p) h d2 = Some r" "jd_data r = normalized_payload (Some ?data)"
    using store_payload_lookup [OF h(1)] by blast
  moreover have "dict_get (normalized_payload (Some ?data)) WORKFLOW_STATE_JSON_DATA_KEY = PStr state"
    by (simp add: dict_get_normalized dict_set_def update_conv)
  ultimately show ?thesis
    using i(1) h(2) assms(2) by (simp add: workflow_state_json_def get_for_tenant_def)
qed

text \<open>C14: The state that is stored when a service task fails is the state that a retry restores: after
  the recovery state of a workflow has been stored, the instance's stored state is the serialized
  workflow, and restoring it yields that workflow again. The serializer of the engine is assumed to
  read back what it wrote.\<close>

theorem recovery_state_roundtrip:
  assumes "persist_workflow_recovery_state en p w d = (Inr u, d')"
    and "bpmn_process_of p d = Some b" and "bp_tenant b = pi_tenant p"
    and "en_deserialize_json en (en_serialize_json en w) cx = Inr w"
  shows "workflow_state_json p d' = Some (en_serialize_json en w) \<and>
    restore_workflow en (the (workflow_state_json p d')) cx d' = (Inr w, d')"
proof -
  let ?d1 = "d\<lparr>d_instances := update_where (\<lambda>r. pi_id r = pi_id p)
      (\<lambda>r. r\<lparr>pi_workflow_engine_version := Some WORKFLOW_STATE_SERIALIZER_VERSION\<rparr>) (d_instances d)\<rparr>"
  obtain sw where sw: "sync_bpmn_process_from_workflow p sw (en_serialize_json en w) ?d1 = (Inr u, d')"
    using assms(1) unfolding persist_workflow_recovery_state_def
    by (auto simp: run_simps upd_instance_def split: sum.splits)
  have "bpmn_process_of p ?d1 = Some b" using assms(2) by (simp add: bpmn_process_of_def)
  then have "workflow_state_json p d' = Some (en_serialize_json en w)"
    using assms(3) sw by (rule sync_process_state)
  then show ?thesis using assms(4) by (simp add: restore_workflow_def lift_result_def)
qed

theorem recovery_state_roundtrip_witness:
  "\<exists>d'. persist_workflow_recovery_state list_engine a_started_instance [] a_started_db = (Inr (), d') \<and>
     workflow_state_json a_started_instance d' = Some ''[]'' \<and>
     restore_workflow list_engine (the (workflow_state_json a_started_instance d')) None d' = (Inr [], d')"
proof -
  have b: "bpmn_process_of a_started_instance a_started_db = Some a_bpmn_process"
    by (simp add: bpmn_process_of_def a_started_instance_def a_started_db_def a_bpmn_process_def)
  have "\<exists>d'. persist_workflow_recovery_state list_engine a_started_instance [] a_started_db = (Inr (), d')"
    by (simp add: persist_workflow_recovery_state_def list_engine_def serialize_workflow_dict_def run_simps
        upd_instance_def sync_bpmn_process_from_workflow_def bpmn_process_of_def a_started_instance_def
        a_started_db_def a_bpmn_process_def upd_process_def)
  then obtain d' where d': "persist_workflow_recovery_state list_engine a_started_instance [] a_started_db = (Inr (), d')"
    by blast
  have "bp_tenant a_bpmn_process = pi_tenant a_started_instance"
    by (simp add: a_bpmn_process_def a_started_instance_def one_instance_def)
  moreover have "en_serialize_json list_engine [] = ''[]''" "en_deserialize_json list_engine ''[]'' None = Inr []"
    by (simp_all add: list_engine_def)
  ultimately show ?thesis using recovery_state_roundtrip [OF d' b, of None] d' by auto
qed

end
