(* ===== verification/Task_Claims.thy ===== *)
theory Task_Claims
  imports Process_Instances
begin

text \<open>
  \<^verbatim>\<open>src/m8flow_core/services/tasks.py\<close>, the part that does not run the workflow engine: pending tasks,
  assignment of the open lane tasks of a user's groups, and claiming. A claim is a sequence of
  reading checks (\<open>claim_checks\<close>) followed by a compare-and-set write (\<open>claim_write\<close>); the two are
  also the atomic steps of concurrent workers.
\<close>

section \<open>Pending tasks\<close>

definition potential_owner_row :: "string \<Rightarrow> int \<Rightarrow> int \<Rightarrow> work_item_user_row \<Rightarrow> bool" where
  "potential_owner_row tenant wid uid r \<longleftrightarrow>
     wiu_work_item_id r = wid \<and> wiu_tenant r = tenant \<and> wiu_user_id r = uid"

definition get_pending_tasks :: "string \<Rightarrow> int option \<Rightarrow> work_item_row list svc" where
  "get_pending_tasks tenant user_id =
     (case user_id of
        None \<Rightarrow> gets (\<lambda>d. sort_key wi_id (filter (\<lambda>w. wi_tenant w = tenant \<and> \<not> wi_completed w) (d_work_items d)))
      | Some u \<Rightarrow>
          bnd (ensure_user_belongs_to_tenant tenant u) (\<lambda>_.
            gets (\<lambda>d. sort_key wi_id (filter (\<lambda>w. wi_tenant w = tenant \<and> \<not> wi_completed w \<and>
              exists_row (potential_owner_row tenant (wi_id w) u) (d_work_item_users d)) (d_work_items d)))))"

definition member_of_lane_group :: "int \<Rightarrow> work_item_row \<Rightarrow> db \<Rightarrow> bool" where
  "member_of_lane_group uid w d \<longleftrightarrow>
     exists_row (\<lambda>a. Some (uga_group_id a) = wi_lane_assignment_id w \<and> uga_user_id a = uid) (d_user_groups d)"

definition already_potential_owner :: "int \<Rightarrow> work_item_row \<Rightarrow> db \<Rightarrow> bool" where
  "already_potential_owner uid w d \<longleftrightarrow>
     exists_row (\<lambda>r. wiu_work_item_id r = wi_id w \<and> wiu_user_id r = uid) (d_work_item_users d)"

definition newly_assigned :: "string \<Rightarrow> int \<Rightarrow> db \<Rightarrow> work_item_row list" where
  "newly_assigned tenant uid d =
     sort_key wi_id (filter (\<lambda>w. wi_tenant w = tenant \<and> \<not> wi_completed w \<and>
       wi_lane_assignment_id w \<noteq> None \<and> member_of_lane_group uid w d \<and>
       \<not> already_potential_owner uid w d) (d_work_items d))"

definition assign_pending_tasks_for_user :: "string \<Rightarrow> int \<Rightarrow> work_item_row list svc" where
  "assign_pending_tasks_for_user tenant uid =
     bnd (ensure_user_belongs_to_tenant tenant uid) (\<lambda>_.
     bnd (gets (newly_assigned tenant uid)) (\<lambda>ws.
       thn (modify (\<lambda>d. d\<lparr>d_work_item_users := d_work_item_users d @
              map (\<lambda>w. \<lparr>wiu_tenant = tenant, wiu_work_item_id = wi_id w, wiu_user_id = uid,
                         wiu_added_by = Some AB_lane_assignment\<rparr>) ws\<rparr>))
         (ret ws)))"

section \<open>Claiming\<close>

definition work_item_for :: "string \<Rightarrow> int \<Rightarrow> db \<Rightarrow> work_item_row option" where
  "work_item_for tenant wid d = find (\<lambda>w. wi_tenant w = tenant \<and> wi_id w = wid) (d_work_items d)"

definition load_work_item :: "string \<Rightarrow> int \<Rightarrow> work_item_row svc" where
  "load_work_item tenant wid =
     bnd (gets (work_item_for tenant wid)) (\<lambda>w.
       case w of
         None \<Rightarrow> raise (Err NotFoundError (R_lookup (WorkItemNotFound wid tenant)))
       | Some r \<Rightarrow> ret r)"

definition user_is_assigned :: "string \<Rightarrow> int \<Rightarrow> int \<Rightarrow> db \<Rightarrow> bool" where
  "user_is_assigned tenant wid uid d \<longleftrightarrow> find (potential_owner_row tenant wid uid) (d_work_item_users d) \<noteq> None"

definition opt_str :: "string option \<Rightarrow> pyval" where
  "opt_str v = (case v of None \<Rightarrow> PNone | Some s \<Rightarrow> PStr s)"

definition opt_int :: "int option \<Rightarrow> pyval" where
  "opt_int v = (case v of None \<Rightarrow> PNone | Some i \<Rightarrow> PInt i)"

definition task_authorization_metadata :: "work_item_row \<Rightarrow> db \<Rightarrow> (string \<times> pyval) list" where
  "task_authorization_metadata w d =
     [(''work_item_id'', PInt (wi_id w)),
      (''process_instance_id'', PInt (wi_process_instance_id w)),
      (''task_guid'', opt_str (wi_task_guid w)),
      (''task_name'', opt_str (task_name w d)),
      (''task_status'', PStr (work_item_state_value (wi_task_status w))),
      (''actual_owner_id'', opt_int (wi_actual_owner_id w)),
      (''lane_name'', opt_str (lane_name w d)),
      (''lane_assignment_id'', opt_int (wi_lane_assignment_id w)),
      (''completed'', PBool (wi_completed w))]"

definition task_authorization :: "policy_context \<Rightarrow> string \<Rightarrow> int \<Rightarrow> string \<Rightarrow> work_item_row \<Rightarrow> unit svc" where
  "task_authorization ctx tenant uid key w =
     bnd (gets (task_authorization_metadata w)) (\<lambda>metadata.
       require_command_authorization ctx tenant uid key (Some RESOURCE_TASK)
         (Some (Id_str (str_or (wi_task_guid w) (str_of_int (wi_id w))))) (Some metadata))"

definition claim_checks :: "policy_context \<Rightarrow> string \<Rightarrow> int \<Rightarrow> int \<Rightarrow> work_item_row svc" where
  "claim_checks ctx tenant wid uid =
     bnd (ensure_user_belongs_to_tenant tenant uid) (\<lambda>_.
     bnd (load_work_item tenant wid) (\<lambda>item.
     thn (task_authorization ctx tenant uid TASK_CLAIM_COMMAND item)
       (if wi_completed item then raise (Err InvalidStateError (R_task CannotClaimCompleted))
        else bnd (gets (user_is_assigned tenant (wi_id item) uid)) (\<lambda>assigned.
          if \<not> assigned then raise (Err AuthorizationError (R_task NotAssigned))
          else if wi_actual_owner_id item \<noteq> None \<and> wi_actual_owner_id item \<noteq> Some uid
          then raise (Err AuthorizationError (R_task ClaimedByAnother))
          else ret item))))"

definition claimable :: "string \<Rightarrow> int \<Rightarrow> int \<Rightarrow> work_item_row \<Rightarrow> bool" where
  "claimable tenant wid uid w \<longleftrightarrow> wi_id w = wid \<and> wi_tenant w = tenant \<and> \<not> wi_completed w \<and>
     (wi_actual_owner_id w = None \<or> wi_actual_owner_id w = Some uid)"

text \<open>The update statement, its row count, the refresh of the item and the touch of its instance.\<close>

definition claim_write :: "string \<Rightarrow> int \<Rightarrow> work_item_row \<Rightarrow> work_item_row svc" where
  "claim_write tenant uid item =
     bnd (gets d_now) (\<lambda>claimed_at.
     bnd (gets (\<lambda>d. length (filter (claimable tenant (wi_id item) uid) (d_work_items d)))) (\<lambda>rowcount.
     thn (modify (\<lambda>d. d\<lparr>d_work_items := update_where (claimable tenant (wi_id item) uid)
            (claim_work_item uid claimed_at) (d_work_items d)\<rparr>))
       (if rowcount \<noteq> 1 then raise (Err InvalidStateError (R_task ClaimLostRace))
        else bnd (gets (\<lambda>d. find (\<lambda>w. wi_id w = wi_id item) (d_work_items d))) (\<lambda>refreshed.
          case refreshed of
            None \<Rightarrow> raise (Err Sa_InvalidRequestError (R_task RowVanished))
          | Some w \<Rightarrow>
              thn (upd_instance (wi_process_instance_id w) (\<lambda>p. p\<lparr>pi_task_updated_at := Some claimed_at\<rparr>))
                (ret w)))))"

definition claim_task :: "policy_context \<Rightarrow> string \<Rightarrow> int \<Rightarrow> int \<Rightarrow> work_item_row svc" where
  "claim_task ctx tenant wid uid = bnd (claim_checks ctx tenant wid uid) (claim_write tenant uid)"

section \<open>Running a claim\<close>

lemma filter_one:
  assumes "distinct (map key rows)" and "r \<in> set rows" and "p r" and "\<And>x. p x \<Longrightarrow> key x = key r"
  shows "filter p rows = [r]"
  using assms(1,2)
proof (induction rows)
  case (Cons x xs)
  show ?case
  proof (cases "x = r")
    case True
    then have "filter p xs = []" using Cons.prems assms(4) by (metis distinct.simps(2) filter_False image_eqI list.set_map list.simps(9))
    then show ?thesis using True assms(3) by simp
  next
    case False
    then have r: "r \<in> set xs" using Cons.prems by simp
    then have "\<not> p x" using Cons.prems(1) assms(4) by (metis distinct.simps(2) image_eqI list.set_map list.simps(9))
    then show ?thesis using Cons r by simp
  qed
qed simp

lemma claimable_unique:
  assumes "distinct (map wi_id ws)" and "w \<in> set ws" and "claimable tenant wid uid w"
  shows "filter (claimable tenant wid uid) ws = [w]"
  using assms by (rule filter_one) (use assms(3) in \<open>simp add: claimable_def\<close>)

lemma find_claimed:
  assumes "distinct (map wi_id ws)" and "w \<in> set ws" and "claimable tenant (wi_id w) uid w"
  shows "find (\<lambda>x. wi_id x = wi_id w) (update_where (claimable tenant (wi_id w) uid)
    (claim_work_item uid ts) ws) = Some (claim_work_item uid ts w)"
  using assms by (subst find_update_where) (simp_all add: find_unique)

text \<open>The compare-and-set write succeeds exactly when the row is still open and unclaimed or the user's own.\<close>

lemma claim_write_run:
  assumes "distinct (map wi_id (d_work_items d))" and "w \<in> set (d_work_items d)"
    and "wi_id w = wi_id item"
  shows "claim_write tenant uid item d =
    (if claimable tenant (wi_id item) uid w
     then (Inr (claim_work_item uid (d_now d) w),
       d\<lparr>d_work_items := update_where (claimable tenant (wi_id item) uid)
            (claim_work_item uid (d_now d)) (d_work_items d),
         d_instances := update_where (\<lambda>p. pi_id p = wi_process_instance_id w)
            (\<lambda>p. p\<lparr>pi_task_updated_at := Some (d_now d)\<rparr>) (d_instances d)\<rparr>)
     else (Inl (Err InvalidStateError (R_task ClaimLostRace)), d))"
proof (cases "claimable tenant (wi_id item) uid w")
  case True
  note one = claimable_unique [OF assms(1,2) True]
  have "find (\<lambda>x. wi_id x = wi_id item) (update_where (claimable tenant (wi_id item) uid)
      (claim_work_item uid (d_now d)) (d_work_items d)) = Some (claim_work_item uid (d_now d) w)"
    using find_claimed [OF assms(1,2)] True assms(3) by metis
  then show ?thesis
    using True one
    by (simp add: claim_write_def run_simps upd_instance_def claim_work_item_def)
next
  case False
  have "\<not> claimable tenant (wi_id item) uid x" if "x \<in> set (d_work_items d)" for x
    using that False assms distinct_key_eq [OF assms(1) that assms(2)] by (auto simp: claimable_def)
  then have "filter (claimable tenant (wi_id item) uid) (d_work_items d) = []"
    "update_where (claimable tenant (wi_id item) uid) f (d_work_items d) = d_work_items d" for f
    by (auto simp: filter_empty_conv intro: update_where_id)
  then show ?thesis using False by (simp add: claim_write_def run_simps)
qed

lemma work_item_for_keys:
  "work_item_for tenant wid d = Some w \<Longrightarrow> wi_id w = wid \<and> wi_tenant w = tenant \<and> w \<in> set (d_work_items d)"
  by (auto simp: work_item_for_def dest: find_SomeD)

lemma bnd_load_item_run [run_simps]:
  "bnd (load_work_item tenant wid) f d =
     (case work_item_for tenant wid d of
        None \<Rightarrow> (Inl (Err NotFoundError (R_lookup (WorkItemNotFound wid tenant))), d)
      | Some w \<Rightarrow> f w d)"
  by (simp add: load_work_item_def bnd_def run_simps split: option.split)

lemma claim_checks_run:
  assumes "tenant_member tenant uid d" and "work_item_for tenant wid d = Some w"
    and "task_authorization ctx tenant uid TASK_CLAIM_COMMAND w d = (Inr (), d)"
  shows "claim_checks ctx tenant wid uid d =
    (if wi_completed w then (Inl (Err InvalidStateError (R_task CannotClaimCompleted)), d)
     else if \<not> user_is_assigned tenant wid uid d then (Inl (Err AuthorizationError (R_task NotAssigned)), d)
     else if wi_actual_owner_id w \<in> {None, Some uid} then (Inr w, d)
     else (Inl (Err AuthorizationError (R_task ClaimedByAnother)), d))"
  using work_item_for_keys [OF assms(2)]
  by (simp add: claim_checks_def ensure_member_run [OF assms(1)] run_simps assms(2,3) thn_Inr)

lemma claim_task_run:
  assumes "tenant_member tenant uid d" and "work_item_for tenant wid d = Some w"
    and "task_authorization ctx tenant uid TASK_CLAIM_COMMAND w d = (Inr (), d)"
    and "distinct (map wi_id (d_work_items d))"
  shows "claim_task ctx tenant wid uid d =
    (if wi_completed w then (Inl (Err InvalidStateError (R_task CannotClaimCompleted)), d)
     else if \<not> user_is_assigned tenant wid uid d then (Inl (Err AuthorizationError (R_task NotAssigned)), d)
     else if wi_actual_owner_id w \<in> {None, Some uid}
     then (Inr (claim_work_item uid (d_now d) w),
       d\<lparr>d_work_items := update_where (\<lambda>x. wi_id x = wid) (claim_work_item uid (d_now d)) (d_work_items d),
         d_instances := update_where (\<lambda>p. pi_id p = wi_process_instance_id w)
            (\<lambda>p. p\<lparr>pi_task_updated_at := Some (d_now d)\<rparr>) (d_instances d)\<rparr>)
     else (Inl (Err AuthorizationError (R_task ClaimedByAnother)), d))"
proof -
  have w: "wi_id w = wid" "wi_tenant w = tenant" "w \<in> set (d_work_items d)"
    using work_item_for_keys [OF assms(2)] by auto
  have upd: "update_where (claimable tenant wid uid) f (d_work_items d) =
      update_where (\<lambda>x. wi_id x = wid) f (d_work_items d)"
    if "claimable tenant wid uid w" for f
    unfolding update_where_def
  proof (rule map_cong [OF refl])
    fix x assume "x \<in> set (d_work_items d)"
    then have "wi_id x = wid \<longleftrightarrow> x = w" using distinct_key_eq [OF assms(4) _ w(3)] w(1) by metis
    then have "claimable tenant wid uid x \<longleftrightarrow> wi_id x = wid" using that by (auto simp: claimable_def)
    then show "(if claimable tenant wid uid x then f x else x) = (if wi_id x = wid then f x else x)" by simp
  qed
  have run: "claim_write tenant uid w d = (if claimable tenant wid uid w
     then (Inr (claim_work_item uid (d_now d) w),
       d\<lparr>d_work_items := update_where (\<lambda>x. wi_id x = wid) (claim_work_item uid (d_now d)) (d_work_items d),
         d_instances := update_where (\<lambda>p. pi_id p = wi_process_instance_id w)
            (\<lambda>p. p\<lparr>pi_task_updated_at := Some (d_now d)\<rparr>) (d_instances d)\<rparr>)
     else (Inl (Err InvalidStateError (R_task ClaimLostRace)), d))"
    using claim_write_run [OF assms(4) w(3) refl, of tenant uid] upd w(1) by simp
  show ?thesis
    using claim_checks_run [OF assms(1-3)] run w
    by (simp add: claim_task_def bnd_Inr bnd_Inl claimable_def)
qed

text \<open>C18: Claiming a task, on every branch. For a permitted member and an existing item: a completed item, an
  item the user is not assigned to and an item of another owner are refused with the session
  unchanged; otherwise the item becomes the user's, claimed at the current time, its instance is
  marked as updated, and no other row changes.\<close>

theorem claim_task_spec:
  assumes "tenant_member tenant uid d" and "work_item_for tenant wid d = Some w"
    and "task_authorization ctx tenant uid TASK_CLAIM_COMMAND w d = (Inr (), d)"
    and "distinct (map wi_id (d_work_items d))"
  shows "claim_task ctx tenant wid uid d =
    (if wi_completed w then (Inl (Err InvalidStateError (R_task CannotClaimCompleted)), d)
     else if \<not> user_is_assigned tenant wid uid d then (Inl (Err AuthorizationError (R_task NotAssigned)), d)
     else if wi_actual_owner_id w \<in> {None, Some uid}
     then (Inr (claim_work_item uid (d_now d) w),
       d\<lparr>d_work_items := update_where (\<lambda>x. wi_id x = wid) (claim_work_item uid (d_now d)) (d_work_items d),
         d_instances := update_where (\<lambda>p. pi_id p = wi_process_instance_id w)
            (\<lambda>p. p\<lparr>pi_task_updated_at := Some (d_now d)\<rparr>) (d_instances d)\<rparr>)
     else (Inl (Err AuthorizationError (R_task ClaimedByAnother)), d))"
  using assms by (rule claim_task_run)

lemma claim_key_known: "\<exists>sp. authorization_spec_for_command_key TASK_CLAIM_COMMAND = Inr sp"
  by (simp add: authorization_spec_for_command_key_def COMMAND_AUTHORIZATION_SPECS_def mk_spec_def
      command_key_defs)

lemma permit_all_task:
  "task_authorization permit_all_context tenant uid TASK_CLAIM_COMMAND w d = (Inr (), d)"
  using claim_key_known
  by (auto simp: task_authorization_def require_command_authorization_def run_simps
      build_authorization_request_def str_or_def permission_resource_type_def
      permission_resource_types_def resource_defs permit_all_context_def resolve_authorization_policy_def)

definition open_item :: work_item_row where
  "open_item = \<lparr>wi_id = 5, wi_tenant = ''acme'', wi_process_instance_id = 1,
     wi_task_guid = None, wi_lane_assignment_id = None, wi_completed_by_user_id = None,
     wi_actual_owner_id = None, wi_task_status = READY, wi_completed = False,
     wi_updated_at = None, wi_created_at = None\<rparr>"

definition open_item_db :: db where
  "open_item_db = one_instance_db\<lparr>d_work_items := [open_item],
     d_work_item_users := [\<lparr>wiu_tenant = ''acme'', wiu_work_item_id = 5, wiu_user_id = 1,
       wiu_added_by = Some AB_process_initiator\<rparr>]\<rparr>"

lemma open_item_facts:
  "tenant_member ''acme'' 1 open_item_db" "work_item_for ''acme'' 5 open_item_db = Some open_item"
  "distinct (map wi_id (d_work_items open_item_db))" "user_is_assigned ''acme'' 5 1 open_item_db"
  "d_now open_item_db = 0"
proof -
  show "tenant_member ''acme'' 1 open_item_db"
    using one_instance_member tenant_member_cong [of open_item_db one_instance_db]
    by (simp add: open_item_db_def)
qed (simp_all add: open_item_db_def work_item_for_def open_item_def user_is_assigned_def
    potential_owner_row_def one_instance_db_def empty_db_def)

theorem claim_task_spec_witness:
  "\<exists>d'. claim_task permit_all_context ''acme'' 5 1 open_item_db = (Inr (claim_work_item 1 0 open_item), d')"
  using claim_task_spec [OF open_item_facts(1,2) permit_all_task open_item_facts(3)] open_item_facts(4,5)
  by (simp add: open_item_def)

section \<open>Concurrent claims\<close>

text \<open>
  Any number of workers claim one item at the same time, each for a user of its own. A worker runs
  the checks in one step and the write in another; between any two steps other transactions may
  commit, as long as they leave the rows of this item alone.
\<close>

datatype claim_pc = Claim_idle | Claim_checked work_item_row | Claim_done "m8f_error + work_item_row"

type_synonym claim_config = "db \<times> (nat \<Rightarrow> claim_pc)"

definition item_rows :: "int \<Rightarrow> db \<Rightarrow> work_item_row list" where
  "item_rows wid d = filter (\<lambda>w. wi_id w = wid) (d_work_items d)"

inductive claim_step ::
  "policy_context \<Rightarrow> string \<Rightarrow> int \<Rightarrow> (nat \<Rightarrow> int) \<Rightarrow> claim_config \<Rightarrow> claim_config \<Rightarrow> bool"
  for ctx tenant wid user where
  step_check: "pc i = Claim_idle \<Longrightarrow> claim_checks ctx tenant wid (user i) d = (r, d') \<Longrightarrow>
    claim_step ctx tenant wid user (d, pc)
      (d', pc(i := case r of Inl e \<Rightarrow> Claim_done (Inl e) | Inr w \<Rightarrow> Claim_checked w))"
| step_write: "pc i = Claim_checked w \<Longrightarrow> claim_write tenant (user i) w d = (r, d') \<Longrightarrow>
    claim_step ctx tenant wid user (d, pc) (d', pc(i := Claim_done r))"
| step_other: "item_rows wid d' = item_rows wid d \<Longrightarrow> distinct (map wi_id (d_work_items d')) \<Longrightarrow>
    claim_step ctx tenant wid user (d, pc) (d', pc)"

inductive_cases claim_stepE: "claim_step ctx tenant wid user c c'"

definition policy_read_only :: "policy_context \<Rightarrow> bool" where
  "policy_read_only ctx \<longleftrightarrow>
     (\<forall>tenant u k rt rid md d. snd (require_command_authorization ctx tenant u k rt rid md d) = d)"

lemma database_policy_context_read_only: "policy_read_only initial_policy_context"
  by (simp add: policy_read_only_def require_authorization_read_only)

text \<open>Only the user who owns the row can have succeeded.\<close>

definition claim_inv :: "int \<Rightarrow> (nat \<Rightarrow> int) \<Rightarrow> claim_config \<Rightarrow> bool" where
  "claim_inv wid user c \<longleftrightarrow>
     distinct (map wi_id (d_work_items (fst c))) \<and>
     (\<forall>i w. snd c i = Claim_checked w \<longrightarrow> wi_id w = wid) \<and>
     (\<forall>i w. snd c i = Claim_done (Inr w) \<longrightarrow>
        (\<exists>row \<in> set (item_rows wid (fst c)). wi_actual_owner_id row = Some (user i)))"

lemma claim_checks_read_only:
  assumes "policy_read_only ctx"
  shows "snd (claim_checks ctx tenant wid uid d) = d"
proof -
  have "snd (task_authorization ctx tenant uid k w d) = d" for k w
    using assms by (simp add: policy_read_only_def task_authorization_def run_simps)
  then obtain r where "task_authorization ctx tenant uid TASK_CLAIM_COMMAND w d = (r w, d)" for w
    by (intro that [of "\<lambda>w. fst (task_authorization ctx tenant uid TASK_CLAIM_COMMAND w d)"])
      (metis prod.collapse)
  then show ?thesis
    by (auto simp: claim_checks_def ensure_user_run bnd_def thn_def load_work_item_def gets_def ret_def
        raise_def split: option.splits prod.splits sum.splits)
qed

lemma claim_checks_item:
  assumes "claim_checks ctx tenant wid uid d = (Inr w, d')"
  shows "wi_id w = wid"
proof -
  obtain u t where "bnd (load_work_item tenant wid) (\<lambda>item.
     thn (task_authorization ctx tenant uid TASK_CLAIM_COMMAND item)
       (if wi_completed item then raise (Err InvalidStateError (R_task CannotClaimCompleted))
        else bnd (gets (user_is_assigned tenant (wi_id item) uid)) (\<lambda>assigned.
          if \<not> assigned then raise (Err AuthorizationError (R_task NotAssigned))
          else if wi_actual_owner_id item \<noteq> None \<and> wi_actual_owner_id item \<noteq> Some uid
          then raise (Err AuthorizationError (R_task ClaimedByAnother))
          else ret item))) t = (Inr w, d')"
    using assms unfolding claim_checks_def bnd_Inr_iff [of "ensure_user_belongs_to_tenant tenant uid"]
    by blast
  then show ?thesis
    by (auto simp: bnd_load_item_run thn_Inr_iff run_simps dest!: work_item_for_keys
        split: option.splits if_splits)
qed

lemma claim_write_keeps:
  assumes "claim_write tenant uid item d = (r, d')" and "distinct (map wi_id (d_work_items d))"
  shows "distinct (map wi_id (d_work_items d'))"
  using assms
  by (auto simp: claim_write_def run_simps upd_instance_def map_update_where split: if_splits option.splits)

lemma claim_write_owner:
  assumes "claim_write tenant uid item d = (r, d')" and "distinct (map wi_id (d_work_items d))"
    and "row \<in> set (item_rows (wi_id item) d)" and "wi_actual_owner_id row = Some u"
  shows "\<exists>row' \<in> set (item_rows (wi_id item) d'). wi_actual_owner_id row' = Some u"
    and "r = Inr w \<Longrightarrow> uid = u"
proof -
  have row: "row \<in> set (d_work_items d)" "wi_id row = wi_id item" using assms(3) by (auto simp: item_rows_def)
  note run = claim_write_run [OF assms(2) row]
  show "r = Inr w \<Longrightarrow> uid = u" using run assms(1,4) by (auto simp: claimable_def split: if_splits)
  show "\<exists>row' \<in> set (item_rows (wi_id item) d'). wi_actual_owner_id row' = Some u"
  proof (cases "claimable tenant (wi_id item) uid row")
    case True
    then have u: "uid = u" using assms(4) by (simp add: claimable_def)
    have "claim_work_item uid (d_now d) row \<in> set (d_work_items d')"
      using run assms(1) True row(1) by (auto intro: in_update_where)
    then show ?thesis using u row(2)
      by (intro bexI [of _ "claim_work_item uid (d_now d) row"])
        (simp_all add: item_rows_def claim_work_item_def)
  next
    case False
    then show ?thesis using run assms by auto
  qed
qed

lemma claim_write_wins:
  assumes "claim_write tenant uid item d = (Inr w, d')" and "distinct (map wi_id (d_work_items d))"
  shows "\<exists>row \<in> set (item_rows (wi_id item) d'). wi_actual_owner_id row = Some uid"
proof -
  have "filter (claimable tenant (wi_id item) uid) (d_work_items d) \<noteq> []"
    using assms(1) by (auto simp: claim_write_def run_simps split: if_splits)
  then obtain row where row: "row \<in> set (d_work_items d)" "claimable tenant (wi_id item) uid row"
    by (auto simp: filter_empty_conv)
  then have k: "wi_id row = wi_id item" by (simp add: claimable_def)
  have "claim_work_item uid (d_now d) row \<in> set (d_work_items d')"
    using claim_write_run [OF assms(2) row(1) k, of tenant uid] assms(1) row
    by (auto intro: in_update_where)
  then show ?thesis using k
    by (intro bexI [of _ "claim_work_item uid (d_now d) row"])
      (simp_all add: item_rows_def claim_work_item_def)
qed

lemma claim_step_inv:
  assumes "claim_step ctx tenant wid user c c'" and "policy_read_only ctx" and "claim_inv wid user c"
  shows "claim_inv wid user c'"
  using assms(1)
proof (cases rule: claim_step.cases)
  case (step_check pc i d r d')
  have "d' = d" using claim_checks_read_only [OF assms(2)] step_check(4) by (metis snd_conv)
  moreover have "wi_id w = wid" if "r = Inr w" for w
    using step_check(4) that by (auto intro: claim_checks_item)
  ultimately show ?thesis
    using assms(3) step_check(1,2) by (auto simp: claim_inv_def split: sum.splits)
next
  case (step_write pc i w d r d')
  have inv: "distinct (map wi_id (d_work_items d))" "wi_id w = wid"
    using assms(3) step_write(1,3) by (auto simp: claim_inv_def)
  have old: "\<exists>row \<in> set (item_rows wid d'). wi_actual_owner_id row = Some (user j)"
    if "pc j = Claim_done (Inr v)" for j v
    using that assms(3) step_write(1) claim_write_owner(1) [OF step_write(4) inv(1)] inv(2)
    by (auto simp: claim_inv_def)
  have new: "\<exists>row \<in> set (item_rows wid d'). wi_actual_owner_id row = Some (user i)" if "r = Inr v" for v
    using claim_write_wins step_write(4) inv that by blast
  show ?thesis
    using claim_write_keeps [OF step_write(4) inv(1)] old new assms(3) step_write(1,2)
    by (auto simp: claim_inv_def)
next
  case (step_other d' d pc)
  then show ?thesis using assms(3) by (simp add: claim_inv_def)
qed

text \<open>C5: Two users never both hold a claim. However the checks and the writes of any number of concurrent
  workers interleave, with each other and with other transactions, all workers that succeed on an
  item act for one and the same user, and that user is the owner the row records.\<close>

theorem claim_mutual_exclusion:
  assumes "(claim_step ctx tenant wid user)\<^sup>*\<^sup>* (d, \<lambda>_. Claim_idle) (d', pc)" and "policy_read_only ctx"
    and "distinct (map wi_id (d_work_items d))"
    and "pc i = Claim_done (Inr v)" and "pc j = Claim_done (Inr w)"
  shows "user i = user j \<and> (\<exists>row \<in> set (d_work_items d'). wi_id row = wid \<and> wi_actual_owner_id row = Some (user i))"
proof -
  have "claim_inv wid user (d', pc)"
    using assms(1)
  proof (induction rule: rtranclp_induct)
    case base
    then show ?case using assms(3) by (simp add: claim_inv_def)
  next
    case (step c c')
    then show ?case using claim_step_inv assms(2) by blast
  qed
  then obtain r s where rows: "r \<in> set (item_rows wid d')" "wi_actual_owner_id r = Some (user i)"
    "s \<in> set (item_rows wid d')" "wi_actual_owner_id s = Some (user j)"
    "distinct (map wi_id (d_work_items d'))"
    using assms(4,5) unfolding claim_inv_def fst_conv snd_conv by blast
  then have "r = s" by (auto simp: item_rows_def intro: distinct_key_eq)
  then show ?thesis using rows by (auto simp: item_rows_def)
qed

lemma permit_all_read_only: "policy_read_only permit_all_context"
  by (auto simp: policy_read_only_def require_command_authorization_def permit_all_context_def
      resolve_authorization_policy_def run_simps split: sum.split)

theorem claim_mutual_exclusion_witness:
  "\<exists>d' pc v w. (claim_step permit_all_context ''acme'' 5 (\<lambda>_. 1))\<^sup>*\<^sup>* (open_item_db, \<lambda>_. Claim_idle) (d', pc) \<and>
     pc 0 = Claim_done (Inr v) \<and> pc 1 = Claim_done (Inr w) \<and>
     (\<exists>row \<in> set (d_work_items d'). wi_id row = 5 \<and> wi_actual_owner_id row = Some 1)"
proof -
  let ?step = "claim_step permit_all_context ''acme'' 5 (\<lambda>_. 1)"
  let ?w = "claim_work_item 1 0 open_item"
  let ?pc0 = "\<lambda>_ :: nat. Claim_idle"
  let ?pc2 = "?pc0(0 := Claim_checked open_item, 1 := Claim_checked open_item)"
  have check: "claim_checks permit_all_context ''acme'' 5 1 open_item_db = (Inr open_item, open_item_db)"
    using claim_checks_run [OF open_item_facts(1,2) permit_all_task] open_item_facts(4)
    by (simp add: open_item_def)
  have "?step (open_item_db, ?pc0) (open_item_db, ?pc0(0 := Claim_checked open_item))"
    using step_check [of ?pc0 0, OF refl check] by simp
  moreover have "?step (open_item_db, ?pc0(0 := Claim_checked open_item)) (open_item_db, ?pc2)"
    using step_check [of "?pc0(0 := Claim_checked open_item)" 1, OF _ check] by simp
  ultimately have two: "?step\<^sup>*\<^sup>* (open_item_db, ?pc0) (open_item_db, ?pc2)" by simp
  have dist: "distinct (map wi_id (d_work_items open_item_db))" by (rule open_item_facts)
  have "open_item \<in> set (d_work_items open_item_db)" by (simp add: open_item_db_def)
  from claim_write_run [OF dist this refl, of "''acme''" 1] obtain d1 where
    w1: "claim_write ''acme'' 1 open_item open_item_db = (Inr ?w, d1)" "?w \<in> set (d_work_items d1)"
    by (auto simp: open_item_db_def claimable_def open_item_def claim_work_item_def one_instance_db_def
        empty_db_def)
  have dist1: "distinct (map wi_id (d_work_items d1))" by (rule claim_write_keeps [OF w1(1) dist])
  have "wi_id ?w = wi_id open_item" by (simp add: claim_work_item_def)
  from claim_write_run [OF dist1 w1(2) this, of "''acme''" 1] obtain v d2 where
    w2: "claim_write ''acme'' 1 open_item d1 = (Inr v, d2)"
    by (auto simp: claimable_def open_item_def claim_work_item_def)
  have "?step (open_item_db, ?pc2) (d1, ?pc2(0 := Claim_done (Inr ?w)))"
    using step_write [of ?pc2 0 open_item "''acme''" "\<lambda>_. 1", OF _ w1(1)] by simp
  moreover have "?step (d1, ?pc2(0 := Claim_done (Inr ?w)))
      (d2, ?pc2(0 := Claim_done (Inr ?w), 1 := Claim_done (Inr v)))"
    using step_write [of "?pc2(0 := Claim_done (Inr ?w))" 1 open_item "''acme''" "\<lambda>_. 1", OF _ w2] by simp
  ultimately have run: "?step\<^sup>*\<^sup>* (open_item_db, ?pc0)
      (d2, ?pc2(0 := Claim_done (Inr ?w), 1 := Claim_done (Inr v)))"
    using two by simp
  from claim_mutual_exclusion [OF this permit_all_read_only dist, of 0 ?w 1 v]
  have "\<exists>row \<in> set (d_work_items d2). wi_id row = 5 \<and> wi_actual_owner_id row = Some 1" by simp
  then show ?thesis
    using run by (intro exI [of _ d2] exI [of _ "?pc2(0 := Claim_done (Inr ?w), 1 := Claim_done (Inr v))"]
        exI [of _ ?w] exI [of _ v] conjI) simp_all
qed

section \<open>An open task can be taken up\<close>

lemma assigned_exists:
  "user_is_assigned tenant wid uid d \<longleftrightarrow> exists_row (potential_owner_row tenant wid uid) (d_work_item_users d)"
  by (auto simp: user_is_assigned_def exists_row_def list_ex_iff find_None_iff)

lemma pending_run:
  assumes "tenant_member tenant uid d"
  shows "get_pending_tasks tenant (Some uid) d = (Inr (sort_key wi_id (filter (\<lambda>w. wi_tenant w = tenant \<and>
    \<not> wi_completed w \<and> exists_row (potential_owner_row tenant (wi_id w) uid) (d_work_item_users d))
    (d_work_items d))), d)"
  by (simp add: get_pending_tasks_def ensure_member_run [OF assms] gets_run)

text \<open>C19: An open, unclaimed task does not get stuck: every permitted potential owner can claim it, the
  claimed item is then listed among the pending tasks of that user, and a claim by anyone else is
  refused as long as the row stays.\<close>

theorem open_task_claimable:
  assumes "tenant_member tenant uid d" and "work_item_for tenant wid d = Some w"
    and "task_authorization ctx tenant uid TASK_CLAIM_COMMAND w d = (Inr (), d)"
    and "distinct (map wi_id (d_work_items d))"
    and "\<not> wi_completed w" and "wi_actual_owner_id w = None" and "user_is_assigned tenant wid uid d"
  shows "\<exists>w' d' ws. claim_task ctx tenant wid uid d = (Inr w', d') \<and>
    wi_actual_owner_id w' = Some uid \<and> wi_task_status w' = CLAIMED \<and>
    get_pending_tasks tenant (Some uid) d' = (Inr ws, d') \<and> w' \<in> set ws \<and>
    (\<forall>other. other \<noteq> uid \<longrightarrow> claim_write tenant other w' d' = (Inl (Err InvalidStateError (R_task ClaimLostRace)), d'))"
proof -
  have w: "wi_id w = wid" "wi_tenant w = tenant" "w \<in> set (d_work_items d)"
    using work_item_for_keys [OF assms(2)] by auto
  let ?w = "claim_work_item uid (d_now d) w"
  let ?d = "d\<lparr>d_work_items := update_where (\<lambda>x. wi_id x = wid) (claim_work_item uid (d_now d)) (d_work_items d),
     d_instances := update_where (\<lambda>p. pi_id p = wi_process_instance_id w)
       (\<lambda>p. p\<lparr>pi_task_updated_at := Some (d_now d)\<rparr>) (d_instances d)\<rparr>"
  have run: "claim_task ctx tenant wid uid d = (Inr ?w, ?d)"
    using claim_task_run [OF assms(1-4)] assms(5-7) by simp
  have member: "tenant_member tenant uid ?d" using assms(1) tenant_member_cong [of ?d d] by simp
  have keys: "wi_id ?w = wid" "wi_tenant ?w = tenant" "\<not> wi_completed ?w" "wi_actual_owner_id ?w = Some uid"
    "wi_task_status ?w = CLAIMED" using w assms(5) by (simp_all add: claim_work_item_def)
  have row: "?w \<in> set (d_work_items ?d)" using w by (auto intro: in_update_where)
  have dist: "distinct (map wi_id (d_work_items ?d))"
    using assms(4) by (simp add: map_update_where claim_work_item_def)
  have "claim_write tenant other ?w ?d = (Inl (Err InvalidStateError (R_task ClaimLostRace)), ?d)"
    if "other \<noteq> uid" for other
    using claim_write_run [OF dist row refl, of tenant other] that keys by (simp add: claimable_def)
  moreover have "\<exists>ws. get_pending_tasks tenant (Some uid) ?d = (Inr ws, ?d) \<and> ?w \<in> set ws"
    using row keys(1-3) assms(7) unfolding pending_run [OF member] by (simp add: assigned_exists)
  ultimately show ?thesis using run keys by blast
qed

theorem open_task_claimable_witness:
  "\<exists>w' d' ws. claim_task permit_all_context ''acme'' 5 1 open_item_db = (Inr w', d') \<and>
     wi_actual_owner_id w' = Some 1 \<and> get_pending_tasks ''acme'' (Some 1) d' = (Inr ws, d') \<and> w' \<in> set ws"
proof -
  have "\<not> wi_completed open_item" "wi_actual_owner_id open_item = None" by (simp_all add: open_item_def)
  from open_task_claimable [OF open_item_facts(1,2) permit_all_task open_item_facts(3) this open_item_facts(4)]
  show ?thesis by blast
qed

section \<open>Assigning the open tasks of a user's groups\<close>

lemma exists_row_append [simp]: "exists_row p (xs @ ys) \<longleftrightarrow> exists_row p xs \<or> exists_row p ys"
  by (auto simp: exists_row_def)

lemma exists_row_set: "exists_row p xs \<longleftrightarrow> (\<exists>x \<in> set xs. p x)"
  by (auto simp: exists_row_def list_ex_iff)

text \<open>The rows of a user that stand for a set of work items, and the query the assignment runs.\<close>

abbreviation lane_owner_row :: "string \<Rightarrow> int \<Rightarrow> work_item_row \<Rightarrow> work_item_user_row" where
  "lane_owner_row tenant uid w \<equiv> \<lparr>wiu_tenant = tenant, wiu_work_item_id = wi_id w, wiu_user_id = uid,
     wiu_added_by = Some AB_lane_assignment\<rparr>"

lemma newly_assigned_set:
  "set (newly_assigned tenant uid d) =
     {w \<in> set (d_work_items d). wi_tenant w = tenant \<and> \<not> wi_completed w \<and>
        (\<exists>m \<in> set (d_user_groups d). uga_user_id m = uid \<and> wi_lane_assignment_id w = Some (uga_group_id m)) \<and>
        \<not> (\<exists>r \<in> set (d_work_item_users d). wiu_work_item_id r = wi_id w \<and> wiu_user_id r = uid)}"
  unfolding newly_assigned_def member_of_lane_group_def already_potential_owner_def exists_row_set
  by auto

lemma newly_assigned_order:
  assumes "distinct (map wi_id (d_work_items d))"
  shows "sorted (map wi_id (newly_assigned tenant uid d)) \<and> distinct (map wi_id (newly_assigned tenant uid d))"
  using assms by (simp add: newly_assigned_def distinct_map_filter distinct_map inj_on_def)

lemma assign_pending_run:
  assumes "tenant_member tenant uid d"
  shows "assign_pending_tasks_for_user tenant uid d = (Inr (newly_assigned tenant uid d),
    d\<lparr>d_work_item_users := d_work_item_users d @ map (lane_owner_row tenant uid) (newly_assigned tenant uid d)\<rparr>)"
  by (simp add: assign_pending_tasks_for_user_def ensure_member_run [OF assms] run_simps)

lemma assigned_nothing_left:
  "newly_assigned tenant uid
     (d\<lparr>d_work_item_users := d_work_item_users d @ map (lane_owner_row tenant uid) (newly_assigned tenant uid d)\<rparr>) = []"
  (is "newly_assigned tenant uid ?d = []")
proof -
  have "x \<notin> set (newly_assigned tenant uid ?d)" for x
  proof
    assume x: "x \<in> set (newly_assigned tenant uid ?d)"
    then have "x \<in> set (newly_assigned tenant uid d)" unfolding newly_assigned_set by auto
    then have "lane_owner_row tenant uid x \<in> set (d_work_item_users ?d)" by simp
    moreover have "\<not> (\<exists>r \<in> set (d_work_item_users ?d). wiu_work_item_id r = wi_id x \<and> wiu_user_id r = uid)"
      using x unfolding newly_assigned_set by blast
    ultimately show False by (metis (no_types) work_item_user_row.select_convs(2,3))
  qed
  then show ?thesis by (metis list.set_intros(1) neq_Nil_conv)
qed

lemma pending_after_assigning:
  assumes "tenant_member tenant uid d" and "distinct (map wi_id (d_work_items d))"
    and "set ws \<subseteq> {w \<in> set (d_work_items d). wi_tenant w = tenant \<and> \<not> wi_completed w}"
    and "get_pending_tasks tenant (Some uid) d = (Inr before, d)"
    and "d' = d\<lparr>d_work_item_users := d_work_item_users d @ map (lane_owner_row tenant uid) ws\<rparr>"
  shows "\<exists>after. get_pending_tasks tenant (Some uid) d' = (Inr after, d') \<and> set after = set before \<union> set ws"
proof -
  have member: "tenant_member tenant uid d'"
    using assms(1,5) tenant_member_cong [of d' d] by simp
  have new: "x \<in> set ws \<longleftrightarrow> exists_row (potential_owner_row tenant (wi_id x) uid) (map (lane_owner_row tenant uid) ws)"
    if "x \<in> set (d_work_items d)" for x
    using that assms(3) distinct_key_eq [OF assms(2) that]
    by (auto simp: exists_row_set potential_owner_row_def) (metis (no_types, lifting) mem_Collect_eq subsetD)
  have "set (filter (\<lambda>w. wi_tenant w = tenant \<and> \<not> wi_completed w \<and>
      exists_row (potential_owner_row tenant (wi_id w) uid) (d_work_item_users d')) (d_work_items d')) =
    set before \<union> set ws"
    using assms(3,4) new by (auto simp: assms(5) pending_run [OF assms(1)])
  then show ?thesis unfolding pending_run [OF member] by simp
qed

text \<open>C34: Assigning pending tasks reaches exactly the open lane tasks of the user's groups: the call returns,
  in the order of their ids and each once, the tasks of the tenant that are not completed, whose lane
  is assigned to a group the user is a member of, and of which the user is not yet a potential owner.
  Each gets one potential-owner row marked as a lane assignment, and nothing else is written; the
  pending tasks of the user are afterwards those from before and the returned ones; and assigning
  again returns nothing and writes nothing.\<close>

theorem assign_pending_tasks_exact:
  assumes "tenant_member tenant uid d" and "distinct (map wi_id (d_work_items d))"
  shows "\<exists>ws d' before after. assign_pending_tasks_for_user tenant uid d = (Inr ws, d') \<and>
    sorted (map wi_id ws) \<and> distinct (map wi_id ws) \<and>
    set ws = {w \<in> set (d_work_items d). wi_tenant w = tenant \<and> \<not> wi_completed w \<and>
       (\<exists>m \<in> set (d_user_groups d). uga_user_id m = uid \<and> wi_lane_assignment_id w = Some (uga_group_id m)) \<and>
       \<not> (\<exists>r \<in> set (d_work_item_users d). wiu_work_item_id r = wi_id w \<and> wiu_user_id r = uid)} \<and>
    d' = d\<lparr>d_work_item_users := d_work_item_users d @
       map (\<lambda>w. \<lparr>wiu_tenant = tenant, wiu_work_item_id = wi_id w, wiu_user_id = uid,
                  wiu_added_by = Some AB_lane_assignment\<rparr>) ws\<rparr> \<and>
    get_pending_tasks tenant (Some uid) d = (Inr before, d) \<and>
    get_pending_tasks tenant (Some uid) d' = (Inr after, d') \<and> set after = set before \<union> set ws \<and>
    assign_pending_tasks_for_user tenant uid d' = (Inr [], d')"
proof -
  define ws where "ws = newly_assigned tenant uid d"
  define d' where "d' = d\<lparr>d_work_item_users := d_work_item_users d @ map (lane_owner_row tenant uid) ws\<rparr>"
  obtain before where before: "get_pending_tasks tenant (Some uid) d = (Inr before, d)"
    using pending_run [OF assms(1)] by blast
  have "set ws \<subseteq> {w \<in> set (d_work_items d). wi_tenant w = tenant \<and> \<not> wi_completed w}"
    unfolding ws_def newly_assigned_set by blast
  then obtain after where after: "get_pending_tasks tenant (Some uid) d' = (Inr after, d')"
      "set after = set before \<union> set ws"
    using pending_after_assigning [OF assms _ before d'_def] by blast
  have member: "tenant_member tenant uid d'" using assms(1) tenant_member_cong [of d' d] by (simp add: d'_def)
  have "newly_assigned tenant uid d' = []" unfolding d'_def ws_def by (rule assigned_nothing_left)
  then have "assign_pending_tasks_for_user tenant uid d' = (Inr [], d')" by (simp add: assign_pending_run [OF member])
  moreover have "assign_pending_tasks_for_user tenant uid d = (Inr ws, d')"
    using assign_pending_run [OF assms(1)] by (simp add: ws_def d'_def)
  moreover have "set ws = {w \<in> set (d_work_items d). wi_tenant w = tenant \<and> \<not> wi_completed w \<and>
       (\<exists>m \<in> set (d_user_groups d). uga_user_id m = uid \<and> wi_lane_assignment_id w = Some (uga_group_id m)) \<and>
       \<not> (\<exists>r \<in> set (d_work_item_users d). wiu_work_item_id r = wi_id w \<and> wiu_user_id r = uid)}"
    unfolding ws_def by (rule newly_assigned_set)
  moreover have "sorted (map wi_id ws)" "distinct (map wi_id ws)"
    using newly_assigned_order [OF assms(2), of tenant uid] by (simp_all add: ws_def)
  ultimately show ?thesis using before after d'_def by blast
qed

definition lane_item_db :: db where
  "lane_item_db = open_item_db\<lparr>d_work_items := [open_item\<lparr>wi_lane_assignment_id := Some 9\<rparr>],
     d_work_item_users := [], d_user_groups := [\<lparr>uga_id = 1, uga_user_id = 1, uga_group_id = 9\<rparr>]\<rparr>"

theorem assign_pending_tasks_exact_witness:
  "\<exists>d' after. assign_pending_tasks_for_user ''acme'' 1 lane_item_db =
       (Inr [open_item\<lparr>wi_lane_assignment_id := Some 9\<rparr>], d') \<and>
     get_pending_tasks ''acme'' (Some 1) d' = (Inr after, d') \<and>
     open_item\<lparr>wi_lane_assignment_id := Some 9\<rparr> \<in> set after \<and>
     assign_pending_tasks_for_user ''acme'' 1 d' = (Inr [], d')"
proof -
  let ?w = "open_item\<lparr>wi_lane_assignment_id := Some 9\<rparr>"
  have "tenant_member ''acme'' 1 lane_item_db"
    using open_item_facts(1) tenant_member_cong [of lane_item_db open_item_db] by (simp add: lane_item_db_def)
  moreover have "distinct (map wi_id (d_work_items lane_item_db))" by (simp add: lane_item_db_def)
  ultimately obtain ws d' before after where
    *: "assign_pending_tasks_for_user ''acme'' 1 lane_item_db = (Inr ws, d')" "distinct (map wi_id ws)"
      "set ws = {w \<in> set (d_work_items lane_item_db). wi_tenant w = ''acme'' \<and> \<not> wi_completed w \<and>
         (\<exists>m \<in> set (d_user_groups lane_item_db). uga_user_id m = 1 \<and> wi_lane_assignment_id w = Some (uga_group_id m)) \<and>
         \<not> (\<exists>r \<in> set (d_work_item_users lane_item_db). wiu_work_item_id r = wi_id w \<and> wiu_user_id r = 1)}"
      "get_pending_tasks ''acme'' (Some 1) d' = (Inr after, d')" "set after = set before \<union> set ws"
      "assign_pending_tasks_for_user ''acme'' 1 d' = (Inr [], d')"
    using assign_pending_tasks_exact [of "''acme''" 1 lane_item_db] by blast
  have "set ws = {?w}" unfolding *(3) by (auto simp: lane_item_db_def open_item_def)
  moreover have "distinct ws" using *(2) by (simp add: distinct_map)
  ultimately have "ws = [?w]"
    by (metis distinct.simps(2) insert_not_empty list.exhaust list.set_intros(1) set_empty2 set_ConsD
        singletonD list.set_intros(2) list.set(1) neq_Nil_conv)
  then show ?thesis using *(1,4-6) by auto
qed

end
