(* ===== verification/Manual_Tasks.thy ===== *)
theory Manual_Tasks
  imports Workflow_State Task_Claims
begin

text \<open>
  The part of \<^verbatim>\<open>src/m8flow_core/services/workflow_runtime.py\<close> that keeps the work items of an instance
  in step with the workflow: closing those whose task is no longer ready, creating or reopening one
  for every ready manual task, and deriving the status of the instance. \<open>sql_norm\<close> is the database's
  normalization of names, as in the lane assignment.
\<close>

section \<open>Definitions\<close>

definition current_ready_manual_tasks ::
  "'w spiff_engine \<Rightarrow> process_instance_row \<Rightarrow> 'w \<Rightarrow> db \<Rightarrow> spiff_task list" where
  "current_ready_manual_tasks en p w d =
     filter (\<lambda>t. case get_task (sp_id t) d of
                  None \<Rightarrow> False
                | Some m \<Rightarrow> tk_process_instance_id m = pi_id p \<and> tk_state m = TS_READY)
       (en_tasks en w TS_READY True)"

definition inactive_work_item_status :: "task_state option \<Rightarrow> work_item_state" where
  "inactive_work_item_status st =
     (case st of
        Some TS_CANCELLED \<Rightarrow> CANCELLED
      | Some TS_COMPLETED \<Rightarrow> COMPLETED
      | Some TS_ERROR \<Rightarrow> WI_ERROR
      | _ \<Rightarrow> TERMINATED)"

definition inactive_work_item_event_type :: "task_state option \<Rightarrow> event_type option" where
  "inactive_work_item_event_type st =
     (case st of Some TS_CANCELLED \<Rightarrow> Some task_cancelled | Some TS_ERROR \<Rightarrow> Some task_failed | _ \<Rightarrow> None)"

definition close_inactive_work_item ::
  "process_instance_row \<Rightarrow> work_item_row \<Rightarrow> task_state option \<Rightarrow> datetime \<Rightarrow> unit svc" where
  "close_inactive_work_item p w st ts =
     (if wi_completed w then ret ()
      else
        thn (upd_work_item (wi_id w) (close_work_item (inactive_work_item_status st) ts None))
        (thn (bnd (gets (task_model w)) (\<lambda>t.
               case t of None \<Rightarrow> ret ()
               | Some m \<Rightarrow> upd_future (tk_guid m) (\<lambda>f. f\<lparr>ft_completed := True, ft_updated_at := ts\<rparr>)))
          (case inactive_work_item_event_type st of
             None \<Rightarrow> ret ()
           | Some ev \<Rightarrow>
               bnd (record_process_instance_event (pi_tenant p) (pi_id p) (Event ev) (Some ts)
                      (wi_task_guid w) None) (\<lambda>_. ret ()))))"

text \<open>The open items are read once; the state of an item's task is read when its turn comes.\<close>

definition open_work_items :: "process_instance_row \<Rightarrow> db \<Rightarrow> work_item_row list" where
  "open_work_items p d =
     filter (\<lambda>w. wi_tenant w = pi_tenant p \<and> wi_process_instance_id w = pi_id p \<and> \<not> wi_completed w)
       (d_work_items d)"

definition sync_inactive_work_item ::
  "process_instance_row \<Rightarrow> string list \<Rightarrow> datetime \<Rightarrow> work_item_row \<Rightarrow> unit svc" where
  "sync_inactive_work_item p ready ts w =
     bnd (gets (task_model w)) (\<lambda>m.
       if \<not> (\<exists>g \<in> set ready. wi_task_guid w = Some g)
       then close_inactive_work_item p w (map_option tk_state m) ts
       else case m of
         None \<Rightarrow> ret ()
       | Some t \<Rightarrow> if tk_state t = TS_READY then ret ()
                   else close_inactive_work_item p w (Some (tk_state t)) ts)"

definition sync_inactive_work_items ::
  "'w spiff_engine \<Rightarrow> process_instance_row \<Rightarrow> 'w \<Rightarrow> datetime \<Rightarrow> unit svc" where
  "sync_inactive_work_items en p w ts =
     bnd (gets (\<lambda>d. (map sp_id (current_ready_manual_tasks en p w d), open_work_items p d))) (\<lambda>(ready, items).
       for_each (sync_inactive_work_item p ready ts) items)"

definition upsert_future_task :: "string \<Rightarrow> guid \<Rightarrow> datetime \<Rightarrow> unit svc" where
  "upsert_future_task tenant guid ts =
     bnd (gets (\<lambda>d. find (\<lambda>f. ft_guid f = guid) (d_future d))) (\<lambda>f.
       case f of
         None \<Rightarrow> modify (\<lambda>d. d\<lparr>d_future := d_future d @
                   [\<lparr>ft_guid = guid, ft_tenant = tenant, ft_run_at = ts, ft_queued_to_run_at = Some ts,
                     ft_completed = False, ft_archived = False, ft_updated_at = ts\<rparr>]\<rparr>)
       | Some _ \<Rightarrow> upd_future guid (\<lambda>r. r\<lparr>ft_run_at := ts, ft_queued_to_run_at := Some ts,
                     ft_completed := False, ft_archived := False, ft_updated_at := ts\<rparr>))"

definition put_work_items :: "work_item_row list \<Rightarrow> db \<Rightarrow> db" where
  "put_work_items rs d = d\<lparr>d_work_items := rs\<rparr>"

definition is_work_item_of :: "process_instance_row \<Rightarrow> guid \<Rightarrow> work_item_row \<Rightarrow> bool" where
  "is_work_item_of p guid w \<longleftrightarrow>
     wi_tenant w = pi_tenant p \<and> wi_process_instance_id w = pi_id p \<and> wi_task_guid w = Some guid"

definition new_work_item :: "process_instance_row \<Rightarrow> guid \<Rightarrow> datetime \<Rightarrow> int \<Rightarrow> work_item_row" where
  "new_work_item p guid ts i =
     \<lparr>wi_id = i, wi_tenant = pi_tenant p, wi_process_instance_id = pi_id p, wi_task_guid = Some guid,
      wi_lane_assignment_id = None, wi_completed_by_user_id = None, wi_actual_owner_id = None,
      wi_task_status = READY, wi_completed = False, wi_updated_at = Some ts, wi_created_at = Some ts\<rparr>"

definition put_ready_item :: "process_instance_row \<Rightarrow> guid \<Rightarrow> datetime \<Rightarrow> work_item_row svc" where
  "put_ready_item p guid ts =
     upsert_row d_work_items put_work_items wi_id (is_work_item_of p guid)
       (new_work_item p guid ts) (prepare_work_item_for_ready_state ts)"

definition upsert_work_item :: "process_instance_row \<Rightarrow> guid \<Rightarrow> datetime \<Rightarrow> work_item_row svc" where
  "upsert_work_item p guid ts =
     bnd (put_ready_item p guid ts) (\<lambda>w.
     thn (upd_instance (pi_id p) (\<lambda>r. r\<lparr>pi_task_updated_at := Some ts\<rparr>))
       (ret w))"

text \<open>Every instance row has an initiator, so the guard on a missing one never fires.\<close>

definition materialize_single_manual_task ::
  "(string \<Rightarrow> string) \<Rightarrow> 'w spiff_engine \<Rightarrow> process_instance_row \<Rightarrow> spiff_task \<Rightarrow> datetime \<Rightarrow> work_item_row svc" where
  "materialize_single_manual_task sql_norm en p t ts =
     bnd (gets (bpmn_process_of p)) (\<lambda>bp.
       if bp = None then raise (Err ValidationError (R_workflow NoBpmnProcess))
       else case pi_bpmn_process_definition_id p of
         None \<Rightarrow> raise (Err ValidationError (R_workflow NoProcessDefinition))
       | Some pdid \<Rightarrow>
           bnd (upsert_task_definition (pi_tenant p) pdid t (task_definition_identifier_prefix t) ts) (\<lambda>td.
           bnd (upsert_task_model en p td t ts) (\<lambda>guid.
           bnd (upsert_work_item p guid ts) (\<lambda>w.
           bnd (gets (process_definition_of p)) (\<lambda>pd.
           thn (assign_work_item_potential_owners sql_norm p (wi_id w) (sp_lane t) (sp_data t)
                  (case pd of None \<Rightarrow> PNone | Some r \<Rightarrow> PDict (pd_properties_json r)))
           (thn (upsert_future_task (pi_tenant p) (sp_id t) ts)
              (ret w)))))))"

definition materialize_ready_manual_tasks ::
  "(string \<Rightarrow> string) \<Rightarrow> 'w spiff_engine \<Rightarrow> process_instance_row \<Rightarrow> 'w \<Rightarrow> datetime \<Rightarrow> work_item_row list svc" where
  "materialize_ready_manual_tasks sql_norm en p w ts =
     bnd (gets (current_ready_manual_tasks en p w)) (\<lambda>ready.
       map_M (\<lambda>t. materialize_single_manual_task sql_norm en p t ts) ready)"

definition get_ready_work_items :: "int \<Rightarrow> db \<Rightarrow> work_item_row list" where
  "get_ready_work_items pid d =
     filter (\<lambda>w. wi_process_instance_id w = pid \<and> \<not> wi_completed w \<and> wi_task_status w = READY) (d_work_items d)"

text \<open>Archiving writes to the future tasks of the instance's tasks.\<close>

definition archive_completed_workflow_runtime_state :: "int \<Rightarrow> datetime \<Rightarrow> unit svc" where
  "archive_completed_workflow_runtime_state pid ts =
     modify (\<lambda>d. d\<lparr>d_future := update_where (\<lambda>f. ft_guid f \<in> set (instance_task_guids pid (\<lambda>_. True) d))
       (\<lambda>f. f\<lparr>ft_completed := True, ft_archived := True, ft_updated_at := ts\<rparr>) (d_future d)\<rparr>)"

definition workflow_status :: "'w spiff_engine \<Rightarrow> 'w \<Rightarrow> process_instance_status" where
  "workflow_status en w =
     (if en_tasks en w TS_READY True \<noteq> [] then PIS_user_input_required
      else if en_tasks en w TS_WAITING False \<noteq> [] then PIS_waiting
      else PIS_running)"

definition update_process_instance_status_from_workflow ::
  "'w spiff_engine \<Rightarrow> process_instance_row \<Rightarrow> 'w \<Rightarrow> datetime \<Rightarrow> unit svc" where
  "update_process_instance_status_from_workflow en p w ts =
     (if en_completed en w then
        thn (upd_instance (pi_id p) (\<lambda>r. r\<lparr>pi_status := PIS_complete, pi_ended_at := Some ts,
               pi_updated_at := Some ts\<rparr>))
        (thn (case pi_bpmn_process_id p of None \<Rightarrow> ret ()
              | Some b \<Rightarrow> upd_process b (\<lambda>r. r\<lparr>bp_ended_at := Some ts\<rparr>))
           (archive_completed_workflow_runtime_state (pi_id p) ts))
      else
        thn (upd_instance (pi_id p) (\<lambda>r. r\<lparr>pi_status := workflow_status en w, pi_ended_at := None,
               pi_updated_at := Some ts, pi_task_updated_at := Some ts\<rparr>))
        (bnd (gets (\<lambda>d. find (\<lambda>r. pi_id r = pi_id p) (d_instances d))) (\<lambda>q.
           case pi_bpmn_process_id p of
             None \<Rightarrow> ret ()
           | Some b \<Rightarrow>
               upd_process b (\<lambda>r. r\<lparr>
                 bp_started_at := (case bp_started_at r of
                    None \<Rightarrow> (case Option.bind q pi_started_at of None \<Rightarrow> Some ts | Some x \<Rightarrow> Some x)
                  | Some x \<Rightarrow> Some x),
                 bp_ended_at := None\<rparr>))))"

section \<open>What leaves the claim state of work items alone\<close>

text \<open>The work items without their lane group: the assignment of owners writes no other column.\<close>

definition claim_view :: "db \<Rightarrow> work_item_row list" where
  "claim_view d = map (\<lambda>w. w\<lparr>wi_lane_assignment_id := None\<rparr>) (d_work_items d)"

definition same_claims :: "db \<Rightarrow> db \<Rightarrow> bool" where
  "same_claims d d' \<longleftrightarrow> claim_view d' = claim_view d"

interpretation claims: frame same_claims
  by unfold_locales (simp_all add: same_claims_def)

lemma same_claims_other: "d_work_items d' = d_work_items d \<Longrightarrow> same_claims d d'"
  by (simp add: same_claims_def claim_view_def)

lemma set_lane_same_claims: "claims.keeps (set_lane_assignment wid g)"
  unfolding set_lane_assignment_def upd_work_item_def
  by (intro claims.keeps_modify) (simp add: same_claims_def claim_view_def update_where_def)

lemma find_group_same_claims: "claims.keeps (find_or_create_lane_group sql_norm tenant lane)"
  unfolding find_or_create_lane_group_def Let_def
  by (intro claims.keeps_intros same_claims_other) simp_all

lemma add_members_same_claims: "claims.keeps (add_group_members g us)"
  unfolding add_group_members_def add_group_member_def
  by (intro claims.keeps_intros same_claims_other) simp_all

lemma enroll_same_claims: "claims.keeps (enroll_lane_owners sql_norm tenant by_lane)"
  unfolding enroll_lane_owners_def
  by (intro claims.keeps_map_M)
    (auto intro!: claims.keeps_intros find_group_same_claims add_members_same_claims)

lemma computed_same_claims: "claims.keeps (computed_owners sql_norm p wid lane task_data props)"
  unfolding computed_owners_def Let_def lane_group_owners_def initiator_def
  by (intro claims.keeps_intros enroll_same_claims find_group_same_claims set_lane_same_claims)

lemma assign_same_claims:
  "claims.keeps (assign_work_item_potential_owners sql_norm p wid lane task_data props)"
  unfolding assign_split
  by (intro claims.keeps_thn claims.keeps_bnd set_lane_same_claims computed_same_claims claims.keepsI)
    (simp add: add_missing_run same_claims_other)

lemma store_payload_same_claims: "claims.keeps (create_or_update_from_payload tenant data)"
  unfolding create_or_update_from_payload_def
  by (intro claims.keeps_intros same_claims_other) (auto split: option.split)

lemma upsert_definition_same_claims: "claims.keeps (upsert_task_definition_from_payload tenant pdid ident payload ts)"
  unfolding upsert_task_definition_from_payload_def Let_def
  by (intro claims.keeps_intros claims.keeps_upsert same_claims_other) (simp add: put_task_defs_def)

lemma upsert_task_definition_same_claims: "claims.keeps (upsert_task_definition tenant pdid t pre ts)"
  unfolding upsert_task_definition_def
  by (intro claims.keeps_intros upsert_definition_same_claims)

lemma upsert_task_model_same_claims: "claims.keeps (upsert_task_model en p td t ts)"
  unfolding upsert_task_model_def upsert_task_model_from_payload_def Let_def
  by (intro claims.keeps_intros store_payload_same_claims)
    (auto simp: insert_task_row_def rewrite_task_row_def upd_task_def
      intro!: claims.keeps_intros same_claims_other)

lemma upsert_future_same_claims: "claims.keeps (upsert_future_task tenant guid ts)"
  unfolding upsert_future_task_def upd_future_def
  by (intro claims.keeps_intros same_claims_other) simp_all

lemmas same_claims_intros = assign_same_claims upsert_task_definition_same_claims
  upsert_task_model_same_claims upsert_future_same_claims

section \<open>Inactive items are closed\<close>

definition open_item_of :: "process_instance_row \<Rightarrow> work_item_row \<Rightarrow> bool" where
  "open_item_of p w \<longleftrightarrow> wi_tenant w = pi_tenant p \<and> wi_process_instance_id w = pi_id p \<and> \<not> wi_completed w"

lemma record_event_tables:
  assumes "record_process_instance_event tenant pid ev ts g user d = (Inr e, d')"
  shows "d' = d\<lparr>d_events := d_events d @ [e]\<rparr>"
  using assms unfolding record_process_instance_event_def
  by (auto simp: bnd_Inr_iff thn_Inr_iff run_simps comp_defs ensure_user_run
      split: option.splits sum.splits if_splits)

lemma close_inactive_items:
  assumes "close_inactive_work_item p w st ts d = (Inr u, d')" and "\<not> wi_completed w"
  shows "d_work_items d' = update_where (\<lambda>r. wi_id r = wi_id w)
      (close_work_item (inactive_work_item_status st) ts None) (d_work_items d) \<and>
    d_tasks d' = d_tasks d"
  using assms unfolding close_inactive_work_item_def upd_work_item_def upd_future_def
  by (auto simp: thn_Inr_iff bnd_Inr_iff run_simps split: option.splits dest!: record_event_tables)

text \<open>The rows and the items that were read agree on the task of an item.\<close>

definition guids_agree :: "work_item_row list \<Rightarrow> work_item_row list \<Rightarrow> bool" where
  "guids_agree items rows \<longleftrightarrow>
     (\<forall>i \<in> set items. \<forall>w \<in> set rows. wi_id w = wi_id i \<longrightarrow> wi_task_guid w = wi_task_guid i)"

lemma close_work_item_keys [simp]:
  "wi_id (close_work_item st ts u w) = wi_id w" "wi_task_guid (close_work_item st ts u w) = wi_task_guid w"
  "wi_completed (close_work_item st ts u w)"
  by (simp_all add: close_work_item_def Let_def)

lemma sync_inactive_step:
  assumes "sync_inactive_work_item p ready ts i d = (Inr u, d')" and "\<not> wi_completed i"
  shows "map wi_id (d_work_items d') = map wi_id (d_work_items d) \<and> d_tasks d' = d_tasks d \<and>
    (\<forall>items. guids_agree items (d_work_items d) \<longrightarrow> guids_agree items (d_work_items d')) \<and>
    (\<forall>w \<in> set (d_work_items d'). open_item_of p w \<longrightarrow>
       w \<in> set (d_work_items d) \<and> (wi_id w = wi_id i \<longrightarrow> wi_task_guid i \<in> Some ` set ready))"
proof -
  consider "d' = d" "wi_task_guid i \<in> Some ` set ready"
    | st where "close_inactive_work_item p i st ts d = (Inr u, d')"
    using assms(1) unfolding sync_inactive_work_item_def
    by (auto simp: run_simps split: if_splits option.splits)
  then show ?thesis
  proof cases
    case 1
    then show ?thesis by simp
  next
    case 2
    note rows = close_inactive_items [OF 2 assms(2)]
    then show ?thesis
      by (auto simp: guids_agree_def open_item_of_def update_where_def comp_def split: if_splits)
  qed
qed

lemma sync_inactive_loop:
  assumes "for_each (sync_inactive_work_item p ready ts) items d = (Inr u, d')"
    and "\<forall>i \<in> set items. \<not> wi_completed i" and "guids_agree items (d_work_items d)"
    and "\<forall>w \<in> set (d_work_items d). open_item_of p w \<longrightarrow>
       wi_task_guid w \<in> Some ` set ready \<or> wi_id w \<in> wi_id ` set items"
  shows "map wi_id (d_work_items d') = map wi_id (d_work_items d) \<and> d_tasks d' = d_tasks d \<and>
    (\<forall>w \<in> set (d_work_items d'). open_item_of p w \<longrightarrow> wi_task_guid w \<in> Some ` set ready)"
  using assms
proof (induction items arbitrary: d)
  case Nil
  then show ?case by (simp add: ret_def)
next
  case (Cons i items)
  obtain v d1 where step: "sync_inactive_work_item p ready ts i d = (Inr v, d1)"
    and rest: "for_each (sync_inactive_work_item p ready ts) items d1 = (Inr u, d')"
    using Cons.prems(1) by (auto simp: thn_Inr_iff)
  note s = sync_inactive_step [OF step]
  have open_i: "\<not> wi_completed i" using Cons.prems(2) by simp
  have agree: "guids_agree items (d_work_items d1)"
  proof -
    have "guids_agree items (d_work_items d)" using Cons.prems(3) by (simp add: guids_agree_def)
    then show ?thesis using s [OF open_i] by blast
  qed
  have "\<forall>w \<in> set (d_work_items d1). open_item_of p w \<longrightarrow>
      wi_task_guid w \<in> Some ` set ready \<or> wi_id w \<in> wi_id ` set items"
  proof (intro ballI impI)
    fix w assume w: "w \<in> set (d_work_items d1)" "open_item_of p w"
    then have old: "w \<in> set (d_work_items d)" "wi_id w = wi_id i \<longrightarrow> wi_task_guid i \<in> Some ` set ready"
      using s [OF open_i] by auto
    then have "wi_id w = wi_id i \<longrightarrow> wi_task_guid w = wi_task_guid i"
      using Cons.prems(3) by (simp add: guids_agree_def)
    then show "wi_task_guid w \<in> Some ` set ready \<or> wi_id w \<in> wi_id ` set items"
      using Cons.prems(4) old w(2) by auto
  qed
  then show ?case using Cons.IH [OF rest] Cons.prems(2) agree s [OF open_i] by simp
qed

lemma sync_inactive_closes:
  assumes "sync_inactive_work_items en p w ts d = (Inr u, d')" and "distinct (map wi_id (d_work_items d))"
  shows "map wi_id (d_work_items d') = map wi_id (d_work_items d) \<and> d_tasks d' = d_tasks d \<and>
    (\<forall>i \<in> set (d_work_items d'). open_item_of p i \<longrightarrow>
       wi_task_guid i \<in> Some ` sp_id ` set (current_ready_manual_tasks en p w d))"
proof -
  let ?ready = "map sp_id (current_ready_manual_tasks en p w d)"
  have run: "for_each (sync_inactive_work_item p ?ready ts) (open_work_items p d) d = (Inr u, d')"
    using assms(1) by (simp add: sync_inactive_work_items_def run_simps)
  have "guids_agree (open_work_items p d) (d_work_items d)"
    using assms(2) by (auto simp: guids_agree_def open_work_items_def dest: inj_onD [OF distinct_map [THEN iffD1, THEN conjunct2]])
  then show ?thesis
    using sync_inactive_loop [OF run] by (auto simp: open_work_items_def open_item_of_def)
qed

section \<open>Ready tasks get an item\<close>

interpretation items: table d_work_items put_work_items wi_id
  by unfold_locales (simp add: put_work_items_def)

text \<open>A ready item that nobody owns.\<close>

definition free_item :: "process_instance_row \<Rightarrow> guid \<Rightarrow> work_item_row \<Rightarrow> bool" where
  "free_item p g w \<longleftrightarrow> open_item_of p w \<and> wi_task_guid w = Some g \<and> wi_task_status w = READY \<and>
     wi_actual_owner_id w = None"

text \<open>What the engine's serializer guarantees: the dictionary of a task carries its identifier.\<close>

definition names_itself :: "spiff_task \<Rightarrow> bool" where
  "names_itself t \<longleftrightarrow> (case as_dict (sp_dict t) of None \<Rightarrow> False | Some v \<Rightarrow> dict_get v ''id'' = PStr (sp_id t))"

lemma upsert_task_model_guid:
  assumes "upsert_task_model en p td t ts d = (Inr g, d')" and "names_itself t"
  shows "g = sp_id t"
  using assms unfolding upsert_task_model_def upsert_task_model_from_payload_def names_itself_def Let_def
  by (auto simp: bnd_Inr_iff thn_Inr_iff run_simps split: option.splits if_splits)

text \<open>The tasks with an open item, and those with a free one; both read only the claim state.\<close>

definition open_guids :: "process_instance_row \<Rightarrow> db \<Rightarrow> guid option set" where
  "open_guids p d = wi_task_guid ` {w \<in> set (d_work_items d). open_item_of p w}"

definition free_guids :: "process_instance_row \<Rightarrow> db \<Rightarrow> guid set" where
  "free_guids p d = {g. \<exists>w \<in> set (d_work_items d). free_item p g w}"

lemma views_agree:
  assumes "same_claims d d'"
  shows "open_guids p d' = open_guids p d" "free_guids p d' = free_guids p d"
    "map wi_id (d_work_items d') = map wi_id (d_work_items d)"
proof -
  have v1: "open_guids p d = wi_task_guid ` {w \<in> set (claim_view d). open_item_of p w}" for d
    by (rule set_eqI) (auto simp: open_guids_def claim_view_def open_item_of_def image_iff)
  have v2: "free_guids p d = {g. \<exists>w \<in> set (claim_view d). free_item p g w}" for d
    by (auto simp: free_guids_def claim_view_def free_item_def open_item_of_def)
  have v3: "map wi_id (d_work_items d) = map wi_id (claim_view d)" for d
    by (simp add: claim_view_def)
  show "open_guids p d' = open_guids p d" "free_guids p d' = free_guids p d"
    "map wi_id (d_work_items d') = map wi_id (d_work_items d)"
    using assms by (simp_all only: v1 v2 v3 same_claims_def)
qed

lemma upsert_item_guids:
  assumes "put_ready_item p g ts d = (Inr w, d')"
    and "distinct (map wi_id (d_work_items d))"
  shows "distinct (map wi_id (d_work_items d'))" "open_guids p d' \<subseteq> insert (Some g) (open_guids p d)"
    "insert g (free_guids p d) \<subseteq> free_guids p d'"
proof -
  show "distinct (map wi_id (d_work_items d'))"
    using items.upsert_keys [OF assms [unfolded put_ready_item_def]] by (simp add: new_work_item_def prepare_work_item_for_ready_state_def)
  have new: "free_item p g (new_work_item p g ts i)" for i
    by (simp add: free_item_def open_item_of_def new_work_item_def)
  have prep: "free_item p g (prepare_work_item_for_ready_state ts q)" if "is_work_item_of p g q" for q
    using that
    by (simp add: free_item_def open_item_of_def prepare_work_item_for_ready_state_def is_work_item_of_def)
  have upd: "open_guids p d' \<subseteq> insert (Some g) (open_guids p d) \<and> insert g (free_guids p d) \<subseteq> free_guids p d'"
  proof (cases "find (is_work_item_of p g) (d_work_items d)")
    case None
    then have "d_work_items d' = d_work_items d @ [new_work_item p g ts (fresh_id wi_id (d_work_items d))]"
      using assms(1) by (auto simp: put_ready_item_def items.upsert_run put_work_items_def)
    then show ?thesis
      using new by (auto simp: open_guids_def free_guids_def new_work_item_def open_item_of_def)
  next
    case (Some q)
    then have rows: "d_work_items d' = update_where (\<lambda>x. wi_id x = wi_id q) (prepare_work_item_for_ready_state ts) (d_work_items d)"
      using assms(1) by (auto simp: put_ready_item_def items.upsert_run put_work_items_def)
    have q: "q \<in> set (d_work_items d)" "is_work_item_of p g q" using Some by (auto dest: find_SomeD)
    have only: "x = q" if "x \<in> set (d_work_items d)" "wi_id x = wi_id q" for x
      using distinct_key_eq [OF assms(2) that(1) q(1) that(2)] .
    have "open_guids p d' \<subseteq> insert (Some g) (open_guids p d)"
      using q(2)
      by (auto simp: rows open_guids_def set_update_where is_work_item_of_def prepare_work_item_for_ready_state_def
          dest: only split: if_splits)
    moreover have "g \<in> free_guids p d'"
      using in_update_where [OF q(1), of "\<lambda>x. wi_id x = wi_id q"] prep [OF q(2)]
      by (auto simp: rows free_guids_def)
    moreover have "h \<in> free_guids p d'" if "w \<in> set (d_work_items d)" "free_item p h w" for h w
    proof (cases "wi_id w = wi_id q")
      case True
      then have "w = q" using only that(1) by blast
      then have "h = g" using that(2) q(2) by (simp add: free_item_def is_work_item_of_def)
      then show ?thesis using \<open>g \<in> free_guids p d'\<close> by simp
    next
      case False
      then show ?thesis using that by (auto simp: rows free_guids_def intro: update_where_unchanged)
    qed
    ultimately show ?thesis by (auto simp: free_guids_def)
  qed
  then show "open_guids p d' \<subseteq> insert (Some g) (open_guids p d)" "insert g (free_guids p d) \<subseteq> free_guids p d'"
    by simp_all
qed

lemma materialize_single_split:
  assumes "materialize_single_manual_task sql_norm en p t ts d = (Inr w, d')" and "names_itself t"
  obtains d1 d2 where "same_claims d d1"
    "put_ready_item p (sp_id t) ts d1 = (Inr w, d2)"
    "same_claims d2 d'"
proof -
  obtain pdid where pdid: "pi_bpmn_process_definition_id p = Some pdid"
    using assms(1) by (auto simp: materialize_single_manual_task_def run_simps split: if_splits option.splits)
  let ?touch = "\<lambda>d. d\<lparr>d_instances := update_where (\<lambda>r. pi_id r = pi_id p)
      (\<lambda>r. r\<lparr>pi_task_updated_at := Some ts\<rparr>) (d_instances d)\<rparr>"
  obtain td da g db dc pd df where r:
    "upsert_task_definition (pi_tenant p) pdid t (task_definition_identifier_prefix t) ts d = (Inr td, da)"
    "upsert_task_model en p td t ts da = (Inr g, db)"
    "put_ready_item p g ts db = (Inr w, dc)"
    "assign_work_item_potential_owners sql_norm p (wi_id w) (sp_lane t) (sp_data t) pd (?touch dc) = (Inr (), df)"
    "upsert_future_task (pi_tenant p) (sp_id t) ts df = (Inr (), d')"
    using assms(1) unfolding materialize_single_manual_task_def upsert_work_item_def
    by (simp add: bnd_Inr_iff run_simps thn_Inr_iff upd_instance_def pdid split: if_split_asm)
      (clarify, rule that, assumption+)
  have g: "g = sp_id t" using upsert_task_model_guid [OF r(2) assms(2)] .
  have "same_claims d da" using upsert_task_definition_same_claims r(1) by (rule claims.keepsD)
  moreover have "same_claims da db" using upsert_task_model_same_claims r(2) by (rule claims.keepsD)
  ultimately have first: "same_claims d db" by (rule claims.R_trans)
  have "same_claims dc (?touch dc)" by (simp add: same_claims_other)
  moreover have "same_claims (?touch dc) df" using assign_same_claims r(4) by (rule claims.keepsD)
  moreover have "same_claims df d'" using upsert_future_same_claims r(5) by (rule claims.keepsD)
  ultimately have last: "same_claims dc d'" using claims.R_trans by blast
  show thesis using that [OF first _ last] r(3) g by simp
qed

lemma materialize_guids:
  assumes "map_M (\<lambda>t. materialize_single_manual_task sql_norm en p t ts) tasks d = (Inr ws, d')"
    and "list_all names_itself tasks" and "distinct (map wi_id (d_work_items d))"
  shows "open_guids p d' \<subseteq> Some ` sp_id ` set tasks \<union> open_guids p d \<and>
    sp_id ` set tasks \<union> free_guids p d \<subseteq> free_guids p d'"
  using assms
proof (induction tasks arbitrary: d ws)
  case Nil
  then show ?case by (simp add: ret_def)
next
  case (Cons t tasks)
  obtain w db ws' where step: "materialize_single_manual_task sql_norm en p t ts d = (Inr w, db)"
    and rest: "map_M (\<lambda>t. materialize_single_manual_task sql_norm en p t ts) tasks db = (Inr ws', d')"
    using Cons.prems(1) by (auto simp: bnd_Inr_iff run_simps)
  have "names_itself t" using Cons.prems(2) by simp
  then obtain d1 d2 where s: "same_claims d d1" "same_claims d2 db"
    "put_ready_item p (sp_id t) ts d1 = (Inr w, d2)"
    using materialize_single_split [OF step] by blast
  have ids: "distinct (map wi_id (d_work_items d1))" using views_agree(3) [OF s(1)] Cons.prems(3) by simp
  note u = upsert_item_guids [OF s(3) ids]
  have "distinct (map wi_id (d_work_items db))" using u(1) views_agree(3) [OF s(2)] by simp
  then have "open_guids p d' \<subseteq> Some ` sp_id ` set tasks \<union> open_guids p db \<and>
      sp_id ` set tasks \<union> free_guids p db \<subseteq> free_guids p d'"
    using Cons.IH [OF rest] Cons.prems(2) by simp
  then show ?case
    using u(2,3) views_agree(1,2) [OF s(1), of p] views_agree(1,2) [OF s(2), of p] by auto
qed

lemma ready_tasks_cong:
  "d_tasks d' = d_tasks d \<Longrightarrow> current_ready_manual_tasks en p w d' = current_ready_manual_tasks en p w d"
  by (simp add: current_ready_manual_tasks_def get_task_def)

text \<open>C8: After a run of the workflow has been settled, the open work items of the instance are exactly
  those of its ready manual tasks: items of other tasks are closed, and every ready task has an item
  that is ready and that nobody owns. This holds also for a task whose item a user had claimed
  before, so that every step of an instance releases the claims on its other open tasks. The
  serialized dictionary of a task is assumed to carry the task's identifier.\<close>

theorem work_items_match_ready_tasks:
  assumes "thn (sync_inactive_work_items en p w ts) (materialize_ready_manual_tasks sql_norm en p w ts) d = (Inr ws, d')"
    and "distinct (map wi_id (d_work_items d))"
    and "list_all names_itself (en_tasks en w TS_READY True)"
  shows "open_guids p d' = Some ` sp_id ` set (current_ready_manual_tasks en p w d) \<and>
    sp_id ` set (current_ready_manual_tasks en p w d) \<subseteq> free_guids p d'"
proof -
  let ?ready = "current_ready_manual_tasks en p w d"
  obtain u d1 where sync: "sync_inactive_work_items en p w ts d = (Inr u, d1)"
    and mat: "materialize_ready_manual_tasks sql_norm en p w ts d1 = (Inr ws, d')"
    using assms(1) by (auto simp: thn_Inr_iff)
  note closed = sync_inactive_closes [OF sync assms(2)]
  have run: "map_M (\<lambda>t. materialize_single_manual_task sql_norm en p t ts) ?ready d1 = (Inr ws, d')"
    using mat closed by (simp add: materialize_ready_manual_tasks_def run_simps ready_tasks_cong [of d1 d])
  have named: "list_all names_itself ?ready"
    using assms(3) by (auto simp: list_all_iff current_ready_manual_tasks_def)
  have ids: "distinct (map wi_id (d_work_items d1))" using closed assms(2) by simp
  note guids = materialize_guids [OF run named ids]
  have "open_guids p d1 \<subseteq> Some ` sp_id ` set ?ready"
    unfolding open_guids_def by (rule image_subsetI) (use closed in simp)
  then have "Some ` sp_id ` set ?ready \<union> open_guids p d1 = Some ` sp_id ` set ?ready" by (rule Un_absorb2)
  then have upper: "open_guids p d' \<subseteq> Some ` sp_id ` set ?ready" using guids by simp
  have free: "sp_id ` set ?ready \<subseteq> free_guids p d'" using guids by simp
  have "g \<in> free_guids p d' \<Longrightarrow> Some g \<in> open_guids p d'" for g
    by (auto simp: free_guids_def open_guids_def free_item_def intro: rev_image_eqI)
  then have "Some ` sp_id ` set ?ready \<subseteq> open_guids p d'" using free by auto
  then show ?thesis using upper free by simp
qed

text \<open>One ready task, whose item user 1 has claimed, and an open item of a task that is gone.\<close>

definition claimed_task_db :: db where
  "claimed_task_db = a_started_db\<lparr>
     d_tasks := [\<lparr>tk_guid = ''t1'', tk_tenant = ''acme'', tk_bpmn_process_id = 1, tk_process_instance_id = 1,
       tk_task_definition_id = 1, tk_state = TS_READY, tk_properties_json = [], tk_json_data_hash = [],
       tk_python_env_data_hash = [], tk_runtime_info = None, tk_started_at = None, tk_ended_at = None\<rparr>],
     d_work_items := [
       claim_work_item 1 0 (new_work_item a_started_instance ''t1'' 0 1),
       new_work_item a_started_instance ''t0'' 0 2]\<rparr>"

lemma put_ready_returns: "\<exists>w d'. put_ready_item p g ts d = (Inr w, d') \<and> d_users d' = d_users d"
  by (simp add: put_ready_item_def items.upsert_run put_work_items_def split: option.split)

lemma assign_no_lane:
  assumes "get_user (pi_process_initiator_id p) d = Some u" and "normalize_lane_name lane = None"
  shows "\<exists>d'. assign_work_item_potential_owners sql_norm p wid lane data props d = (Inr (), d')"
proof -
  have "get_user (pi_process_initiator_id p) (d\<lparr>d_work_items := rows\<rparr>) = Some u" for rows
    using assms(1) by (simp add: get_user_def)
  then show ?thesis
    using assms(2)
    by (simp add: assign_split computed_owners_def initiator_def set_lane_assignment_def upd_work_item_def
        comp_defs add_missing_run)
qed

lemma upsert_future_returns: "\<exists>d'. upsert_future_task tenant g ts d = (Inr (), d')"
  by (simp add: upsert_future_task_def upd_future_def run_simps split: option.split)

definition stale_closed_db :: db where
  "stale_closed_db = claimed_task_db\<lparr>d_work_items := [
     claim_work_item 1 0 (new_work_item a_started_instance ''t1'' 0 1),
     close_work_item TERMINATED 5 None (new_work_item a_started_instance ''t0'' 0 2)]\<rparr>"

lemma claimed_task_ready: "current_ready_manual_tasks list_engine a_started_instance [a_user_task] claimed_task_db = [a_user_task]"
  by (simp add: current_ready_manual_tasks_def list_engine_def get_task_def a_user_task_def
      claimed_task_db_def a_started_instance_def one_instance_def)

lemma claimed_task_materialized:
  "\<exists>ws d'. materialize_ready_manual_tasks id list_engine a_started_instance [a_user_task] 5 stale_closed_db = (Inr ws, d')"
proof -
  have "\<exists>td d2. upsert_task_definition ''acme'' 1 a_user_task None 5 stale_closed_db = (Inr td, d2) \<and>
      d2 = stale_closed_db\<lparr>d_task_defs := d_task_defs d2\<rparr>"
    by (simp add: upsert_task_definition_def a_user_task_def prefixed_def dict_set_def
        upsert_task_definition_from_payload_def dict_get_def upsert_row_def run_simps Let_def
        put_task_defs_def stale_closed_db_def claimed_task_db_def a_started_db_def one_instance_db_def empty_db_def)
  then obtain td d2 where d2: "upsert_task_definition ''acme'' 1 a_user_task None 5 stale_closed_db = (Inr td, d2)"
    "d2 = stale_closed_db\<lparr>d_task_defs := d_task_defs d2\<rparr>" by blast
  have users2: "d_users d2 = d_users stale_closed_db" by (subst d2(2)) simp
  have "\<exists>d3. upsert_task_model list_engine a_started_instance td a_user_task 5 d2 = (Inr ''t1'', d3) \<and>
      d_users d3 = d_users d2"
    by (subst d2(2), subst (2) d2(2))
      (simp add: upsert_task_model_def upsert_task_model_from_payload_def a_user_task_def dict_get_def
        list_engine_def run_simps rewrite_task_row_def upd_task_def get_task_def stale_closed_db_def claimed_task_db_def,
       simp add: comp_defs)
  then obtain d3 where d3: "upsert_task_model list_engine a_started_instance td a_user_task 5 d2 = (Inr ''t1'', d3)"
    "d_users d3 = d_users d2" by blast
  obtain w d4 where d4: "put_ready_item a_started_instance ''t1'' 5 d3 = (Inr w, d4)" "d_users d4 = d_users d3"
    using put_ready_returns by blast
  let ?d5 = "d4\<lparr>d_instances := update_where (\<lambda>r. pi_id r = pi_id a_started_instance)
      (\<lambda>r. r\<lparr>pi_task_updated_at := Some 5\<rparr>) (d_instances d4)\<rparr>"
  have "get_user (pi_process_initiator_id a_started_instance) ?d5 = Some (realm_user 1 ''acme'')"
    using d4(2) d3(2) users2
    by (simp add: get_user_def stale_closed_db_def claimed_task_db_def a_started_db_def one_instance_db_def
        a_started_instance_def one_instance_def realm_user_def)
  then have assigned: "\<exists>d6. assign_work_item_potential_owners id a_started_instance (wi_id w) (sp_lane a_user_task)
      (sp_data a_user_task) props ?d5 = (Inr (), d6)" for props
    by (rule assign_no_lane) (simp add: a_user_task_def normalize_lane_name_def)
  have bp: "bpmn_process_of a_started_instance stale_closed_db = Some a_bpmn_process"
    by (simp add: bpmn_process_of_def a_started_instance_def stale_closed_db_def claimed_task_db_def a_started_db_def a_bpmn_process_def)
  have ids: "pi_bpmn_process_definition_id a_started_instance = Some 1" "pi_tenant a_started_instance = ''acme''"
    "task_definition_identifier_prefix a_user_task = None"
    by (simp_all add: a_started_instance_def one_instance_def task_definition_identifier_prefix_def a_user_task_def)
  have item: "upsert_work_item a_started_instance ''t1'' 5 d3 = (Inr w, ?d5)"
    by (simp add: upsert_work_item_def d4(1) upd_instance_def comp_defs)
  obtain d6 where d6: "assign_work_item_potential_owners id a_started_instance (wi_id w) (sp_lane a_user_task)
      (sp_data a_user_task) (case process_definition_of a_started_instance ?d5 of None \<Rightarrow> PNone
        | Some r \<Rightarrow> PDict (pd_properties_json r)) ?d5 = (Inr (), d6)"
    using assigned by blast
  obtain d7 where d7: "upsert_future_task ''acme'' (sp_id a_user_task) 5 d6 = (Inr (), d7)"
    using upsert_future_returns by blast
  have single: "materialize_single_manual_task id list_engine a_started_instance a_user_task 5 stale_closed_db = (Inr w, d7)"
    unfolding materialize_single_manual_task_def
    by (simp add: comp_defs bp ids d2(1) d3(1) item d6 d7)
  have same: "current_ready_manual_tasks list_engine a_started_instance [a_user_task] stale_closed_db =
      current_ready_manual_tasks list_engine a_started_instance [a_user_task] claimed_task_db"
    by (rule ready_tasks_cong) (simp add: stale_closed_db_def)
  show ?thesis
    by (simp add: single materialize_ready_manual_tasks_def same claimed_task_ready comp_defs)
qed

theorem work_items_match_ready_tasks_witness:
  "\<exists>ws d'. thn (sync_inactive_work_items list_engine a_started_instance [a_user_task] 5)
       (materialize_ready_manual_tasks id list_engine a_started_instance [a_user_task] 5) claimed_task_db = (Inr ws, d') \<and>
     open_guids a_started_instance d' = {Some ''t1''} \<and> ''t1'' \<in> free_guids a_started_instance d'"
proof -
  have sync: "sync_inactive_work_items list_engine a_started_instance [a_user_task] 5 claimed_task_db = (Inr (), stale_closed_db)"
    by (simp add: sync_inactive_work_items_def claimed_task_ready bnd_gets_run)
      (simp add: open_work_items_def stale_closed_db_def claimed_task_db_def claim_work_item_def new_work_item_def
        sync_inactive_work_item_def task_model_def a_user_task_def comp_defs close_inactive_work_item_def
        upd_work_item_def inactive_work_item_status_def inactive_work_item_event_type_def)
  have run: "\<exists>ws d'. thn (sync_inactive_work_items list_engine a_started_instance [a_user_task] 5)
       (materialize_ready_manual_tasks id list_engine a_started_instance [a_user_task] 5) claimed_task_db = (Inr ws, d')"
    using claimed_task_materialized by (simp add: thn_def bnd_def sync)
  then obtain ws d' where d': "thn (sync_inactive_work_items list_engine a_started_instance [a_user_task] 5)
       (materialize_ready_manual_tasks id list_engine a_started_instance [a_user_task] 5) claimed_task_db = (Inr ws, d')"
    by blast
  have "distinct (map wi_id (d_work_items claimed_task_db))"
    by (simp add: claimed_task_db_def claim_work_item_def new_work_item_def)
  moreover have "list_all names_itself (en_tasks list_engine [a_user_task] TS_READY True)"
    by (simp add: list_engine_def names_itself_def a_user_task_def dict_get_def)
  moreover have "sp_id a_user_task = ''t1''" by (simp add: a_user_task_def)
  ultimately show ?thesis
    using work_items_match_ready_tasks [OF d'] d' by (auto simp: claimed_task_ready)
qed

end
