(* ===== verification/Workflow_Runtime.thy ===== *)
theory Workflow_Runtime
  imports Manual_Tasks
begin

text \<open>
  The entry points of \<^verbatim>\<open>src/m8flow_core/services/workflow_runtime.py\<close>: starting an instance from a
  stored definition or a timer, initializing its workflow, advancing it after a task, refreshing
  waiting timers, retrying failed service tasks, repairing the stored representation, and
  reassigning the potential owners of open work items.

  \<open>runtime\<close> collects what is outside the program: the BPMN parser, the workflow engine, the
  database's normalization of names, and its isolation.
\<close>

section \<open>The environment\<close>

text \<open>
  Two operations work in a session of their own on the same database. \<open>iso_engine\<close> tells that the
  session is bound to an engine, so that a second session can be opened; \<open>iso_committed d\<close> is what
  the second session sees when this one sees \<open>d\<close>; \<open>iso_refresh d c\<close> is what this session sees after
  the second has committed \<open>c\<close>.
\<close>

record isolation =
  iso_engine :: bool
  iso_committed :: "db \<Rightarrow> db"
  iso_refresh :: "db \<Rightarrow> db \<Rightarrow> db"

record ('p, 'w) runtime =
  rt_parser :: "('p, 'w) bpmn_parser"
  rt_engine :: "'w spiff_engine"
  rt_isolation :: isolation
  rt_norm :: "string \<Rightarrow> string"

text \<open>A workflow that is being built; a run that does not return is marked by a reason of its own.\<close>

definition built :: "(m8f_error + 'w) option \<Rightarrow> 'w svc" where
  "built r = (case r of None \<Rightarrow> raise (Err Py_Exception (R_workflow DoesNotReturn)) | Some x \<Rightarrow> lift_result x)"

text \<open>A call of the engine: the changed workflow, or the exception it raised.\<close>

definition engine_call :: "m8f_error option \<times> 'w \<Rightarrow> 'w svc" where
  "engine_call r = (case r of (None, w) \<Rightarrow> ret w | (Some e, _) \<Rightarrow> raise e)"

section \<open>Metadata\<close>

definition coerce_metadata_value :: "'w spiff_engine \<Rightarrow> string \<Rightarrow> pyval" where
  "coerce_metadata_value en v =
     (let normalized = py_strip v; lower = py_lower normalized
      in if lower = ''true'' then PBool True
         else if lower = ''false'' then PBool False
         else if lower = ''none'' \<or> lower = ''null'' then PNone
         else case en_literal_eval en normalized of None \<Rightarrow> PStr v | Some x \<Rightarrow> x)"

definition load_process_instance_metadata_payload ::
  "'w spiff_engine \<Rightarrow> string \<Rightarrow> int \<Rightarrow> (string \<times> pyval) list svc" where
  "load_process_instance_metadata_payload en tenant pid =
     bnd (get_process_instance_metadata tenant pid) (\<lambda>rows.
       ret (foldl (\<lambda>m r. dict_set (md_key r) (coerce_metadata_value en (md_value r)) m) [] rows))"

definition apply_metadata_to_workflow ::
  "'w spiff_engine \<Rightarrow> (string \<times> pyval) list \<Rightarrow> 'w \<Rightarrow> 'w" where
  "apply_metadata_to_workflow en md w =
     (if md = [] then w else en_update_root_data en md (en_update_data en md w))"

definition apply_metadata_to_task ::
  "'w spiff_engine \<Rightarrow> string \<Rightarrow> (string \<times> pyval) list \<Rightarrow> 'w \<Rightarrow> 'w" where
  "apply_metadata_to_task en guid md w =
     (if md = [] then w else en_set_task_data en guid md (en_update_data en md w))"

section \<open>Running the workflow\<close>

definition errored_service_tasks :: "'w spiff_engine \<Rightarrow> 'w \<Rightarrow> spiff_task list" where
  "errored_service_tasks en w = filter (\<lambda>t. sp_spec_type t = ''ServiceTask'') (en_tasks en w TS_ERROR False)"

definition transition_process_instance_to_error ::
  "'w spiff_engine \<Rightarrow> string \<Rightarrow> process_instance_row \<Rightarrow> 'w \<Rightarrow> datetime \<Rightarrow> bool \<Rightarrow> unit svc" where
  "transition_process_instance_to_error en tenant p w ts recovery_only =
     thn (if recovery_only then persist_workflow_recovery_state en p w
          else thn (persist_workflow_state en p w ts) (sync_inactive_work_items en p w ts))
     (thn (case errored_service_tasks en w of
             [] \<Rightarrow> ret ()
           | t # _ \<Rightarrow> bnd (record_process_instance_event tenant (pi_id p) (Event task_failed) (Some ts)
                             (Some (sp_id t)) None) (\<lambda>_. ret ()))
     (thn (upd_instance (pi_id p) (\<lambda>r. r\<lparr>pi_started_at :=
             (case pi_started_at r of None \<Rightarrow> Some ts | Some x \<Rightarrow> Some x)\<rparr>))
     (thn (case pi_bpmn_process_id p of None \<Rightarrow> ret ()
           | Some b \<Rightarrow> upd_process b (\<lambda>r. r\<lparr>bp_started_at :=
               (case bp_started_at r of None \<Rightarrow> Some ts | Some x \<Rightarrow> Some x), bp_ended_at := Some ts\<rparr>))
     (thn (upd_instance (pi_id p) (\<lambda>r. if pi_status r = PIS_error then r\<lparr>pi_status := PIS_running\<rparr> else r))
          (bnd (error_process_instance tenant (pi_id p) None (Some ts)) (\<lambda>_. ret ()))))))"

text \<open>The second session commits or is rolled back; any exception in it is answered by \<^verbatim>\<open>False\<close>.\<close>

definition persist_service_task_failure_state_in_independent_session ::
  "isolation \<Rightarrow> 'w spiff_engine \<Rightarrow> string \<Rightarrow> int \<Rightarrow> 'w \<Rightarrow> datetime \<Rightarrow> bool svc" where
  "persist_service_task_failure_state_in_independent_session io en tenant pid w ts d =
     (if \<not> iso_engine io then (Inr False, d)
      else case bnd (load_process_instance tenant pid) (\<lambda>p.
                  transition_process_instance_to_error en tenant p w ts True) (iso_committed io d) of
        (Inr _, c) \<Rightarrow> (Inr True, iso_refresh io d c)
      | (Inl _, _) \<Rightarrow> (Inr False, d))"

definition run_workflow_with_service_task_failure_handling ::
  "('p, 'w) runtime \<Rightarrow> string \<Rightarrow> process_instance_row \<Rightarrow> 'w \<Rightarrow> datetime \<Rightarrow> bool \<Rightarrow> 'w svc" where
  "run_workflow_with_service_task_failure_handling rt tenant p w ts autonomous =
     (case en_run_all (rt_engine rt) w of
        (None, w') \<Rightarrow> ret w'
      | (Some e, w') \<Rightarrow>
          if is_subclass (err_class e) ServiceTaskExecutionError then
            bnd (if autonomous
                 then persist_service_task_failure_state_in_independent_session (rt_isolation rt)
                        (rt_engine rt) tenant (pi_id p) w' ts
                 else ret False) (\<lambda>persisted.
              if persisted then raise e
              else thn (transition_process_instance_to_error (rt_engine rt) tenant p w' ts False) (raise e))
          else raise e)"

text \<open>The four steps that follow every run: store the workflow, close and create work items, set the status.\<close>

definition settle_workflow :: "('p, 'w) runtime \<Rightarrow> process_instance_row \<Rightarrow> 'w \<Rightarrow> datetime \<Rightarrow> unit svc" where
  "settle_workflow rt p w ts =
     thn (persist_workflow_state (rt_engine rt) p w ts)
     (thn (sync_inactive_work_items (rt_engine rt) p w ts)
     (bnd (materialize_ready_manual_tasks (rt_norm rt) (rt_engine rt) p w ts) (\<lambda>_.
        update_process_instance_status_from_workflow (rt_engine rt) p w ts)))"

definition instance_service_context :: "string \<Rightarrow> process_instance_row \<Rightarrow> service_task_context svc" where
  "instance_service_context tenant p =
     lift_result (service_task_execution_context tenant (Some (pi_id p)) (pi_bpmn_process_definition_id p))"

section \<open>Initialization\<close>

definition seed_runtime_definitions ::
  "'w spiff_engine \<Rightarrow> process_instance_row \<Rightarrow> 'w \<Rightarrow> datetime \<Rightarrow> unit svc" where
  "seed_runtime_definitions en p w ts =
     (if pi_bpmn_process_definition_id p = None
      then raise (Err ValidationError (R_workflow NoProcessDefinition))
      else bnd (lift_result (serialize_workflow_dict en w)) (\<lambda>sw.
             sync_process_definition_from_workflow p sw ts))"

definition finalize_initialized_process_instance_workflow ::
  "('p, 'w) runtime \<Rightarrow> string \<Rightarrow> process_instance_row \<Rightarrow> 'w \<Rightarrow> datetime \<Rightarrow> process_instance_row svc" where
  "finalize_initialized_process_instance_workflow rt tenant p w ts =
     thn (persist_workflow_state (rt_engine rt) p w ts)
     (thn (sync_inactive_work_items (rt_engine rt) p w ts)
     (bnd (materialize_ready_manual_tasks (rt_norm rt) (rt_engine rt) p w ts) (\<lambda>_.
      thn (upd_instance (pi_id p) (\<lambda>r. r\<lparr>pi_started_at := Some ts\<rparr>))
      (thn (update_process_instance_status_from_workflow (rt_engine rt) p w ts)
      (bnd (gets (get_ready_work_items (pi_id p))) (\<lambda>ready.
       bnd (record_process_instance_event tenant (pi_id p) (Event process_instance_created) (Some ts)
              (case ready of [] \<Rightarrow> None | i # _ \<Rightarrow> wi_task_guid i) (Some (pi_process_initiator_id p))) (\<lambda>_.
         load_process_instance tenant (pi_id p))))))))"

definition initialize_process_instance_workflow ::
  "('p, 'w) runtime \<Rightarrow> string \<Rightarrow> int \<Rightarrow> string \<Rightarrow> string option \<Rightarrow> string option \<Rightarrow> datetime option \<Rightarrow>
   call_activity_resolver option \<Rightarrow> process_instance_row svc" where
  "initialize_process_instance_workflow rt tenant pid xml dmn process_id started_at resolver =
     bnd (load_process_instance tenant pid) (\<lambda>p.
     bnd (gets (workflow_state_json p)) (\<lambda>state.
       if has_terminal_status (pi_status p)
       then raise (Err InvalidStateError (R_workflow CannotInitializeTerminal))
       else if state \<noteq> None then raise (Err InvalidStateError (R_workflow AlreadyInitialized))
       else
         bnd (gets (resolve_timestamp started_at)) (\<lambda>ts.
         bnd (instance_service_context tenant p) (\<lambda>cx.
         bnd (built (build_workflow (rt_parser rt) xml dmn process_id (Some cx) resolver
                (Some \<lparr>cac_tenant_id = tenant, cac_called_element = [],
                       cac_parent_process_instance_id = Some (pi_id p),
                       cac_parent_process_definition_id = pi_bpmn_process_definition_id p\<rparr>))) (\<lambda>w.
         thn (seed_runtime_definitions (rt_engine rt) p w ts)
         (bnd (load_process_instance_metadata_payload (rt_engine rt) tenant pid) (\<lambda>md.
          bnd (run_workflow_with_service_task_failure_handling rt tenant p
                 (apply_metadata_to_workflow (rt_engine rt) md w) ts True) (\<lambda>w'.
            finalize_initialized_process_instance_workflow rt tenant p w' ts))))))))"

section \<open>Starting an instance of a definition\<close>

definition load_process_definition :: "string \<Rightarrow> int \<Rightarrow> process_definition_row svc" where
  "load_process_definition tenant pdid =
     bnd (gets (\<lambda>d. find (\<lambda>r. pd_tenant r = tenant \<and> pd_id r = pdid) (d_definitions d))) (\<lambda>pd.
       case pd of
         None \<Rightarrow> raise (Err NotFoundError (R_lookup (ProcessDefinitionNotFound pdid tenant)))
       | Some r \<Rightarrow> ret r)"

definition resolve_or_create_bpmn_process ::
  "string \<Rightarrow> process_definition_row \<Rightarrow> string \<Rightarrow> bpmn_process_row svc" where
  "resolve_or_create_bpmn_process tenant pd ident =
     bnd (create_or_update_from_payload tenant
            (Some [(''bpmn_process_definition_id'', PInt (pd_id pd)), (''process_identifier'', PStr ident)])) (\<lambda>h.
     bnd (gets (\<lambda>d. \<lparr>bp_id = fresh_id bp_id (d_processes d), bp_tenant = tenant, bp_guid = None,
            bp_top_level_process_id = None, bp_direct_parent_process_id = None,
            bp_process_definition_id = pd_id pd, bp_properties_json = [(''root'', PStr ident)],
            bp_json_data_hash = h, bp_started_at = None, bp_ended_at = None\<rparr>)) (\<lambda>b.
       thn (modify (\<lambda>d. d\<lparr>d_processes := d_processes d @ [b]\<rparr>)) (ret b)))"

definition ensure_bpmn_version_snapshot ::
  "string \<Rightarrow> string \<Rightarrow> string option \<Rightarrow> datetime \<Rightarrow> bpmn_version_row svc" where
  "ensure_bpmn_version_snapshot tenant model xml ts =
     (case xml of
        None \<Rightarrow> raise (Err ValidationError (R_workflow NoVersionXml))
      | Some x \<Rightarrow>
          (let h = sha256_text x in
           bnd (gets (\<lambda>d. find (\<lambda>r. ver_tenant r = tenant \<and> ver_process_model_identifier r = model \<and>
                  ver_bpmn_xml_hash r = h) (d_versions d))) (\<lambda>existing.
             case existing of
               Some r \<Rightarrow> ret r
             | None \<Rightarrow>
                 bnd (gets (\<lambda>d. \<lparr>ver_id = fresh_id ver_id (d_versions d), ver_tenant = tenant,
                        ver_process_model_identifier = model, ver_bpmn_xml_hash = h,
                        ver_bpmn_xml_file_contents = x, ver_created_at = ts\<rparr>)) (\<lambda>r.
                   thn (modify (\<lambda>d. d\<lparr>d_versions := d_versions d @ [r]\<rparr>)) (ret r)))))"

definition process_start_authorization_metadata ::
  "process_definition_row \<Rightarrow> string option \<Rightarrow> (string \<times> pyval) list" where
  "process_start_authorization_metadata pd requested =
     [(''bpmn_process_definition_id'', PInt (pd_id pd)),
      (''process_model_identifier'', PStr (process_model_identifier pd)),
      (''bpmn_identifier'', PStr (pd_bpmn_identifier pd)),
      (''bpmn_name'', case pd_bpmn_name pd of None \<Rightarrow> PNone | Some s \<Rightarrow> PStr s),
      (''requested_bpmn_process_id'', case requested of None \<Rightarrow> PNone | Some s \<Rightarrow> PStr s)]"

definition definition_model_identifier :: "process_definition_row \<Rightarrow> string" where
  "definition_model_identifier pd =
     (if process_model_identifier pd = [] then str_of_int (pd_id pd) else process_model_identifier pd)"

record start_request =
  sr_initiator :: int
  sr_metadata :: "(string \<times> pyval) list option"
  sr_summary :: "string option"
  sr_version :: int
  sr_started_at :: "datetime option"
  sr_process_id :: "string option"

definition prepare_process_instance_from_definition_in_session ::
  "('p, 'w) bpmn_parser \<Rightarrow> string \<Rightarrow> process_definition_row \<Rightarrow> string \<Rightarrow> start_request \<Rightarrow>
   (process_instance_row \<times> string) svc" where
  "prepare_process_instance_from_definition_in_session P tenant pd model rq =
     (case source_bpmn_xml pd of
        None \<Rightarrow> raise (Err ValidationError (R_workflow NoStoredXml))
      | Some xml \<Rightarrow>
          bnd (lift_result (select_process_identifier P xml (sr_process_id rq))) (\<lambda>selected.
          bnd (resolve_or_create_bpmn_process tenant pd selected) (\<lambda>b.
          bnd (create_process_instance tenant model (str_or (pd_bpmn_name pd) model) (sr_initiator rq)
                 (pd_id pd) (bp_id b) (sr_summary rq) (sr_version rq) (sr_started_at rq) (sr_started_at rq)) (\<lambda>p.
          thn (upd_instance (pi_id p) (\<lambda>r. r\<lparr>pi_version_control_type := pd_version_control_type pd,
                 pi_version_control_identifier := pd_version_control_identifier pd,
                 pi_last_milestone_bpmn_name := Some (str_or (pd_bpmn_name pd) (pd_bpmn_identifier pd))\<rparr>))
          (bnd (gets (resolve_timestamp (sr_started_at rq))) (\<lambda>ts.
           bnd (ensure_bpmn_version_snapshot tenant model (source_bpmn_xml pd) ts) (\<lambda>v.
           thn (upd_instance (pi_id p) (\<lambda>r. r\<lparr>pi_bpmn_version_id := Some (ver_id v)\<rparr>))
           (thn (for_each (\<lambda>(k, x). bnd (upsert_process_instance_metadata tenant (pi_id p) k (py_str_value x) ts
                    (Some ts)) (\<lambda>_. ret ())) (case sr_metadata rq of None \<Rightarrow> [] | Some m \<Rightarrow> m))
             (bnd (load_process_instance tenant (pi_id p)) (\<lambda>q. ret (q, selected)))))))))))"

text \<open>In a session of its own: only an unknown definition or user makes it fall back to the caller's session.\<close>

definition prepare_process_instance_baseline_in_independent_session ::
  "('p, 'w) runtime \<Rightarrow> string \<Rightarrow> process_definition_row \<Rightarrow> string \<Rightarrow> start_request \<Rightarrow> (int \<times> string) option svc" where
  "prepare_process_instance_baseline_in_independent_session rt tenant pd model rq d =
     (if \<not> iso_engine (rt_isolation rt) then (Inr None, d)
      else
        (let c = iso_committed (rt_isolation rt) d
         in case bnd (load_process_definition tenant (pd_id pd)) (\<lambda>pd'.
                   bnd (ensure_user_belongs_to_tenant tenant (sr_initiator rq)) (\<lambda>_. ret pd')) c of
              (Inl e, _) \<Rightarrow> if is_subclass (err_class e) NotFoundError then (Inr None, d) else (Inl e, d)
            | (Inr pd', c') \<Rightarrow>
                (case prepare_process_instance_from_definition_in_session (rt_parser rt) tenant pd' model rq c' of
                   (Inl e, _) \<Rightarrow> (Inl e, d)
                 | (Inr (p, selected), c'') \<Rightarrow>
                     (Inr (Some (pi_id p, selected)), iso_refresh (rt_isolation rt) d c''))))"

definition prepare_process_instance_from_definition ::
  "('p, 'w) runtime \<Rightarrow> string \<Rightarrow> process_definition_row \<Rightarrow> string \<Rightarrow> start_request \<Rightarrow>
   (process_instance_row \<times> string) svc" where
  "prepare_process_instance_from_definition rt tenant pd model rq =
     bnd (prepare_process_instance_baseline_in_independent_session rt tenant pd model rq) (\<lambda>baseline.
       case baseline of
         Some (pid, selected) \<Rightarrow> bnd (load_process_instance tenant pid) (\<lambda>p. ret (p, selected))
       | None \<Rightarrow> prepare_process_instance_from_definition_in_session (rt_parser rt) tenant pd model rq)"

definition initialize_process_instance_from_definition ::
  "policy_context \<Rightarrow> ('p, 'w) runtime \<Rightarrow> string \<Rightarrow> int \<Rightarrow> start_request \<Rightarrow> call_activity_resolver option \<Rightarrow>
   process_instance_row svc" where
  "initialize_process_instance_from_definition ctx rt tenant pdid rq resolver =
     bnd (ensure_user_belongs_to_tenant tenant (sr_initiator rq)) (\<lambda>_.
     bnd (load_process_definition tenant pdid) (\<lambda>pd.
     thn (require_command_authorization ctx tenant (sr_initiator rq) PROCESS_START_COMMAND
            (Some RESOURCE_PROCESS_MODEL) (Some (Id_str (definition_model_identifier pd)))
            (Some (process_start_authorization_metadata pd (sr_process_id rq))))
     (bnd (prepare_process_instance_from_definition rt tenant pd (definition_model_identifier pd) rq)
        (\<lambda>(p, selected).
          case source_bpmn_xml pd of
            None \<Rightarrow> raise (Err Py_AttributeError (R_workflow NoStoredXml))
          | Some xml \<Rightarrow>
              initialize_process_instance_workflow rt tenant (pi_id p) xml (source_dmn_xml pd)
                (Some selected) (sr_started_at rq) resolver))))"

section \<open>Starting an instance from a timer\<close>

definition workflow_has_progressed_past_timer_start :: "'w spiff_engine \<Rightarrow> 'w \<Rightarrow> bool" where
  "workflow_has_progressed_past_timer_start en w \<longleftrightarrow>
     en_completed en w \<or> en_tasks en w TS_READY False \<noteq> [] \<or>
     list_ex (\<lambda>t. sp_spec_type t \<noteq> ''StartEvent'') (en_tasks en w TS_WAITING False)"

definition force_waiting_timer_start_task_due ::
  "'w spiff_engine \<Rightarrow> string \<Rightarrow> 'w \<Rightarrow> m8f_error + bool \<times> 'w" where
  "force_waiting_timer_start_task_due en name w =
     (if workflow_has_progressed_past_timer_start en w then Inr (False, w)
      else case find (\<lambda>t. sp_spec_type t = ''StartEvent'' \<and> sp_timer_type t \<noteq> None \<and> sp_spec_name t = PStr name)
                  (en_tasks en w TS_WAITING False) of
        None \<Rightarrow> Inl (Err ValidationError (R_timer (TimerStartNotWaiting name)))
      | Some t \<Rightarrow>
          (case as_dict (sp_internal_data t) of
             None \<Rightarrow> Inl (Err ValidationError (R_timer TimerMissingInternalData))
           | Some data \<Rightarrow>
               rbind (forced_due_timer_event_value (dict_get data ''event_value'')) (\<lambda>v.
                 Inr (True, en_set_event_value en (sp_id t) v w))))"

definition run_forced_timer_start ::
  "('p, 'w) runtime \<Rightarrow> string \<Rightarrow> process_instance_row \<Rightarrow> string \<Rightarrow> 'w \<Rightarrow> datetime \<Rightarrow> 'w svc" where
  "run_forced_timer_start rt tenant p name w ts =
     bnd (lift_result (force_waiting_timer_start_task_due (rt_engine rt) name w)) (\<lambda>(forced_due, w1).
       if \<not> forced_due then ret w1
       else
         bnd (engine_call (en_refresh_waiting (rt_engine rt) w1)) (\<lambda>w2.
           if en_tasks (rt_engine rt) w2 TS_READY True \<noteq> [] then ret w2
           else run_workflow_with_service_task_failure_handling rt tenant p w2 ts True))"

definition initialize_process_instance_from_timer_start_definition ::
  "('p, 'w) runtime \<Rightarrow> string \<Rightarrow> int \<Rightarrow> int \<Rightarrow> string \<Rightarrow> datetime option \<Rightarrow> process_instance_row svc" where
  "initialize_process_instance_from_timer_start_definition rt tenant pdid uid name started_at =
     bnd (ensure_user_belongs_to_tenant tenant uid) (\<lambda>_.
     bnd (load_process_definition tenant pdid) (\<lambda>pd.
     bnd (prepare_process_instance_from_definition rt tenant pd (definition_model_identifier pd)
            \<lparr>sr_initiator = uid, sr_metadata = None, sr_summary = None, sr_version = 1,
             sr_started_at = started_at, sr_process_id = None\<rparr>) (\<lambda>(p, selected).
     bnd (gets (resolve_timestamp started_at)) (\<lambda>ts.
     bnd (lift_result (service_task_execution_context tenant (Some (pi_id p)) (Some (pd_id pd)))) (\<lambda>cx.
       case source_bpmn_xml pd of
         None \<Rightarrow> raise (Err Py_AttributeError (R_workflow NoStoredXml))
       | Some xml \<Rightarrow>
           bnd (built (build_workflow (rt_parser rt) xml (source_dmn_xml pd) (Some selected) (Some cx) None None)) (\<lambda>w.
           thn (seed_runtime_definitions (rt_engine rt) p w ts)
           (bnd (load_process_instance_metadata_payload (rt_engine rt) tenant (pi_id p)) (\<lambda>md.
            bnd (run_workflow_with_service_task_failure_handling rt tenant p
                   (apply_metadata_to_workflow (rt_engine rt) md w) ts True) (\<lambda>w1.
            bnd (run_forced_timer_start rt tenant p name w1 ts) (\<lambda>w2.
              finalize_initialized_process_instance_workflow rt tenant p w2 ts))))))))))"

text \<open>The jobs of a definition's timer start events.\<close>

definition collect_timer_start_payloads_for_definition ::
  "('p, 'w) runtime \<Rightarrow> process_definition_row \<Rightarrow> timer_payload list svc" where
  "collect_timer_start_payloads_for_definition rt pd =
     (case source_bpmn_xml pd of
        None \<Rightarrow> ret []
      | Some xml \<Rightarrow>
          bnd (lift_result (en_has_timer_start (rt_engine rt) xml)) (\<lambda>timed.
            if \<not> timed then ret []
            else
              bnd (built (build_workflow (rt_parser rt) xml (source_dmn_xml pd) None None None None)) (\<lambda>w.
              bnd (engine_call (en_run_all (rt_engine rt) w)) (\<lambda>w'.
                lift_result (collect_timer_start_payloads (rt_engine rt) w')))))"

text \<open>\<^verbatim>\<open>str(payload.get("task_spec_name") or "")\<close>; the engine names its specifications by strings.\<close>

definition timer_qualifier :: "timer_payload \<Rightarrow> string" where
  "timer_qualifier t =
     py_strip (case tp_task_spec_name t of PNone \<Rightarrow> [] | v \<Rightarrow> py_str_value v)"

definition schedule_timer_start :: "process_definition_row \<Rightarrow> datetime \<Rightarrow> timer_payload \<Rightarrow> string svc" where
  "schedule_timer_start pd ts t =
     (if timer_qualifier t = [] then raise (Err ValidationError (R_timer TimerStartMissingSpecName))
      else
        bnd (lift_result (build_scheduler_job_key JT_timer_start None (Some (pd_id pd))
               (Some (timer_qualifier t)))) (\<lambda>key.
        bnd (lift_result (fromtimestamp (tp_run_at t))) (\<lambda>run_at.
        bnd (upsert_scheduler_job (pd_tenant pd) key JT_timer_start run_at None (Some (pd_id pd))
               (Some [(''scheduled_from'', PStr ''process_definition_import''),
                      (''timer_task'', PDict (tp_json t))]) (Some ts) (Some ts)) (\<lambda>_.
          ret key))))"

definition sync_timer_start_scheduler_jobs_for_definition ::
  "('p, 'w) runtime \<Rightarrow> process_definition_row \<Rightarrow> datetime \<Rightarrow> unit svc" where
  "sync_timer_start_scheduler_jobs_for_definition rt pd ts =
     bnd (collect_timer_start_payloads_for_definition rt pd) (\<lambda>payloads.
     bnd (map_M (schedule_timer_start pd ts) payloads) (\<lambda>keys.
       modify (\<lambda>d. put_jobs (filter (\<lambda>j. \<not> (job_tenant j = pd_tenant pd \<and> job_type j = JT_timer_start \<and>
         job_bpmn_process_definition_id j = Some (pd_id pd) \<and> job_key j \<notin> set keys)) (d_jobs d)) d)))"

section \<open>Moving an initialized workflow\<close>

text \<open>
  The entry points share their beginning: the instance, its stored state, and the workflow restored
  from it. An instance that has no workflow, or is at its end where that matters, is returned as it is.
\<close>

definition restore_for :: "('p, 'w) runtime \<Rightarrow> string \<Rightarrow> process_instance_row \<Rightarrow> string \<Rightarrow> 'w svc" where
  "restore_for rt tenant p state =
     bnd (instance_service_context tenant p) (\<lambda>cx. restore_workflow (rt_engine rt) state (Some cx))"

definition advance_process_instance_workflow ::
  "('p, 'w) runtime \<Rightarrow> string \<Rightarrow> int \<Rightarrow> guid \<Rightarrow> datetime option \<Rightarrow> process_instance_row svc" where
  "advance_process_instance_workflow rt tenant pid guid completed_at =
     bnd (load_process_instance tenant pid) (\<lambda>p.
     bnd (gets (workflow_state_json p)) (\<lambda>state.
       case state of
         None \<Rightarrow> ret p
       | Some s \<Rightarrow>
           if has_terminal_status (pi_status p) then ret p
           else
             bnd (gets (resolve_timestamp completed_at)) (\<lambda>ts.
             bnd (restore_for rt tenant p s) (\<lambda>w.
             thn (case en_get_task (rt_engine rt) w guid of None \<Rightarrow> ret () | Some e \<Rightarrow> raise e)
             (bnd (load_process_instance_metadata_payload (rt_engine rt) tenant pid) (\<lambda>md.
              bnd (engine_call (en_complete_task (rt_engine rt) guid
                     (apply_metadata_to_task (rt_engine rt) guid md w))) (\<lambda>w1.
              bnd (run_workflow_with_service_task_failure_handling rt tenant p w1 ts False) (\<lambda>w2.
              thn (settle_workflow rt p w2 ts)
                (load_process_instance tenant pid)))))))))"

fun reset_tasks :: "'w spiff_engine \<Rightarrow> (string \<times> pyval) list \<Rightarrow> string list \<Rightarrow> 'w \<Rightarrow> 'w svc" where
  "reset_tasks en data [] w = ret w"
| "reset_tasks en data (i # is) w = bnd (engine_call (en_reset_task en i data w)) (reset_tasks en data is)"

definition dict_update :: "(string \<times> pyval) list \<Rightarrow> (string \<times> pyval) list \<Rightarrow> (string \<times> pyval) list" where
  "dict_update d new = foldl (\<lambda>m (k, v). dict_set k v m) d new"

definition retry_errored_service_task_workflow_if_needed ::
  "('p, 'w) runtime \<Rightarrow> string \<Rightarrow> int \<Rightarrow> datetime option \<Rightarrow> process_instance_row svc" where
  "retry_errored_service_task_workflow_if_needed rt tenant pid occurred_at =
     bnd (load_process_instance tenant pid) (\<lambda>p.
     bnd (gets (workflow_state_json p)) (\<lambda>state.
       case state of
         None \<Rightarrow> ret p
       | Some s \<Rightarrow>
           bnd (gets (resolve_timestamp occurred_at)) (\<lambda>ts.
           bnd (restore_for rt tenant p s) (\<lambda>w0.
           bnd (load_process_instance_metadata_payload (rt_engine rt) tenant (pi_id p)) (\<lambda>md.
             (let w = apply_metadata_to_workflow (rt_engine rt) md w0;
                  ids = map sp_id (errored_service_tasks (rt_engine rt) w)
              in if ids = [] then ret p
                 else
                   bnd (reset_tasks (rt_engine rt) (dict_update (en_data (rt_engine rt) w) md) ids w) (\<lambda>w1.
                   bnd (run_workflow_with_service_task_failure_handling rt tenant p w1 ts True) (\<lambda>w2.
                   thn (settle_workflow rt p w2 ts)
                     (load_process_instance tenant pid)))))))))"

definition refresh_waiting_process_instance_workflow ::
  "('p, 'w) runtime \<Rightarrow> string \<Rightarrow> int \<Rightarrow> datetime option \<Rightarrow> process_instance_row svc" where
  "refresh_waiting_process_instance_workflow rt tenant pid occurred_at =
     bnd (load_process_instance tenant pid) (\<lambda>p.
     bnd (gets (workflow_state_json p)) (\<lambda>state.
       case state of
         None \<Rightarrow> ret p
       | Some s \<Rightarrow>
           if has_terminal_status (pi_status p) then ret p
           else
             bnd (gets (resolve_timestamp occurred_at)) (\<lambda>ts.
             bnd (restore_for rt tenant p s) (\<lambda>w.
             bnd (engine_call (en_refresh_waiting (rt_engine rt) w)) (\<lambda>w1.
             bnd (run_workflow_with_service_task_failure_handling rt tenant p w1 ts True) (\<lambda>w2.
             thn (settle_workflow rt p w2 ts)
               (load_process_instance tenant pid)))))))"

definition repair_process_instance_runtime_representation ::
  "('p, 'w) runtime \<Rightarrow> string \<Rightarrow> int \<Rightarrow> datetime option \<Rightarrow> process_instance_row svc" where
  "repair_process_instance_runtime_representation rt tenant pid occurred_at =
     bnd (load_process_instance tenant pid) (\<lambda>p.
     bnd (gets (workflow_state_json p)) (\<lambda>state.
       case state of
         None \<Rightarrow> ret p
       | Some s \<Rightarrow>
           bnd (restore_for rt tenant p s) (\<lambda>w.
           bnd (gets (resolve_timestamp occurred_at)) (\<lambda>ts.
           thn (persist_workflow_state (rt_engine rt) p w ts)
             (load_process_instance tenant pid)))))"

definition sync_open_work_item_potential_owners ::
  "('p, 'w) runtime \<Rightarrow> string \<Rightarrow> int \<Rightarrow> unit svc" where
  "sync_open_work_item_potential_owners rt tenant pid =
     bnd (load_process_instance tenant pid) (\<lambda>p.
     bnd (gets (workflow_state_json p)) (\<lambda>state.
     bnd (gets (\<lambda>d. filter (\<lambda>w. wi_process_instance_id w = pi_id p \<and> \<not> wi_completed w \<and> wi_task_guid w \<noteq> None)
            (d_work_items d))) (\<lambda>items.
       case state of
         None \<Rightarrow> ret ()
       | Some s \<Rightarrow>
           if items = [] then ret ()
           else
             bnd (restore_for rt tenant p s) (\<lambda>w.
               (let ready = rev (map (\<lambda>t. (sp_id t, t)) (en_tasks (rt_engine rt) w TS_READY True))
                in for_each (\<lambda>i.
                     case map_of ready (the (wi_task_guid i)) of
                       None \<Rightarrow> ret ()
                     | Some t \<Rightarrow>
                         bnd (gets (process_definition_of p)) (\<lambda>pd.
                           assign_work_item_potential_owners (rt_norm rt) p (wi_id i) (sp_lane t) (sp_data t)
                             (case pd of None \<Rightarrow> PNone | Some r \<Rightarrow> PDict (pd_properties_json r)))) items)))))"

section \<open>A concrete runtime\<close>

text \<open>
  For the concrete inputs of the witnesses: a parser that reads every source as one process \<open>p\<close> without
  calls, the engine of lists of tasks, and a second session that sees and commits the same state.
\<close>

definition one_process_parser :: "(unit, spiff_task list) bpmn_parser" where
  "one_process_parser = \<lparr>prs_new = (\<lambda>_. ()), prs_add_bpmn = (\<lambda>p _ _. Inr p), prs_add_dmn = (\<lambda>p _ _. Inr p),
     prs_process_ids = (\<lambda>_. [''p'']), prs_called = (\<lambda>_ i. if i = ''p'' then Some [] else None),
     prs_workflow = (\<lambda>_ _ _. Inr [a_user_task])\<rparr>"

definition shared_isolation :: isolation where
  "shared_isolation = \<lparr>iso_engine = True, iso_committed = id, iso_refresh = (\<lambda>_ c. c)\<rparr>"

definition a_runtime :: "(unit, spiff_task list) runtime" where
  "a_runtime = \<lparr>rt_parser = one_process_parser, rt_engine = list_engine, rt_isolation = shared_isolation,
     rt_norm = id\<rparr>"

section \<open>A service task that fails\<close>

text \<open>The instance is errored since \<open>ts\<close>.\<close>

definition marked_errored :: "string \<Rightarrow> int \<Rightarrow> datetime \<Rightarrow> db \<Rightarrow> bool" where
  "marked_errored tenant pid ts d \<longleftrightarrow>
     (case instance_for tenant pid d of None \<Rightarrow> False
      | Some q \<Rightarrow> pi_status q = PIS_error \<and> pi_ended_at q = Some ts)"

lemma error_marks:
  assumes "error_process_instance tenant pid None (Some ts) d = (Inr x, d')"
    and "\<And>q. instance_for tenant pid d = Some q \<Longrightarrow> pi_status q \<noteq> PIS_error"
  shows "marked_errored tenant pid ts d' \<and> runtime_closed pid d'"
proof -
  have actor: "actor_ok tenant None d" by (simp add: actor_ok_def)
  obtain q where q: "instance_for tenant pid d = Some q"
    using assms(1) by (auto simp: error_process_instance_def run_simps split: option.splits)
  show ?thesis
    using error_instance_run [OF actor q, of "Some ts"] assms
    by (auto simp: q resolve_timestamp_def marked_errored_def split: if_splits)
qed

lemma transition_marks:
  assumes "transition_process_instance_to_error en tenant p w ts recovery_only d = (Inr u, d')"
  shows "marked_errored tenant (pi_id p) ts d' \<and> runtime_closed (pi_id p) d'"
proof -
  let ?f = "\<lambda>r. if pi_status r = PIS_error then r\<lparr>pi_status := PIS_running\<rparr> else r"
  obtain d1 x where err: "error_process_instance tenant (pi_id p) None (Some ts)
      (d1\<lparr>d_instances := update_where (\<lambda>r. pi_id r = pi_id p) ?f (d_instances d1)\<rparr>) = (Inr x, d')"
    using assms unfolding transition_process_instance_to_error_def
    by (auto simp: thn_Inr_iff bnd_Inr_iff run_simps upd_instance_def)
  have "pi_status q \<noteq> PIS_error"
    if found: "instance_for tenant (pi_id p) (d1\<lparr>d_instances := update_where (\<lambda>r. pi_id r = pi_id p) ?f (d_instances d1)\<rparr>) = Some q"
    for q
  proof -
    have "find (is_instance tenant (pi_id p)) (update_where (\<lambda>r. pi_id r = pi_id p) ?f (d_instances d1)) =
        map_option (\<lambda>r. if pi_id r = pi_id p then ?f r else r) (find (is_instance tenant (pi_id p)) (d_instances d1))"
      by (rule instance_for_update) simp_all
    then obtain r where "find (is_instance tenant (pi_id p)) (d_instances d1) = Some r"
      "q = (if pi_id r = pi_id p then ?f r else r)"
      using found by (auto simp: instance_for_def)
    then show ?thesis by (auto simp: is_instance_def dest: find_SomeD)
  qed
  then show ?thesis by (rule error_marks [OF err])
qed

text \<open>
  Assumption on the database: an instance as the second session has committed it is what this session
  then reads.
\<close>

definition commit_visible :: "isolation \<Rightarrow> bool" where
  "commit_visible io \<longleftrightarrow> (\<forall>d c t i q. instance_for t i c = Some q \<longrightarrow> instance_for t i (iso_refresh io d c) = Some q)"

text \<open>C7: When a run ends in the failure of a service task, that failure is raised again, and the instance
  is then errored, at the time of the run; without a second session everything it had open is closed
  too. The only other outcome is that storing the failure raises an error of its own.\<close>

theorem service_failure_marks_error:
  assumes "en_run_all (rt_engine rt) w = (Some e, w')" and "is_subclass (err_class e) ServiceTaskExecutionError"
    and "commit_visible (rt_isolation rt)"
    and "run_workflow_with_service_task_failure_handling rt tenant p w ts autonomous d = (r, d')"
  shows "(r = Inl e \<and> marked_errored tenant (pi_id p) ts d' \<and> (\<not> autonomous \<longrightarrow> runtime_closed (pi_id p) d')) \<or>
    (\<exists>e'. r = Inl e' \<and> transition_process_instance_to_error (rt_engine rt) tenant p w' ts False d = (Inl e', d'))"
proof -
  let ?io = "rt_isolation rt" and ?en = "rt_engine rt"
  let ?here = "thn (transition_process_instance_to_error ?en tenant p w' ts False) (raise e) d"
  have here: ?thesis if "(r, d') = ?here"
  proof -
    obtain q d1 where q: "transition_process_instance_to_error ?en tenant p w' ts False d = (q, d1)"
      by (cases "transition_process_instance_to_error ?en tenant p w' ts False d")
    then show ?thesis
      using that transition_marks [of ?en tenant p w' ts False d] by (cases q) (auto simp: thn_def bnd_def raise_def)
  qed
  let ?m = "bnd (load_process_instance tenant (pi_id p)) (\<lambda>p. transition_process_instance_to_error ?en tenant p w' ts True)"
  obtain q c where q: "?m (iso_committed ?io d) = (q, c)" by (cases "?m (iso_committed ?io d)")
  have persist: "persist_service_task_failure_state_in_independent_session ?io ?en tenant (pi_id p) w' ts d =
      (if iso_engine ?io \<and> \<not> isl q then (Inr True, iso_refresh ?io d c) else (Inr False, d))"
    by (cases q) (simp_all add: persist_service_task_failure_state_in_independent_session_def q)
  have run: "(r, d') = (if autonomous \<and> iso_engine ?io \<and> \<not> isl q then (Inl e, iso_refresh ?io d c) else ?here)"
    using assms(1,2,4) persist
    by (cases autonomous; cases "iso_engine ?io \<and> \<not> isl q")
      (auto simp: run_workflow_with_service_task_failure_handling_def bnd_def ret_def raise_def)
  show ?thesis
  proof (cases "autonomous \<and> iso_engine ?io \<and> \<not> isl q")
    case True
    then obtain u where "?m (iso_committed ?io d) = (Inr u, c)" using q by (cases q) auto
    then obtain p' where p': "transition_process_instance_to_error ?en tenant p' w' ts True (iso_committed ?io d) = (Inr u, c)"
      "pi_id p' = pi_id p"
      by (auto simp: bnd_load_run dest: instance_for_keys split: option.splits)
    then have "marked_errored tenant (pi_id p) ts c" using transition_marks [OF p'(1)] by simp
    then have "marked_errored tenant (pi_id p) ts (iso_refresh ?io d c)"
      using assms(3) by (auto simp: marked_errored_def commit_visible_def split: option.splits)
    then show ?thesis using run True by simp
  next
    case False
    then have "(r, d') = ?here" using run by (simp only: if_False)
    then show ?thesis by (rule here)
  qed
qed

definition failing_runtime :: "(unit, spiff_task list) runtime" where
  "failing_runtime = a_runtime\<lparr>rt_engine := list_engine\<lparr>en_run_all :=
     (\<lambda>w. (Some (Err ServiceTaskExecutionError (R_workflow DoesNotReturn)), w))\<rparr>\<rparr>"

lemma failing_engine_fields:
  "en_run_all (rt_engine failing_runtime) w = (Some (Err ServiceTaskExecutionError (R_workflow DoesNotReturn)), w)"
  "en_to_dict (rt_engine failing_runtime) w = PDict []" "en_tasks (rt_engine failing_runtime) w TS_ERROR m = []"
  "rt_isolation failing_runtime = shared_isolation"
  by (simp_all add: failing_runtime_def a_runtime_def list_engine_def)

lemma failing_transition:
  "\<exists>d'. transition_process_instance_to_error (rt_engine failing_runtime) ''acme'' a_started_instance [] 5 True a_started_db
     = (Inr (), d')"
proof -
  let ?en = "rt_engine failing_runtime"
  have "\<exists>d1. persist_workflow_recovery_state ?en a_started_instance [] a_started_db = (Inr (), d1) \<and>
      instance_for ''acme'' 1 d1 = Some (a_started_instance\<lparr>pi_workflow_engine_version := Some ''5''\<rparr>)"
    by (simp add: persist_workflow_recovery_state_def failing_engine_fields serialize_workflow_dict_def run_simps
        upd_instance_def sync_bpmn_process_from_workflow_def bpmn_process_of_def a_started_instance_def
        a_started_db_def a_bpmn_process_def upd_process_def instance_for_def is_instance_def one_instance_def
        WORKFLOW_STATE_SERIALIZER_VERSION_def)
  then obtain d1 where d1: "persist_workflow_recovery_state ?en a_started_instance [] a_started_db = (Inr (), d1)"
    "instance_for ''acme'' 1 d1 = Some (a_started_instance\<lparr>pi_workflow_engine_version := Some ''5''\<rparr>)" by blast
  let ?d2 = "snd (upd_instance 1 (\<lambda>r. r\<lparr>pi_started_at := (case pi_started_at r of None \<Rightarrow> Some 5 | Some x \<Rightarrow> Some x)\<rparr>) d1)"
  let ?d3 = "snd (upd_process 1 (\<lambda>r. r\<lparr>bp_started_at := (case bp_started_at r of None \<Rightarrow> Some 5 | Some x \<Rightarrow> Some x),
      bp_ended_at := Some 5\<rparr>) ?d2)"
  let ?d4 = "snd (upd_instance 1 (\<lambda>r. if pi_status r = PIS_error then r\<lparr>pi_status := PIS_running\<rparr> else r) ?d3)"
  have "\<exists>q. instance_for ''acme'' 1 ?d4 = Some q \<and> pi_status q = PIS_running"
    using d1(2)
    by (simp add: upd_defs modify_def instance_for_def instance_for_update a_started_instance_def one_instance_def)
  then obtain q where q: "instance_for ''acme'' 1 ?d4 = Some q" "pi_status q = PIS_running" by blast
  have "actor_ok ''acme'' None ?d4" by (simp add: actor_ok_def)
  then obtain x d' where err: "error_process_instance ''acme'' 1 None (Some 5) ?d4 = (Inr x, d')"
    using error_instance_run [OF _ q(1), of None "Some 5"] q(2) by auto
  have ids: "pi_id a_started_instance = 1" "pi_bpmn_process_id a_started_instance = Some 1"
    by (simp_all add: a_started_instance_def one_instance_def)
  show ?thesis
    using err
    by (simp add: transition_process_instance_to_error_def comp_defs d1(1) ids errored_service_tasks_def
        failing_engine_fields upd_defs)
qed

lemma sync_process_returns: "\<exists>d'. sync_bpmn_process_from_workflow p sw state d = (Inr (), d')"
  by (simp add: sync_bpmn_process_from_workflow_def run_simps upd_process_def split: option.split)

lemma failing_persist_stops:
  "\<exists>d'. persist_workflow_state (rt_engine failing_runtime) a_started_instance [] 5 a_started_db =
     (Inl (malformed ''task rows''), d')"
proof -
  let ?en = "rt_engine failing_runtime" and ?p = a_started_instance
  let ?sw = "[(''serializer_version'', PStr WORKFLOW_STATE_SERIALIZER_VERSION)]"
  define d1 where "d1 = snd (upd_instance (pi_id ?p) (\<lambda>r. r\<lparr>pi_workflow_engine_version := Some WORKFLOW_STATE_SERIALIZER_VERSION\<rparr>) a_started_db)"
  have upd: "upd_instance (pi_id ?p) (\<lambda>r. r\<lparr>pi_workflow_engine_version := Some WORKFLOW_STATE_SERIALIZER_VERSION\<rparr>)
      a_started_db = (Inr (), d1)" by (simp add: d1_def upd_instance_def modify_def)
  have ser: "serialize_workflow_dict ?en [] = Inr ?sw"
    by (simp add: serialize_workflow_dict_def failing_engine_fields dict_get_def dict_set_def)
  have "process_definition_of ?p d1 = None"
    by (simp add: d1_def process_definition_of_def a_started_instance_def upd_instance_def modify_def a_started_db_def
        one_instance_db_def empty_db_def)
  then have def: "sync_process_definition_from_workflow ?p ?sw 5 d1 = (Inr (), d1)"
    by (simp add: sync_process_definition_from_workflow_def run_simps)
  obtain d2 where proc: "sync_bpmn_process_from_workflow ?p ?sw (en_serialize_json ?en []) d1 = (Inr (), d2)"
    using sync_process_returns by blast
  have "iter_serialized_task_rows None ?sw = Inr []"
    by (subst iter_serialized_task_rows.simps) (simp add: dict_get_def)
  then have "sync_task_models_from_workflow ?en ?p ?sw 5 d2 = (Inl (malformed ''task rows''), d2)"
    by (simp add: sync_task_models_from_workflow_def run_simps a_started_instance_def)
  then show ?thesis
    by (simp add: persist_workflow_state_def thn_def bnd_def upd ser lift_result_def def proc)
qed

theorem service_failure_marks_error_witness:
  "\<exists>d'. run_workflow_with_service_task_failure_handling failing_runtime ''acme'' a_started_instance [] 5 True a_started_db =
       (Inl (Err ServiceTaskExecutionError (R_workflow DoesNotReturn)), d') \<and> marked_errored ''acme'' 1 5 d'"
proof -
  let ?e = "Err ServiceTaskExecutionError (R_workflow DoesNotReturn)"
  have fields: "pi_id a_started_instance = 1" "pi_tenant a_started_instance = ''acme''"
    by (simp_all add: a_started_instance_def one_instance_def)
  have e: "is_subclass (err_class ?e) ServiceTaskExecutionError" "commit_visible (rt_isolation failing_runtime)"
    by (simp_all add: failing_engine_fields is_subclass.sub_refl commit_visible_def shared_isolation_def)
  have found: "instance_for ''acme'' 1 a_started_db = Some a_started_instance"
    by (simp add: instance_for_def is_instance_def a_started_db_def a_started_instance_def one_instance_def)
  obtain d' where "transition_process_instance_to_error (rt_engine failing_runtime) ''acme'' a_started_instance [] 5 True a_started_db
     = (Inr (), d')" using failing_transition by blast
  then have run: "run_workflow_with_service_task_failure_handling failing_runtime ''acme'' a_started_instance [] 5 True
      a_started_db = (Inl ?e, d')"
    using e(1)
    by (simp add: run_workflow_with_service_task_failure_handling_def failing_engine_fields fields comp_defs
        persist_service_task_failure_state_in_independent_session_def shared_isolation_def load_run found)
  have "transition_process_instance_to_error (rt_engine failing_runtime) ''acme'' a_started_instance [] 5 False a_started_db
      \<noteq> (Inl ?e, t)" for t
    using failing_persist_stops
    by (auto simp: transition_process_instance_to_error_def thn_def bnd_def malformed_def)
  then show ?thesis
    using service_failure_marks_error [OF failing_engine_fields(1) e run] run by (auto simp: fields)
qed

section \<open>Initializing a workflow without naming its process\<close>

text \<open>C38: The workflow of an existing instance cannot be initialized from a source whose only process calls a
  process of another source unless the process is named. Without a process id the command is
  refused as if the source had several processes, since the called ones are counted too, and nothing
  is written; with the id of the one process the source has, the same call builds the workflow of
  that process. (Starting an instance from an imported definition is not affected: there the
  process is selected from the definition's own source before the workflow is built.)\<close>

theorem unnamed_call_not_initialized:
  fixes rt :: "('p, 'w) runtime"
  defines "P \<equiv> rt_parser rt"
  assumes "parser_keeps P"
    and "instance_for tenant pid d = Some p" and "\<not> has_terminal_status (pi_status p)"
    and "workflow_state_json p d = None" and "instance_service_context tenant p d = (Inr cx, d)"
    and "context = Some \<lparr>cac_tenant_id = tenant, cac_called_element = [],
           cac_parent_process_instance_id = Some (pi_id p),
           cac_parent_process_definition_id = pi_bpmn_process_definition_id p\<rparr>"
    and "prs_add_bpmn P (prs_new P (dmn = None)) xml ''runtime-workflow.bpmn'' = Inr s" and "prs_process_ids P s = [i]"
    and "load_called_process_definitions P s None resolver context = Some (Inr s1)"
    and "(case dmn of None \<Rightarrow> Inr s1 | Some x \<Rightarrow> prs_add_dmn P s1 x ''runtime-workflow.dmn'') = Inr s2"
    and "j \<in> set (prs_process_ids P s1)" and "j \<noteq> i"
  shows "initialize_process_instance_workflow rt tenant pid xml dmn None started_at resolver d =
      (Inl (Err ValidationError (R_workflow ProcessIdRequired)), d) \<and>
    build_workflow P xml dmn (Some i) (Some cx) resolver context = Some (prs_workflow P s2 i (Some cx))"
proof -
  note build = unnamed_build [OF assms(2,8-13), of "Some cx"]
  have "initialize_process_instance_workflow rt tenant pid xml dmn None started_at resolver d =
      (Inl (Err ValidationError (R_workflow ProcessIdRequired)), d)"
    using build(1) assms(4,5)
    by (simp add: initialize_process_instance_workflow_def run_simps assms(3) bnd_Inr [of "instance_service_context tenant p", OF assms(6)] built_def
        P_def assms(7))
  then show ?thesis using build(2) by simp
qed

definition calling_runtime :: "(string list, spiff_task list) runtime" where
  "calling_runtime = \<lparr>rt_parser = library_parser_of (\<lambda>_. [a_user_task]) [(''a'', [''b'']), (''b'', [''a''])],
     rt_engine = list_engine, rt_isolation = shared_isolation, rt_norm = id\<rparr>"

theorem unnamed_call_not_initialized_witness:
  "initialize_process_instance_workflow calling_runtime ''acme'' 1 ''a'' None None None (Some library_resolver) one_instance_db =
     (Inl (Err ValidationError (R_workflow ProcessIdRequired)), one_instance_db)"
proof -
  let ?P = "rt_parser calling_runtime"
  have P: "?P = library_parser_of (\<lambda>_. [a_user_task]) [(''a'', [''b'']), (''b'', [''a''])]"
    by (simp add: calling_runtime_def)
  have "\<not> has_terminal_status (pi_status one_instance)" "workflow_state_json one_instance one_instance_db = None"
    by (simp_all add: one_instance_def has_terminal_status_def TERMINAL_STATUSES_def workflow_state_json_def)
  moreover have "py_strip ''acme'' = ''acme''" by code_simp
  then obtain cx where "instance_service_context ''acme'' one_instance one_instance_db = (Inr cx, one_instance_db)"
    by (simp add: instance_service_context_def service_task_execution_context_def ServiceTaskContext_def
        normalize_non_blank_def lift_result_def)
  moreover have "prs_add_bpmn ?P (prs_new ?P (None = None)) ''a'' ''runtime-workflow.bpmn'' = Inr [''a'']"
    "prs_process_ids ?P [''a''] = [''a'']" "''b'' \<in> set (prs_process_ids ?P [''a'', ''b''])" "''b'' \<noteq> ''a''"
    by (simp_all add: P library_parser_of_def)
  moreover have "load_called_process_definitions ?P [''a''] None (Some library_resolver) (Some c) = Some (Inr [''a'', ''b''])" for c
    using library_run [of "\<lambda>_. [a_user_task]" c]
    by (simp add: P load_called_process_definitions_def) (simp add: library_parser_of_def)
  moreover have "(case None of None \<Rightarrow> Inr [''a'', ''b''] | Some x \<Rightarrow> prs_add_dmn ?P [''a'', ''b''] x ''runtime-workflow.dmn'') =
      Inr [''a'', ''b'']" by simp
  moreover have "parser_keeps ?P" unfolding P by (rule library_parser_keeps)
  ultimately show ?thesis
    using unnamed_call_not_initialized [OF _ one_instance_lookup, of calling_runtime _ _ None "''a''"] by blast
qed

end
