(* ===== verification/Process_Definitions.thy ===== *)
theory Process_Definitions
  imports Workflow_Runtime
begin

text \<open>
  \<^verbatim>\<open>src/m8flow_core/services/process_definitions.py\<close>: importing a BPMN source as a definition. A
  definition is found again by the digest of its source within the tenant; importing it a second
  time rewrites the row. The parser is the parameter of \<^verbatim>\<open>Call_Activities\<close>; sources are text.
\<close>

record import_request =
  im_bpmn_identifier :: string
  im_user_id :: int
  im_bpmn_xml :: string
  im_dmn_xml :: "string option"
  im_bpmn_name :: "string option"
  im_properties :: "(string \<times> pyval) list option"
  im_version_control_type :: "string option"
  im_version_control_identifier :: "string option"
  im_digest :: "string option"
  im_created_at :: "datetime option"
  im_updated_at :: "datetime option"

definition hash_text :: "string \<Rightarrow> string" where
  "hash_text v = sha256_text v"

text \<open>Any error of the parser becomes a validation error.\<close>

definition validate_bpmn_source :: "('p, 'w) bpmn_parser \<Rightarrow> string \<Rightarrow> string option \<Rightarrow> m8f_error + unit" where
  "validate_bpmn_source P xml dmn =
     (case rbind (prs_add_bpmn P (prs_new P False) xml ''import-validation.bpmn'') (\<lambda>p.
             case dmn of None \<Rightarrow> Inr p | Some x \<Rightarrow> prs_add_dmn P p x ''import-validation.dmn'') of
        Inl e \<Rightarrow> if is_subclass (err_class e) ValidationError then Inl e
                 else Inl (Err ValidationError (R_workflow (MalformedWorkflow ''BPMN/DMN source'')))
      | Inr p \<Rightarrow> if prs_process_ids P p = []
                  then Inl (Err ValidationError (R_workflow (MalformedWorkflow ''no executable process'')))
                  else Inr ())"

definition extract_process_identifier :: "('p, 'w) bpmn_parser \<Rightarrow> string \<Rightarrow> m8f_error + string" where
  "extract_process_identifier P xml =
     rbind (prs_add_bpmn P (prs_new P False) xml ''definition-process-selector.bpmn'') (\<lambda>p.
       case prs_process_ids P p of
         [] \<Rightarrow> Inl (Err ValidationError (R_workflow (MalformedWorkflow ''no executable process'')))
       | [i] \<Rightarrow> Inr i
       | _ \<Rightarrow> Inl (Err ValidationError (R_workflow (MalformedWorkflow ''several executable processes''))))"

text \<open>The version snapshot of the import; it is the one of the runtime, without a result.\<close>

definition import_version_snapshot :: "string \<Rightarrow> string \<Rightarrow> string \<Rightarrow> datetime \<Rightarrow> unit svc" where
  "import_version_snapshot tenant model xml ts =
     bnd (gets (\<lambda>d. find (\<lambda>r. ver_tenant r = tenant \<and> ver_process_model_identifier r = model \<and>
            ver_bpmn_xml_hash r = hash_text xml) (d_versions d))) (\<lambda>existing.
       when_M (existing = None)
         (modify (\<lambda>d. d\<lparr>d_versions := d_versions d @
            [\<lparr>ver_id = fresh_id ver_id (d_versions d), ver_tenant = tenant,
              ver_process_model_identifier = model, ver_bpmn_xml_hash = hash_text xml,
              ver_bpmn_xml_file_contents = xml, ver_created_at = ts\<rparr>]\<rparr>)))"

definition import_digest :: "import_request \<Rightarrow> string" where
  "import_digest im = (case im_digest im of None \<Rightarrow> hash_text (im_bpmn_xml im) | Some x \<Rightarrow> x)"

definition definition_by_digest :: "string \<Rightarrow> string \<Rightarrow> db \<Rightarrow> process_definition_row option" where
  "definition_by_digest tenant digest d =
     find (\<lambda>r. pd_tenant r = tenant \<and> pd_process_xml_digest r = digest) (d_definitions d)"

definition effective_properties ::
  "import_request \<Rightarrow> process_definition_row option \<Rightarrow> (string \<times> pyval) list" where
  "effective_properties im existing =
     (case im_properties im of
        Some props \<Rightarrow> props
      | None \<Rightarrow> (case existing of None \<Rightarrow> [] | Some r \<Rightarrow> pd_properties_json r))"

text \<open>The inserted row, the assignments to an existing one, and those both go through.\<close>

definition opt_or :: "'a option \<Rightarrow> 'a option \<Rightarrow> 'a option" where
  "opt_or a b = (case a of None \<Rightarrow> b | Some x \<Rightarrow> Some x)"

definition new_definition_row :: "string \<Rightarrow> import_request \<Rightarrow> string \<Rightarrow> string \<Rightarrow> int \<Rightarrow> process_definition_row" where
  "new_definition_row tenant im digest ident i =
     \<lparr>pd_id = i, pd_tenant = tenant, pd_process_xml_digest = digest, pd_bpmn_identifier = ident,
      pd_bpmn_name = im_bpmn_name im,
      pd_properties_json = (case im_properties im of None \<Rightarrow> [] | Some props \<Rightarrow> props),
      pd_version_control_type = im_version_control_type im,
      pd_version_control_identifier = im_version_control_identifier im,
      pd_updated_at = opt_or (im_updated_at im) (im_created_at im), pd_created_at = im_created_at im\<rparr>"

definition set_given_dmn :: "import_request \<Rightarrow> process_definition_row \<Rightarrow> process_definition_row" where
  "set_given_dmn im r = (if im_dmn_xml im = None then r else set_source_dmn_xml (im_dmn_xml im) r)"

definition rewritten_definition_row ::
  "import_request \<Rightarrow> string \<Rightarrow> string \<Rightarrow> process_definition_row \<Rightarrow> process_definition_row" where
  "rewritten_definition_row im digest ident r =
     (let r1 = r\<lparr>pd_process_xml_digest := digest, pd_bpmn_identifier := ident,
                 pd_bpmn_name := opt_or (im_bpmn_name im) (pd_bpmn_name r),
                 pd_properties_json := (case im_properties im of None \<Rightarrow> pd_properties_json r | Some props \<Rightarrow> props)\<rparr>;
          r2 = set_given_dmn im (set_source_bpmn_xml (Some (im_bpmn_xml im)) r1)
      in r2\<lparr>pd_version_control_type := opt_or (im_version_control_type im) (pd_version_control_type r),
            pd_version_control_identifier :=
              opt_or (im_version_control_identifier im) (pd_version_control_identifier r),
            pd_created_at := opt_or (im_created_at im) (pd_created_at r),
            pd_updated_at := opt_or (im_updated_at im) (opt_or (im_created_at im) (pd_updated_at r))\<rparr>)"

definition store_sources :: "import_request \<Rightarrow> process_definition_row \<Rightarrow> process_definition_row" where
  "store_sources im r =
     set_given_dmn im (set_source_bpmn_xml (Some (im_bpmn_xml im))
       (set_process_model_identifier (im_bpmn_identifier im) r))"

definition put_definitions :: "process_definition_row list \<Rightarrow> db \<Rightarrow> db" where
  "put_definitions rs d = d\<lparr>d_definitions := rs\<rparr>"

definition store_definition ::
  "string \<Rightarrow> import_request \<Rightarrow> string \<Rightarrow> string \<Rightarrow> process_definition_row svc" where
  "store_definition tenant im digest ident =
     upsert_row d_definitions put_definitions pd_id
       (\<lambda>r. pd_tenant r = tenant \<and> pd_process_xml_digest r = digest)
       (\<lambda>i. store_sources im (new_definition_row tenant im digest ident i))
       (\<lambda>r. store_sources im (rewritten_definition_row im digest ident r))"

definition import_bpmn_process_definition ::
  "policy_context \<Rightarrow> ('p, 'w) runtime \<Rightarrow> string \<Rightarrow> import_request \<Rightarrow> process_definition_row svc" where
  "import_bpmn_process_definition ctx rt tenant im =
     bnd (ensure_user_belongs_to_tenant tenant (im_user_id im)) (\<lambda>_.
     thn (require_command_authorization ctx tenant (im_user_id im) PROCESS_DEFINITION_IMPORT_COMMAND
            (Some RESOURCE_PROCESS_DEFINITION) (Some (Id_str (im_bpmn_identifier im))) None)
     (bnd (lift_result (validate_bpmn_source (rt_parser rt) (im_bpmn_xml im) (im_dmn_xml im))) (\<lambda>_.
        (let digest = import_digest im
         in bnd (lift_result (extract_process_identifier (rt_parser rt) (im_bpmn_xml im))) (\<lambda>ident.
            bnd (gets (definition_by_digest tenant digest)) (\<lambda>existing.
              (let props = effective_properties im existing
               in bnd (lift_result (en_lane_names (rt_engine rt) (im_bpmn_xml im))) (\<lambda>lanes.
                  thn (lift_result (validate_initiator_lanes props lanes))
                  (bnd (store_definition tenant im digest ident) (\<lambda>pd.
                   bnd (gets (resolve_timestamp (opt_or (im_updated_at im) (im_created_at im)))) (\<lambda>ts.
                   thn (import_version_snapshot tenant (im_bpmn_identifier im) (im_bpmn_xml im) ts)
                   (thn (sync_timer_start_scheduler_jobs_for_definition rt pd ts)
                   (thn (enroll_definition_lane_owners (rt_norm rt) tenant (Some props))
                      (ret pd))))))))))))))"

section \<open>What an import stores\<close>

interpretation definitions: table d_definitions put_definitions pd_id
  by unfold_locales (simp add: put_definitions_def)

lemma stored_row_keys [simp]:
  "pd_id (store_sources im r) = pd_id r" "pd_tenant (store_sources im r) = pd_tenant r"
  "pd_process_xml_digest (store_sources im r) = pd_process_xml_digest r"
  "pd_id (new_definition_row tenant im digest ident i) = i"
  "pd_tenant (new_definition_row tenant im digest ident i) = tenant"
  "pd_process_xml_digest (new_definition_row tenant im digest ident i) = digest"
  "pd_id (rewritten_definition_row im digest ident r) = pd_id r"
  "pd_tenant (rewritten_definition_row im digest ident r) = pd_tenant r"
  "pd_process_xml_digest (rewritten_definition_row im digest ident r) = digest"
  by (simp_all add: store_sources_def new_definition_row_def rewritten_definition_row_def set_given_dmn_def
      set_source_dmn_xml_def set_source_bpmn_xml_def set_process_model_identifier_def put_property_def Let_def)

text \<open>The properties under which the sources are kept have different names.\<close>

lemma stored_row_sources:
  "source_bpmn_xml (store_sources im r) = Some (im_bpmn_xml im)"
  "explicit_process_model_identifier (store_sources im r) = Some (im_bpmn_identifier im)"
  "source_dmn_xml (store_sources im r) = opt_or (im_dmn_xml im) (source_dmn_xml r)"
  by (auto simp: store_sources_def set_given_dmn_def set_source_dmn_xml_def set_source_bpmn_xml_def
      set_process_model_identifier_def put_property_def source_bpmn_xml_def source_dmn_xml_def
      explicit_process_model_identifier_def property_key_defs dict_get_def dict_set_def update_conv opt_or_def
      split: option.split)

lemma rewritten_row_dmn:
  "source_dmn_xml (rewritten_definition_row im digest ident r) =
     opt_or (im_dmn_xml im) (as_str (dict_get (effective_properties im (Some r)) SOURCE_DMN_XML_PROPERTY_KEY))"
  by (auto simp: rewritten_definition_row_def set_given_dmn_def set_source_dmn_xml_def set_source_bpmn_xml_def
      put_property_def source_dmn_xml_def effective_properties_def property_key_defs dict_get_def dict_set_def
      update_conv opt_or_def Let_def split: option.split)

lemma new_row_dmn:
  "source_dmn_xml (new_definition_row tenant im digest ident i) =
     as_str (dict_get (effective_properties im None) SOURCE_DMN_XML_PROPERTY_KEY)"
  by (simp add: new_definition_row_def source_dmn_xml_def effective_properties_def split: option.split)

lemma opt_or_absorb: "opt_or a (opt_or a b) = opt_or a b"
  by (simp add: opt_or_def split: option.split)

lemma store_definition_spec:
  assumes "store_definition tenant im digest ident d = (Inr pd, d')" and "distinct (map pd_id (d_definitions d))"
  shows "definition_by_digest tenant digest d' = Some pd" "pd_tenant pd = tenant"
    "source_bpmn_xml pd = Some (im_bpmn_xml im)" "explicit_process_model_identifier pd = Some (im_bpmn_identifier im)"
    "source_dmn_xml pd = opt_or (im_dmn_xml im)
       (as_str (dict_get (effective_properties im (definition_by_digest tenant digest d)) SOURCE_DMN_XML_PROPERTY_KEY))"
    "\<And>old. definition_by_digest tenant digest d = Some old \<Longrightarrow> pd_id pd = pd_id old"
    "filter (\<lambda>r. \<not> (pd_tenant r = tenant \<and> pd_process_xml_digest r = digest)) (d_definitions d') =
       filter (\<lambda>r. \<not> (pd_tenant r = tenant \<and> pd_process_xml_digest r = digest)) (d_definitions d)"
proof -
  note u = assms(1) [unfolded store_definition_def]
  show "definition_by_digest tenant digest d' = Some pd"
    unfolding definition_by_digest_def by (rule definitions.upsert_lookup [OF u assms(2)]) simp_all
  show "filter (\<lambda>r. \<not> (pd_tenant r = tenant \<and> pd_process_xml_digest r = digest)) (d_definitions d') =
       filter (\<lambda>r. \<not> (pd_tenant r = tenant \<and> pd_process_xml_digest r = digest)) (d_definitions d)"
    by (rule definitions.upsert_others [OF u assms(2)]) simp_all
  have cases: "(case definition_by_digest tenant digest d of
      None \<Rightarrow> \<exists>i. pd = store_sources im (new_definition_row tenant im digest ident i)
    | Some old \<Rightarrow> pd = store_sources im (rewritten_definition_row im digest ident old) \<and> pd_tenant old = tenant)"
    using u by (auto simp: definitions.upsert_run definition_by_digest_def dest: find_SomeD split: option.splits)
  then show "pd_tenant pd = tenant" "source_bpmn_xml pd = Some (im_bpmn_xml im)"
    "explicit_process_model_identifier pd = Some (im_bpmn_identifier im)"
    "source_dmn_xml pd = opt_or (im_dmn_xml im)
       (as_str (dict_get (effective_properties im (definition_by_digest tenant digest d)) SOURCE_DMN_XML_PROPERTY_KEY))"
    "\<And>old. definition_by_digest tenant digest d = Some old \<Longrightarrow> pd_id pd = pd_id old"
    by (auto simp: stored_row_sources rewritten_row_dmn new_row_dmn opt_or_absorb split: option.splits)
qed

text \<open>The steps after the row is stored leave the table of definitions alone.\<close>

definition same_definitions :: "db \<Rightarrow> db \<Rightarrow> bool" where
  "same_definitions d d' \<longleftrightarrow> d_definitions d' = d_definitions d"

interpretation defs: frame same_definitions
  by unfold_locales (simp_all add: same_definitions_def)

lemma snapshot_same_definitions: "defs.keeps (import_version_snapshot tenant model xml ts)"
  unfolding import_version_snapshot_def
  by (intro defs.keeps_intros) (simp add: same_definitions_def)

lemma upsert_job_same_definitions:
  "defs.keeps (upsert_scheduler_job tenant key ty run_at pid pdid payload updated created)"
  unfolding upsert_scheduler_job_def Let_def
  by (intro defs.keeps_intros defs.keeps_upsert) (simp add: same_definitions_def put_jobs_def)

lemma timer_starts_same_definitions: "defs.keeps (sync_timer_start_scheduler_jobs_for_definition rt pd ts)"
  unfolding sync_timer_start_scheduler_jobs_for_definition_def collect_timer_start_payloads_for_definition_def
    schedule_timer_start_def built_def engine_call_def
  by (intro defs.keeps_intros upsert_job_same_definitions) (simp add: same_definitions_def put_jobs_def)

lemma enroll_same_definitions: "defs.keeps (enroll_definition_lane_owners sql_norm tenant props)"
proof -
  have lanes: "defs.keeps m" if "lanes.keeps m" for m :: "'a svc"
    using that unfolding defs.keeps_def lanes.keeps_def
    by (auto simp: same_definitions_def lane_frame_def) (metis db.ext_inject db.surjective db.update_convs)
  show ?thesis
    unfolding enroll_definition_lane_owners_def Let_def
    by (intro defs.keeps_intros lanes enroll_keeps)
qed

lemma import_split:
  assumes "import_bpmn_process_definition ctx rt tenant im d = (Inr pd, d')" and "policy_read_only ctx"
  obtains ident d1 where "store_definition tenant im (import_digest im) ident d = (Inr pd, d1)"
    "same_definitions d1 d'"
proof -
  have auth: "bnd (ensure_user_belongs_to_tenant tenant (im_user_id im)) (\<lambda>_. thn (require_command_authorization ctx tenant
      (im_user_id im) PROCESS_DEFINITION_IMPORT_COMMAND (Some RESOURCE_PROCESS_DEFINITION)
      (Some (Id_str (im_bpmn_identifier im))) None) m) d = (Inr x, t) \<Longrightarrow> m d = (Inr x, t)" for m and x :: 'c and t
    using ensure_user_read_only [of tenant "im_user_id im" d] assms(2)
    by (auto simp: bnd_Inr_iff thn_Inr_iff policy_read_only_def) (metis snd_conv)
  obtain ident props d1 ts d2 d3 where r:
    "store_definition tenant im (import_digest im) ident d = (Inr pd, d1)"
    "import_version_snapshot tenant (im_bpmn_identifier im) (im_bpmn_xml im) ts d1 = (Inr (), d2)"
    "sync_timer_start_scheduler_jobs_for_definition rt pd ts d2 = (Inr (), d3)"
    "enroll_definition_lane_owners (rt_norm rt) tenant (Some props) d3 = (Inr (), d')"
    using auth [OF assms(1) [unfolded import_bpmn_process_definition_def]]
    by (auto simp: bnd_Inr_iff thn_Inr_iff run_simps Let_def lift_result_def split: sum.splits)
  have "same_definitions d1 d2" using snapshot_same_definitions r(2) by (rule defs.keepsD)
  moreover have "same_definitions d2 d3" using timer_starts_same_definitions r(3) by (rule defs.keepsD)
  moreover have "same_definitions d3 d'" using enroll_same_definitions r(4) by (rule defs.keepsD)
  ultimately have "same_definitions d1 d'" by (simp add: same_definitions_def)
  then show thesis using that r(1) by blast
qed

text \<open>C10: An imported definition is found again under the digest of its source, with the source and the
  process model identifier as they were given. A second import of the same digest rewrites the row
  under its identifier, and no other definition changes. The DMN source is the one given, or else
  the one in the properties that apply: the stored ones, unless the import brings its own, so that
  properties given without a DMN source make the stored DMN source disappear.\<close>

theorem import_definition_roundtrip:
  assumes "import_bpmn_process_definition ctx rt tenant im d = (Inr pd, d')" and "policy_read_only ctx"
    and "distinct (map pd_id (d_definitions d))"
  shows "definition_by_digest tenant (import_digest im) d' = Some pd \<and>
    source_bpmn_xml pd = Some (im_bpmn_xml im) \<and>
    explicit_process_model_identifier pd = Some (im_bpmn_identifier im) \<and>
    source_dmn_xml pd = opt_or (im_dmn_xml im) (as_str (dict_get
      (effective_properties im (definition_by_digest tenant (import_digest im) d)) SOURCE_DMN_XML_PROPERTY_KEY)) \<and>
    (\<forall>old. definition_by_digest tenant (import_digest im) d = Some old \<longrightarrow> pd_id pd = pd_id old) \<and>
    filter (\<lambda>r. \<not> (pd_tenant r = tenant \<and> pd_process_xml_digest r = import_digest im)) (d_definitions d') =
      filter (\<lambda>r. \<not> (pd_tenant r = tenant \<and> pd_process_xml_digest r = import_digest im)) (d_definitions d)"
proof -
  obtain ident d1 where s: "store_definition tenant im (import_digest im) ident d = (Inr pd, d1)"
    and same: "same_definitions d1 d'" using import_split [OF assms(1,2)] .
  note spec = store_definition_spec [OF s assms(3)]
  show ?thesis
    using spec same by (simp add: same_definitions_def definition_by_digest_def)
qed

text \<open>The second import of a definition whose first import brought a DMN source.\<close>

definition an_import :: import_request where
  "an_import = \<lparr>im_bpmn_identifier = ''leave'', im_user_id = 1, im_bpmn_xml = ''<xml/>'', im_dmn_xml = None,
     im_bpmn_name = Some ''Leave'', im_properties = Some [], im_version_control_type = None,
     im_version_control_identifier = None, im_digest = Some ''d1'', im_created_at = None, im_updated_at = Some 7\<rparr>"

definition imported_db :: db where
  "imported_db = one_instance_db\<lparr>d_definitions := [store_sources (an_import\<lparr>im_dmn_xml := Some ''<dmn/>''\<rparr>)
     (new_definition_row ''acme'' an_import ''d1'' ''p'' 4)]\<rparr>"

lemma an_import_fields:
  "im_user_id an_import = 1" "im_bpmn_identifier an_import = ''leave''" "im_bpmn_xml an_import = ''<xml/>''"
  "im_dmn_xml an_import = None" "im_properties an_import = Some []" "import_digest an_import = ''d1''"
  by (simp_all add: an_import_def import_digest_def)

lemma an_import_runs:
  "\<exists>pd d'. import_bpmn_process_definition permit_all_context a_runtime ''acme'' an_import imported_db = (Inr pd, d')"
proof -
  have "tenant_member ''acme'' 1 imported_db"
    using one_instance_member
    by (simp add: tenant_member_def get_user_def imported_db_def tenant_identifiers_for_def tenant_named_def)
  then obtain u where user: "ensure_user_belongs_to_tenant ''acme'' 1 imported_db = (Inr u, imported_db)"
    by (auto simp: tenant_member_def ensure_user_run)
  have auth: "require_command_authorization permit_all_context ''acme'' 1 PROCESS_DEFINITION_IMPORT_COMMAND
      (Some RESOURCE_PROCESS_DEFINITION) (Some (Id_str ''leave'')) None imported_db = (Inr (), imported_db)"
    by (simp add: require_command_authorization_def run_simps build_authorization_request_def str_or_def
        authorization_spec_for_command_key_def COMMAND_AUTHORIZATION_SPECS_def mk_spec_def command_key_defs
        permission_resource_type_def permission_resource_types_def resource_defs permit_all_context_def
        resolve_authorization_policy_def)
  have parsed: "validate_bpmn_source (rt_parser a_runtime) ''<xml/>'' None = Inr ()"
    "extract_process_identifier (rt_parser a_runtime) ''<xml/>'' = Inr ''p''"
    "en_lane_names (rt_engine a_runtime) ''<xml/>'' = Inr []" "validate_initiator_lanes [] [] = Inr ()"
    by (simp_all add: a_runtime_def one_process_parser_def list_engine_def validate_bpmn_source_def
        extract_process_identifier_def validate_initiator_lanes_def dict_get_def Let_def)
  obtain pd d1 where store: "store_definition ''acme'' an_import ''d1'' ''p'' imported_db = (Inr pd, d1)"
    by (simp add: store_definition_def definitions.upsert_run imported_db_def)
  have "\<exists>d2. import_version_snapshot ''acme'' ''leave'' ''<xml/>'' 7 d1 = (Inr (), d2)"
    by (simp add: import_version_snapshot_def comp_defs when_M_def)
  then obtain d2 where snapshot: "import_version_snapshot ''acme'' ''leave'' ''<xml/>'' 7 d1 = (Inr (), d2)"
    by blast
  have "\<exists>d3. sync_timer_start_scheduler_jobs_for_definition a_runtime pd 7 d2 = (Inr (), d3)"
    by (simp add: sync_timer_start_scheduler_jobs_for_definition_def comp_defs a_runtime_def list_engine_def
        collect_timer_start_payloads_for_definition_def split: option.split)
  then obtain d3 where timers: "sync_timer_start_scheduler_jobs_for_definition a_runtime pd 7 d2 = (Inr (), d3)"
    by blast
  have "resolve_timestamp (opt_or (im_updated_at an_import) (im_created_at an_import)) d = 7" for d
    by (simp add: an_import_def opt_or_def resolve_timestamp_def)
  then show ?thesis
    unfolding import_bpmn_process_definition_def an_import_fields effective_properties_def
    by (simp add: comp_defs user auth parsed store snapshot timers
        enroll_definition_lane_owners_def Let_def)
qed

theorem import_definition_roundtrip_witness:
  "\<exists>pd d'. import_bpmn_process_definition permit_all_context a_runtime ''acme'' an_import imported_db = (Inr pd, d') \<and>
     definition_by_digest ''acme'' ''d1'' d' = Some pd \<and> pd_id pd = 4 \<and>
     source_bpmn_xml pd = Some ''<xml/>'' \<and> source_dmn_xml pd = None"
proof -
  obtain pd d' where r:
    "import_bpmn_process_definition permit_all_context a_runtime ''acme'' an_import imported_db = (Inr pd, d')"
    using an_import_runs by blast
  have old: "definition_by_digest ''acme'' ''d1'' imported_db = Some (store_sources (an_import\<lparr>im_dmn_xml := Some ''<dmn/>''\<rparr>)
     (new_definition_row ''acme'' an_import ''d1'' ''p'' 4))"
    by (simp add: definition_by_digest_def imported_db_def)
  have "distinct (map pd_id (d_definitions imported_db))" by (simp add: imported_db_def)
  then show ?thesis
    using import_definition_roundtrip [OF r permit_all_read_only] r old
    by (simp add: an_import_fields effective_properties_def opt_or_def dict_get_def)
qed

end
