(* ===== verification/Task_Completion.thy ===== *)
theory Task_Completion
  imports Workflow_Runtime
begin

text \<open>
  \<^verbatim>\<open>complete_task\<close> of \<^verbatim>\<open>src/m8flow_core/services/tasks.py\<close>, which runs the workflow on, and
  \<^verbatim>\<open>src/m8flow_core/services/process_instance_reactivation.py\<close>: resuming a suspended instance and
  retrying an errored one.
\<close>

section \<open>Completing a task\<close>

definition persist_task_payload ::
  "string \<Rightarrow> int \<Rightarrow> (string \<times> pyval) list option \<Rightarrow> datetime \<Rightarrow> unit svc" where
  "persist_task_payload tenant pid payload ts =
     (case payload of
        None \<Rightarrow> ret ()
      | Some kvs \<Rightarrow>
          for_each (\<lambda>(k, v). bnd (upsert_process_instance_metadata tenant pid k (py_str_value v) ts (Some ts))
            (\<lambda>_. ret ())) kvs)"

definition complete_checks :: "policy_context \<Rightarrow> string \<Rightarrow> int \<Rightarrow> int \<Rightarrow> work_item_row svc" where
  "complete_checks ctx tenant wid uid =
     bnd (ensure_user_belongs_to_tenant tenant uid) (\<lambda>_.
     bnd (load_work_item tenant wid) (\<lambda>item.
     thn (task_authorization ctx tenant uid TASK_COMPLETE_COMMAND item)
       (if wi_completed item then raise (Err InvalidStateError (R_task AlreadyCompleted))
        else bnd (gets (user_is_assigned tenant (wi_id item) uid)) (\<lambda>assigned.
          if \<not> assigned then raise (Err AuthorizationError (R_task NotAssigned))
          else if wi_actual_owner_id item = None then raise (Err InvalidStateError (R_task NotClaimed))
          else if wi_actual_owner_id item \<noteq> Some uid then raise (Err AuthorizationError (R_task NotOwner))
          else ret item))))"

text \<open>The item, its task and its future task are marked; the result is the guid of the completed task.\<close>

definition mark_task_completed :: "int \<Rightarrow> datetime \<Rightarrow> work_item_row \<Rightarrow> guid option svc" where
  "mark_task_completed uid ts item =
     thn (upd_work_item (wi_id item) (complete_work_item uid ts))
     (bnd (gets (task_model item)) (\<lambda>t.
      thn (case t of None \<Rightarrow> ret ()
           | Some m \<Rightarrow> upd_task (tk_guid m) (\<lambda>r. r\<lparr>tk_state := TS_COMPLETED, tk_ended_at := Some ts\<rparr>))
        (let guid = (case t of None \<Rightarrow> wi_task_guid item | Some m \<Rightarrow> Some (tk_guid m))
         in thn (case guid of None \<Rightarrow> ret ()
                 | Some g \<Rightarrow> upd_future g (\<lambda>f. f\<lparr>ft_completed := True\<rparr>))
              (ret guid))))"

definition completion_event ::
  "string \<Rightarrow> work_item_row \<Rightarrow> int \<Rightarrow> datetime \<Rightarrow> event_type \<Rightarrow> unit svc" where
  "completion_event tenant item uid ts ev =
     bnd (record_process_instance_event tenant (wi_process_instance_id item) (Event ev) (Some ts)
            (wi_task_guid item) (Some uid)) (\<lambda>_. ret ())"

definition advance_after_completion ::
  "('p, 'w) runtime \<Rightarrow> string \<Rightarrow> work_item_row \<Rightarrow> int \<Rightarrow> guid option \<Rightarrow> datetime \<Rightarrow> unit svc" where
  "advance_after_completion rt tenant item uid guid ts =
     bnd (gets (\<lambda>d. find (\<lambda>p. pi_id p = wi_process_instance_id item) (d_instances d))) (\<lambda>pinst.
       case pinst of
         None \<Rightarrow> ret ()
       | Some p \<Rightarrow>
           thn (upd_instance (pi_id p) (\<lambda>r. r\<lparr>pi_task_updated_at := Some ts\<rparr>))
           (bnd (gets (workflow_state_json p)) (\<lambda>state.
             if state = None then ret ()
             else
               bnd (advance_process_instance_workflow rt tenant (wi_process_instance_id item)
                      (case guid of None \<Rightarrow> [] | Some g \<Rightarrow> g) (Some ts)) (\<lambda>q.
               thn (completion_event tenant item uid ts task_completed)
                 (when_M (pi_status q = PIS_complete)
                   (completion_event tenant item uid ts process_instance_completed))))))"

definition complete_task ::
  "policy_context \<Rightarrow> ('p, 'w) runtime \<Rightarrow> string \<Rightarrow> int \<Rightarrow> int \<Rightarrow> datetime option \<Rightarrow>
   (string \<times> pyval) list option \<Rightarrow> work_item_row svc" where
  "complete_task ctx rt tenant wid uid completed_at payload =
     bnd (complete_checks ctx tenant wid uid) (\<lambda>item.
     bnd (gets (resolve_timestamp completed_at)) (\<lambda>ts.
     thn (persist_task_payload tenant (wi_process_instance_id item) payload ts)
     (bnd (mark_task_completed uid ts item) (\<lambda>guid.
      thn (advance_after_completion rt tenant item uid guid ts)
        (load_work_item tenant wid)))))"

section \<open>Resuming and retrying\<close>

definition resume_process_instance ::
  "policy_context \<Rightarrow> ('p, 'w) runtime \<Rightarrow> string \<Rightarrow> int \<Rightarrow> int \<Rightarrow> datetime option \<Rightarrow> process_instance_row svc" where
  "resume_process_instance ctx rt tenant pid uid resumed_at =
     bnd (ensure_user_belongs_to_tenant tenant uid) (\<lambda>_.
     bnd (load_process_instance tenant pid) (\<lambda>p.
     thn (instance_authorization ctx tenant uid PROCESS_RESUME_COMMAND (pi_id p))
       (if pi_status p = PIS_running then ret p
        else if has_terminal_status (pi_status p)
        then raise (Err InvalidStateError (R_lifecycle CannotResumeTerminal))
        else if pi_status p \<noteq> PIS_suspended
        then raise (Err InvalidStateError (R_lifecycle OnlySuspendedResumed))
        else
          bnd (gets (resolve_timestamp resumed_at)) (\<lambda>ts.
          thn (upd_instance (pi_id p) (\<lambda>r. r\<lparr>pi_status := PIS_running, pi_updated_at := Some ts\<rparr>))
          (thn (sync_open_work_item_potential_owners rt tenant (pi_id p))
          (thn (record_process_instance_event tenant pid (Event process_instance_resumed) (Some ts) None (Some uid))
             (load_process_instance tenant pid)))))))"

definition retry_process_instance ::
  "policy_context \<Rightarrow> ('p, 'w) runtime \<Rightarrow> string \<Rightarrow> int \<Rightarrow> int \<Rightarrow> datetime option \<Rightarrow> process_instance_row svc" where
  "retry_process_instance ctx rt tenant pid uid retried_at =
     bnd (ensure_user_belongs_to_tenant tenant uid) (\<lambda>_.
     bnd (load_process_instance tenant pid) (\<lambda>p.
     thn (instance_authorization ctx tenant uid PROCESS_RETRY_COMMAND (pi_id p))
       (if pi_status p \<noteq> PIS_error
        then raise (Err InvalidStateError (R_lifecycle OnlyErroredRetried))
        else
          bnd (gets (resolve_timestamp retried_at)) (\<lambda>ts.
          thn (upd_instance (pi_id p) (\<lambda>r. r\<lparr>pi_status := PIS_running, pi_ended_at := None,
                 pi_updated_at := Some ts\<rparr>))
          (thn (reopen_process_instance_runtime_state (pi_id p) ts)
          (thn (retry_errored_service_task_workflow_if_needed rt tenant (pi_id p) (Some ts))
          (thn (delete_scheduled_process_retry_job tenant (pi_id p))
          (thn (record_process_instance_event tenant pid (Event process_instance_retried) (Some ts) None (Some uid))
          (thn (retry_errored_service_task_workflow_if_needed rt tenant (pi_id p) (Some ts))
          (thn (sync_open_work_item_potential_owners rt tenant (pi_id p))
             (load_process_instance tenant pid)))))))))))"

section \<open>What completing a task does\<close>

lemma complete_checks_run:
  assumes "tenant_member tenant uid d" and "work_item_for tenant wid d = Some w"
    and "task_authorization ctx tenant uid TASK_COMPLETE_COMMAND w d = (Inr (), d)"
  shows "complete_checks ctx tenant wid uid d =
    (if wi_completed w then (Inl (Err InvalidStateError (R_task AlreadyCompleted)), d)
     else if \<not> user_is_assigned tenant wid uid d then (Inl (Err AuthorizationError (R_task NotAssigned)), d)
     else if wi_actual_owner_id w = None then (Inl (Err InvalidStateError (R_task NotClaimed)), d)
     else if wi_actual_owner_id w \<noteq> Some uid then (Inl (Err AuthorizationError (R_task NotOwner)), d)
     else (Inr w, d))"
  using work_item_for_keys [OF assms(2)]
  by (simp add: complete_checks_def ensure_member_run [OF assms(1)] run_simps assms(2,3) thn_Inr)

text \<open>The state in which the item \<open>w\<close>, its task and its future task are marked and its instance is touched.\<close>

definition completed_state :: "int \<Rightarrow> datetime \<Rightarrow> work_item_row \<Rightarrow> db \<Rightarrow> db" where
  "completed_state uid ts w d = d\<lparr>
     d_work_items := update_where (\<lambda>r. wi_id r = wi_id w) (complete_work_item uid ts) (d_work_items d),
     d_tasks := update_where (\<lambda>t. Some (tk_guid t) = map_option tk_guid (task_model w d))
       (\<lambda>t. t\<lparr>tk_state := TS_COMPLETED, tk_ended_at := Some ts\<rparr>) (d_tasks d),
     d_future := update_where (\<lambda>f. Some (ft_guid f) = wi_task_guid w) (\<lambda>f. f\<lparr>ft_completed := True\<rparr>) (d_future d),
     d_instances := update_where (\<lambda>p. pi_id p = wi_process_instance_id w)
       (\<lambda>p. p\<lparr>pi_task_updated_at := Some ts\<rparr>) (d_instances d)\<rparr>"

lemma update_where_never: "(\<And>x. \<not> p x) \<Longrightarrow> update_where p f xs = xs"
  by (simp add: update_where_def)

lemma task_model_guid: "task_model w d = Some m \<Longrightarrow> wi_task_guid w = Some (tk_guid m)"
  by (auto simp: task_model_def dest: find_SomeD split: option.splits)

lemma update_where_some: "update_where (\<lambda>x. Some (k x) = Some g) f xs = update_where (\<lambda>x. k x = g) f xs"
  by simp

lemma mark_run:
  "mark_task_completed uid ts w d = (Inr (wi_task_guid w), (completed_state uid ts w d)\<lparr>d_instances := d_instances d\<rparr>)"
proof -
  have later: "task_model w (d\<lparr>d_work_items := rows\<rparr>) = task_model w d" for rows
    by (simp add: task_model_def split: option.split)
  show ?thesis
  proof (cases "task_model w d")
    case None
    then show ?thesis
      by (cases "wi_task_guid w")
        (simp_all add: mark_task_completed_def completed_state_def upd_defs comp_defs later update_where_never)
  next
    case (Some m)
    then show ?thesis
      using task_model_guid [OF Some]
      by (simp add: mark_task_completed_def completed_state_def upd_defs comp_defs later)
  qed
qed

lemma work_item_after:
  assumes "work_item_for tenant wid d = Some w"
  shows "work_item_for tenant wid (completed_state uid ts w d) = Some (complete_work_item uid ts w)"
proof -
  have id: "wi_id w = wid" using work_item_for_keys [OF assms] by simp
  have "find (\<lambda>r. wi_tenant r = tenant \<and> wi_id r = wid) (update_where (\<lambda>r. wi_id r = wid) f rows) =
      map_option f (find (\<lambda>r. wi_tenant r = tenant \<and> wi_id r = wid) rows)"
    if "\<And>r. wi_tenant (f r) = wi_tenant r" "\<And>r. wi_id (f r) = wi_id r" for f rows
    using that by (induction rows) auto
  from this [of "complete_work_item uid ts" "d_work_items d"] show ?thesis
    using assms by (simp add: work_item_for_def completed_state_def id)
qed

lemma workflow_state_cong:
  assumes "d_processes d' = d_processes d" and "d_json d' = d_json d"
  shows "workflow_state_json p d' = workflow_state_json p d"
  by (simp add: workflow_state_json_def get_for_tenant_def assms split: option.split)

text \<open>C6: Completing a task without a payload, for a permitted member and an existing item of an instance that
  has no stored workflow. A completed item, an item the user is not assigned to, an item nobody has
  claimed and an item of another owner are refused, in this order, with the session unchanged.
  Otherwise the item is completed by its owner, its task and its future task are marked, the
  instance is touched, and nothing else changes.\<close>

theorem complete_task_spec:
  assumes "tenant_member tenant uid d" and "work_item_for tenant wid d = Some w"
    and "task_authorization ctx tenant uid TASK_COMPLETE_COMMAND w d = (Inr (), d)"
    and "find (\<lambda>p. pi_id p = wi_process_instance_id w) (d_instances d) = Some p" and "workflow_state_json p d = None"
  shows "complete_task ctx rt tenant wid uid completed_at None d =
    (if wi_completed w then (Inl (Err InvalidStateError (R_task AlreadyCompleted)), d)
     else if \<not> user_is_assigned tenant wid uid d then (Inl (Err AuthorizationError (R_task NotAssigned)), d)
     else if wi_actual_owner_id w = None then (Inl (Err InvalidStateError (R_task NotClaimed)), d)
     else if wi_actual_owner_id w \<noteq> Some uid then (Inl (Err AuthorizationError (R_task NotOwner)), d)
     else (Inr (complete_work_item uid (resolve_timestamp completed_at d) w),
           completed_state uid (resolve_timestamp completed_at d) w d))"
proof -
  let ?ts = "resolve_timestamp completed_at d"
  let ?d1 = "(completed_state uid ?ts w d)\<lparr>d_instances := d_instances d\<rparr>"
  have tail: "advance_after_completion rt tenant w uid g ?ts ?d1 = (Inr (), completed_state uid ?ts w d)" for g
  proof -
    let ?d2 = "?d1\<lparr>d_instances := update_where (\<lambda>r. pi_id r = pi_id p) (\<lambda>r. r\<lparr>pi_task_updated_at := Some ?ts\<rparr>)
        (d_instances ?d1)\<rparr>"
    have p: "pi_id p = wi_process_instance_id w" using find_SomeD [OF assms(4)] by simp
    then have "?d2 = completed_state uid ?ts w d" by (simp add: completed_state_def)
    moreover have "workflow_state_json p ?d2 = None"
      using assms(5) workflow_state_cong [of ?d2 d p] by (simp add: completed_state_def)
    ultimately show ?thesis
      using assms(4) by (simp add: advance_after_completion_def comp_defs upd_instance_def)
  qed
  show ?thesis
    using complete_checks_run [OF assms(1-3)] work_item_after [OF assms(2), of uid ?ts]
    by (simp add: complete_task_def persist_task_payload_def comp_defs mark_run tail load_work_item_def)
qed

lemma complete_key_known: "\<exists>sp. authorization_spec_for_command_key TASK_COMPLETE_COMMAND = Inr sp"
  by (simp add: authorization_spec_for_command_key_def COMMAND_AUTHORIZATION_SPECS_def mk_spec_def
      command_key_defs)

lemma permit_all_complete:
  "task_authorization permit_all_context tenant uid TASK_COMPLETE_COMMAND w d = (Inr (), d)"
  using complete_key_known
  by (auto simp: task_authorization_def require_command_authorization_def run_simps
      build_authorization_request_def str_or_def permission_resource_type_def
      permission_resource_types_def resource_defs permit_all_context_def resolve_authorization_policy_def)

definition claimed_item_db :: db where
  "claimed_item_db = open_item_db\<lparr>d_work_items := [claim_work_item 1 0 open_item]\<rparr>"

theorem complete_task_spec_witness:
  "complete_task permit_all_context a_runtime ''acme'' 5 1 (Some 9) None claimed_item_db =
     (Inr (complete_work_item 1 9 (claim_work_item 1 0 open_item)),
      completed_state 1 9 (claim_work_item 1 0 open_item) claimed_item_db)"
proof -
  let ?w = "claim_work_item 1 0 open_item"
  have "tenant_member ''acme'' 1 claimed_item_db"
    using open_item_facts(1) tenant_member_cong [of claimed_item_db open_item_db] by (simp add: claimed_item_db_def)
  moreover have "work_item_for ''acme'' 5 claimed_item_db = Some ?w"
    by (simp add: work_item_for_def claimed_item_db_def claim_work_item_def open_item_def)
  moreover have "find (\<lambda>p. pi_id p = wi_process_instance_id ?w) (d_instances claimed_item_db) = Some one_instance"
    by (simp add: claim_work_item_def open_item_def claimed_item_db_def open_item_db_def one_instance_db_def one_instance_def)
  moreover have "workflow_state_json one_instance claimed_item_db = None"
    by (simp add: workflow_state_json_def one_instance_def)
  moreover have "user_is_assigned ''acme'' 5 1 claimed_item_db"
    using open_item_facts(4) by (simp add: user_is_assigned_def claimed_item_db_def)
  moreover have "\<not> wi_completed ?w" "wi_actual_owner_id ?w = Some 1"
    by (simp_all add: claim_work_item_def open_item_def)
  ultimately show ?thesis
    using complete_task_spec [of "''acme''" 1 claimed_item_db 5 ?w permit_all_context one_instance a_runtime "Some 9"]
      permit_all_complete by (simp add: resolve_timestamp_def)
qed

end
