(* ===== verification/Dispatcher.thy ===== *)
theory Dispatcher
  imports Process_Definitions Task_Completion Commands
begin

text \<open>
  \<^verbatim>\<open>src/m8flow_core/application/dispatcher.py\<close>: a command or a query runs the service it names, with the
  fields of the command as arguments. The session scope adds nothing to the state: a session made
  for a connection is closed at the end, and what was flushed stays in the connection's transaction.
\<close>

datatype outcome =
    O_item work_item_row
  | O_items "work_item_row list"
  | O_event event_row
  | O_events "event_row list"
  | O_instance process_instance_row
  | O_instances "process_instance_row list"
  | O_definition process_definition_row
  | O_metadata metadata_row
  | O_metadata_list "metadata_row list"
  | O_job scheduler_job_row

definition outcome_of :: "('a \<Rightarrow> outcome) \<Rightarrow> 'a svc \<Rightarrow> outcome svc" where
  "outcome_of f m = bnd m (\<lambda>x. ret (f x))"

definition string_values :: "(string \<times> string) list option \<Rightarrow> (string \<times> pyval) list option" where
  "string_values kvs = map_option (map (\<lambda>(k, v). (k, PStr v))) kvs"

fun execute_command :: "policy_context \<Rightarrow> ('p, 'w) runtime \<Rightarrow> command \<Rightarrow> outcome svc" where
  "execute_command ctx rt (ClaimTaskCommand tenant wid uid) =
     outcome_of O_item (claim_task ctx tenant wid uid)"
| "execute_command ctx rt (CompleteTaskCommand tenant wid uid completed_at payload) =
     outcome_of O_item (complete_task ctx rt tenant wid uid completed_at (string_values payload))"
| "execute_command ctx rt (RecordProcessInstanceEventCommand tenant pid ev task_guid uid occurred_at) =
     outcome_of O_event (record_process_instance_event tenant pid ev occurred_at task_guid uid)"
| "execute_command ctx rt (CreateProcessInstanceCommand tenant model display uid pdid bpid summary version
       created_at updated_at) =
     outcome_of O_instance
       (create_process_instance tenant model display uid pdid bpid summary version created_at updated_at)"
| "execute_command ctx rt (ImportBpmnProcessDefinitionCommand tenant ident uid xml dmn name props vct vci digest
       created_at updated_at) =
     outcome_of O_definition (import_bpmn_process_definition ctx rt tenant
       \<lparr>im_bpmn_identifier = ident, im_user_id = uid, im_bpmn_xml = xml, im_dmn_xml = dmn,
        im_bpmn_name = name, im_properties = props, im_version_control_type = vct,
        im_version_control_identifier = vci, im_digest = digest, im_created_at = created_at,
        im_updated_at = updated_at\<rparr>)"
| "execute_command ctx rt (InitializeProcessInstanceFromDefinitionCommand tenant pdid uid metadata summary version
       started_at process_id resolver) =
     outcome_of O_instance (initialize_process_instance_from_definition ctx rt tenant pdid
       \<lparr>sr_initiator = uid, sr_metadata = string_values metadata, sr_summary = summary, sr_version = version,
        sr_started_at = started_at, sr_process_id = process_id\<rparr> resolver)"
| "execute_command ctx rt (InitializeProcessInstanceWorkflowCommand tenant pid xml process_id started_at dmn resolver) =
     outcome_of O_instance
       (initialize_process_instance_workflow rt tenant pid xml dmn process_id started_at resolver)"
| "execute_command ctx rt (UpsertProcessInstanceMetadataCommand tenant pid key v updated_at created_at) =
     outcome_of O_metadata (upsert_process_instance_metadata tenant pid key v updated_at created_at)"
| "execute_command ctx rt (SuspendProcessInstanceCommand tenant pid uid ts) =
     outcome_of O_instance (suspend_process_instance ctx tenant pid uid ts)"
| "execute_command ctx rt (ErrorProcessInstanceCommand tenant pid uid ts) =
     outcome_of O_instance (error_process_instance tenant pid uid ts)"
| "execute_command ctx rt (ResumeProcessInstanceCommand tenant pid uid ts) =
     outcome_of O_instance (resume_process_instance ctx rt tenant pid uid ts)"
| "execute_command ctx rt (RetryProcessInstanceCommand tenant pid uid ts) =
     outcome_of O_instance (retry_process_instance ctx rt tenant pid uid ts)"
| "execute_command ctx rt (ScheduleProcessInstanceRetryCommand tenant pid uid retry_at ts) =
     outcome_of O_job (schedule_process_instance_retry ctx tenant pid uid retry_at ts)"
| "execute_command ctx rt (TerminateProcessInstanceCommand tenant pid uid ts) =
     outcome_of O_instance (terminate_process_instance ctx tenant pid uid ts)"

fun execute_query :: "query \<Rightarrow> outcome svc" where
  "execute_query (GetPendingTasksQuery tenant uid) = outcome_of O_items (get_pending_tasks tenant uid)"
| "execute_query (GetProcessInstanceEventsQuery tenant pid) =
     outcome_of O_events (get_process_instance_events tenant pid)"
| "execute_query (GetProcessInstanceMetadataQuery tenant pid) =
     outcome_of O_metadata_list (get_process_instance_metadata tenant pid)"
| "execute_query (GetProcessInstanceQuery tenant pid) = outcome_of O_instance (get_process_instance tenant pid)"
| "execute_query (ListErrorProcessInstancesQuery tenant) =
     outcome_of O_instances (list_error_process_instances tenant)"
| "execute_query (ListProcessInstancesQuery tenant status) =
     outcome_of O_instances (list_process_instances tenant status)"
| "execute_query (ListSuspendedProcessInstancesQuery tenant) =
     outcome_of O_instances (list_suspended_process_instances tenant)"
| "execute_query (ListTerminatedProcessInstancesQuery tenant) =
     outcome_of O_instances (list_terminated_process_instances tenant)"

section \<open>Every checked command is checked before it writes\<close>

text \<open>
  A computation that is refused: it raises one of the two errors the checks raise and leaves the
  session as it is. The rules follow the shape of the services: the member, the row, the permission.
\<close>

named_theorems refusal

definition refused :: "db \<Rightarrow> 'a svc \<Rightarrow> bool" where
  "refused d m \<longleftrightarrow> (\<exists>e. m d = (Inl e, d) \<and> err_class e \<in> {AuthorizationError, NotFoundError})"

lemma refused_bnd: "refused d m \<Longrightarrow> refused d (bnd m f)"
  unfolding refused_def using bnd_Inl by metis

lemma refused_thn: "refused d m \<Longrightarrow> refused d (thn m n)"
  unfolding refused_def using thn_Inl by metis

lemma refused_gets [refusal]: "refused d (f (g d)) \<Longrightarrow> refused d (bnd (gets g) f)"
  by (simp add: refused_def bnd_gets_run)

lemma refused_outcome [refusal]: "refused d m \<Longrightarrow> refused d (outcome_of g m)"
  unfolding outcome_of_def by (rule refused_bnd)

lemma refused_user [refusal]:
  assumes "\<And>w. tenant_member tenant u d \<Longrightarrow> refused d (f w)"
  shows "refused d (bnd (ensure_user_belongs_to_tenant tenant u) f)"
proof (cases "tenant_member tenant u d")
  case True
  then show ?thesis using assms [OF True] by (simp add: refused_def ensure_member_run)
next
  case False
  then show ?thesis
    by (auto simp: refused_def tenant_member_def ensure_user_run bnd_def split: option.splits)
qed

lemma refused_item [refusal]:
  "(\<And>w. refused d (f w)) \<Longrightarrow> refused d (bnd (load_work_item tenant wid) f)"
  by (auto simp: refused_def bnd_load_item_run split: option.splits)

lemma refused_instance [refusal]:
  "(\<And>p. refused d (f p)) \<Longrightarrow> refused d (bnd (load_process_instance tenant pid) f)"
  by (auto simp: refused_def bnd_load_run split: option.splits)

lemma refused_definition [refusal]:
  "(\<And>pd. refused d (f pd)) \<Longrightarrow> refused d (bnd (load_process_definition tenant pdid) f)"
  by (auto simp: refused_def load_process_definition_def comp_defs split: option.splits)

text \<open>
  When the database policy lets an actor run a command: the actor belongs to the tenant, and for the
  command's key, permission and resource type some resource has a permit grant that applies and no
  deny grant that does.
\<close>

definition may_run :: "string \<Rightarrow> int \<Rightarrow> command_authorization_spec \<Rightarrow> db \<Rightarrow> bool" where
  "may_run tenant u sp d \<longleftrightarrow> tenant_member tenant u d \<and>
     (\<exists>req. req_tenant_id req = tenant \<and> req_actor_user_id req = u \<and>
        req_command_key req = spec_command_key sp \<and> req_permission req = spec_permission sp \<and>
        req_resource_type req = spec_resource_type sp \<and>
        grant_applies PERMIT req d \<and> \<not> grant_applies DENY req d)"

lemma spec_table_coherent:
  "list_all (\<lambda>(_, sp). authorization_spec_for_command_key (spec_command_key sp) = Inr sp \<and>
     spec_resource_type sp \<in> set permission_resource_types \<and> spec_resource_type sp \<noteq> []) COMMAND_AUTHORIZATION_SPECS"
  by code_simp

lemma spec_in_table:
  assumes "authorization_spec_for_command c = Inr sp"
  shows "(command_type c, sp) \<in> set COMMAND_AUTHORIZATION_SPECS"
  using assms by (auto simp: authorization_spec_for_command_def split: option.splits dest!: map_of_SomeD)

lemma spec_of_command:
  assumes "authorization_spec_for_command c = Inr sp"
  shows "authorization_spec_for_command_key (spec_command_key sp) = Inr sp"
    "spec_resource_type sp \<in> set permission_resource_types" "spec_resource_type sp \<noteq> []"
proof -
  from spec_in_table [OF assms] have "authorization_spec_for_command_key (spec_command_key sp) = Inr sp \<and>
      spec_resource_type sp \<in> set permission_resource_types \<and> spec_resource_type sp \<noteq> []"
    using spec_table_coherent unfolding list_all_iff by blast
  then show "authorization_spec_for_command_key (spec_command_key sp) = Inr sp"
    "spec_resource_type sp \<in> set permission_resource_types" "spec_resource_type sp \<noteq> []" by blast+
qed

lemma refused_check:
  assumes "authorization_spec_for_command c = Inr sp" and "\<not> may_run tenant u sp d"
    and "tenant_member tenant u d"
  shows "refused d (require_command_authorization initial_policy_context tenant u (spec_command_key sp)
    (Some (spec_resource_type sp)) rid md)"
proof -
  note sp = spec_of_command [OF assms(1)]
  obtain req where req: "build_authorization_request tenant u (spec_command_key sp) None
      (Some (spec_resource_type sp)) rid md = Inr req" "req_resource_type req = spec_resource_type sp"
    using sp by (simp add: build_authorization_request_def permission_resource_type_def str_or_def)
  note fields = build_request_fields [OF req(1) sp(1)]
  have "\<not> (grant_applies PERMIT req d \<and> \<not> grant_applies DENY req d)"
    using assms(2,3) fields req(2) unfolding may_run_def by blast
  moreover obtain w where "get_user (req_actor_user_id req) d = Some w"
    using assms(3) fields by (auto simp: tenant_member_def)
  ultimately show ?thesis
    unfolding refused_def using require_authorization_run [OF req(1)] by simp
qed

text \<open>Each service that checks a command is refused when its check is, whatever the resource.\<close>

lemma services_refused:
  assumes "\<And>rid md. tenant_member tenant u d \<Longrightarrow>
    refused d (require_command_authorization ctx tenant u key (Some resource) rid md)"
  shows "key = TASK_CLAIM_COMMAND \<Longrightarrow> resource = RESOURCE_TASK \<Longrightarrow> refused d (claim_task ctx tenant wid u)"
    and "key = TASK_COMPLETE_COMMAND \<Longrightarrow> resource = RESOURCE_TASK \<Longrightarrow>
      refused d (complete_task ctx rt tenant wid u ts payload)"
    and "key = PROCESS_DEFINITION_IMPORT_COMMAND \<Longrightarrow> resource = RESOURCE_PROCESS_DEFINITION \<Longrightarrow> im_user_id im = u \<Longrightarrow>
      refused d (import_bpmn_process_definition ctx rt tenant im)"
    and "key = PROCESS_START_COMMAND \<Longrightarrow> resource = RESOURCE_PROCESS_MODEL \<Longrightarrow> sr_initiator rq = u \<Longrightarrow>
      refused d (initialize_process_instance_from_definition ctx rt tenant pdid rq resolver)"
    and "key = PROCESS_SUSPEND_COMMAND \<Longrightarrow> resource = RESOURCE_PROCESS_INSTANCE \<Longrightarrow>
      refused d (suspend_process_instance ctx tenant pid u ts)"
    and "key = PROCESS_RESUME_COMMAND \<Longrightarrow> resource = RESOURCE_PROCESS_INSTANCE \<Longrightarrow>
      refused d (resume_process_instance ctx rt tenant pid u ts)"
    and "key = PROCESS_RETRY_COMMAND \<Longrightarrow> resource = RESOURCE_PROCESS_INSTANCE \<Longrightarrow>
      refused d (retry_process_instance ctx rt tenant pid u ts)"
    and "key = PROCESS_RETRY_COMMAND \<Longrightarrow> resource = RESOURCE_PROCESS_INSTANCE \<Longrightarrow>
      refused d (schedule_process_instance_retry ctx tenant pid u retry_at ts)"
    and "key = PROCESS_TERMINATE_COMMAND \<Longrightarrow> resource = RESOURCE_PROCESS_INSTANCE \<Longrightarrow>
      refused d (terminate_process_instance ctx tenant pid u ts)"
  unfolding claim_task_def claim_checks_def complete_task_def complete_checks_def import_bpmn_process_definition_def
    initialize_process_instance_from_definition_def suspend_process_instance_def resume_process_instance_def
    retry_process_instance_def schedule_process_instance_retry_def terminate_process_instance_def
    instance_authorization_def task_authorization_def
  using assms
  by (blast intro: refusal refused_thn refused_bnd refused_gets)+

text \<open>What the table says of the commands that the services check, and that no basic role grants any other.\<close>

lemma checked_spec:
  assumes "authorization_spec_for_command c = Inr sp" and "actor_user_id_from_command c = Inr (Some u)"
  shows "c = ClaimTaskCommand tenant wid v \<Longrightarrow>
      spec_command_key sp = TASK_CLAIM_COMMAND \<and> spec_resource_type sp = RESOURCE_TASK \<and> v = u"
    and "c = CompleteTaskCommand tenant wid v ts payload \<Longrightarrow>
      spec_command_key sp = TASK_COMPLETE_COMMAND \<and> spec_resource_type sp = RESOURCE_TASK \<and> v = u"
    and "c = ImportBpmnProcessDefinitionCommand tenant ident v xml dmn name props vct vci digest created updated \<Longrightarrow>
      spec_command_key sp = PROCESS_DEFINITION_IMPORT_COMMAND \<and> spec_resource_type sp = RESOURCE_PROCESS_DEFINITION \<and> v = u"
    and "c = InitializeProcessInstanceFromDefinitionCommand tenant pdid v md summary version ts process_id resolver \<Longrightarrow>
      spec_command_key sp = PROCESS_START_COMMAND \<and> spec_resource_type sp = RESOURCE_PROCESS_MODEL \<and> v = u"
    and "c = SuspendProcessInstanceCommand tenant pid v ts \<Longrightarrow>
      spec_command_key sp = PROCESS_SUSPEND_COMMAND \<and> spec_resource_type sp = RESOURCE_PROCESS_INSTANCE \<and> v = u"
    and "c = ResumeProcessInstanceCommand tenant pid v ts \<Longrightarrow>
      spec_command_key sp = PROCESS_RESUME_COMMAND \<and> spec_resource_type sp = RESOURCE_PROCESS_INSTANCE \<and> v = u"
    and "c = RetryProcessInstanceCommand tenant pid v ts \<Longrightarrow>
      spec_command_key sp = PROCESS_RETRY_COMMAND \<and> spec_resource_type sp = RESOURCE_PROCESS_INSTANCE \<and> v = u"
    and "c = ScheduleProcessInstanceRetryCommand tenant pid v retry_at ts \<Longrightarrow>
      spec_command_key sp = PROCESS_RETRY_COMMAND \<and> spec_resource_type sp = RESOURCE_PROCESS_INSTANCE \<and> v = u"
    and "c = TerminateProcessInstanceCommand tenant pid v ts \<Longrightarrow>
      spec_command_key sp = PROCESS_TERMINATE_COMMAND \<and> spec_resource_type sp = RESOURCE_PROCESS_INSTANCE \<and> v = u"
  using assms
  by (auto simp: authorization_spec_for_command_def actor_user_id_from_command_def COMMAND_AUTHORIZATION_SPECS_def
      mk_spec_def)

lemma granted_commands:
  assumes "authorization_spec_for_command c = Inr sp"
    and "spec_command_key sp \<in> set (concat (map snd V1_BASIC_ROLE_COMMAND_KEYS))"
  shows "c \<noteq> CreateProcessInstanceCommand a1 a2 a3 a4 a5 a6 a7 a8 a9 a10"
    and "c \<noteq> InitializeProcessInstanceWorkflowCommand b1 b2 b3 b4 b5 b6 b7"
    and "c \<noteq> UpsertProcessInstanceMetadataCommand f1 f2 f3 f4 f5 f6"
    and "c \<noteq> RecordProcessInstanceEventCommand g1 g2 g3 g4 g5 g6"
    and "c \<noteq> ErrorProcessInstanceCommand h1 h2 h3 h4"
proof -
  have "list_all (\<lambda>(n, sp). spec_command_key sp \<in> set (concat (map snd V1_BASIC_ROLE_COMMAND_KEYS)) \<longrightarrow>
      n \<notin> {''CreateProcessInstanceCommand'', ''InitializeProcessInstanceWorkflowCommand'',
        ''UpsertProcessInstanceMetadataCommand'', ''RecordProcessInstanceEventCommand'',
        ''ErrorProcessInstanceCommand''}) COMMAND_AUTHORIZATION_SPECS" by code_simp
  then have "command_type c \<notin> {''CreateProcessInstanceCommand'', ''InitializeProcessInstanceWorkflowCommand'',
        ''UpsertProcessInstanceMetadataCommand'', ''RecordProcessInstanceEventCommand'',
        ''ErrorProcessInstanceCommand''}"
    using spec_in_table [OF assms(1)] assms(2) unfolding list_all_iff by blast
  then show "c \<noteq> CreateProcessInstanceCommand a1 a2 a3 a4 a5 a6 a7 a8 a9 a10"
    "c \<noteq> InitializeProcessInstanceWorkflowCommand b1 b2 b3 b4 b5 b6 b7"
    "c \<noteq> UpsertProcessInstanceMetadataCommand f1 f2 f3 f4 f5 f6"
    "c \<noteq> RecordProcessInstanceEventCommand g1 g2 g3 g4 g5 g6"
    "c \<noteq> ErrorProcessInstanceCommand h1 h2 h3 h4"
    by (auto simp del: insert_iff dest: arg_cong [of _ _ command_type])
qed

lemma checked_commands_refused:
  assumes "authorization_spec_for_command c = Inr sp" and "actor_user_id_from_command c = Inr (Some u)"
    and "spec_command_key sp \<in> set (concat (map snd V1_BASIC_ROLE_COMMAND_KEYS))"
    and "\<not> may_run (command_tenant c) u sp d"
  shows "refused d (execute_command initial_policy_context rt c)"
proof -
  note services = services_refused [OF refused_check [OF assms(1,4)]]
  note spec = checked_spec [OF assms(1,2)]
  note rest = granted_commands [OF assms(1,3)]
  show ?thesis
  proof (cases c)
    case ClaimTaskCommand
    then show ?thesis using spec(1) [OF ClaimTaskCommand] services(1) by (simp add: refused_outcome)
  next
    case CompleteTaskCommand
    then show ?thesis using spec(2) [OF CompleteTaskCommand] services(2) [where rt = rt] by (simp add: refused_outcome)
  next
    case ImportBpmnProcessDefinitionCommand
    then show ?thesis using spec(3) [OF ImportBpmnProcessDefinitionCommand] services(3) [where rt = rt] by (simp add: refused_outcome)
  next
    case InitializeProcessInstanceFromDefinitionCommand
    then show ?thesis using spec(4) [OF InitializeProcessInstanceFromDefinitionCommand] services(4) [where rt = rt] by (simp add: refused_outcome)
  next
    case SuspendProcessInstanceCommand
    then show ?thesis using spec(5) [OF SuspendProcessInstanceCommand] services(5) by (simp add: refused_outcome)
  next
    case ResumeProcessInstanceCommand
    then show ?thesis using spec(6) [OF ResumeProcessInstanceCommand] services(6) [where rt = rt] by (simp add: refused_outcome)
  next
    case RetryProcessInstanceCommand
    then show ?thesis using spec(7) [OF RetryProcessInstanceCommand] services(7) [where rt = rt] by (simp add: refused_outcome)
  next
    case ScheduleProcessInstanceRetryCommand
    then show ?thesis using spec(8) [OF ScheduleProcessInstanceRetryCommand] services(8) by (simp add: refused_outcome)
  next
    case TerminateProcessInstanceCommand
    then show ?thesis using spec(9) [OF TerminateProcessInstanceCommand] services(9) by (simp add: refused_outcome)
  qed (use rest in simp_all)
qed

text \<open>C33: Complete mediation under the database policy. Take a command whose key is in some basic role: claiming
  or completing a task, importing or starting a definition, suspending, resuming, retrying,
  scheduling the retry of or terminating an instance. Unless its actor (the user field its
  specification names) belongs to its tenant and has, for the key, permission and resource type of its
  specification, a permit grant that applies on some resource and no deny grant that applies there,
  executing it raises an authorization or a not-found error, and nothing at all is written. So
  whatever such a command writes, an authorized member asked for.\<close>

theorem command_mediated:
  assumes "authorization_spec_for_command c = Inr sp" and "actor_user_id_from_command c = Inr (Some u)"
    and "spec_command_key sp \<in> set (concat (map snd V1_BASIC_ROLE_COMMAND_KEYS))"
    and "\<not> (tenant_member (command_tenant c) u d \<and>
       (\<exists>req. req_tenant_id req = command_tenant c \<and> req_actor_user_id req = u \<and>
          req_command_key req = spec_command_key sp \<and> req_permission req = spec_permission sp \<and>
          req_resource_type req = spec_resource_type sp \<and>
          grant_applies PERMIT req d \<and> \<not> grant_applies DENY req d))"
  shows "\<exists>e. execute_command initial_policy_context rt c d = (Inl e, d) \<and>
    err_class e \<in> {AuthorizationError, NotFoundError}"
  using checked_commands_refused [OF assms(1-3)] assms(4) unfolding refused_def may_run_def by blast

text \<open>A member without any grant, on an instance that exists.\<close>

theorem command_mediated_witness:
  "\<exists>e. execute_command initial_policy_context a_runtime (TerminateProcessInstanceCommand ''acme'' 1 1 None) one_instance_db =
       (Inl e, one_instance_db) \<and> err_class e \<in> {AuthorizationError, NotFoundError}"
proof (rule command_mediated)
  show "authorization_spec_for_command (TerminateProcessInstanceCommand ''acme'' 1 1 None) =
      Inr (mk_spec PROCESS_TERMINATE_COMMAND ACTION_EXECUTE RESOURCE_PROCESS_INSTANCE (Some ''user_id''))"
    by (simp add: authorization_spec_for_command_def COMMAND_AUTHORIZATION_SPECS_def)
  then show "actor_user_id_from_command (TerminateProcessInstanceCommand ''acme'' 1 1 None) = Inr (Some 1)"
    by (simp add: actor_user_id_from_command_def mk_spec_def)
qed (simp_all add: mk_spec_def V1_BASIC_ROLE_COMMAND_KEYS_def grant_applies_def one_instance_db_def empty_db_def)

end
