(* ===== verification/Scheduler_Runtime.thy ===== *)
theory Scheduler_Runtime
  imports Task_Completion
begin

text \<open>
  \<^verbatim>\<open>src/m8flow_core/services/scheduler_runtime.py\<close>: a worker claims the due jobs, runs each one,
  releases the lock of those that fail, and reports the failures at the end.
\<close>

section \<open>Claiming due jobs\<close>

definition normalize_worker_id :: "string \<Rightarrow> m8f_error + string" where
  "normalize_worker_id w =
     (if py_strip w = [] then Inl (Err ValidationError (R_job BlankWorkerId)) else Inr (py_strip w))"

definition lock_job :: "string \<Rightarrow> datetime \<Rightarrow> scheduler_job_row \<Rightarrow> scheduler_job_row" where
  "lock_job worker ts j = j\<lparr>job_locked_by := Some worker, job_locked_at := Some ts, job_updated_at := ts\<rparr>"

definition claim_due_scheduler_jobs ::
  "datetime option \<Rightarrow> int \<Rightarrow> string \<Rightarrow> string option \<Rightarrow> scheduler_job_row list svc" where
  "claim_due_scheduler_jobs now limit worker tenant =
     bnd (lift_result (normalize_worker_id worker)) (\<lambda>wk.
     bnd (gets (resolve_timestamp now)) (\<lambda>ts.
     bnd (list_due_scheduler_jobs (Some ts) limit tenant) (\<lambda>jobs.
       thn (for_each (\<lambda>j. upd_job (job_id j) (lock_job wk ts)) jobs)
         (ret (map (lock_job wk ts) jobs)))))"

section \<open>Payloads\<close>

definition scheduler_job_user_id :: "pyval \<Rightarrow> string \<Rightarrow> m8f_error + int" where
  "scheduler_job_user_id payload key =
     (case as_dict payload of
        None \<Rightarrow> Inl (Err ValidationError (R_payload PayloadNotDict))
      | Some d \<Rightarrow> (case dict_get d key of
                     PInt i \<Rightarrow> Inr i
                   | _ \<Rightarrow> Inl (Err ValidationError (R_payload (PayloadMissingUser key)))))"

definition scheduler_job_timer_task :: "pyval \<Rightarrow> m8f_error + (string \<times> pyval) list" where
  "scheduler_job_timer_task payload =
     (case as_dict payload of
        None \<Rightarrow> Inl (Err ValidationError (R_payload PayloadNotDict))
      | Some d \<Rightarrow> (case as_dict (dict_get d ''timer_task'') of
                     None \<Rightarrow> Inl (Err ValidationError (R_payload PayloadMissingTimerTask))
                   | Some t \<Rightarrow> Inr t))"

definition scheduler_job_task_spec_name :: "(string \<times> pyval) list \<Rightarrow> m8f_error + string" where
  "scheduler_job_task_spec_name t =
     (case as_str (dict_get t ''task_spec_name'') of
        None \<Rightarrow> Inl (Err ValidationError (R_payload PayloadMissingTaskSpec))
      | Some s \<Rightarrow> if py_strip s = [] then Inl (Err ValidationError (R_payload PayloadMissingTaskSpec)) else Inr s)"

section \<open>The next occurrence of a recurring timer\<close>

text \<open>
  A duration is a positive number of seconds. Its value in microseconds and the text of the float are
  those of a whole number; of a float they are given by \<open>secs\<close>, which is \<open>None\<close> for a float that is
  not positive. A time span holds less than a billion days, and the sum must stay within the years
  of the calendar.
\<close>

definition duration_value :: "(string \<Rightarrow> int option) \<Rightarrow> pyval \<Rightarrow> m8f_error + int \<times> string" where
  "duration_value secs v =
     (case v of
        PInt n \<Rightarrow> if n \<le> 0 then Inl (Err ValidationError (R_payload PayloadMissingDuration))
                  else Inr (n * micros_per_second, str_of_int n @ ''.0'')
      | PBool b \<Rightarrow> if b then Inr (micros_per_second, ''1.0'')
                   else Inl (Err ValidationError (R_payload PayloadMissingDuration))
      | PFloat t \<Rightarrow> (case secs t of
                       None \<Rightarrow> Inl (Err ValidationError (R_payload PayloadMissingDuration))
                     | Some us \<Rightarrow> Inr (us, t))
      | _ \<Rightarrow> Inl (Err ValidationError (R_payload PayloadMissingDuration)))"

definition following_due_at :: "string \<Rightarrow> int \<Rightarrow> m8f_error + string" where
  "following_due_at s us =
     (case fromisoformat s of
        None \<Rightarrow> Inl (Err Py_ValueError (R_timer (TimerBadTimestamp s)))
      | Some (t, off) \<Rightarrow>
          if us \<ge> 1000000000 * micros_per_day \<or> t + us \<ge> days_from_civil 10000 1 1 * micros_per_day
          then Inl (Err Py_OverflowError (R_timer (TimerBadTimestamp s)))
          else Inr (iso_local (t + us) @ iso_offset (case off of None \<Rightarrow> 0 | Some x \<Rightarrow> x)))"

definition remaining_cycles :: "pyval \<Rightarrow> m8f_error + int option option" where
  "remaining_cycles v =
     (case v of
        PNone \<Rightarrow> Inr (Some None)
      | PInt n \<Rightarrow> if n > 1 then Inr (Some (Some (n - 1))) else Inr None
      | _ \<Rightarrow> Inl (Err ValidationError (R_payload PayloadBadCycles)))"

definition next_timer_start_task_payload_after_fire ::
  "(string \<Rightarrow> int option) \<Rightarrow> (string \<times> pyval) list \<Rightarrow> m8f_error + (int \<times> (string \<times> pyval) list) option" where
  "next_timer_start_task_payload_after_fire secs payload =
     (case dict_get payload ''event_value'' of
        PStr _ \<Rightarrow> Inr None
      | PDict ev \<Rightarrow>
          (case as_str (dict_get ev ''next'') of
             None \<Rightarrow> Inl (Err ValidationError (R_payload PayloadMissingNext))
           | Some due \<Rightarrow>
               if due = [] then Inl (Err ValidationError (R_payload PayloadMissingNext))
               else
                 rbind (duration_value secs (dict_get ev ''duration'')) (\<lambda>(us, txt).
                 rbind (remaining_cycles (dict_get ev ''cycles'')) (\<lambda>left.
                   case left of
                     None \<Rightarrow> Inr None
                   | Some cycles \<Rightarrow>
                       rbind (following_due_at due us) (\<lambda>next.
                         (let ev' = [(''next'', PStr next), (''duration'', PFloat txt)] @
                                (case cycles of None \<Rightarrow> [] | Some n \<Rightarrow> [(''cycles'', PInt n)])
                          in rbind (timer_event_run_at_in_seconds (PDict ev')) (\<lambda>n.
                               Inr (Some (n, dict_set ''run_at_in_seconds'' (PInt n)
                                               (dict_set ''event_value'' (PDict ev') payload)))))))))
      | _ \<Rightarrow> Inl (Err ValidationError (R_payload PayloadMissingEventValue)))"

definition reschedule_or_delete_timer_start_job ::
  "(string \<Rightarrow> int option) \<Rightarrow> scheduler_job_row \<Rightarrow> (string \<times> pyval) list \<Rightarrow> datetime \<Rightarrow> unit svc" where
  "reschedule_or_delete_timer_start_job secs j payload ts =
     bnd (lift_result (next_timer_start_task_payload_after_fire secs payload)) (\<lambda>next.
       case next of
         None \<Rightarrow> bnd (delete_scheduler_job (job_tenant j) (job_key j)) (\<lambda>_. ret ())
       | Some (n, payload') \<Rightarrow>
           bnd (lift_result (fromtimestamp n)) (\<lambda>run_at.
           bnd (upsert_scheduler_job (job_tenant j) (job_key j) JT_timer_start run_at None
                  (job_bpmn_process_definition_id j)
                  (Some [(''scheduled_from'', PStr ''timer_start_runtime''), (''timer_task'', PDict payload')])
                  (Some ts) None) (\<lambda>_. ret ())))"

section \<open>The system user of timer starts\<close>

definition TIMER_START_SYSTEM_USERNAME :: string where
  "TIMER_START_SYSTEM_USERNAME = ''__m8f_timer_start__''"

definition tenant_row_for :: "string \<Rightarrow> db \<Rightarrow> tenant_row option" where
  "tenant_row_for tenant d =
     (case find (\<lambda>t. ten_id t = tenant) (d_tenants d) of
        Some t \<Rightarrow> Some t
      | None \<Rightarrow> find (\<lambda>t. ten_slug t = tenant) (d_tenants d))"

definition put_users :: "user_row list \<Rightarrow> db \<Rightarrow> db" where
  "put_users rs d = d\<lparr>d_users := rs\<rparr>"

definition ensure_timer_start_system_user :: "string \<Rightarrow> datetime \<Rightarrow> user_row svc" where
  "ensure_timer_start_system_user tenant ts =
     bnd (gets (tenant_row_for tenant)) (\<lambda>row.
       case row of
         None \<Rightarrow> raise (Err NotFoundError (R_lookup (TenantNotFound tenant)))
       | Some t \<Rightarrow>
           (let sid = TIMER_START_SYSTEM_USERNAME @ '':'' @ ten_id t
            in bnd (upsert_row d_users put_users usr_id
                      (\<lambda>u. usr_service u = ten_id t \<and> usr_service_id u = sid)
                      (\<lambda>i. \<lparr>usr_id = i, usr_username = TIMER_START_SYSTEM_USERNAME, usr_email = None,
                             usr_service = ten_id t, usr_service_id = sid,
                             usr_display_name = Some ''Timer Start System'',
                             usr_realm_identifier = None, usr_external_org_id = None,
                             usr_external_user_id = None, usr_updated_at = Some ts,
                             usr_created_at = Some ts\<rparr>)
                      (\<lambda>u. u\<lparr>usr_updated_at := Some ts\<rparr>)) (\<lambda>u.
               bnd (ensure_v1_role (ten_id t) ROLE_ADMIN [usr_id u]) (\<lambda>_. ret u))))"

section \<open>Running a claimed job\<close>

definition drop_job :: "scheduler_job_row \<Rightarrow> unit svc" where
  "drop_job j = bnd (delete_scheduler_job (job_tenant j) (job_key j)) (\<lambda>_. ret ())"

definition execute_intermediate_timer_job ::
  "('p, 'w) runtime \<Rightarrow> scheduler_job_row \<Rightarrow> datetime \<Rightarrow> unit svc" where
  "execute_intermediate_timer_job rt j ts =
     (case job_process_instance_id j of
        None \<Rightarrow> drop_job j
      | Some pid \<Rightarrow>
          bnd (get_process_instance (job_tenant j) pid) (\<lambda>p.
          bnd (gets (workflow_state_json p)) (\<lambda>state.
            if pi_status p \<noteq> PIS_waiting \<and> pi_status p \<noteq> PIS_user_input_required then drop_job j
            else if state = None then drop_job j
            else bnd (refresh_waiting_process_instance_workflow rt (job_tenant j) pid (Some ts)) (\<lambda>_. ret ()))))"

definition execute_process_retry_job ::
  "policy_context \<Rightarrow> ('p, 'w) runtime \<Rightarrow> scheduler_job_row \<Rightarrow> datetime \<Rightarrow> unit svc" where
  "execute_process_retry_job ctx rt j ts =
     (case job_process_instance_id j of
        None \<Rightarrow> drop_job j
      | Some pid \<Rightarrow>
          bnd (get_process_instance (job_tenant j) pid) (\<lambda>p.
            if pi_status p \<noteq> PIS_error then drop_job j
            else
              bnd (lift_result (scheduler_job_user_id (job_payload_json j) ''requested_by_user_id'')) (\<lambda>uid.
              bnd (retry_process_instance ctx rt (job_tenant j) pid uid (Some ts)) (\<lambda>_. ret ()))))"

definition execute_timer_start_job ::
  "(string \<Rightarrow> int option) \<Rightarrow> ('p, 'w) runtime \<Rightarrow> scheduler_job_row \<Rightarrow> datetime \<Rightarrow> unit svc" where
  "execute_timer_start_job secs rt j ts =
     (case job_bpmn_process_definition_id j of
        None \<Rightarrow> drop_job j
      | Some pdid \<Rightarrow>
          bnd (gets (\<lambda>d. find (\<lambda>r. pd_tenant r = job_tenant j \<and> pd_id r = pdid) (d_definitions d))) (\<lambda>pd.
            if Option.bind pd source_bpmn_xml = None then drop_job j
            else
              bnd (lift_result (scheduler_job_timer_task (job_payload_json j))) (\<lambda>payload.
              bnd (ensure_timer_start_system_user (job_tenant j) ts) (\<lambda>u.
              bnd (lift_result (scheduler_job_task_spec_name payload)) (\<lambda>name.
              bnd (initialize_process_instance_from_timer_start_definition rt (job_tenant j) pdid (usr_id u)
                     name (Some ts)) (\<lambda>_.
                reschedule_or_delete_timer_start_job secs j payload ts))))))"

definition execute_claimed_scheduler_job ::
  "policy_context \<Rightarrow> (string \<Rightarrow> int option) \<Rightarrow> ('p, 'w) runtime \<Rightarrow> scheduler_job_row \<Rightarrow> datetime \<Rightarrow> unit svc" where
  "execute_claimed_scheduler_job ctx secs rt j ts =
     (case job_type j of
        JT_intermediate_timer \<Rightarrow> execute_intermediate_timer_job rt j ts
      | JT_process_retry \<Rightarrow> execute_process_retry_job ctx rt j ts
      | JT_timer_start \<Rightarrow> execute_timer_start_job secs rt j ts
      | JT_unknown s \<Rightarrow> raise (Err ValidationError (R_job (JobTypeNotExecutable s))))"

definition release_scheduler_job_lock :: "scheduler_job_row \<Rightarrow> datetime \<Rightarrow> unit svc" where
  "release_scheduler_job_lock j ts =
     upd_job (job_id j) (\<lambda>r. r\<lparr>job_locked_by := None, job_locked_at := None, job_updated_at := ts\<rparr>)"

text \<open>
  The job object follows its row; once the row is deleted it keeps the values it had. A failure that
  is not an error of the program is wrapped in one.
\<close>

definition current_job :: "scheduler_job_row \<Rightarrow> db \<Rightarrow> scheduler_job_row" where
  "current_job j d = (case find (\<lambda>r. job_id r = job_id j) (d_jobs d) of None \<Rightarrow> j | Some r \<Rightarrow> r)"

definition batch_error :: "scheduler_job_row \<Rightarrow> m8f_error \<Rightarrow> string \<times> m8f_error" where
  "batch_error j e =
     (job_key j, if is_subclass (err_class e) BpmnCoreError then e
                 else Err BpmnCoreError (R_job (JobFailed (job_key j))))"

definition run_claimed_job ::
  "policy_context \<Rightarrow> (string \<Rightarrow> int option) \<Rightarrow> ('p, 'w) runtime \<Rightarrow> datetime \<Rightarrow> scheduler_job_row \<Rightarrow>
   (string \<times> m8f_error) option svc" where
  "run_claimed_job ctx secs rt ts j =
     try_catch
       (bnd (gets (current_job j)) (\<lambda>c. thn (execute_claimed_scheduler_job ctx secs rt c ts) (ret None)))
       (\<lambda>e. thn (release_scheduler_job_lock j ts) (ret (Some (batch_error j e))))"

definition build_scheduler_batch_error :: "(string \<times> m8f_error) list \<Rightarrow> m8f_error" where
  "build_scheduler_batch_error es =
     Err BpmnCoreError (R_job (BatchFailed (map (\<lambda>(k, e). (k, err_class e)) es)))"

definition run_due_scheduler_jobs ::
  "policy_context \<Rightarrow> (string \<Rightarrow> int option) \<Rightarrow> ('p, 'w) runtime \<Rightarrow> datetime option \<Rightarrow> int \<Rightarrow> string \<Rightarrow> string option \<Rightarrow>
   int svc" where
  "run_due_scheduler_jobs ctx secs rt now limit worker tenant =
     bnd (gets (resolve_timestamp now)) (\<lambda>ts.
     bnd (claim_due_scheduler_jobs (Some ts) limit worker tenant) (\<lambda>jobs.
     bnd (map_M (run_claimed_job ctx secs rt ts) jobs) (\<lambda>outcomes.
       case List.map_filter id outcomes of
         [] \<Rightarrow> ret (int (length outcomes))
       | [(_, e)] \<Rightarrow> raise e
       | es \<Rightarrow> raise (build_scheduler_batch_error es))))"

section \<open>A timer of a resumed instance\<close>

definition same_instances :: "db \<Rightarrow> db \<Rightarrow> bool" where
  "same_instances d d' \<longleftrightarrow> d_instances d' = d_instances d"

interpretation insts: frame same_instances
  by unfold_locales (simp_all add: same_instances_def)

lemma load_same_instances: "insts.keeps (load_process_instance tenant pid)"
  unfolding load_process_instance_def by (intro insts.keeps_intros)

lemma assign_same_instances:
  "insts.keeps (assign_work_item_potential_owners sql_norm p wid lane data props)"
proof (rule insts.keepsI)
  fix d
  show "same_instances d (snd (assign_work_item_potential_owners sql_norm p wid lane data props d))"
    by (cases rule: assign_run [of sql_norm p wid lane data props d])
      (auto simp: same_instances_def lane_frame_def)
qed

lemma sync_owners_same_instances: "insts.keeps (sync_open_work_item_potential_owners rt tenant pid)"
  unfolding sync_open_work_item_potential_owners_def Let_def restore_for_def restore_workflow_def engine_call_def
    instance_service_context_def
  by (intro load_same_instances assign_same_instances insts.keeps_intros)

lemma ensure_same_instances: "insts.keeps (ensure_user_belongs_to_tenant tenant uid)"
  by (rule insts.keepsI) (simp add: ensure_user_read_only same_instances_def)

lemma event_same_instances:
  "insts.keeps (record_process_instance_event tenant pid (Event t) ts g user)"
  unfolding record_process_instance_event_def
  by (intro load_same_instances ensure_same_instances insts.keeps_intros) (simp add: same_instances_def)

lemma resume_split:
  assumes "resume_process_instance ctx rt tenant pid uid ts d = (Inr p, d1)" and "policy_read_only ctx"
  obtains q where "instance_for tenant pid d = Some q"
    "pi_status q = PIS_running \<and> p = q \<and> d1 = d \<or>
     thn (upd_instance (pi_id q) (\<lambda>r. r\<lparr>pi_status := PIS_running, pi_updated_at := Some (resolve_timestamp ts d)\<rparr>))
       (thn (sync_open_work_item_potential_owners rt tenant (pi_id q))
       (thn (record_process_instance_event tenant pid (Event process_instance_resumed) (Some (resolve_timestamp ts d))
              None (Some uid)) (load_process_instance tenant pid))) d = (Inr p, d1)"
proof -
  have auth: "m d = (Inr x, t)" if "thn (instance_authorization ctx tenant uid key i) m d = (Inr x, t)"
    for key i m and x :: process_instance_row and t
    using that assms(2) by (auto simp: thn_Inr_iff policy_read_only_def instance_authorization_def) (metis snd_conv)
  have member: "m d = (Inr x, t)" if "bnd (ensure_user_belongs_to_tenant tenant uid) (\<lambda>_. m) d = (Inr x, t)"
    for m and x :: process_instance_row and t
    using that ensure_user_read_only [of tenant uid d] by (auto simp: bnd_Inr_iff)
  obtain q where "instance_for tenant pid d = Some q" and
    "(if pi_status q = PIS_running then ret q
       else if has_terminal_status (pi_status q) then raise (Err InvalidStateError (R_lifecycle CannotResumeTerminal))
       else if pi_status q \<noteq> PIS_suspended then raise (Err InvalidStateError (R_lifecycle OnlySuspendedResumed))
       else bnd (gets (resolve_timestamp ts)) (\<lambda>at_time.
         thn (upd_instance (pi_id q) (\<lambda>r. r\<lparr>pi_status := PIS_running, pi_updated_at := Some at_time\<rparr>))
         (thn (sync_open_work_item_potential_owners rt tenant (pi_id q))
         (thn (record_process_instance_event tenant pid (Event process_instance_resumed) (Some at_time) None (Some uid))
            (load_process_instance tenant pid))))) d = (Inr p, d1)"
    using member [OF assms(1) [unfolded resume_process_instance_def]]
    by (auto simp: bnd_Inr_iff load_run split: option.splits dest!: auth)
  then show thesis
    using that by (auto simp: ret_def raise_def bnd_gets_run split: if_splits)
qed

lemma resumed_running:
  assumes "resume_process_instance ctx rt tenant pid uid ts d = (Inr p, d1)" and "policy_read_only ctx"
  shows "instance_for tenant pid d1 = Some p \<and> pi_status p = PIS_running"
proof (rule resume_split [OF assms])
  fix q :: process_instance_row
  let ?f = "\<lambda>r :: process_instance_row. r\<lparr>pi_status := PIS_running, pi_updated_at := Some (resolve_timestamp ts d)\<rparr>"
  let ?rows = "update_where (\<lambda>r. pi_id r = pi_id q) ?f (d_instances d)"
  assume q: "instance_for tenant pid d = Some q"
    and "pi_status q = PIS_running \<and> p = q \<and> d1 = d \<or>
      thn (upd_instance (pi_id q) ?f) (thn (sync_open_work_item_potential_owners rt tenant (pi_id q))
       (thn (record_process_instance_event tenant pid (Event process_instance_resumed) (Some (resolve_timestamp ts d))
              None (Some uid)) (load_process_instance tenant pid))) d = (Inr p, d1)" (is "_ \<or> ?run = _")
  then consider "pi_status q = PIS_running" "p = q" "d1 = d" | "?run = (Inr p, d1)" by blast
  then show ?thesis
  proof cases
    case 2
    obtain u d2 e d3 where run: "sync_open_work_item_potential_owners rt tenant (pi_id q) (d\<lparr>d_instances := ?rows\<rparr>) = (Inr u, d2)"
      "record_process_instance_event tenant pid (Event process_instance_resumed) (Some (resolve_timestamp ts d)) None
         (Some uid) d2 = (Inr e, d3)" "load_process_instance tenant pid d3 = (Inr p, d1)"
      using 2 by (auto simp: thn_Inr_iff upd_instance_def modify_def)
    have rows: "d_instances d3 = ?rows"
      using insts.keepsD [OF sync_owners_same_instances run(1)] insts.keepsD [OF event_same_instances run(2)]
      by (simp add: same_instances_def)
    have p: "instance_for tenant pid d1 = Some p" "d1 = d3" using run(3) by (auto simp: load_run split: option.splits)
    then have "p \<in> set ?rows" "pi_id p = pid"
      using rows by (auto simp: instance_for_def is_instance_def dest!: find_SomeD)
    moreover have "pi_id q = pid" using q by (auto simp: instance_for_def is_instance_def dest!: find_SomeD)
    moreover obtain r where r: "p = (if pi_id r = pi_id q then ?f r else r)"
      using calculation(1) unfolding set_update_where by (rule imageE)
    then have "pi_id p = pi_id r" by simp
    ultimately have "pi_status p = PIS_running" using r by simp
    then show ?thesis using p(1) by simp
  qed (use q in simp)
qed

text \<open>C20: Resuming an instance leaves it running, whatever it was doing before it was suspended, and a timer
  job runs only for an instance that waits or needs user input. So when a timer of a resumed
  instance falls due while no step of the instance has changed that status since, the scheduler
  deletes the job and nothing else happens: the workflow does not see the timer. Once a step has
  given the instance a waiting status again, a timer job that is still there refreshes its
  stored workflow.\<close>

theorem resumed_timer_lost:
  assumes "resume_process_instance ctx rt tenant pid uid ts d = (Inr p, d1)" and "policy_read_only ctx"
    and "job_type j = JT_intermediate_timer" and "job_tenant j = tenant" and "job_process_instance_id j = Some pid"
    and "instance_for tenant pid d2 = Some q"
  shows "instance_for tenant pid d1 = Some p \<and> pi_status p = PIS_running \<and>
    (if pi_status q = pi_status p
     then execute_claimed_scheduler_job ctx secs rt j now d2 =
       (Inr (), d2\<lparr>d_jobs := filter (\<lambda>r. \<not> (job_tenant r = tenant \<and> job_key r = job_key j)) (d_jobs d2)\<rparr>)
     else if pi_status q \<in> {PIS_waiting, PIS_user_input_required} \<and> workflow_state_json q d2 \<noteq> None
     then execute_claimed_scheduler_job ctx secs rt j now d2 =
       bnd (refresh_waiting_process_instance_workflow rt tenant pid (Some now)) (\<lambda>_. ret ()) d2
     else execute_claimed_scheduler_job ctx secs rt j now d2 =
       (Inr (), d2\<lparr>d_jobs := filter (\<lambda>r. \<not> (job_tenant r = tenant \<and> job_key r = job_key j)) (d_jobs d2)\<rparr>))"
proof -
  have "(\<lambda>r. \<not> (job_tenant r = tenant \<and> job_key r = job_key j)) = (\<lambda>r. \<not> has_job_key tenant (job_key j) r)"
    by (simp add: has_job_key_def fun_eq_iff)
  moreover have "drop_job j d2 = (Inr (), d2\<lparr>d_jobs := filter (\<lambda>r. \<not> has_job_key tenant (job_key j) r) (d_jobs d2)\<rparr>)"
    using assms(4) by (simp add: drop_job_def delete_job_run comp_defs)
  moreover have "execute_claimed_scheduler_job ctx secs rt j now d2 =
      (if pi_status q \<in> {PIS_waiting, PIS_user_input_required} \<and> workflow_state_json q d2 \<noteq> None
       then bnd (refresh_waiting_process_instance_workflow rt tenant pid (Some now)) (\<lambda>_. ret ()) d2
       else drop_job j d2)"
    using assms(3-6)
    by (simp add: execute_claimed_scheduler_job_def execute_intermediate_timer_job_def get_process_instance_def run_simps)
  ultimately show ?thesis using resumed_running [OF assms(1,2)] by simp
qed

definition timer_job :: scheduler_job_row where
  "timer_job = \<lparr>job_id = 1, job_tenant = ''acme'', job_key = ''timer'', job_type = JT_intermediate_timer,
     job_process_instance_id = Some 1, job_bpmn_process_definition_id = None, job_locked_by = None,
     job_locked_at = None, job_run_at = 9, job_payload_json = PDict [], job_updated_at = 5, job_created_at = 5\<rparr>"

definition suspended_db :: db where
  "suspended_db = one_instance_db\<lparr>d_instances := [one_instance\<lparr>pi_status := PIS_suspended\<rparr>], d_jobs := [timer_job]\<rparr>"

lemma d_jobs_suspended: "d_jobs suspended_db = [timer_job]"
  by (simp add: suspended_db_def)

lemma resume_suspended_db:
  "\<exists>p d1. resume_process_instance permit_all_context a_runtime ''acme'' 1 1 (Some 7) suspended_db = (Inr p, d1) \<and>
     d_jobs d1 = [timer_job]"
proof -
  let ?p = "one_instance\<lparr>pi_status := PIS_suspended\<rparr>"
  let ?f = "\<lambda>r :: process_instance_row. r\<lparr>pi_status := PIS_running, pi_updated_at := Some 7\<rparr>"
  have p: "instance_for ''acme'' 1 suspended_db = Some ?p" "pi_id ?p = 1" "\<not> has_terminal_status PIS_suspended"
    by (simp_all add: instance_for_def is_instance_def suspended_db_def one_instance_def has_terminal_status_def
        TERMINAL_STATUSES_def)
  have "tenant_member ''acme'' 1 suspended_db"
    using one_instance_member tenant_member_cong [of suspended_db one_instance_db] by (simp add: suspended_db_def)
  then have member: "actor_ok ''acme'' (Some 1) suspended_db"
    and ensure: "\<exists>u. ensure_user_belongs_to_tenant ''acme'' 1 suspended_db = (Inr u, suspended_db)"
    by (simp_all add: actor_ok_def ensure_user_Inr_iff)
  have sync: "sync_open_work_item_potential_owners a_runtime ''acme'' 1 d = (Inr (), d)"
    if "instance_for ''acme'' 1 d = Some (?f ?p)" for d
    using that by (simp add: sync_open_work_item_potential_owners_def run_simps bnd_def load_run workflow_state_json_def
        one_instance_def)
  note written = instance_for_write [OF p(1), of ?f]
  have "thn (upd_instance 1 ?f) (thn (sync_open_work_item_potential_owners a_runtime ''acme'' 1)
      (thn (record_process_instance_event ''acme'' 1 (Event process_instance_resumed) (Some 7) None (Some 1))
        (load_process_instance ''acme'' 1))) suspended_db =
    thn (upd_instance 1 ?f)
      (thn (record_process_instance_event ''acme'' 1 (Event process_instance_resumed) (Some 7) None (Some 1))
        (load_process_instance ''acme'' 1)) suspended_db"
    using written by (simp add: upd_instance_def thn_modify_run thn_Inr [OF sync])
  also note transition_run [OF member p(1), of ?f]
  finally show ?thesis
    using ensure p
    by (auto simp: resume_process_instance_def bnd_def load_run thn_Inr [OF permit_all_authorizes]
        instance_commands_known gets_def resolve_timestamp_def d_jobs_suspended)
qed

text \<open>The timer falls due when the clock has moved on.\<close>

theorem resumed_timer_lost_witness:
  "\<exists>p d1. resume_process_instance permit_all_context a_runtime ''acme'' 1 1 (Some 7) suspended_db = (Inr p, d1) \<and>
     d_jobs d1 = [timer_job] \<and>
     execute_claimed_scheduler_job permit_all_context (\<lambda>_. None) a_runtime timer_job 9 (d1\<lparr>d_now := 9\<rparr>) =
       (Inr (), d1\<lparr>d_now := 9, d_jobs := []\<rparr>)"
proof -
  obtain p d1 where r: "resume_process_instance permit_all_context a_runtime ''acme'' 1 1 (Some 7) suspended_db = (Inr p, d1)"
    "d_jobs d1 = [timer_job]" using resume_suspended_db by blast
  have job: "job_type timer_job = JT_intermediate_timer" "job_tenant timer_job = ''acme''"
    "job_process_instance_id timer_job = Some 1" by (simp_all add: timer_job_def)
  have later: "instance_for ''acme'' 1 (d1\<lparr>d_now := 9\<rparr>) = Some p"
    using resumed_running [OF r(1) permit_all_read_only] by (simp add: instance_for_def)
  show ?thesis
    using resumed_timer_lost [OF r(1) permit_all_read_only job later, of "\<lambda>_. None" 9] r job(2) by auto
qed

end
