(* ===== verification/Tenant_Isolation.thy ===== *)
theory Tenant_Isolation
  imports Dispatcher Scheduler_Runtime
begin

text \<open>
  What a command can do to the rows of other tenants. The frame \<open>isolated T\<close> relates two states when
  the event log and the version snapshots have only been appended to, by rows of the tenants \<open>T\<close>,
  when the stored payloads, the metadata and the scheduler jobs of all other tenants are the same,
  and when no job has been locked. Every operation of the program that works for a tenant of
  \<open>T\<close> keeps it, whether it returns or raises; only the claim of due jobs locks.
\<close>

section \<open>Relations between tables\<close>

definition appended :: "('r \<Rightarrow> string) \<Rightarrow> string set \<Rightarrow> 'r list \<Rightarrow> 'r list \<Rightarrow> bool" where
  "appended ten T xs ys \<longleftrightarrow> (\<exists>new. ys = xs @ new \<and> list_all (\<lambda>r. ten r \<in> T) new)"

definition same_others :: "('r \<Rightarrow> string) \<Rightarrow> string set \<Rightarrow> 'r list \<Rightarrow> 'r list \<Rightarrow> bool" where
  "same_others ten T xs ys \<longleftrightarrow> filter (\<lambda>r. ten r \<notin> T) ys = filter (\<lambda>r. ten r \<notin> T) xs"

text \<open>An update addresses its row by the primary key, so the rows of others are safe while it is one.\<close>

definition keyed_others :: "('r \<Rightarrow> int) \<Rightarrow> ('r \<Rightarrow> string) \<Rightarrow> string set \<Rightarrow> 'r list \<Rightarrow> 'r list \<Rightarrow> bool" where
  "keyed_others pk ten T xs ys \<longleftrightarrow>
     (distinct (map pk xs) \<longrightarrow> distinct (map pk ys) \<and> same_others ten T xs ys)"

definition locked_jobs :: "scheduler_job_row list \<Rightarrow> int set" where
  "locked_jobs js = job_id ` {j \<in> set js. job_locked_by j \<noteq> None}"

definition isolated :: "string set \<Rightarrow> db \<Rightarrow> db \<Rightarrow> bool" where
  "isolated T d d' \<longleftrightarrow>
     appended ev_tenant T (d_events d) (d_events d') \<and>
     appended ver_tenant T (d_versions d) (d_versions d') \<and>
     same_others jd_tenant T (d_json d) (d_json d') \<and>
     keyed_others md_id md_tenant T (d_metadata d) (d_metadata d') \<and>
     keyed_others job_id job_tenant T (d_jobs d) (d_jobs d') \<and>
     locked_jobs (d_jobs d') \<subseteq> locked_jobs (d_jobs d)"

lemma appended_refl [simp]: "appended ten T xs xs"
  by (simp add: appended_def)

lemma appended_trans: "appended ten T xs ys \<Longrightarrow> appended ten T ys zs \<Longrightarrow> appended ten T xs zs"
  by (auto simp: appended_def)

lemma appended_one [simp]: "ten r \<in> T \<Longrightarrow> appended ten T xs (xs @ [r])"
  by (simp add: appended_def)

lemma same_others_refl [simp]: "same_others ten T xs xs" "keyed_others pk ten T xs xs"
  by (simp_all add: same_others_def keyed_others_def)

lemma keyed_trans: "keyed_others pk ten T xs ys \<Longrightarrow> keyed_others pk ten T ys zs \<Longrightarrow> keyed_others pk ten T xs zs"
  by (simp add: keyed_others_def same_others_def)

lemma keyed_filter: "(\<And>r. \<not> p r \<Longrightarrow> ten r \<in> T) \<Longrightarrow> keyed_others pk ten T xs (filter p xs)"
  unfolding keyed_others_def same_others_def
  by (auto simp: distinct_map_filter intro!: filter_cong)

interpretation tenancy: frame "isolated T" for T
proof
  show "isolated T d d" for d by (simp add: isolated_def)
  show "isolated T d d2" if "isolated T d d1" "isolated T d1 d2" for d d1 d2
    using that appended_trans [of ev_tenant T "d_events d"] appended_trans [of ver_tenant T "d_versions d"]
      keyed_trans [of md_id md_tenant T "d_metadata d"] keyed_trans [of job_id job_tenant T "d_jobs d"]
    unfolding isolated_def same_others_def by force
qed

lemma isolated_same:
  assumes "d_events d' = d_events d" "d_versions d' = d_versions d" "d_json d' = d_json d"
    "d_metadata d' = d_metadata d" "d_jobs d' = d_jobs d"
  shows "isolated T d d'"
  by (simp add: isolated_def assms)

lemma isolated_jobs:
  assumes "d' = d\<lparr>d_jobs := d_jobs d'\<rparr>" and "keyed_others job_id job_tenant T (d_jobs d) (d_jobs d')"
    and "locked_jobs (d_jobs d') \<subseteq> locked_jobs (d_jobs d)"
  shows "isolated T d d'"
  using assms(2,3) by (subst assms(1)) (simp add: isolated_def)

lemma isolated_metadata:
  assumes "keyed_others md_id md_tenant T (d_metadata d) (d_metadata d')" and "d' = d\<lparr>d_metadata := d_metadata d'\<rparr>"
  shows "isolated T d d'"
  using assms(1) by (subst assms(2)) (simp add: isolated_def)

lemma read_only_keeps: "(\<And>d. snd (m d) = d) \<Longrightarrow> tenancy.keeps T m"
  by (rule tenancy.keepsI) (simp add: tenancy.R_refl)

section \<open>Writes to the tables\<close>

lemma upd_keeps:
  "tenancy.keeps T (upd_instance i f1)" "tenancy.keeps T (upd_work_item i f2)"
  "tenancy.keeps T (upd_task g f3)" "tenancy.keeps T (upd_future g f4)"
  "tenancy.keeps T (upd_process i f5)" "tenancy.keeps T (upd_definition i f6)"
  by (simp_all add: upd_defs tenancy.keeps_modify isolated_same)

context table
begin

lemma upsert_keyed:
  assumes "\<And>i. lookup (mk i)" and "\<And>r. lookup r \<Longrightarrow> lookup (upd r)"
    and "\<And>r. lookup r \<Longrightarrow> ten r \<in> T" and "\<And>i. pk (mk i) = i" and "\<And>r. pk (upd r) = pk r"
  shows "keyed_others pk ten T (rows d) (rows (snd (upsert_row rows put pk lookup mk upd d)))"
    (is "keyed_others _ _ _ _ (rows (snd ?u))")
  unfolding keyed_others_def
proof (intro impI conjI)
  assume ids: "distinct (map pk (rows d))"
  obtain r t where r: "?u = (Inr r, t)"
    by (cases "find lookup (rows d)") (simp_all add: upsert_run)
  show "distinct (map pk (rows (snd ?u)))"
    using upsert_keys [OF r ids assms(4,5)] r by simp
  have "filter (\<lambda>x. \<not> lookup x) (rows t) = filter (\<lambda>x. \<not> lookup x) (rows d)"
    using upsert_others [OF r ids assms(1,2)] .
  then have "filter (\<lambda>x. ten x \<notin> T) (filter (\<lambda>x. \<not> lookup x) (rows t)) =
      filter (\<lambda>x. ten x \<notin> T) (filter (\<lambda>x. \<not> lookup x) (rows d))" by (rule arg_cong)
  moreover have "filter (\<lambda>x. ten x \<notin> T) (filter (\<lambda>x. \<not> lookup x) xs) = filter (\<lambda>x. ten x \<notin> T) xs" for xs
    using assms(3) by (auto intro: filter_cong)
  ultimately show "same_others ten T (rows d) (rows (snd ?u))"
    using r by (simp add: same_others_def)
qed

end

lemma upsert_locked:
  "locked_jobs (d_jobs (snd (upsert_row d_jobs put_jobs job_id lookup mk upd d))) \<subseteq> locked_jobs (d_jobs d)"
  if "\<And>i. job_locked_by (mk i) = None" and "\<And>r. job_locked_by (upd r) = None"
  using that
  by (auto simp: jobs.upsert_run locked_jobs_def put_jobs_def set_update_where split: option.split)

lemma upsert_job_keeps:
  assumes "tenant \<in> T"
  shows "tenancy.keeps T (upsert_scheduler_job tenant key ty run_at pid pdid payload updated created)"
proof -
  let ?u = "\<lambda>t' p ts. upsert_row d_jobs put_jobs job_id (has_job_key tenant key)
    (new_scheduler_job tenant key t' run_at pid pdid p ts created)
    (rewritten_scheduler_job t' run_at pid pdid p ts created)"
  have "tenancy.keeps T (?u t' p ts)" for t' p ts
  proof (rule tenancy.keepsI)
    fix d
    have "snd (?u t' p ts d) = d\<lparr>d_jobs := d_jobs (snd (?u t' p ts d))\<rparr>"
      by (simp add: jobs.upsert_run put_jobs_def split: option.split)
    moreover have "keyed_others job_id job_tenant T (d_jobs d) (d_jobs (snd (?u t' p ts d)))"
      by (rule jobs.upsert_keyed) (use assms in \<open>auto simp: job_row_defs has_job_key_def\<close>)
    moreover have "locked_jobs (d_jobs (snd (?u t' p ts d))) \<subseteq> locked_jobs (d_jobs d)"
      by (rule upsert_locked) (simp_all add: job_row_defs)
    ultimately show "isolated T d (snd (?u t' p ts d))" by (rule isolated_jobs)
  qed
  then show ?thesis
    unfolding upsert_scheduler_job_def Let_def by (intro tenancy.keeps_intros)
qed

lemma filter_jobs_keeps:
  assumes "\<And>j. \<not> p j \<Longrightarrow> job_tenant j \<in> T"
  shows "tenancy.keeps T (modify (\<lambda>d. put_jobs (filter p (d_jobs d)) d))"
  by (rule tenancy.keeps_modify)
    (use assms in \<open>auto simp: isolated_def put_jobs_def locked_jobs_def intro!: keyed_filter\<close>)

lemma delete_job_keeps: "tenant \<in> T \<Longrightarrow> tenancy.keeps T (delete_scheduler_job tenant key)"
  unfolding delete_scheduler_job_def
  by (intro tenancy.keeps_bnd tenancy.keeps_thn tenancy.keeps_gets tenancy.keeps_ret filter_jobs_keeps)
    (simp add: has_job_key_def)

section \<open>Reading and recording\<close>

context frame
begin

lemma keeps_bnd_value:
  assumes "keeps m" and "\<And>s x t. m s = (Inr x, t) \<Longrightarrow> keeps (f x)"
  shows "keeps (bnd m f)"
proof (rule keepsI)
  fix s
  obtain r t where m: "m s = (r, t)" by (cases "m s")
  then have first: "R s t" using assms(1) by (rule_tac keepsD)
  show "R s (snd (bnd m f s))"
  proof (cases r)
    case (Inl e)
    then show ?thesis using m first by (simp add: bnd_def)
  next
    case (Inr x)
    then have "R t (snd (f x t))" using assms(2) m by (simp add: keeps_def)
    then show ?thesis using m Inr first R_trans by (simp add: bnd_def)
  qed
qed

lemma keeps_bnd_gets: "(\<And>s. keeps (f (g s))) \<Longrightarrow> keeps (bnd (gets g) f)"
  by (rule keeps_bnd_value [OF keeps_gets]) (auto simp: gets_def)

end

lemma load_instance_keeps: "tenancy.keeps T (load_process_instance tenant pid)"
  by (rule read_only_keeps) (simp add: load_run split: option.split)

lemma bnd_load_keeps:
  "(\<And>p. pi_tenant p = tenant \<Longrightarrow> tenancy.keeps T (f p)) \<Longrightarrow> tenancy.keeps T (bnd (load_process_instance tenant pid) f)"
  by (rule tenancy.keeps_bnd_value [OF load_instance_keeps])
    (auto simp: load_run dest: instance_for_keys split: option.splits)

lemma ensure_user_keeps: "tenancy.keeps T (ensure_user_belongs_to_tenant tenant uid)"
  by (rule read_only_keeps) (rule ensure_user_read_only)

lemma authorization_keeps:
  assumes "policy_read_only ctx"
  shows "tenancy.keeps T (require_command_authorization ctx tenant actor key rt rid md)"
  using assms by (intro read_only_keeps) (simp add: policy_read_only_def)

text \<open>The rules of every proof below: the first matching one is taken.\<close>

lemmas keeps_rules = bnd_load_keeps load_instance_keeps ensure_user_keeps upd_keeps
  tenancy.keeps_bnd_gets tenancy.keeps_intros

lemma event_keeps: "tenant \<in> T \<Longrightarrow> tenancy.keeps T (record_process_instance_event tenant pid ev ts g u)"
  unfolding record_process_instance_event_def
  by (intro keeps_rules) (simp add: isolated_def)

lemma payload_keeps: "tenant \<in> T \<Longrightarrow> tenancy.keeps T (create_or_update_from_payload tenant data)"
proof (rule tenancy.keepsI)
  fix d :: db
  assume "tenant \<in> T"
  let ?d = "snd (create_or_update_from_payload tenant data d)"
  have f: "?d = d\<lparr>d_json := d_json ?d\<rparr>"
    "filter (\<lambda>r. jd_tenant r \<noteq> tenant) (d_json ?d) = filter (\<lambda>r. jd_tenant r \<noteq> tenant) (d_json d)"
    using store_payload_frame [of tenant d data] by (simp_all add: json_frame_def)
  have "filter (\<lambda>r. jd_tenant r \<notin> T) (filter (\<lambda>r. jd_tenant r \<noteq> tenant) xs) = filter (\<lambda>r. jd_tenant r \<notin> T) xs" for xs
    using \<open>tenant \<in> T\<close> by (auto intro: filter_cong)
  then have "same_others jd_tenant T (d_json d) (d_json ?d)"
    using f(2) unfolding same_others_def by metis
  then show "isolated T d ?d" by (subst f(1)) (simp add: isolated_def)
qed

lemma metadata_keeps:
  assumes "tenant \<in> T"
  shows "tenancy.keeps T (upsert_process_instance_metadata tenant pid key v ts created)"
proof -
  let ?u = "\<lambda>mk upd. (upsert_row d_metadata put_metadata md_id (has_metadata_key tenant pid key) mk upd :: metadata_row svc)"
  have "tenancy.keeps T (?u mk upd)"
    if mk: "\<And>i. has_metadata_key tenant pid key (mk i)" "\<And>i. md_id (mk i) = i"
      and upd: "\<And>r. md_id (upd r) = md_id r" "\<And>r. has_metadata_key tenant pid key r \<Longrightarrow> has_metadata_key tenant pid key (upd r)"
    for mk upd
  proof (rule tenancy.keepsI)
    fix d
    let ?d = "snd (?u mk upd d)"
    have "keyed_others md_id md_tenant T (d_metadata d) (d_metadata ?d)"
      by (rule metadata.upsert_keyed) (use assms mk upd in \<open>auto simp: has_metadata_key_def\<close>)
    moreover have "?d = d\<lparr>d_metadata := d_metadata ?d\<rparr>"
      by (simp add: metadata.upsert_run put_metadata_def split: option.split)
    ultimately show "isolated T d ?d" by (rule_tac isolated_metadata)
  qed
  then show ?thesis
    unfolding upsert_process_instance_metadata_def
    by (intro bnd_load_keeps) (simp add: has_metadata_key_def)
qed

lemmas write_rules = event_keeps payload_keeps metadata_keeps upsert_job_keeps delete_job_keeps keeps_rules

section \<open>Process instances, lanes and claims\<close>

lemma close_runtime_keeps: "tenancy.keeps T (close_process_instance_runtime_state pid ts u)"
  unfolding close_process_instance_runtime_state_def
  by (intro tenancy.keeps_modify isolated_same) simp_all

lemma reopen_runtime_keeps: "tenancy.keeps T (reopen_process_instance_runtime_state pid ts)"
  unfolding reopen_process_instance_runtime_state_def
  by (intro tenancy.keeps_modify isolated_same) simp_all

lemma create_instance_keeps:
  "tenancy.keeps T (create_process_instance tenant model display u pdid bpid summary version created updated)"
  unfolding create_process_instance_def Let_def
  by (intro keeps_rules isolated_same) simp_all

lemma instance_authorization_keeps:
  "policy_read_only ctx \<Longrightarrow> tenancy.keeps T (instance_authorization ctx tenant uid key pid)"
  unfolding instance_authorization_def by (rule authorization_keeps)

lemma suspend_keeps:
  "policy_read_only ctx \<Longrightarrow> tenant \<in> T \<Longrightarrow> tenancy.keeps T (suspend_process_instance ctx tenant pid uid ts)"
  unfolding suspend_process_instance_def
  by (intro write_rules instance_authorization_keeps) assumption+

lemma error_keeps: "tenant \<in> T \<Longrightarrow> tenancy.keeps T (error_process_instance tenant pid u ts)"
  unfolding error_process_instance_def
  by (intro write_rules close_runtime_keeps) assumption+

lemma schedule_retry_keeps:
  "policy_read_only ctx \<Longrightarrow> tenant \<in> T \<Longrightarrow>
   tenancy.keeps T (schedule_process_instance_retry ctx tenant pid uid retry_at ts)"
  unfolding schedule_process_instance_retry_def
  by (intro write_rules instance_authorization_keeps) assumption+

lemma terminate_keeps:
  "policy_read_only ctx \<Longrightarrow> tenant \<in> T \<Longrightarrow> tenancy.keeps T (terminate_process_instance ctx tenant pid uid ts)"
  unfolding terminate_process_instance_def
  by (intro write_rules instance_authorization_keeps close_runtime_keeps) assumption+

lemma delete_retry_keeps: "tenant \<in> T \<Longrightarrow> tenancy.keeps T (delete_scheduled_process_retry_job tenant pid)"
  unfolding delete_scheduled_process_retry_job_def by (intro write_rules)

lemma lane_frame_isolated: "lane_frame d d' \<Longrightarrow> isolated T d d'"
  by (auto simp: lane_frame_def intro!: isolated_same)

lemma lanes_keep: "lanes.keeps m \<Longrightarrow> tenancy.keeps T m"
  by (rule tenancy.keepsI, rule lane_frame_isolated, erule lanes.keepsD, rule surjective_pairing)

lemma add_missing_keeps: "tenancy.keeps T (add_missing_potential_owners tenant wid owners)"
  by (rule tenancy.keepsI) (simp add: add_missing_run isolated_same)

lemma assign_owners_keeps:
  "tenancy.keeps T (assign_work_item_potential_owners sql_norm p wid lane data props)"
  unfolding assign_split
  by (intro tenancy.keeps_thn tenancy.keeps_bnd add_missing_keeps lanes_keep set_lane_keeps computed_keeps)

lemma enroll_definition_keeps: "tenancy.keeps T (enroll_definition_lane_owners sql_norm tenant props)"
  unfolding enroll_definition_lane_owners_def Let_def
  by (intro keeps_rules lanes_keep [OF enroll_keeps])

lemma load_item_keeps: "tenancy.keeps T (load_work_item tenant wid)"
  unfolding load_work_item_def by (intro keeps_rules)

lemma task_authorization_keeps:
  "policy_read_only ctx \<Longrightarrow> tenancy.keeps T (task_authorization ctx tenant uid key w)"
  unfolding task_authorization_def by (intro tenancy.keeps_bnd_gets authorization_keeps)

lemma claim_keeps: "policy_read_only ctx \<Longrightarrow> tenancy.keeps T (claim_task ctx tenant wid uid)"
  unfolding claim_task_def claim_checks_def claim_write_def
  by (intro keeps_rules load_item_keeps task_authorization_keeps isolated_same) simp_all

section \<open>The stored workflow\<close>

lemma task_definition_keeps: "tenancy.keeps T (upsert_task_definition_from_payload tenant pdid ident payload ts)"
  unfolding upsert_task_definition_from_payload_def Let_def
  by (intro keeps_rules tenancy.keeps_upsert isolated_same) (simp_all add: put_task_defs_def)

lemma upsert_definition_keeps: "tenancy.keeps T (upsert_task_definition tenant pdid t pre ts)"
  unfolding upsert_task_definition_def by (intro keeps_rules task_definition_keeps)

lemma task_specs_keep: "tenancy.keeps T (sync_serialized_task_specs tenant pdid pre spec ts)"
  unfolding sync_serialized_task_specs_def by (intro keeps_rules task_definition_keeps)

lemma sync_definition_keeps: "tenancy.keeps T (sync_process_definition_from_workflow p sw ts)"
  unfolding sync_process_definition_from_workflow_def by (intro keeps_rules task_specs_keep)

lemma sync_process_keeps: "pi_tenant p \<in> T \<Longrightarrow> tenancy.keeps T (sync_bpmn_process_from_workflow p sw state)"
  unfolding sync_bpmn_process_from_workflow_def by (intro write_rules)

lemma task_payload_keeps: "pi_tenant p \<in> T \<Longrightarrow> tenancy.keeps T (upsert_task_model_from_payload en p td payload ts)"
  unfolding upsert_task_model_from_payload_def Let_def insert_task_row_def rewrite_task_row_def
  by (intro write_rules) (auto intro!: write_rules isolated_same)

lemma task_model_keeps: "pi_tenant p \<in> T \<Longrightarrow> tenancy.keeps T (upsert_task_model en p td t ts)"
  unfolding upsert_task_model_def by (intro keeps_rules task_payload_keeps)

lemma task_models_keep: "pi_tenant p \<in> T \<Longrightarrow> tenancy.keeps T (sync_task_models_from_workflow en p sw ts)"
  unfolding sync_task_models_from_workflow_def by (intro keeps_rules task_payload_keeps)

lemma sync_timer_keeps: "pi_tenant p \<in> T \<Longrightarrow> tenancy.keeps T (sync_intermediate_timer_scheduler_job en p w ts)"
  unfolding sync_intermediate_timer_scheduler_job_def by (intro write_rules)

lemma persist_keeps: "pi_tenant p \<in> T \<Longrightarrow> tenancy.keeps T (persist_workflow_state en p w ts)"
  unfolding persist_workflow_state_def
  by (intro keeps_rules sync_definition_keeps sync_process_keeps task_models_keep sync_timer_keeps)

lemma persist_recovery_keeps: "pi_tenant p \<in> T \<Longrightarrow> tenancy.keeps T (persist_workflow_recovery_state en p w)"
  unfolding persist_workflow_recovery_state_def by (intro keeps_rules sync_process_keeps)

section \<open>Work items of ready tasks\<close>

lemma close_inactive_keeps: "pi_tenant p \<in> T \<Longrightarrow> tenancy.keeps T (close_inactive_work_item p w st ts)"
  unfolding close_inactive_work_item_def by (intro write_rules)

lemma sync_inactive_keeps: "pi_tenant p \<in> T \<Longrightarrow> tenancy.keeps T (sync_inactive_work_items en p w ts)"
  unfolding sync_inactive_work_items_def sync_inactive_work_item_def
  by (intro keeps_rules close_inactive_keeps)

lemma ready_item_keeps: "tenancy.keeps T (upsert_work_item p g ts)"
  unfolding upsert_work_item_def put_ready_item_def
  by (intro keeps_rules tenancy.keeps_upsert isolated_same) (simp_all add: put_work_items_def)

lemma future_task_keeps: "tenancy.keeps T (upsert_future_task tenant g ts)"
  unfolding upsert_future_task_def by (intro keeps_rules isolated_same) simp_all

lemma materialize_keeps: "pi_tenant p \<in> T \<Longrightarrow> tenancy.keeps T (materialize_ready_manual_tasks sql_norm en p w ts)"
  unfolding materialize_ready_manual_tasks_def materialize_single_manual_task_def
  by (intro keeps_rules upsert_definition_keeps task_model_keeps ready_item_keeps assign_owners_keeps future_task_keeps)

lemma update_status_keeps: "tenancy.keeps T (update_process_instance_status_from_workflow en p w ts)"
  unfolding update_process_instance_status_from_workflow_def archive_completed_workflow_runtime_state_def
  by (intro keeps_rules isolated_same) simp_all

section \<open>Running a workflow\<close>

text \<open>
  Assumption on the database: when a second session has committed a change that is isolated for its
  own view, the change is isolated for the view of this session once it sees the commit.
\<close>

definition isolation_faithful :: "isolation \<Rightarrow> bool" where
  "isolation_faithful io \<longleftrightarrow>
     (\<forall>T d c. isolated T (iso_committed io d) c \<longrightarrow> isolated T d (iso_refresh io d c))"

lemma transition_keeps:
  "tenant \<in> T \<Longrightarrow> pi_tenant p \<in> T \<Longrightarrow> tenancy.keeps T (transition_process_instance_to_error en tenant p w ts r)"
  unfolding transition_process_instance_to_error_def
  by (intro write_rules persist_recovery_keeps persist_keeps sync_inactive_keeps error_keeps)

lemma independent_failure_keeps:
  assumes "isolation_faithful io" and "tenant \<in> T"
  shows "tenancy.keeps T (persist_service_task_failure_state_in_independent_session io en tenant pid w ts)"
proof (rule tenancy.keepsI)
  fix d
  let ?m = "bnd (load_process_instance tenant pid) (\<lambda>p. transition_process_instance_to_error en tenant p w ts True)"
  have "tenancy.keeps T ?m" using assms(2) by (intro bnd_load_keeps transition_keeps) simp_all
  then have "isolated T (iso_committed io d) (snd (?m (iso_committed io d)))" by (simp add: tenancy.keeps_def)
  then have "isolated T d (iso_refresh io d (snd (?m (iso_committed io d))))"
    using assms(1) by (simp add: isolation_faithful_def)
  then show "isolated T d (snd (persist_service_task_failure_state_in_independent_session io en tenant pid w ts d))"
    unfolding persist_service_task_failure_state_in_independent_session_def
    by (auto simp: tenancy.R_refl split: prod.splits sum.splits)
qed

lemma run_keeps:
  "isolation_faithful (rt_isolation rt) \<Longrightarrow> tenant \<in> T \<Longrightarrow> pi_tenant p \<in> T \<Longrightarrow>
   tenancy.keeps T (run_workflow_with_service_task_failure_handling rt tenant p w ts autonomous)"
  unfolding run_workflow_with_service_task_failure_handling_def
  by (intro keeps_rules independent_failure_keeps transition_keeps)

lemma settle_keeps: "pi_tenant p \<in> T \<Longrightarrow> tenancy.keeps T (settle_workflow rt p w ts)"
  unfolding settle_workflow_def
  by (intro keeps_rules persist_keeps sync_inactive_keeps materialize_keeps update_status_keeps)

lemma engine_keeps: "tenancy.keeps T (engine_call r)" "tenancy.keeps T (built b)"
  "tenancy.keeps T (instance_service_context tenant p)" "tenancy.keeps T (restore_for rt tenant p st)"
  unfolding engine_call_def built_def instance_service_context_def restore_for_def restore_workflow_def
  by (intro keeps_rules)+

lemma metadata_payload_keeps: "tenancy.keeps T (load_process_instance_metadata_payload en tenant pid)"
  unfolding load_process_instance_metadata_payload_def get_process_instance_metadata_def
  by (intro keeps_rules)

lemma finalize_keeps:
  "tenant \<in> T \<Longrightarrow> pi_tenant p \<in> T \<Longrightarrow> tenancy.keeps T (finalize_initialized_process_instance_workflow rt tenant p w ts)"
  unfolding finalize_initialized_process_instance_workflow_def
  by (intro write_rules persist_keeps sync_inactive_keeps materialize_keeps update_status_keeps)

lemma seed_keeps: "tenancy.keeps T (seed_runtime_definitions en p w ts)"
  unfolding seed_runtime_definitions_def by (intro keeps_rules sync_definition_keeps)

lemmas runtime_rules = run_keeps settle_keeps engine_keeps metadata_payload_keeps finalize_keeps seed_keeps

lemma initialize_workflow_keeps:
  assumes "isolation_faithful (rt_isolation rt)" and "tenant \<in> T"
  shows "tenancy.keeps T (initialize_process_instance_workflow rt tenant pid xml dmn process_id ts resolver)"
  unfolding initialize_process_instance_workflow_def
  by (intro runtime_rules write_rules) (simp_all add: assms)

lemma load_definition_keeps: "tenancy.keeps T (load_process_definition tenant pdid)"
  unfolding load_process_definition_def by (intro keeps_rules)

lemma new_process_keeps: "tenant \<in> T \<Longrightarrow> tenancy.keeps T (resolve_or_create_bpmn_process tenant pd ident)"
  unfolding resolve_or_create_bpmn_process_def by (intro write_rules isolated_same) simp_all

lemma snapshot_keeps: "tenant \<in> T \<Longrightarrow> tenancy.keeps T (ensure_bpmn_version_snapshot tenant model xml ts)"
  unfolding ensure_bpmn_version_snapshot_def Let_def by (intro keeps_rules) (simp add: isolated_def)

lemma prepare_in_session_keeps:
  "tenant \<in> T \<Longrightarrow> tenancy.keeps T (prepare_process_instance_from_definition_in_session P tenant pd model rq)"
  unfolding prepare_process_instance_from_definition_in_session_def
  by (intro new_process_keeps create_instance_keeps snapshot_keeps write_rules)

lemma prepare_baseline_keeps:
  assumes "isolation_faithful (rt_isolation rt)" and "tenant \<in> T"
  shows "tenancy.keeps T (prepare_process_instance_baseline_in_independent_session rt tenant pd model rq)"
proof (rule tenancy.keepsI)
  fix d
  let ?c = "iso_committed (rt_isolation rt) d"
  let ?load = "bnd (load_process_definition tenant (pd_id pd)) (\<lambda>pd'.
      bnd (ensure_user_belongs_to_tenant tenant (sr_initiator rq)) (\<lambda>_. ret pd'))"
  let ?prep = "\<lambda>pd'. prepare_process_instance_from_definition_in_session (rt_parser rt) tenant pd' model rq"
  have "tenancy.keeps T ?load" by (intro keeps_rules load_definition_keeps)
  moreover have "tenancy.keeps T (?prep pd')" for pd' using assms(2) by (rule prepare_in_session_keeps)
  ultimately have "isolated T ?c (snd (?prep pd' (snd (?load ?c))))" for pd'
    unfolding tenancy.keeps_def using tenancy.R_trans by blast
  then have "isolated T d (iso_refresh (rt_isolation rt) d (snd (?prep pd' (snd (?load ?c)))))" for pd'
    using assms(1) by (simp add: isolation_faithful_def)
  then show "isolated T d (snd (prepare_process_instance_baseline_in_independent_session rt tenant pd model rq d))"
    unfolding prepare_process_instance_baseline_in_independent_session_def Let_def
    by (auto simp: tenancy.R_refl split: prod.splits sum.splits) (metis snd_conv)+
qed

lemma prepare_keeps:
  assumes "isolation_faithful (rt_isolation rt)" and "tenant \<in> T"
  shows "tenancy.keeps T (prepare_process_instance_from_definition rt tenant pd model rq)"
  unfolding prepare_process_instance_from_definition_def
  by (intro prepare_baseline_keeps prepare_in_session_keeps keeps_rules assms)

lemma prepare_tenant:
  "prepare_process_instance_from_definition rt tenant pd model rq d = (Inr (p, selected), d') \<Longrightarrow> pi_tenant p = tenant"
  unfolding prepare_process_instance_from_definition_def prepare_process_instance_from_definition_in_session_def
  by (auto simp: bnd_Inr_iff thn_Inr_iff load_run raise_def ret_def dest: instance_for_keys split: option.splits)

section \<open>The entry points of the runtime\<close>

lemma start_keeps:
  assumes "policy_read_only ctx" "isolation_faithful (rt_isolation rt)" "tenant \<in> T"
  shows "tenancy.keeps T (initialize_process_instance_from_definition ctx rt tenant pdid rq resolver)"
  unfolding initialize_process_instance_from_definition_def
  by (intro load_definition_keeps authorization_keeps prepare_keeps initialize_workflow_keeps keeps_rules assms)

lemma forced_timer_keeps:
  "isolation_faithful (rt_isolation rt) \<Longrightarrow> tenant \<in> T \<Longrightarrow> pi_tenant p \<in> T \<Longrightarrow>
   tenancy.keeps T (run_forced_timer_start rt tenant p name w ts)"
  unfolding run_forced_timer_start_def by (intro runtime_rules keeps_rules)

lemma timer_start_keeps:
  assumes "isolation_faithful (rt_isolation rt)" and "tenant \<in> T"
  shows "tenancy.keeps T (initialize_process_instance_from_timer_start_definition rt tenant pdid uid name ts)"
proof -
  have prepared: "tenancy.keeps T (bnd (prepare_process_instance_from_definition rt tenant pd model rq) f)"
    if "\<And>p selected. pi_tenant p = tenant \<Longrightarrow> tenancy.keeps T (f (p, selected))" for pd model rq f
    by (rule tenancy.keeps_bnd_value [OF prepare_keeps [OF assms]]) (use that prepare_tenant in force)
  show ?thesis
    unfolding initialize_process_instance_from_timer_start_definition_def
    by (intro prepared ensure_user_keeps load_definition_keeps tenancy.keeps_bnd)
      (use assms in \<open>auto intro!: forced_timer_keeps runtime_rules keeps_rules\<close>)
qed

lemma advance_keeps:
  assumes "isolation_faithful (rt_isolation rt)" and "tenant \<in> T"
  shows "tenancy.keeps T (advance_process_instance_workflow rt tenant pid guid ts)"
  unfolding advance_process_instance_workflow_def
  by (intro runtime_rules keeps_rules) (simp_all add: assms)

lemma reset_keeps: "tenancy.keeps T (reset_tasks en data is w)"
  by (induction "is" arbitrary: w) (simp_all add: tenancy.keeps_ret tenancy.keeps_bnd engine_keeps)

lemma retry_workflow_keeps:
  assumes "isolation_faithful (rt_isolation rt)" and "tenant \<in> T"
  shows "tenancy.keeps T (retry_errored_service_task_workflow_if_needed rt tenant pid ts)"
  unfolding retry_errored_service_task_workflow_if_needed_def Let_def
  by (intro reset_keeps runtime_rules keeps_rules) (simp_all add: assms)

lemma refresh_keeps:
  assumes "isolation_faithful (rt_isolation rt)" and "tenant \<in> T"
  shows "tenancy.keeps T (refresh_waiting_process_instance_workflow rt tenant pid ts)"
  unfolding refresh_waiting_process_instance_workflow_def
  by (intro runtime_rules keeps_rules) (simp_all add: assms)

lemma sync_owners_keeps: "tenancy.keeps T (sync_open_work_item_potential_owners rt tenant pid)"
  unfolding sync_open_work_item_potential_owners_def Let_def
  by (intro runtime_rules assign_owners_keeps keeps_rules)

lemma complete_keeps:
  assumes "policy_read_only ctx" "isolation_faithful (rt_isolation rt)" "tenant \<in> T"
  shows "tenancy.keeps T (complete_task ctx rt tenant wid uid ts payload)"
  unfolding complete_task_def complete_checks_def persist_task_payload_def mark_task_completed_def
    advance_after_completion_def completion_event_def Let_def
  by (intro advance_keeps load_item_keeps task_authorization_keeps write_rules assms)

lemma resume_keeps:
  assumes "policy_read_only ctx" "tenant \<in> T"
  shows "tenancy.keeps T (resume_process_instance ctx rt tenant pid uid ts)"
  unfolding resume_process_instance_def
  by (intro sync_owners_keeps instance_authorization_keeps write_rules assms)

lemma retry_keeps:
  assumes "policy_read_only ctx" "isolation_faithful (rt_isolation rt)" "tenant \<in> T"
  shows "tenancy.keeps T (retry_process_instance ctx rt tenant pid uid ts)"
  unfolding retry_process_instance_def
  by (intro sync_owners_keeps instance_authorization_keeps retry_workflow_keeps reopen_runtime_keeps
      delete_retry_keeps write_rules assms)

section \<open>Importing a definition\<close>

lemma collect_timers_keep: "tenancy.keeps T (collect_timer_start_payloads_for_definition rt pd)"
  unfolding collect_timer_start_payloads_for_definition_def by (intro engine_keeps keeps_rules)

lemma schedule_start_keeps: "pd_tenant pd \<in> T \<Longrightarrow> tenancy.keeps T (schedule_timer_start pd ts t)"
  unfolding schedule_timer_start_def by (intro write_rules)

lemma sync_timer_starts_keeps:
  "pd_tenant pd \<in> T \<Longrightarrow> tenancy.keeps T (sync_timer_start_scheduler_jobs_for_definition rt pd ts)"
  unfolding sync_timer_start_scheduler_jobs_for_definition_def
  by (intro collect_timers_keep schedule_start_keeps filter_jobs_keeps tenancy.keeps_bnd tenancy.keeps_map_M) auto

lemma store_definition_keeps: "tenancy.keeps T (store_definition tenant im digest ident)"
  unfolding store_definition_def
  by (intro tenancy.keeps_upsert isolated_same) (simp_all add: put_definitions_def)

lemma store_definition_tenant: "store_definition tenant im digest ident d = (Inr pd, d') \<Longrightarrow> pd_tenant pd = tenant"
  unfolding store_definition_def
  by (auto simp: definitions.upsert_run dest: find_SomeD split: option.splits)

lemma bnd_store_keeps:
  "(\<And>pd. pd_tenant pd = tenant \<Longrightarrow> tenancy.keeps T (f pd)) \<Longrightarrow>
   tenancy.keeps T (bnd (store_definition tenant im digest ident) f)"
  by (rule tenancy.keeps_bnd_value [OF store_definition_keeps]) (simp add: store_definition_tenant)

lemma import_snapshot_keeps: "tenant \<in> T \<Longrightarrow> tenancy.keeps T (import_version_snapshot tenant model xml ts)"
  unfolding import_version_snapshot_def by (intro keeps_rules) (simp add: isolated_def)

lemma import_keeps:
  assumes "policy_read_only ctx" "tenant \<in> T"
  shows "tenancy.keeps T (import_bpmn_process_definition ctx rt tenant im)"
  unfolding import_bpmn_process_definition_def Let_def
  by (intro bnd_store_keeps authorization_keeps import_snapshot_keeps sync_timer_starts_keeps
      enroll_definition_keeps keeps_rules assms) (simp add: assms)

section \<open>Every command\<close>

lemma outcome_keeps: "tenancy.keeps T m \<Longrightarrow> tenancy.keeps T (outcome_of g m)"
  unfolding outcome_of_def by (intro tenancy.keeps_bnd tenancy.keeps_ret)

lemma command_keeps:
  assumes "policy_read_only ctx" "isolation_faithful (rt_isolation rt)"
  shows "tenancy.keeps {command_tenant c} (execute_command ctx rt c)"
  using assms
  by (cases c) (auto intro!: outcome_keeps claim_keeps complete_keeps event_keeps create_instance_keeps import_keeps
      start_keeps initialize_workflow_keeps metadata_keeps suspend_keeps error_keeps resume_keeps retry_keeps
      schedule_retry_keeps terminate_keeps)

text \<open>C1: A command works for its own tenant only, and it never rewrites history. Whether it returns or
  raises, the event log and the version snapshots are what they were with rows of its tenant
  appended; the payloads, the metadata and the scheduler jobs of every other tenant are unchanged;
  and no job has been locked. A host's policy is assumed to read only, the database to show a
  commit of the second session faithfully, and primary keys to be unique.\<close>

theorem command_isolated:
  assumes "execute_command ctx rt c d = (r, d')"
    and "policy_read_only ctx" and "isolation_faithful (rt_isolation rt)"
    and "distinct (map md_id (d_metadata d))" and "distinct (map job_id (d_jobs d))"
  shows "(\<exists>es. d_events d' = d_events d @ es \<and> list_all (\<lambda>e. ev_tenant e = command_tenant c) es) \<and>
    (\<exists>vs. d_versions d' = d_versions d @ vs \<and> list_all (\<lambda>v. ver_tenant v = command_tenant c) vs) \<and>
    filter (\<lambda>j. jd_tenant j \<noteq> command_tenant c) (d_json d') = filter (\<lambda>j. jd_tenant j \<noteq> command_tenant c) (d_json d) \<and>
    filter (\<lambda>m. md_tenant m \<noteq> command_tenant c) (d_metadata d') = filter (\<lambda>m. md_tenant m \<noteq> command_tenant c) (d_metadata d) \<and>
    filter (\<lambda>j. job_tenant j \<noteq> command_tenant c) (d_jobs d') = filter (\<lambda>j. job_tenant j \<noteq> command_tenant c) (d_jobs d) \<and>
    locked_jobs (d_jobs d') \<subseteq> locked_jobs (d_jobs d)"
  using tenancy.keepsD [OF command_keeps [OF assms(2,3)] assms(1)] assms(4,5)
  by (simp add: isolated_def appended_def keyed_others_def same_others_def)

lemma shared_isolation_faithful: "isolation_faithful shared_isolation"
  by (simp add: isolation_faithful_def shared_isolation_def)

theorem command_isolated_witness:
  "\<exists>d'. execute_command permit_all_context a_runtime (RecordProcessInstanceEventCommand ''acme'' 1 (Event task_failed)
       None None (Some 3)) one_instance_db = (Inr (O_event (new_event ''acme'' 1 task_failed 3 None None one_instance_db)), d') \<and>
     (\<exists>es. d_events d' = d_events one_instance_db @ es \<and> list_all (\<lambda>e. ev_tenant e = ''acme'') es)"
proof -
  let ?c = "RecordProcessInstanceEventCommand ''acme'' 1 (Event task_failed) None None (Some 3)"
  have "record_process_instance_event ''acme'' 1 (Event task_failed) (Some 3) None None one_instance_db =
      (Inr (new_event ''acme'' 1 task_failed 3 None None one_instance_db),
       one_instance_db\<lparr>d_events := d_events one_instance_db @ [new_event ''acme'' 1 task_failed 3 None None one_instance_db]\<rparr>)"
    by (rule record_event_run [OF _ one_instance_lookup]) (simp add: actor_ok_def)
  then obtain d' where d': "execute_command permit_all_context a_runtime ?c one_instance_db =
      (Inr (O_event (new_event ''acme'' 1 task_failed 3 None None one_instance_db)), d')"
    by (simp add: outcome_of_def bnd_def ret_def)
  have "isolation_faithful (rt_isolation a_runtime)" by (simp add: a_runtime_def shared_isolation_faithful)
  moreover have "distinct (map md_id (d_metadata one_instance_db))" "distinct (map job_id (d_jobs one_instance_db))"
    by (simp_all add: one_instance_db_def empty_db_def)
  ultimately show ?thesis using command_isolated [OF d' permit_all_read_only] d' by auto
qed

end
