(* ===== verification/Scheduler_Batch.thy ===== *)
theory Scheduler_Batch
  imports Tenant_Isolation
begin

text \<open>
  What a batch of scheduler jobs guarantees: the jobs a worker claims are the unlocked due ones, every
  one of them is run whatever the others do, and a job that failed is unlocked again.
\<close>

section \<open>Jobs keep the log and lock nothing\<close>

lemma get_or_create_keeps:
  assumes "\<And>rs d. isolated T d (put rs d)"
  shows "tenancy.keeps T (get_or_create rows put key lookup conflict mk violates)"
  unfolding get_or_create_def insert_on_conflict_do_nothing_def
  by (intro tenancy.keeps_intros) (simp add: assms tenancy.R_refl)

lemma auth_put_isolated:
  "isolated T d (put_groups rs1 d)" "isolated T d (put_user_groups rs2 d)" "isolated T d (put_principals rs3 d)"
  "isolated T d (put_targets rs4 d)" "isolated T d (put_assignments rs5 d)"
  by (simp_all add: put_groups_def put_user_groups_def put_principals_def put_targets_def put_assignments_def isolated_same)

lemma group_keeps: "tenancy.keeps T (find_or_create_group i n)"
  unfolding find_or_create_group_def Let_def
  by (intro tenancy.keeps_bnd_gets tenancy.keeps_option tenancy.keeps_ret get_or_create_keeps auth_put_isolated)

lemma grant_keeps: "tenancy.keeps T (grant_permission_to_group i p c rt ri g n)"
  unfolding grant_permission_to_group_def find_or_create_principal_for_group_def find_or_create_permission_target_def
    find_or_create_permission_assignment_def Let_def
  by (intro group_keeps get_or_create_keeps auth_put_isolated tenancy.keeps_intros isolated_same) simp_all

lemma role_keeps: "tenancy.keeps T (ensure_v1_role tenant role us)"
  unfolding ensure_v1_role_def add_user_to_group_def grant_command_permissions_to_group_def Let_def
  by (intro group_keeps grant_keeps get_or_create_keeps auth_put_isolated tenancy.keeps_intros)

lemma system_user_keeps: "tenancy.keeps T (ensure_timer_start_system_user tenant ts)"
  unfolding ensure_timer_start_system_user_def Let_def
  by (intro role_keeps tenancy.keeps_upsert keeps_rules isolated_same) (simp_all add: put_users_def)

lemma drop_job_keeps: "tenancy.keeps UNIV (drop_job j)"
  unfolding drop_job_def by (intro tenancy.keeps_bnd delete_job_keeps tenancy.keeps_ret) simp

lemma reschedule_keeps: "tenancy.keeps UNIV (reschedule_or_delete_timer_start_job secs j payload ts)"
  unfolding reschedule_or_delete_timer_start_job_def
  by (intro delete_job_keeps upsert_job_keeps tenancy.keeps_intros) simp_all

lemma execute_job_keeps:
  assumes "policy_read_only ctx" and "isolation_faithful (rt_isolation rt)"
  shows "tenancy.keeps UNIV (execute_claimed_scheduler_job ctx secs rt j ts)"
proof -
  have "tenancy.keeps UNIV (execute_intermediate_timer_job rt j ts)"
    unfolding execute_intermediate_timer_job_def get_process_instance_def
    by (intro drop_job_keeps refresh_keeps keeps_rules assms) simp
  moreover have "tenancy.keeps UNIV (execute_process_retry_job ctx rt j ts)"
    unfolding execute_process_retry_job_def get_process_instance_def
    by (intro drop_job_keeps retry_keeps keeps_rules assms) simp
  moreover have "tenancy.keeps UNIV (execute_timer_start_job secs rt j ts)"
    unfolding execute_timer_start_job_def
    by (intro drop_job_keeps timer_start_keeps system_user_keeps reschedule_keeps keeps_rules assms) simp
  ultimately show ?thesis
    unfolding execute_claimed_scheduler_job_def
    by (cases "job_type j") (simp_all add: tenancy.keeps_raise)
qed

section \<open>Running a claimed job\<close>

lemma release_unlocks:
  "release_scheduler_job_lock j ts d = (r, d') \<Longrightarrow> locked_jobs (d_jobs d') \<subseteq> locked_jobs (d_jobs d) - {job_id j}"
  by (auto simp: release_scheduler_job_lock_def upd_job_def modify_def locked_jobs_def set_update_where
      split: if_splits)

lemma release_appends:
  "release_scheduler_job_lock j ts d = (r, d') \<Longrightarrow> r = Inr () \<and> d_events d' = d_events d"
  by (auto simp: release_scheduler_job_lock_def upd_job_def modify_def)

text \<open>What one run of a job leaves behind, and the batch of them.\<close>

definition job_settled :: "scheduler_job_row \<Rightarrow> (string \<times> m8f_error) option \<Rightarrow> db \<Rightarrow> bool" where
  "job_settled j failure d \<longleftrightarrow> (failure \<noteq> None \<longrightarrow> job_id j \<notin> locked_jobs (d_jobs d))"

definition log_grows :: "db \<Rightarrow> db \<Rightarrow> bool" where
  "log_grows d d' \<longleftrightarrow> prefix (d_events d) (d_events d') \<and> locked_jobs (d_jobs d') \<subseteq> locked_jobs (d_jobs d)"

lemma log_grows_trans: "log_grows d d1 \<Longrightarrow> log_grows d1 d2 \<Longrightarrow> log_grows d d2"
  by (auto simp: log_grows_def)

lemma isolated_log_grows: "isolated T d d' \<Longrightarrow> log_grows d d'"
  by (auto simp: isolated_def log_grows_def appended_def)

lemma run_claimed_job_settles:
  assumes "policy_read_only ctx" and "isolation_faithful (rt_isolation rt)"
  shows "\<exists>failure d'. run_claimed_job ctx secs rt ts j d = (Inr failure, d') \<and> job_settled j failure d' \<and> log_grows d d'"
proof -
  let ?m = "bnd (gets (current_job j)) (\<lambda>c. thn (execute_claimed_scheduler_job ctx secs rt c ts)
      (ret None)) :: (string \<times> m8f_error) option svc"
  obtain r d1 where r: "?m d = (r, d1)" by (cases "?m d")
  have "tenancy.keeps UNIV ?m"
    using execute_job_keeps [OF assms] by (intro tenancy.keeps_bnd_gets tenancy.keeps_thn tenancy.keeps_ret)
  then have grow: "log_grows d d1" using r by (intro isolated_log_grows tenancy.keepsD)
  show ?thesis
  proof (cases r)
    case (Inr failure)
    then have "failure = None" using r by (auto simp: bnd_gets_run thn_Inr_iff ret_def)
    then show ?thesis using Inr r grow by (simp add: run_claimed_job_def try_catch_def job_settled_def)
  next
    case (Inl e)
    obtain q d2 where d2: "release_scheduler_job_lock j ts d1 = (q, d2)" by (cases "release_scheduler_job_lock j ts d1")
    have "run_claimed_job ctx secs rt ts j d = (Inr (Some (batch_error j e)), d2)"
      using Inl r d2 release_appends [OF d2] by (simp add: run_claimed_job_def try_catch_def thn_def bnd_def ret_def)
    moreover have "log_grows d d2" "job_settled j (Some (batch_error j e)) d2"
      using release_unlocks [OF d2] release_appends [OF d2] grow by (auto simp: log_grows_def job_settled_def)
    ultimately show ?thesis by blast
  qed
qed

lemma batch_settles:
  assumes "policy_read_only ctx" and "isolation_faithful (rt_isolation rt)"
  shows "\<exists>failures d'. map_M (run_claimed_job ctx secs rt ts) jobs d = (Inr failures, d') \<and>
    list_all2 (\<lambda>j f. job_settled j f d') jobs failures \<and> log_grows d d'"
proof (induction jobs arbitrary: d)
  case Nil
  then show ?case by (simp add: ret_def log_grows_def)
next
  case (Cons j jobs)
  obtain f d1 where f: "run_claimed_job ctx secs rt ts j d = (Inr f, d1)" "job_settled j f d1" "log_grows d d1"
    using run_claimed_job_settles [OF assms] by blast
  obtain fs d' where fs: "map_M (run_claimed_job ctx secs rt ts) jobs d1 = (Inr fs, d')"
    "list_all2 (\<lambda>j f. job_settled j f d') jobs fs" "log_grows d1 d'"
    using Cons.IH by blast
  have "job_settled j f d'" using f(2) fs(3) by (auto simp: job_settled_def log_grows_def)
  moreover have "map_M (run_claimed_job ctx secs rt ts) (j # jobs) d = (Inr (f # fs), d')"
    using f(1) fs(1) by (simp add: bnd_def ret_def)
  ultimately show ?case using fs(2) log_grows_trans [OF f(3) fs(3)] by auto
qed

section \<open>A batch\<close>

definition due_jobs :: "datetime \<Rightarrow> int \<Rightarrow> string option \<Rightarrow> db \<Rightarrow> scheduler_job_row list" where
  "due_jobs ts limit tenant d = take (nat limit) (sort_key job_order (filter (is_due ts tenant) (d_jobs d)))"

definition batch_result :: "(string \<times> m8f_error) option list \<Rightarrow> m8f_error + int" where
  "batch_result failures =
     (case List.map_filter id failures of
        [] \<Rightarrow> Inr (int (length failures))
      | [(_, e)] \<Rightarrow> Inl e
      | es \<Rightarrow> Inl (build_scheduler_batch_error es))"

lemma lock_jobs_run:
  "for_each (\<lambda>j. upd_job (job_id j) (lock_job wk ts)) js d =
     (Inr (), d\<lparr>d_jobs := foldl (\<lambda>rows j. update_where (\<lambda>r. job_id r = job_id j) (lock_job wk ts) rows) (d_jobs d) js\<rparr>)"
  by (induction js arbitrary: d) (simp_all add: ret_def thn_def bnd_def upd_job_def modify_def)

lemma claim_run:
  assumes "0 < limit" and "py_strip worker \<noteq> []"
  shows "\<exists>d1. claim_due_scheduler_jobs (Some ts) limit worker tenant d =
      (Inr (map (lock_job (py_strip worker) ts) (due_jobs ts limit tenant d)), d1) \<and> d_events d1 = d_events d"
  using assms
  by (simp add: claim_due_scheduler_jobs_def normalize_worker_id_def list_due_scheduler_jobs_def
      resolve_timestamp_def due_jobs_def comp_defs lock_jobs_run)

text \<open>C9: A worker with a name and a positive limit claims the unlocked due jobs, the earliest first, and runs
  every one of them, whatever the others do. The event log has only grown, a job that failed is
  unlocked and can be claimed again, and the call returns the number of jobs run exactly when none
  failed; otherwise it raises the failure, or one error for several.\<close>

theorem batch_runs_every_job:
  assumes "0 < limit" and "py_strip worker \<noteq> []"
    and "policy_read_only ctx" and "isolation_faithful (rt_isolation rt)"
  shows "\<exists>d1 failures d'.
    claim_due_scheduler_jobs (Some ts) limit worker tenant d =
      (Inr (map (lock_job (py_strip worker) ts) (due_jobs ts limit tenant d)), d1) \<and>
    map_M (run_claimed_job ctx secs rt ts) (map (lock_job (py_strip worker) ts) (due_jobs ts limit tenant d)) d1 =
      (Inr failures, d') \<and>
    run_due_scheduler_jobs ctx secs rt (Some ts) limit worker tenant d = (batch_result failures, d') \<and>
    prefix (d_events d) (d_events d') \<and>
    list_all2 (\<lambda>j f. f \<noteq> None \<longrightarrow> job_id j \<notin> locked_jobs (d_jobs d')) (due_jobs ts limit tenant d) failures"
proof -
  let ?jobs = "map (lock_job (py_strip worker) ts) (due_jobs ts limit tenant d)"
  obtain d1 where d1: "claim_due_scheduler_jobs (Some ts) limit worker tenant d = (Inr ?jobs, d1)" "d_events d1 = d_events d"
    using claim_run [OF assms(1,2)] by blast
  obtain failures d' where run: "map_M (run_claimed_job ctx secs rt ts) ?jobs d1 = (Inr failures, d')"
    "list_all2 (\<lambda>j f. job_settled j f d') ?jobs failures" "log_grows d1 d'"
    using batch_settles [OF assms(3,4)] by blast
  have "list_all2 (\<lambda>j f. f \<noteq> None \<longrightarrow> job_id j \<notin> locked_jobs (d_jobs d')) (due_jobs ts limit tenant d) failures"
    using run(2) by (simp add: list_all2_map1 job_settled_def lock_job_def)
  moreover have "run_due_scheduler_jobs ctx secs rt (Some ts) limit worker tenant d = (batch_result failures, d')"
    using d1(1) run(1)
    by (simp add: run_due_scheduler_jobs_def run_simps resolve_timestamp_def batch_result_def bnd_def ret_def raise_def
        split: list.split)
  moreover have "prefix (d_events d) (d_events d')" using run(3) d1(2) by (simp add: log_grows_def)
  ultimately show ?thesis using d1(1) run(1) by blast
qed

text \<open>A retry job whose process instance is gone.\<close>

definition orphan_job :: scheduler_job_row where
  "orphan_job = new_scheduler_job ''acme'' ''k'' JT_process_retry 5 (Some 99) None PNone 1 None 3"

definition orphan_db :: db where
  "orphan_db = one_instance_db\<lparr>d_jobs := [orphan_job]\<rparr>"

lemma orphan_job_fails:
  assumes "d = orphan_db\<lparr>d_jobs := [lock_job ''w'' 9 orphan_job]\<rparr>"
  shows "\<exists>d'. run_claimed_job ctx secs rt 9 (lock_job ''w'' 9 orphan_job) d =
    (Inr (Some (''k'', Err NotFoundError (R_lookup (ProcessInstanceNotFound 99 ''acme'')))), d')"
proof -
  let ?e = "Err NotFoundError (R_lookup (ProcessInstanceNotFound 99 ''acme''))"
  have job: "current_job (lock_job ''w'' 9 orphan_job) d = lock_job ''w'' 9 orphan_job"
    "instance_for ''acme'' 99 d = None" "job_key (lock_job ''w'' 9 orphan_job) = ''k''"
    by (simp_all add: lock_job_def orphan_job_def new_scheduler_job_def assms current_job_def orphan_db_def one_instance_db_def one_instance_def empty_db_def
        instance_for_def is_instance_def)
  have "execute_claimed_scheduler_job ctx secs rt (lock_job ''w'' 9 orphan_job) 9 d = (Inl ?e, d)"
    by (simp add: execute_claimed_scheduler_job_def execute_process_retry_job_def get_process_instance_def
        lock_job_def orphan_job_def new_scheduler_job_def bnd_load_run job)
  moreover have "is_subclass NotFoundError BpmnCoreError" by (simp add: is_subclass_step [of NotFoundError] is_subclass.sub_refl)
  ultimately show ?thesis
    by (simp add: run_claimed_job_def try_catch_def comp_defs job release_scheduler_job_lock_def upd_job_def batch_error_def)
qed

theorem batch_runs_every_job_witness:
  "\<exists>d'. run_due_scheduler_jobs permit_all_context (\<lambda>_. None) a_runtime (Some 9) 10 ''w'' None orphan_db =
       (Inl (Err NotFoundError (R_lookup (ProcessInstanceNotFound 99 ''acme''))), d') \<and>
     3 \<notin> locked_jobs (d_jobs d')"
proof -
  have due: "due_jobs 9 10 None orphan_db = [orphan_job]"
    by (simp add: due_jobs_def orphan_db_def is_due_def orphan_job_def new_scheduler_job_def)
  have w: "py_strip ''w'' = ''w''" by code_simp
  have "isolation_faithful (rt_isolation a_runtime)" by (simp add: a_runtime_def shared_isolation_faithful)
  then obtain d1 failures d' where b:
    "claim_due_scheduler_jobs (Some 9) 10 ''w'' None orphan_db = (Inr [lock_job ''w'' 9 orphan_job], d1)"
    "map_M (run_claimed_job permit_all_context (\<lambda>_. None) a_runtime 9) [lock_job ''w'' 9 orphan_job] d1 = (Inr failures, d')"
    "run_due_scheduler_jobs permit_all_context (\<lambda>_. None) a_runtime (Some 9) 10 ''w'' None orphan_db =
      (batch_result failures, d')"
    "list_all2 (\<lambda>j f. f \<noteq> None \<longrightarrow> job_id j \<notin> locked_jobs (d_jobs d')) [orphan_job] failures"
    using batch_runs_every_job [of 10 "''w''" permit_all_context a_runtime 9 None orphan_db "\<lambda>_. None",
        OF _ _ permit_all_read_only] by (auto simp: due w)
  have "d1 = orphan_db\<lparr>d_jobs := [lock_job ''w'' 9 orphan_job]\<rparr>"
    using b(1) by (simp add: claim_due_scheduler_jobs_def normalize_worker_id_def list_due_scheduler_jobs_def
        resolve_timestamp_def comp_defs w upd_job_def orphan_db_def is_due_def orphan_job_def new_scheduler_job_def)
  then obtain d2 where "run_claimed_job permit_all_context (\<lambda>_. None) a_runtime 9 (lock_job ''w'' 9 orphan_job) d1 =
      (Inr (Some (''k'', Err NotFoundError (R_lookup (ProcessInstanceNotFound 99 ''acme'')))), d2)"
    using orphan_job_fails by blast
  then have "failures = [Some (''k'', Err NotFoundError (R_lookup (ProcessInstanceNotFound 99 ''acme'')))]"
    using b(2) by (simp add: bnd_def ret_def)
  then show ?thesis
    using b(3,4) by (auto simp: batch_result_def List.map_filter_def orphan_job_def new_scheduler_job_def)
qed

end
