(* ===== verification/Datetime_Roundtrip.thy ===== *)
theory Datetime_Roundtrip
  imports Py_Datetime
begin

text \<open>
  A timestamp that is printed is read back: the calendar is inverted by counting days, the printed
  date is valid, and every field of the text is found again by the parser. The services store the due
  times of timers as such texts.
\<close>

section \<open>The year of a day\<close>

text \<open>
  A day of an era of 400 years, counted from March, lies in a century \<open>q\<close>, in it in a span of four
  years \<open>k\<close>, and in it on day \<open>u\<close>. Only the last day of the era is outside of this.
\<close>

lemma day_of_era_split:
  fixes doe :: int
  assumes "0 \<le> doe" "doe < 146096"
  obtains q k u where "doe = 36524 * q + 1461 * k + u" "0 \<le> q" "q \<le> 3" "0 \<le> k" "k \<le> 24" "0 \<le> u" "u \<le> 1460"
    "k = 24 \<longrightarrow> u \<le> 1459"
proof -
  define q where "q = doe div 36524"
  define r where "r = doe mod 36524"
  define k where "k = r div 1461"
  define u where "u = r mod 1461"
  have r: "doe = 36524 * q + r" "0 \<le> r" "r < 36524" by (simp_all add: q_def r_def)
  have u: "r = 1461 * k + u" "0 \<le> u" "u < 1461" by (simp_all add: k_def u_def)
  have "0 \<le> q" "q \<le> 3" using r assms by linarith+
  moreover have "0 \<le> k" "k \<le> 24" using r(2,3) u by linarith+
  moreover have "k = 24 \<longrightarrow> u \<le> 1459" using r(3) u by linarith
  moreover have "doe = 36524 * q + 1461 * k + u" "u \<le> 1460" using r u by linarith+
  ultimately show thesis using that u(2) by blast
qed

definition year_of_era :: "int \<Rightarrow> int" where
  "year_of_era doe = (doe - doe div 1460 + doe div 36524 - doe div 146096) div 365"

definition day_of_year :: "int \<Rightarrow> int" where
  "day_of_year doe = doe - (365 * year_of_era doe + year_of_era doe div 4 - year_of_era doe div 100)"

lemma div_unique_int: "(b :: int) * q \<le> a \<Longrightarrow> a < b * q + b \<Longrightarrow> 0 < b \<Longrightarrow> a div b = q"
  by (rule int_div_pos_eq [where r = "a - b * q"]) simp_all

lemma year_of_era_split:
  assumes "doe = 36524 * q + 1461 * k + u" "0 \<le> q" "q \<le> 3" "0 \<le> k" "k \<le> 24" "0 \<le> u" "u \<le> 1460" "k = 24 \<longrightarrow> u \<le> 1459"
  shows "year_of_era doe = 100 * q + 4 * k + min 3 (u div 365)" "day_of_year doe = u - 365 * min 3 (u div 365)"
proof -
  define e :: int where "e = (if 24 * q + k + u \<ge> 1460 then 1 else 0)"
  define v where "v = min 3 (u div 365)"
  have a: "doe div 1460 = 25 * q + k + e"
    using assms by (intro div_unique_int) (auto simp: e_def)
  have b: "doe div 36524 = q" using assms by (intro div_unique_int) auto
  have c: "doe div 146096 = 0" using assms by (intro div_unique_int) auto
  have "u div 365 * 365 \<le> u" "u < u div 365 * 365 + 365" by linarith+
  then have v: "0 \<le> v" "v \<le> 3" "365 * v \<le> u - e" "u - e < 365 * v + 365"
    using assms unfolding v_def e_def by (auto simp: min_def split: if_splits)
  have "year_of_era doe = (36500 * q + 1460 * k + (u - e)) div 365"
    unfolding year_of_era_def a b c by (simp add: assms(1) algebra_simps)
  also have "\<dots> = 100 * q + 4 * k + v" using v by (intro div_unique_int) auto
  finally show yoe: "year_of_era doe = 100 * q + 4 * k + min 3 (u div 365)" by (simp add: v_def)
  have "year_of_era doe div 4 = 25 * q + k" using yoe v by (intro div_unique_int) (auto simp: v_def)
  moreover have "year_of_era doe div 100 = q" using yoe v assms by (intro div_unique_int) (auto simp: v_def)
  ultimately show "day_of_year doe = u - 365 * min 3 (u div 365)"
    using yoe assms(1) unfolding day_of_year_def by linarith
qed

text \<open>The year and the day of a day of the era; the 366th day exists only where a leap year follows.\<close>

lemma is_leap_fourth:
  assumes "0 \<le> q" "q \<le> 3" "0 \<le> k" "k \<le> 24" "k \<noteq> 24"
  shows "is_leap (100 * q + 4 * k + 4 + 400 * n)"
proof -
  have "\<not> 100 dvd (100 * q + 4 * k + 4 + 400 * n)"
  proof
    assume "100 dvd (100 * q + 4 * k + 4 + 400 * n)"
    then obtain w where "100 * q + 4 * k + 4 + 400 * n = 100 * w" by (auto elim: dvdE)
    then have "k + 1 = 25 * (w - q - 4 * n)" by simp
    then show False using assms by presburger
  qed
  moreover have "4 dvd (100 * q + 4 * k + 4 + 400 * n)" by presburger
  ultimately show ?thesis by (simp add: is_leap_def)
qed

lemma year_in_span:
  fixes u :: int
  assumes "0 \<le> u" "u \<le> 1460"
  defines "v \<equiv> min 3 (u div 365)"
  shows "0 \<le> v" "v \<le> 3" "365 * v \<le> u" "u \<le> 365 * v + 365" "u - 365 * v = 365 \<Longrightarrow> u = 1460 \<and> v = 3"
proof -
  define w where "w = u div 365"
  have w: "365 * w \<le> u" "u < 365 * w + 365" unfolding w_def by linarith+
  have "0 \<le> v \<and> v \<le> 3 \<and> 365 * v \<le> u \<and> u \<le> 365 * v + 365 \<and> (u - 365 * v = 365 \<longrightarrow> u = 1460 \<and> v = 3)"
  proof (cases "w \<le> 3")
    case True
    then have "v = w" by (simp add: v_def w_def)
    then show ?thesis using True w assms(1,2) by linarith
  next
    case False
    then have "v = 3" by (simp add: v_def w_def)
    then show ?thesis using False w assms(1,2) by linarith
  qed
  then show "0 \<le> v" "v \<le> 3" "365 * v \<le> u" "u \<le> 365 * v + 365" "u - 365 * v = 365 \<Longrightarrow> u = 1460 \<and> v = 3"
    by blast+
qed

lemma day_of_era_year:
  assumes "0 \<le> doe" "doe < 146097"
  shows "0 \<le> year_of_era doe" "year_of_era doe < 400" "0 \<le> day_of_year doe" "day_of_year doe \<le> 365"
    "day_of_year doe = 365 \<Longrightarrow> is_leap (year_of_era doe + 1 + 400 * n)"
proof -
  have "0 \<le> year_of_era doe \<and> year_of_era doe < 400 \<and> 0 \<le> day_of_year doe \<and> day_of_year doe \<le> 365 \<and>
    (day_of_year doe = 365 \<longrightarrow> is_leap (year_of_era doe + 1 + 400 * n))"
  proof (cases "doe = 146096")
    case True
    then have y: "year_of_era doe = 399" "day_of_year doe = 365" by (simp_all add: year_of_era_def day_of_year_def)
    have "4 dvd (400 + 400 * n)" "400 dvd (400 + 400 * n)"
      by (intro dvd_add dvd_mult2; simp)+
    then show ?thesis using y by (simp add: is_leap_def)
  next
    case False
    then have doe: "doe < 146096" using assms by simp
    obtain q k u where split: "doe = 36524 * q + 1461 * k + u" "0 \<le> q" "q \<le> 3" "0 \<le> k" "k \<le> 24" "0 \<le> u"
      "u \<le> 1460" "k = 24 \<longrightarrow> u \<le> 1459"
      by (rule day_of_era_split [OF assms(1) doe])
    define v where "v = min 3 (u div 365)"
    note year = year_of_era_split [OF split, folded v_def]
    note bounds = year_in_span [OF split(6,7), folded v_def]
    have "is_leap (year_of_era doe + 1 + 400 * n)" if "day_of_year doe = 365"
    proof -
      have "u = 1460" "v = 3" using that bounds(5) year(2) by simp_all
      moreover have "k \<noteq> 24" using split(8) calculation(1) by auto
      ultimately show ?thesis using is_leap_fourth [OF split(2-5), of n] year(1) by (simp add: add_ac)
    qed
    moreover have "0 \<le> year_of_era doe" "year_of_era doe < 400" "0 \<le> day_of_year doe" "day_of_year doe \<le> 365"
      using year bounds(1-4) split(2-5) by linarith+
    ultimately show ?thesis by blast
  qed
  then show "0 \<le> year_of_era doe" "year_of_era doe < 400" "0 \<le> day_of_year doe" "day_of_year doe \<le> 365"
    "day_of_year doe = 365 \<Longrightarrow> is_leap (year_of_era doe + 1 + 400 * n)" by blast+
qed

section \<open>The month of a day\<close>

definition month_index :: "int \<Rightarrow> int" where
  "month_index doy = (5 * doy + 2) div 153"

definition month_number :: "int \<Rightarrow> int" where
  "month_number doy = (if month_index doy < 10 then month_index doy + 3 else month_index doy - 9)"

definition day_of_month :: "int \<Rightarrow> int" where
  "day_of_month doy = doy - (153 * month_index doy + 2) div 5 + 1"

text \<open>Checked for each of the twelve months.\<close>

definition month_ok :: "int \<Rightarrow> bool" where
  "month_ok doy \<longleftrightarrow>
     0 \<le> month_index doy \<and> month_index doy \<le> 11 \<and> 1 \<le> day_of_month doy \<and>
     day_of_month doy \<le> (if month_number doy = 2 then (if doy = 365 then 29 else 28)
       else if month_number doy \<in> {4, 6, 9, 11} then 30 else 31) \<and> (month_number doy \<le> 2 \<longleftrightarrow> 306 \<le> doy)"

lemma month_ok_all:
  assumes "0 \<le> doy" "doy \<le> 365"
  shows "month_ok doy"
proof -
  define mi where "mi = month_index doy"
  have bounds: "153 * mi \<le> 5 * doy + 2" "5 * doy + 2 < 153 * mi + 153"
    unfolding mi_def month_index_def by linarith+
  then have "0 \<le> mi" "mi \<le> 11" using assms by linarith+
  then consider "mi = 0" | "mi = 1" | "mi = 2" | "mi = 3" | "mi = 4" | "mi = 5" | "mi = 6" | "mi = 7" | "mi = 8"
    | "mi = 9" | "mi = 10" | "mi = 11" by atomize_elim presburger
  then show ?thesis
    using bounds assms unfolding month_ok_def month_number_def day_of_month_def mi_def [symmetric] by cases simp_all
qed

section \<open>Dates are counted back\<close>

lemma civil_split:
  assumes "civil_from_days z = (y, m, d)"
  obtains doe era where "0 \<le> doe" "doe < 146097" "z + 719468 = 146097 * era + doe" "month_ok (day_of_year doe)"
    "m = month_number (day_of_year doe)" "d = day_of_month (day_of_year doe)"
    "y = year_of_era doe + 400 * era + (if m \<le> 2 then 1 else 0)"
proof -
  define doe where "doe = (z + 719468) mod 146097"
  define era where "era = (z + 719468) div 146097"
  have "civil_from_days z = (year_of_era doe + era * 400 + (if month_number (day_of_year doe) \<le> 2 then 1 else 0),
      month_number (day_of_year doe), day_of_month (day_of_year doe))"
    by (simp only: civil_from_days_def Let_def doe_def era_def year_of_era_def day_of_year_def month_number_def
        month_index_def day_of_month_def)
  then have civil: "m = month_number (day_of_year doe)" "d = day_of_month (day_of_year doe)"
    "y = year_of_era doe + 400 * era + (if m \<le> 2 then 1 else 0)"
    using assms by auto
  have doe: "0 \<le> doe" "doe < 146097" "z + 719468 = 146097 * era + doe" by (simp_all add: doe_def era_def)
  have "month_ok (day_of_year doe)" using day_of_era_year(3,4) [OF doe(1,2)] by (rule month_ok_all)
  then show thesis by (rule that [OF doe _ civil])
qed

lemma month_back:
  assumes "month_ok doy"
  shows "(153 * (if month_number doy > 2 then month_number doy - 3 else month_number doy + 9) + 2) div 5
     + day_of_month doy - 1 = doy" "1 \<le> month_number doy" "month_number doy \<le> 12"
  using assms unfolding month_ok_def month_number_def day_of_month_def by simp_all

lemma days_of_civil:
  assumes "civil_from_days z = (y, m, d)"
  shows "days_from_civil y m d = z"
proof (rule civil_split [OF assms])
  fix doe era
  assume doe: "0 \<le> doe" "doe < 146097" and z: "z + 719468 = 146097 * era + doe" and ok: "month_ok (day_of_year doe)"
    and civil: "m = month_number (day_of_year doe)" "d = day_of_month (day_of_year doe)"
      "y = year_of_era doe + 400 * era + (if m \<le> 2 then 1 else 0)"
  note year = day_of_era_year [OF doe]
  let ?y = "if m \<le> 2 then y - 1 else y"
  have y: "?y = year_of_era doe + 400 * era" using civil(3) by simp
  have "?y div 400 = era" "?y mod 400 = year_of_era doe" unfolding y using year(1,2) by simp_all
  moreover have "(153 * (if m > 2 then m - 3 else m + 9) + 2) div 5 + d - 1 = day_of_year doe"
    using month_back(1) [OF ok] by (simp only: civil(1,2))
  ultimately have "days_from_civil y m d = era * 146097 + (year_of_era doe * 365 + year_of_era doe div 4
      - year_of_era doe div 100 + day_of_year doe) - 719468"
    by (simp only: days_from_civil_def Let_def)
  then show ?thesis using z by (simp add: day_of_year_def)
qed

text \<open>The days of the years 1 to 9999.\<close>

definition day_in_range :: "int \<Rightarrow> bool" where
  "day_in_range z \<longleftrightarrow> days_from_civil 1 1 1 \<le> z \<and> z < days_from_civil 10000 1 1"

lemma year_in_range:
  assumes "0 \<le> doe" "doe < 146097" and "306 \<le> 146097 * era + doe" "146097 * era + doe < 3652365"
  shows "1 \<le> year_of_era doe + 400 * era + (if 306 \<le> day_of_year doe then 1 else 0)"
    "year_of_era doe + 400 * era + (if 306 \<le> day_of_year doe then 1 else 0) \<le> 9999"
proof -
  note year = day_of_era_year [OF assms(1,2)]
  have era: "0 \<le> era" "era \<le> 24" using assms by linarith+
  have "day_of_year doe = doe" if "year_of_era doe = 0" using that by (simp add: day_of_year_def)
  then show "1 \<le> year_of_era doe + 400 * era + (if 306 \<le> day_of_year doe then 1 else 0)"
    using year(1) era assms(3) by (cases "year_of_era doe = 0"; cases "era = 0") auto
  have "day_of_year doe = doe - 145731" if "year_of_era doe = 399" using that by (simp add: day_of_year_def)
  then show "year_of_era doe + 400 * era + (if 306 \<le> day_of_year doe then 1 else 0) \<le> 9999"
    using year(2) era assms(4) by (cases "year_of_era doe = 399"; cases "era = 24") auto
qed

lemma civil_valid:
  assumes "civil_from_days z = (y, m, d)" and "day_in_range z"
  shows "valid_date y m d"
proof (rule civil_split [OF assms(1)])
  fix doe era
  assume doe: "0 \<le> doe" "doe < 146097" and z: "z + 719468 = 146097 * era + doe" and ok: "month_ok (day_of_year doe)"
    and civil: "m = month_number (day_of_year doe)" "d = day_of_month (day_of_year doe)"
      "y = year_of_era doe + 400 * era + (if m \<le> 2 then 1 else 0)"
  have "306 \<le> z + 719468" "z + 719468 < 3652365"
    using assms(2) by (simp_all add: day_in_range_def days_from_civil_def)
  note range = year_in_range [OF doe this [unfolded z]]
  have march: "m \<le> 2 \<longleftrightarrow> 306 \<le> day_of_year doe" using ok unfolding month_ok_def civil(1) by blast
  have y: "1 \<le> y" "y \<le> 9999" using range unfolding civil(3) march by simp_all
  have "is_leap y" if "day_of_year doe = 365" "m = 2"
    using day_of_era_year(5) [OF doe that(1), of era] that(2) civil(3) by (simp add: add_ac)
  then have "d \<le> days_in_month y m"
    using ok unfolding month_ok_def civil(1) [symmetric] civil(2) [symmetric] days_in_month_def
    by (auto split: if_splits)
  moreover have "1 \<le> d" using ok unfolding month_ok_def civil(2) by blast
  ultimately show ?thesis
    using y month_back(2,3) [OF ok] unfolding valid_date_def civil(1) [symmetric] by blast
qed

section \<open>Fields of digits\<close>

lemma digits_value_replicate: "digits_value (replicate k (CHR ''0'') @ s) = digits_value s"
  by (induction k) (simp_all add: digits_value_def code_point_def)

lemma digits_value_val: "list_all is_digit s \<Longrightarrow> digits_value s = int (digits_val s)"
proof (induction s rule: rev_induct)
  case (snoc c s)
  then show ?case by (simp add: digits_value_def digits_val_def is_digit_def int_diff_cases of_nat_diff)
qed (simp add: digits_value_def digits_val_def)

lemma length_str_of_nat: "n < 10 ^ w \<Longrightarrow> 0 < w \<Longrightarrow> length (str_of_nat n) \<le> w"
proof (induction w arbitrary: n)
  case (Suc w)
  show ?case
  proof (cases "n < 10")
    case True
    then show ?thesis by (subst str_of_nat.simps) simp
  next
    case False
    then have "0 < w" using Suc.prems(1) by (cases w) auto
    moreover have "n div 10 < 10 ^ w" using Suc.prems(1) by (simp add: less_mult_imp_div_less mult.commute)
    ultimately show ?thesis using Suc.IH [of "n div 10"] False by (subst str_of_nat.simps) simp
  qed
qed simp

text \<open>A number printed to a width is a field of that many digits, with that value.\<close>

lemma zero_pad_field:
  assumes "0 \<le> n" "n < 10 ^ w" "0 < w"
  shows "parse_digits w (zero_pad w n) = Some n" "length (zero_pad w n) = w" "list_all is_digit (zero_pad w n)"
proof -
  have "nat n < 10 ^ w" using assms by (simp add: nat_less_iff)
  then have len: "length (str_of_nat (nat n)) \<le> w" using assms(3) by (rule length_str_of_nat)
  have digits: "list_all is_digit (str_of_nat (nat n))"
    using str_of_nat_digits by (auto simp: list_all_iff is_digit_def)
  show "length (zero_pad w n) = w" using len by (simp add: zero_pad_def Let_def)
  moreover show "list_all is_digit (zero_pad w n)"
    using digits by (auto simp: zero_pad_def Let_def list_all_iff is_digit_def code_point_def)
  moreover have "digits_value (zero_pad w n) = n"
    using digits assms(1)
    by (simp add: zero_pad_def Let_def digits_value_replicate digits_value_val digits_val_str_of_nat)
  ultimately show "parse_digits w (zero_pad w n) = Some n" by (simp add: parse_digits_def)
qed

lemma length_two: "length s = 2 \<Longrightarrow> (\<And>a b. s = [a, b] \<Longrightarrow> P) \<Longrightarrow> P"
  by (auto simp: numeral_2_eq_2 length_Suc_conv)

lemma length_four: "length s = 4 \<Longrightarrow> (\<And>a b c d. s = [a, b, c, d] \<Longrightarrow> P) \<Longrightarrow> P"
  by (auto simp: eval_nat_numeral length_Suc_conv)

lemma pad_two:
  assumes "0 \<le> n" "n < 100"
  obtains a b where "zero_pad 2 n = [a, b]" "parse_digits 2 [a, b] = Some n" "is_digit a" "is_digit b"
proof -
  have "0 \<le> n" "n < 10 ^ 2" "0 < (2 :: nat)" using assms by simp_all
  note field = zero_pad_field [OF this]
  show thesis
    using field(1,3) by (rule_tac length_two [OF field(2)]) (simp add: that)
qed

lemma length_pad_two: "0 \<le> n \<Longrightarrow> n < 100 \<Longrightarrow> length (zero_pad 2 n) = 2"
  by (rule zero_pad_field(2)) simp_all

lemma pad_four:
  assumes "0 \<le> n" "n < 10000"
  obtains a b c d where "zero_pad 4 n = [a, b, c, d]" "parse_digits 4 [a, b, c, d] = Some n"
    "is_digit a" "is_digit b" "is_digit c" "is_digit d"
proof -
  have "0 \<le> n" "n < 10 ^ 4" "0 < (4 :: nat)" using assms by simp_all
  note field = zero_pad_field [OF this]
  show thesis
    using field(1,3) by (rule_tac length_four [OF field(2)]) (simp add: that)
qed

lemma digit_not_mark:
  assumes "is_digit c"
  shows "c \<noteq> CHR ''-''" "c \<noteq> CHR ''+''" "c \<noteq> CHR ''W''" "c \<noteq> CHR '':''" "c \<noteq> CHR ''Z''" "c \<noteq> CHR ''.''"
  using assms by (auto simp: is_digit_def code_point_def)

section \<open>The date\<close>

definition date_text :: "int \<Rightarrow> int \<Rightarrow> int \<Rightarrow> string" where
  "date_text y m d = zero_pad 4 y @ ''-'' @ zero_pad 2 m @ ''-'' @ zero_pad 2 d"

lemma valid_date_small: "valid_date y m d \<Longrightarrow> 1 \<le> y \<and> y < 10000 \<and> 1 \<le> m \<and> m < 100 \<and> 1 \<le> d \<and> d < 100"
  by (auto simp: valid_date_def days_in_month_def split: if_splits)

lemma date_text_read:
  assumes "valid_date y m d"
  shows "length (date_text y m d) = 10" "parse_isoformat_date (date_text y m d) = Some (days_from_civil y m d)"
    "date_length (date_text y m d @ CHR ''T'' # r) = Some 10"
proof -
  note small = valid_date_small [OF assms]
  obtain y1 y2 y3 y4 where y: "zero_pad 4 y = [y1, y2, y3, y4]" "parse_digits 4 [y1, y2, y3, y4] = Some y"
    "is_digit y1" "is_digit y2" "is_digit y3" "is_digit y4"
    using small by (auto intro: pad_four [of y])
  obtain m1 m2 where m: "zero_pad 2 m = [m1, m2]" "parse_digits 2 [m1, m2] = Some m" "is_digit m1" "is_digit m2"
    using small by (auto intro: pad_two [of m])
  obtain d1 d2 where d: "zero_pad 2 d = [d1, d2]" "parse_digits 2 [d1, d2] = Some d" "is_digit d1" "is_digit d2"
    using small by (auto intro: pad_two [of d])
  have shape: "date_text y m d = [y1, y2, y3, y4, CHR ''-'', m1, m2, CHR ''-'', d1, d2]"
    by (simp add: date_text_def y(1) m(1) d(1))
  show "length (date_text y m d) = 10" by (simp add: shape)
  have "slice 0 4 (date_text y m d) = [y1, y2, y3, y4]" "slice 4 1 (date_text y m d) = ''-''"
    "slice 5 1 (date_text y m d) = [m1]" "slice 5 2 (date_text y m d) = [m1, m2]"
    "slice 7 1 (date_text y m d) = ''-''" "slice 8 2 (date_text y m d) = [d1, d2]"
    by (simp_all add: slice_def shape)
  then show "parse_isoformat_date (date_text y m d) = Some (days_from_civil y m d)"
    using assms digit_not_mark(3) [OF m(3)] by (simp add: parse_isoformat_date_def Let_def y(2) m(2) d(2))
  show "date_length (date_text y m d @ CHR ''T'' # r) = Some 10"
    using digit_not_mark(3) [OF m(3)] by (simp add: date_length_def shape)
qed

section \<open>The time of day and the offset\<close>

definition hms_text :: "int \<Rightarrow> int \<Rightarrow> int \<Rightarrow> int \<Rightarrow> string" where
  "hms_text h m s us = zero_pad 2 h @ '':'' @ zero_pad 2 m @ '':'' @ zero_pad 2 s @
     (if us = 0 then [] else ''.'' @ zero_pad 6 us)"

lemma fraction_read:
  assumes "0 \<le> us" "us < 1000000"
  shows "parse_fraction (if us = 0 then [] else ''.'' @ zero_pad 6 us) = Some us"
proof -
  have "0 \<le> us" "us < 10 ^ 6" "0 < (6 :: nat)" using assms by simp_all
  note field = zero_pad_field [OF this]
  then show ?thesis by (auto simp: parse_fraction_def parse_digits_def)
qed

lemma hms_text_read:
  assumes "0 \<le> h" "h < 100" "0 \<le> m" "m < 100" "0 \<le> s" "s < 100" "0 \<le> us" "us < 1000000"
  shows "parse_hms (hms_text h m s us) = Some (h, m, s, us)"
    "parse_hms (zero_pad 2 h @ '':'' @ zero_pad 2 m) = Some (h, m, 0, 0)"
proof -
  obtain h1 h2 where h: "zero_pad 2 h = [h1, h2]" "parse_digits 2 [h1, h2] = Some h"
    using assms by (auto intro: pad_two [of h])
  obtain m1 m2 where m: "zero_pad 2 m = [m1, m2]" "parse_digits 2 [m1, m2] = Some m"
    using assms by (auto intro: pad_two [of m])
  obtain s1 s2 where s: "zero_pad 2 s = [s1, s2]" "parse_digits 2 [s1, s2] = Some s"
    using assms by (auto intro: pad_two [of s])
  define f where "f = (if us = 0 then [] else ''.'' @ zero_pad 6 us)"
  have shape: "hms_text h m s us = [h1, h2, CHR '':'', m1, m2, CHR '':'', s1, s2] @ f"
    by (simp add: hms_text_def h(1) m(1) s(1) f_def)
  have "parse_fraction f = Some us" using fraction_read assms(7,8) by (simp add: f_def)
  then show "parse_hms (hms_text h m s us) = Some (h, m, s, us)"
    unfolding shape by (simp add: parse_hms_def slice_def Let_def h(2) m(2) s(2))
  show "parse_hms (zero_pad 2 h @ '':'' @ zero_pad 2 m) = Some (h, m, 0, 0)"
    by (simp add: parse_hms_def slice_def Let_def h m)
qed

definition plain_chars :: "string \<Rightarrow> bool" where
  "plain_chars s \<longleftrightarrow> list_all (\<lambda>c. is_digit c \<or> c = CHR '':'' \<or> c = CHR ''.'') s"

lemma plain_pad: "0 \<le> n \<Longrightarrow> n < 10 ^ w \<Longrightarrow> 0 < w \<Longrightarrow> plain_chars (zero_pad w n)"
  using zero_pad_field(3) by (auto simp: plain_chars_def list_all_iff)

lemma plain_chars_append [simp]: "plain_chars (s @ r) \<longleftrightarrow> plain_chars s \<and> plain_chars r"
  by (simp add: plain_chars_def)

lemma plain_hms:
  assumes "0 \<le> h" "h < 100" "0 \<le> m" "m < 100" "0 \<le> s" "s < 100" "0 \<le> us" "us < 1000000"
  shows "plain_chars (hms_text h m s us)" "plain_chars (zero_pad 2 h @ '':'' @ zero_pad 2 m)"
proof -
  have "plain_chars (zero_pad 2 h)" "plain_chars (zero_pad 2 m)" "plain_chars (zero_pad 2 s)"
    "plain_chars (zero_pad 6 us)"
    using assms by (simp_all add: plain_pad)
  moreover have "plain_chars '':''" "plain_chars ''.''" "plain_chars []" by (simp_all add: plain_chars_def)
  ultimately show "plain_chars (hms_text h m s us)" "plain_chars (zero_pad 2 h @ '':'' @ zero_pad 2 m)"
    unfolding hms_text_def by (simp_all only: plain_chars_append simp_thms split: if_split)
qed

lemma plain_no_sign: "plain_chars s \<Longrightarrow> c \<in> {CHR ''-'', CHR ''+'', CHR ''Z''} \<Longrightarrow> c \<notin> set s"
proof -
  assume plain: "plain_chars s" and c: "c \<in> {CHR ''-'', CHR ''+'', CHR ''Z''}"
  have "\<not> is_digit c" using c digit_not_mark [of c] by blast
  moreover have "c \<noteq> CHR '':''" "c \<noteq> CHR ''.''" using c by auto
  ultimately show "c \<notin> set s" using plain unfolding plain_chars_def list_all_iff by blast
qed

lemma offset_start_plain:
  assumes "plain_chars s" "plain_chars r"
  shows "offset_start (s @ CHR ''-'' # r) = Some (length s)" "offset_start (s @ CHR ''+'' # r) = Some (length s)"
proof -
  have none: "CHR ''-'' \<notin> set s" "CHR ''+'' \<notin> set s" "CHR ''-'' \<notin> set r"
    using plain_no_sign [OF assms(1)] plain_no_sign [OF assms(2)] by blast+
  have "takeWhile (\<lambda>c. c \<noteq> x) (s @ x # r) = s" if "x \<notin> set s" for x
    using that by (subst takeWhile_append2) auto
  then show "offset_start (s @ CHR ''-'' # r) = Some (length s)" "offset_start (s @ CHR ''+'' # r) = Some (length s)"
    using none by (simp_all add: offset_start_def)
qed

lemma time_split:
  assumes "0 \<le> us" "us < micros_per_day"
  defines "secs \<equiv> us div micros_per_second" and "fr \<equiv> us mod micros_per_second"
  shows "0 \<le> secs div 3600" "secs div 3600 < 24" "0 \<le> secs div 60 mod 60" "secs div 60 mod 60 < 60"
    "0 \<le> secs mod 60" "secs mod 60 < 60" "0 \<le> fr" "fr < 1000000"
    "micros_of (secs div 3600, secs div 60 mod 60, secs mod 60, fr) = us"
proof -
  have us: "us = secs * 1000000 + fr" "0 \<le> fr" "fr < 1000000"
    by (simp_all add: secs_def fr_def micros_per_second_def)
  have secs: "0 \<le> secs" "secs < 86400"
    using us assms(1,2) by (simp_all add: micros_per_day_def micros_per_second_def)
  have "secs div 3600 = secs div 60 div 60" using zdiv_zmult2_eq [of 60 secs 60] by simp
  then have "secs = 3600 * (secs div 3600) + 60 * (secs div 60 mod 60) + secs mod 60"
    using mult_div_mod_eq [of 60 secs] mult_div_mod_eq [of 60 "secs div 60"] by linarith
  then show "micros_of (secs div 3600, secs div 60 mod 60, secs mod 60, fr) = us"
    unfolding us(1) micros_of_def micros_per_second_def by simp
  show "0 \<le> secs div 3600" "secs div 3600 < 24" using secs by linarith+
qed (simp_all add: fr_def micros_per_second_def)

text \<open>The printed offset is its sign and a text the parser reads back.\<close>

lemma iso_offset_read:
  assumes "\<bar>off\<bar> < micros_per_day"
  obtains r t where "iso_offset off = (if off < 0 then CHR ''-'' else CHR ''+'') # r" "plain_chars r"
    "parse_hms r = Some t" "micros_of t = \<bar>off\<bar>" "5 \<le> length r"
proof -
  define secs where "secs = \<bar>off\<bar> div micros_per_second"
  define fr where "fr = \<bar>off\<bar> mod micros_per_second"
  have "0 \<le> \<bar>off\<bar>" by simp
  note split = time_split [OF this assms, folded secs_def fr_def]
  have small: "secs div 3600 < 100" "secs div 60 mod 60 < 100" "secs mod 60 < 100"
    by (rule less_trans [OF split(2)] less_trans [OF split(4)] less_trans [OF split(6)], simp)+
  note plain = plain_hms [OF split(1) small(1) split(3) small(2) split(5) small(3) split(7,8)]
  note read = hms_text_read [OF split(1) small(1) split(3) small(2) split(5) small(3) split(7,8)]
  define r where "r = (if secs mod 60 = 0 \<and> fr = 0 then zero_pad 2 (secs div 3600) @ '':'' @ zero_pad 2 (secs div 60 mod 60)
    else hms_text (secs div 3600) (secs div 60 mod 60) (secs mod 60) fr)"
  have "iso_offset off = (if off < 0 then CHR ''-'' else CHR ''+'') # r"
    by (simp add: iso_offset_def Let_def r_def hms_text_def secs_def fr_def)
  moreover have "plain_chars r" using plain by (simp add: r_def)
  moreover have "\<exists>t. parse_hms r = Some t \<and> micros_of t = \<bar>off\<bar>"
    using read split(9) by (auto simp: r_def)
  moreover have "5 \<le> length r"
    using length_pad_two [OF split(1) small(1)] length_pad_two [OF split(3) small(2)]
    by (simp add: r_def hms_text_def)
  ultimately show thesis using that by blast
qed

section \<open>Timestamps are read back\<close>

definition local_in_range :: "int \<Rightarrow> bool" where
  "local_in_range t \<longleftrightarrow>
     days_from_civil 1 1 1 * micros_per_day \<le> t \<and> t < days_from_civil 10000 1 1 * micros_per_day"

lemma local_day:
  assumes "local_in_range t"
  shows "day_in_range (t div micros_per_day)" "0 \<le> t mod micros_per_day" "t mod micros_per_day < micros_per_day"
proof -
  have pos: "0 < micros_per_day" by (simp add: micros_per_day_def micros_per_second_def)
  then show us: "0 \<le> t mod micros_per_day" "t mod micros_per_day < micros_per_day" by simp_all
  have t: "t = t div micros_per_day * micros_per_day + t mod micros_per_day" by simp
  have "days_from_civil 1 1 1 * micros_per_day < (t div micros_per_day + 1) * micros_per_day"
    using assms us t unfolding local_in_range_def distrib_right by linarith
  moreover have "t div micros_per_day * micros_per_day < days_from_civil 10000 1 1 * micros_per_day"
    using assms us t unfolding local_in_range_def by linarith
  ultimately have "days_from_civil 1 1 1 < t div micros_per_day + 1" "t div micros_per_day < days_from_civil 10000 1 1"
    using pos by (simp_all only: mult_less_cancel_right_pos)
  then show "day_in_range (t div micros_per_day)" by (simp add: day_in_range_def)
qed

lemma time_read:
  assumes "0 \<le> us" "us < micros_per_day" "\<bar>off\<bar> < micros_per_day"
  defines "secs \<equiv> us div micros_per_second" and "fr \<equiv> us mod micros_per_second"
  shows "parse_isoformat_time (hms_text (secs div 3600) (secs div 60 mod 60) (secs mod 60) fr @ iso_offset off)
     = Some (us, Some off)"
proof -
  note split = time_split [OF assms(1,2), folded secs_def fr_def]
  have small: "secs div 3600 < 100" "secs div 60 mod 60 < 100" "secs mod 60 < 100"
    by (rule less_trans [OF split(2)] less_trans [OF split(4)] less_trans [OF split(6)], simp)+
  note plain = plain_hms(1) [OF split(1) small(1) split(3) small(2) split(5) small(3) split(7,8)]
  note read = hms_text_read(1) [OF split(1) small(1) split(3) small(2) split(5) small(3) split(7,8)]
  let ?hms = "hms_text (secs div 3600) (secs div 60 mod 60) (secs mod 60) fr"
  obtain r t where off: "iso_offset off = (if off < 0 then CHR ''-'' else CHR ''+'') # r" "plain_chars r"
    "parse_hms r = Some t" "micros_of t = \<bar>off\<bar>" "5 \<le> length r"
    by (rule iso_offset_read [OF assms(3)])
  have start: "offset_start (?hms @ iso_offset off) = Some (length ?hms)"
    using offset_start_plain [OF plain off(2)] by (simp add: off(1))
  have "parse_offset (iso_offset off) = Some off"
    using off assms(3) by (auto simp: parse_offset_def)
  moreover have "2 \<le> length (?hms @ iso_offset off)" using off by simp
  ultimately show ?thesis
    using split by (simp add: parse_isoformat_time_def start read)
qed

lemma iso_local_shape:
  assumes "civil_from_days (t div micros_per_day) = (y, m, d)"
  defines "secs \<equiv> t mod micros_per_day div micros_per_second" and "fr \<equiv> t mod micros_per_day mod micros_per_second"
  shows "iso_local t = date_text y m d @ CHR ''T'' # hms_text (secs div 3600) (secs div 60 mod 60) (secs mod 60) fr"
  by (simp add: iso_local_def Let_def assms(1) date_text_def hms_text_def secs_def fr_def)

lemma fromisoformat_iso:
  assumes "local_in_range t" "\<bar>off\<bar> < micros_per_day"
  shows "fromisoformat (iso_local t @ iso_offset off) = Some (t, Some off)"
proof -
  obtain y m d where civil: "civil_from_days (t div micros_per_day) = (y, m, d)" by (metis prod_cases3)
  note day = local_day [OF assms(1)]
  note date = date_text_read [OF civil_valid [OF civil day(1)]]
  note time = time_read [OF day(2,3) assms(2)]
  have "fromisoformat (date_text y m d @ CHR ''T'' # r) = map_option (\<lambda>(us, off).
      (t div micros_per_day * micros_per_day + us, off)) (parse_isoformat_time r)" if "r \<noteq> []" for r
    using that by (simp add: fromisoformat_def date days_of_civil [OF civil])
  moreover have "iso_offset off \<noteq> []" by (simp add: iso_offset_def Let_def)
  ultimately show ?thesis unfolding iso_local_shape [OF civil] by (simp add: time)
qed

lemma isoformat_instant: "local_in_range t \<Longrightarrow> parse_instant (isoformat t) = Inr t"
  using fromisoformat_iso [of t 0] by (simp add: parse_instant_def isoformat_def micros_per_day_def micros_per_second_def)

section \<open>What the parser accepts is in range\<close>

lemma parse_digits_nonneg: "parse_digits n s = Some v \<Longrightarrow> 0 \<le> v"
proof -
  assume "parse_digits n s = Some v"
  then have "list_all is_digit s" "v = digits_value s" by (simp_all add: parse_digits_def split: if_splits)
  then show "0 \<le> v" by (simp add: digits_value_val)
qed

lemma parse_fraction_nonneg: "parse_fraction s = Some v \<Longrightarrow> 0 \<le> v"
proof -
  assume f: "parse_fraction s = Some v"
  have "0 \<le> digits_value (take 6 (tl s))" if "list_all is_digit (tl s)"
  proof -
    have "list_all is_digit (take 6 (tl s))" using that by (auto simp: list_all_iff dest: in_set_takeD)
    then show ?thesis by (simp add: digits_value_val)
  qed
  then show "0 \<le> v" using f by (auto simp: parse_fraction_def split: if_splits)
qed

lemma parse_hms_nonneg:
  assumes "parse_hms s = Some t"
  shows "0 \<le> micros_of t"
proof -
  obtain h m sec us where t: "t = (h, m, sec, us)" by (metis prod_cases4)
  have "0 \<le> h \<and> 0 \<le> m \<and> 0 \<le> sec \<and> 0 \<le> us"
    using assms unfolding t parse_hms_def Let_def
    by (auto simp: bind_eq_Some_conv dest: parse_digits_nonneg parse_fraction_nonneg split: if_splits)
  then show ?thesis by (simp add: t micros_of_def micros_per_second_def)
qed

lemma parse_offset_bound: "parse_offset s = Some off \<Longrightarrow> \<bar>off\<bar> < micros_per_day"
  using parse_hms_nonneg
  by (fastforce simp: parse_offset_def bind_eq_Some_conv micros_per_day_def micros_per_second_def split: if_splits)

lemma parse_time_bounds:
  assumes "parse_isoformat_time s = Some (us, off)"
  shows "0 \<le> us" "off = Some x \<Longrightarrow> \<bar>x\<bar> < micros_per_day"
proof -
  have "0 \<le> us \<and> (\<forall>x. off = Some x \<longrightarrow> \<bar>x\<bar> < micros_per_day)"
    using assms unfolding parse_isoformat_time_def
    by (auto simp: bind_eq_Some_conv dest: parse_hms_nonneg parse_offset_bound split: if_splits option.splits)
  then show "0 \<le> us" "off = Some x \<Longrightarrow> \<bar>x\<bar> < micros_per_day" by blast+
qed

lemma days_of_year_nonneg:
  fixes y :: int
  assumes "0 \<le> y"
  shows "365 * y \<le> y div 400 * 146097 + (y mod 400 * 365 + y mod 400 div 4 - y mod 400 div 100)"
proof -
  define e r where "e = y div 400" and "r = y mod 400"
  have "0 \<le> e" "y = 400 * e + r" "0 \<le> r" using assms by (simp_all add: e_def r_def pos_imp_zdiv_nonneg_iff)
  moreover have "r div 100 \<le> r div 4" using calculation(3) by (simp add: zdiv_mono2)
  ultimately show ?thesis unfolding e_def [symmetric] r_def [symmetric] by linarith
qed

lemma days_from_civil_lower:
  assumes "1 \<le> y" "1 \<le> m" "m \<le> 12" "1 \<le> d"
  shows "365 * (y - 1) - 719162 \<le> days_from_civil y m d"
proof -
  define y' where "y' = (if m \<le> 2 then y - 1 else y)"
  define doy where "doy = (153 * (if m > 2 then m - 3 else m + 9) + 2) div 5 + d - 1"
  have "0 \<le> y'" using assms by (simp add: y'_def)
  note days = days_of_year_nonneg [OF this]
  have "306 \<le> doy" if "m \<le> 2"
  proof -
    have "306 \<le> (153 * (m + 9) + 2) div 5" using zdiv_mono1 [of 1532 "153 * (m + 9) + 2" 5] assms(2) by simp
    then show ?thesis using that assms(4) by (simp add: doy_def)
  qed
  moreover have "0 \<le> doy" if "\<not> m \<le> 2"
  proof -
    have "0 \<le> (153 * (m - 3) + 2) div 5" using that by (simp add: pos_imp_zdiv_nonneg_iff)
    then show ?thesis using that assms(4) by (simp add: doy_def)
  qed
  ultimately have "365 * (y - 1) + 306 \<le> 365 * y' + doy" unfolding y'_def by (auto split: if_splits)
  moreover have "days_from_civil y m d = y' div 400 * 146097 + (y' mod 400 * 365 + y' mod 400 div 4 - y' mod 400 div 100
      + doy) - 719468"
    by (simp only: days_from_civil_def Let_def y'_def doy_def)
  ultimately show ?thesis using days by linarith
qed

lemma first_day: "days_from_civil 1 1 1 = - 719162"
  by (simp add: days_from_civil_def)

lemma iso_week_lower:
  assumes "iso_week_day y w d = Some day"
  shows "days_from_civil 1 1 1 \<le> day"
proof -
  define jan1 where "jan1 = days_from_civil y 1 1"
  have y: "1 \<le> y" "1 \<le> w" "1 \<le> d" and
    day: "day = (if weekday jan1 > 3 then jan1 - weekday jan1 + 7 else jan1 - weekday jan1) + (w - 1) * 7 + d - 1"
    using assms by (simp_all only: iso_week_day_def Let_def jan1_def split: if_splits) simp_all
  have "0 \<le> weekday jan1" "weekday jan1 < 7" by (simp_all add: weekday_def)
  then have low: "jan1 - 3 \<le> day" "weekday jan1 = 0 \<Longrightarrow> jan1 \<le> day" using y day by (auto split: if_splits)
  have jan: "365 * (y - 1) - 719162 \<le> jan1" unfolding jan1_def by (rule days_from_civil_lower [OF y(1)]) simp_all
  show ?thesis
  proof (cases "y = 1")
    case True
    then have "jan1 = - 719162" by (simp add: jan1_def first_day)
    then show ?thesis using low(2) by (simp add: weekday_def first_day)
  qed (use jan low(1) y(1) in \<open>simp add: first_day\<close>)
qed

lemma parse_date_lower: "parse_isoformat_date s = Some day \<Longrightarrow> days_from_civil 1 1 1 \<le> day"
proof -
  have valid: "days_from_civil 1 1 1 \<le> days_from_civil y m d" if "valid_date y m d" for y m d
    using that days_from_civil_lower [of y m d] by (simp add: valid_date_def first_day)
  assume "parse_isoformat_date s = Some day"
  then show "days_from_civil 1 1 1 \<le> day"
    by (auto simp: parse_isoformat_date_def Let_def bind_eq_Some_conv dest: iso_week_lower intro: valid split: if_splits)
qed

lemma fromisoformat_bounds:
  assumes "fromisoformat s = Some (t, off)"
  shows "days_from_civil 1 1 1 * micros_per_day \<le> t" "off = Some x \<Longrightarrow> \<bar>x\<bar> < micros_per_day" "s \<noteq> []"
proof -
  obtain n day where day: "date_length s = Some n" "parse_isoformat_date (take n s) = Some day" and
    rest: "(if drop (n + 1) s = [] then Some (day * micros_per_day, None)
      else map_option (\<lambda>(us, off). (day * micros_per_day + us, off)) (parse_isoformat_time (drop (n + 1) s))) = Some (t, off)"
    using assms by (auto simp: fromisoformat_def bind_eq_Some_conv)
  have pos: "0 \<le> micros_per_day" by (simp add: micros_per_day_def micros_per_second_def)
  have "days_from_civil 1 1 1 * micros_per_day \<le> day * micros_per_day"
    by (rule mult_right_mono [OF parse_date_lower [OF day(2)] pos])
  then show "days_from_civil 1 1 1 * micros_per_day \<le> t"
    using rest by (auto dest!: parse_time_bounds(1) split: if_splits)
  show "off = Some x \<Longrightarrow> \<bar>x\<bar> < micros_per_day"
    using rest by (auto dest!: parse_time_bounds(2) split: if_splits)
  show "s \<noteq> []" using day(1) by (auto simp: date_length_def)
qed

end
