(* ===== verification/Recurring_Timers.thy ===== *)
theory Recurring_Timers
  imports Scheduler_Runtime Datetime_Roundtrip
begin

text \<open>
  The life of a recurring timer start: the payload of its job, seen as a due time, an offset, a
  duration and a number of cycles, through all the firings of the scheduler. The due times are
  stored as texts, so that every firing parses what the one before it printed.
\<close>

section \<open>The timer of a payload\<close>

text \<open>
  The local due time, the offset from UTC, the duration in microseconds and the cycles. A duration is
  stored as the text of a float after the first firing, which must stand for the same duration.
\<close>

definition timer_view :: "(string \<Rightarrow> int option) \<Rightarrow> (string \<times> pyval) list \<Rightarrow> (int \<times> int \<times> int \<times> pyval) option" where
  "timer_view secs payload =
     (case dict_get payload ''event_value'' of
        PDict ev \<Rightarrow>
          (case dict_get ev ''next'' of
             PStr s \<Rightarrow>
               (case fromisoformat s of
                  None \<Rightarrow> None
                | Some (t, off) \<Rightarrow>
                    (case duration_value secs (dict_get ev ''duration'') of
                       Inl _ \<Rightarrow> None
                     | Inr (us, lit) \<Rightarrow>
                         if secs lit = Some us
                         then Some (t, (case off of None \<Rightarrow> 0 | Some x \<Rightarrow> x), us, dict_get ev ''cycles'') else None))
           | _ \<Rightarrow> None)
      | _ \<Rightarrow> None)"

text \<open>The payload after a number of firings that each scheduled the timer again.\<close>

inductive rearmed :: "(string \<Rightarrow> int option) \<Rightarrow> nat \<Rightarrow> (string \<times> pyval) list \<Rightarrow> (string \<times> pyval) list \<Rightarrow> bool"
  for secs where
  rearmed_none: "rearmed secs 0 p p"
| rearmed_again: "rearmed secs k p q \<Longrightarrow>
    next_timer_start_task_payload_after_fire secs q = Inr (Some (n, r)) \<Longrightarrow> rearmed secs (Suc k) p r"

inductive_cases rearmed_SucE: "rearmed secs (Suc k) p r"
inductive_cases rearmed_zeroE: "rearmed secs 0 p r"

section \<open>One firing\<close>

lemma timer_viewE:
  assumes "timer_view secs p = Some (t, off, us, cyc)"
  obtains ev s tz lit where "dict_get p ''event_value'' = PDict ev" "dict_get ev ''next'' = PStr s"
    "fromisoformat s = Some (t, tz)" "off = (case tz of None \<Rightarrow> 0 | Some x \<Rightarrow> x)"
    "duration_value secs (dict_get ev ''duration'') = Inr (us, lit)" "secs lit = Some us" "dict_get ev ''cycles'' = cyc"
  using assms unfolding timer_view_def
  by (auto split: pyval.splits option.splits prod.splits sum.splits if_splits)

lemma timer_view_bounds:
  assumes "timer_view secs p = Some (t, off, us, cyc)"
  shows "days_from_civil 1 1 1 * micros_per_day \<le> t" "\<bar>off\<bar> < micros_per_day"
proof -
  obtain ev s tz lit where v: "fromisoformat s = Some (t, tz)" "off = (case tz of None \<Rightarrow> 0 | Some x \<Rightarrow> x)"
    by (rule timer_viewE [OF assms])
  show "days_from_civil 1 1 1 * micros_per_day \<le> t" by (rule fromisoformat_bounds(1) [OF v(1)])
  show "\<bar>off\<bar> < micros_per_day"
    using fromisoformat_bounds(2) [OF v(1)] v(2)
    by (auto simp: micros_per_day_def micros_per_second_def split: option.splits)
qed

text \<open>The last cycle ends the timer; before it, the due time moves on by the duration.\<close>

lemma fire_last:
  assumes "timer_view secs p = Some (t, off, us, PInt c)" "c \<le> 1"
  shows "next_timer_start_task_payload_after_fire secs p = Inr None"
proof (rule timer_viewE [OF assms(1)])
  fix ev s tz lit
  assume v: "dict_get p ''event_value'' = PDict ev" "dict_get ev ''next'' = PStr s" "fromisoformat s = Some (t, tz)"
    "duration_value secs (dict_get ev ''duration'') = Inr (us, lit)" "dict_get ev ''cycles'' = PInt c"
  have "s \<noteq> []" by (rule fromisoformat_bounds(3) [OF v(3)])
  then show ?thesis
    using v assms(2) by (simp add: next_timer_start_task_payload_after_fire_def remaining_cycles_def)
qed

lemma fire_again:
  assumes "timer_view secs p = Some (t, off, us, PInt c)" "1 < c" "0 < us"
    and "t + us < days_from_civil 10000 1 1 * micros_per_day"
  obtains q where
    "next_timer_start_task_payload_after_fire secs p = Inr (Some (timestamp_ceil (t + us - off), q))"
    "timer_view secs q = Some (t + us, off, us, PInt (c - 1))"
    "dict_get q ''run_at_in_seconds'' = PInt (timestamp_ceil (t + us - off))"
proof (rule timer_viewE [OF assms(1)])
  fix ev s tz lit
  assume v: "dict_get p ''event_value'' = PDict ev" "dict_get ev ''next'' = PStr s" "fromisoformat s = Some (t, tz)"
    "off = (case tz of None \<Rightarrow> 0 | Some x \<Rightarrow> x)" "duration_value secs (dict_get ev ''duration'') = Inr (us, lit)"
    "secs lit = Some us" "dict_get ev ''cycles'' = PInt c"
  note bounds = timer_view_bounds [OF assms(1)]
  define due where "due = iso_local (t + us) @ iso_offset off"
  define ev' where "ev' = [(''next'', PStr due), (''duration'', PFloat lit), (''cycles'', PInt (c - 1))]"
  define n where "n = timestamp_ceil (t + us - off)"
  define q where "q = dict_set ''run_at_in_seconds'' (PInt n) (dict_set ''event_value'' (PDict ev') p)"
  have s: "s \<noteq> []" by (rule fromisoformat_bounds(3) [OF v(3)])
  have "local_in_range (t + us)" using bounds(1) assms(3,4) by (simp add: local_in_range_def)
  then have due: "fromisoformat due = Some (t + us, Some off)"
    unfolding due_def using bounds(2) by (rule fromisoformat_iso)
  have "us < 1000000000 * micros_per_day"
    using bounds(1) assms(4) by (simp add: days_from_civil_def micros_per_day_def micros_per_second_def)
  then have follow: "following_due_at s us = Inr due"
    using v(3,4) assms(4) by (simp add: following_due_at_def due_def)
  have due_ne: "due \<noteq> []" by (rule fromisoformat_bounds(3) [OF due])
  have ev': "dict_get ev' ''next'' = PStr due" "dict_get ev' ''duration'' = PFloat lit" "dict_get ev' ''cycles'' = PInt (c - 1)"
    by (simp_all add: ev'_def dict_get_def)
  have run: "timer_event_run_at_in_seconds (PDict ev') = Inr n"
    using due due_ne by (simp add: timer_event_run_at_in_seconds_def ev' parse_instant_def n_def)
  have "next_timer_start_task_payload_after_fire secs p = Inr (Some (n, q))"
    using v s assms(2) run follow
    by (simp add: next_timer_start_task_payload_after_fire_def remaining_cycles_def ev'_def q_def Let_def)
  moreover have q: "dict_get q ''event_value'' = PDict ev'" "dict_get q ''run_at_in_seconds'' = PInt n"
    by (simp_all add: q_def dict_get_def dict_set_def update_conv')
  moreover have "timer_view secs q = Some (t + us, off, us, PInt (c - 1))"
    using due v(6) by (simp add: timer_view_def q(1) ev' duration_value_def)
  ultimately show thesis using that by (simp add: n_def)
qed

section \<open>All the firings\<close>

lemma rearmed_view:
  assumes "rearmed secs k p q" "timer_view secs p = Some (t, off, us, PInt c)" "1 \<le> c" "0 < us"
    and "t + (c - 1) * us < days_from_civil 10000 1 1 * micros_per_day"
  shows "int k < c \<and> timer_view secs q = Some (t + int k * us, off, us, PInt (c - int k)) \<and>
    (k \<noteq> 0 \<longrightarrow> dict_get q ''run_at_in_seconds'' = PInt (timestamp_ceil (t + int k * us - off)))"
  using assms(1,2)
proof (induction rule: rearmed.induct)
  case (rearmed_none p)
  then show ?case using assms(3) by simp
next
  case (rearmed_again k p q n r)
  then have IH: "int k < c" "timer_view secs q = Some (t + int k * us, off, us, PInt (c - int k))" by simp_all
  have "1 < c - int k"
    using fire_last [OF IH(2)] rearmed_again.hyps(2) by (cases "c - int k \<le> 1") auto
  moreover have "(int k + 1) * us \<le> (c - 1) * us" using calculation assms(4) by (intro mult_right_mono) simp_all
  then have range: "t + int k * us + us < days_from_civil 10000 1 1 * micros_per_day"
    using assms(5) by (simp add: algebra_simps)
  ultimately show ?case
    using fire_again [OF IH(2) _ assms(4) range] rearmed_again.hyps(2)
    by (auto simp: algebra_simps)
qed

lemma rearmed_exists:
  assumes "timer_view secs p = Some (t, off, us, PInt c)" "0 < us" "int k < c"
    and "t + (c - 1) * us < days_from_civil 10000 1 1 * micros_per_day"
  shows "\<exists>q. rearmed secs k p q \<and> timer_view secs q = Some (t + int k * us, off, us, PInt (c - int k))"
  using assms(3)
proof (induction k)
  case 0
  show ?case using assms(1) rearmed_none by force
next
  case (Suc k)
  then obtain q where q: "rearmed secs k p q" "timer_view secs q = Some (t + int k * us, off, us, PInt (c - int k))" by auto
  have "(int k + 1) * us \<le> (c - 1) * us" using Suc.prems assms(2) by (intro mult_right_mono) simp_all
  then have "t + int k * us + us < days_from_civil 10000 1 1 * micros_per_day"
    using assms(4) by (simp add: algebra_simps)
  from fire_again [OF q(2) _ assms(2) this] Suc.prems obtain r where
    "next_timer_start_task_payload_after_fire secs q = Inr (Some (timestamp_ceil (t + int k * us + us - off), r))"
    "timer_view secs r = Some (t + int k * us + us, off, us, PInt (c - int k - 1))" by auto
  then show ?case using rearmed_again [OF q(1)] by (force simp: algebra_simps)
qed

text \<open>C13: A recurring timer start with \<open>c\<close> cycles fires exactly \<open>c\<close> times: it is scheduled again \<open>c - 1\<close> times,
  and the firing after that ends it. Its due times do not drift: although every one is printed and
  parsed again, the k-th lies exactly k durations after the first, and the job is due at the whole
  second at or after it. Nothing but the calendar can end it earlier.\<close>

theorem recurring_timer_fires:
  assumes "timer_view secs p = Some (t, off, us, PInt c)" "1 \<le> c" "0 < us"
    and "t + (c - 1) * us < days_from_civil 10000 1 1 * micros_per_day"
  shows "(\<forall>k q. rearmed secs k p q \<longrightarrow> int k < c \<and>
      timer_view secs q = Some (t + int k * us, off, us, PInt (c - int k)) \<and>
      (k \<noteq> 0 \<longrightarrow> dict_get q ''run_at_in_seconds'' = PInt (timestamp_ceil (t + int k * us - off)))) \<and>
    (\<exists>q. rearmed secs (nat (c - 1)) p q \<and> next_timer_start_task_payload_after_fire secs q = Inr None)"
proof (rule conjI)
  obtain q where "rearmed secs (nat (c - 1)) p q" "timer_view secs q = Some (t + (c - 1) * us, off, us, PInt 1)"
    using rearmed_exists [OF assms(1,3) _ assms(4), of "nat (c - 1)"] assms(2) by auto
  then show "\<exists>q. rearmed secs (nat (c - 1)) p q \<and> next_timer_start_task_payload_after_fire secs q = Inr None"
    using fire_last by fastforce
qed (use rearmed_view [OF _ assms] in blast)

definition hourly_payload :: "(string \<times> pyval) list" where
  "hourly_payload = [(''task_spec_name'', PStr ''start''), (''event_value'', PDict
     [(''next'', PStr ''2024-02-28T23:30:00+02:00''), (''duration'', PFloat ''3600.0''), (''cycles'', PInt 3)])]"

definition hour_secs :: "string \<Rightarrow> int option" where
  "hour_secs s = (if s = ''3600.0'' then Some 3600000000 else None)"

theorem recurring_timer_fires_witness:
  "timer_view hour_secs hourly_payload = Some (1709163000000000, 7200000000, 3600000000, PInt 3) \<and>
   (\<exists>q. rearmed hour_secs 2 hourly_payload q \<and> next_timer_start_task_payload_after_fire hour_secs q = Inr None \<and>
      timer_view hour_secs q = Some (1709170200000000, 7200000000, 3600000000, PInt 1))"
proof -
  have due: "fromisoformat ''2024-02-28T23:30:00+02:00'' = Some (1709163000000000, Some 7200000000)" by code_simp
  then have view: "timer_view hour_secs hourly_payload = Some (1709163000000000, 7200000000, 3600000000, PInt 3)"
    by (simp add: timer_view_def hourly_payload_def hour_secs_def dict_get_def duration_value_def)
  have range: "(1709163000000000 :: int) + (3 - 1) * 3600000000 < days_from_civil 10000 1 1 * micros_per_day" by code_simp
  have "1 \<le> (3 :: int)" "0 < (3600000000 :: int)" "nat (3 - 1) = 2" by simp_all
  note fires = recurring_timer_fires [OF view this(1,2) range, unfolded this(3)]
  obtain q where q: "rearmed hour_secs 2 hourly_payload q" "next_timer_start_task_payload_after_fire hour_secs q = Inr None"
    using fires by (elim conjE exE) (rule that)
  have "timer_view hour_secs q = Some (1709163000000000 + int 2 * 3600000000, 7200000000, 3600000000, PInt (3 - int 2))"
    using fires q(1) by (elim conjE) blast
  then show ?thesis using view q by auto
qed

end
