(* ===== verification/Keycloak.thy ===== *)
theory Keycloak
  imports Service_Tasks
begin

text \<open>
  \<^verbatim>\<open>src/m8flow_core/utils/keycloak\<close>: the client that provisions organizations and users in the shared
  realm of a Keycloak server. The environment, the server and \<^verbatim>\<open>json.loads\<close> are a parameter, the record
  \<open>keycloak\<close>. The server has a state of any type: a request changes it and is answered, fails with an
  HTTP status, or does not reach it. The body of an answer is the text its bytes decode to.
\<close>

section \<open>The server\<close>

record kc_request =
  kr_method :: string
  kr_url :: string
  kr_headers :: "(string \<times> string) list"
  kr_data :: "string option"
  kr_timeout :: int

record kc_response =
  kp_status_code :: int
  kp_headers :: "(string \<times> string) list"
  kp_body_text :: string

datatype kc_outcome =
    Kc_answer kc_response
  | Kc_http_error kc_response
  | Kc_unreachable string
  | Kc_raised m8f_error

record 's keycloak =
  kc_env :: "string \<Rightarrow> string option"
  kc_urlopen :: "kc_request \<Rightarrow> 's \<Rightarrow> kc_outcome \<times> 's"
  kc_json_loads :: "string \<Rightarrow> pyval option"

definition kc_error :: "keycloak_reason \<Rightarrow> m8f_error" where
  "kc_error r = Err KeycloakProvisioningError (R_keycloak r)"

section \<open>config.py\<close>

definition get_setting :: "'s keycloak \<Rightarrow> string \<Rightarrow> string option" where
  "get_setting kc name =
     (case kc_env kc name of
        None \<Rightarrow> None
      | Some v \<Rightarrow> if py_strip v = [] then None else Some (py_strip v))"

fun first_setting :: "'s keycloak \<Rightarrow> string list \<Rightarrow> string \<Rightarrow> string" where
  "first_setting kc [] d = d"
| "first_setting kc (n # ns) d = (case get_setting kc n of None \<Rightarrow> first_setting kc ns d | Some v \<Rightarrow> v)"

definition keycloak_url :: "'s keycloak \<Rightarrow> string" where
  "keycloak_url kc =
     py_rstrip_char (CHR ''/'') (first_setting kc [''KEYCLOAK_URL'', ''M8FLOW_KEYCLOAK_URL''] ''http://localhost:6842'')"

definition keycloak_admin_user :: "'s keycloak \<Rightarrow> string" where
  "keycloak_admin_user kc = first_setting kc [''KEYCLOAK_ADMIN_USER'', ''M8FLOW_KEYCLOAK_ADMIN_USER''] ''admin''"

definition keycloak_admin_password :: "'s keycloak \<Rightarrow> string" where
  "keycloak_admin_password kc =
     first_setting kc [''KEYCLOAK_ADMIN_PASSWORD'', ''M8FLOW_KEYCLOAK_ADMIN_PASSWORD''] ''admin''"

definition shared_realm_name :: "'s keycloak \<Rightarrow> string" where
  "shared_realm_name kc = first_setting kc [''M8FLOW_KEYCLOAK_SHARED_REALM''] ''m8flow''"

definition master_realm_name :: "'s keycloak \<Rightarrow> string" where
  "master_realm_name kc = first_setting kc [''M8FLOW_KEYCLOAK_MASTER_REALM''] ''master''"

section \<open>URLs\<close>

text \<open>\<^verbatim>\<open>quote(s, safe='')\<close> and \<^verbatim>\<open>urlencode\<close>: the bytes of the UTF-8 text, percent-encoded unless unreserved.\<close>

definition unreserved_byte :: "int \<Rightarrow> bool" where
  "unreserved_byte b \<longleftrightarrow> (48 \<le> b \<and> b \<le> 57) \<or> (65 \<le> b \<and> b \<le> 90) \<or> (97 \<le> b \<and> b \<le> 122) \<or> b \<in> {45, 46, 95, 126}"

definition upper_hex :: "int \<Rightarrow> char" where
  "upper_hex n = char_of (nat (if n < 10 then 48 + n else 55 + n))"

definition quote_byte :: "int \<Rightarrow> string" where
  "quote_byte b =
     (if unreserved_byte b then [char_of (nat b)] else [CHR ''%'', upper_hex (b div 16), upper_hex (b mod 16)])"

definition url_quote :: "string \<Rightarrow> string" where
  "url_quote s = concat (map quote_byte (concat (map utf8_char s)))"

definition quote_plus :: "string \<Rightarrow> string" where
  "quote_plus s = concat (map (\<lambda>c. if c = CHR '' '' then ''+'' else url_quote [c]) s)"

definition urlencode :: "(string \<times> string) list \<Rightarrow> string" where
  "urlencode params = py_join ''&'' (map (\<lambda>(k, v). quote_plus k @ ''='' @ quote_plus v) params)"

definition url_with_query :: "string \<Rightarrow> (string \<times> string) list \<Rightarrow> string" where
  "url_with_query base params = (if params = [] then base else base @ ''?'' @ urlencode params)"

definition add_segments :: "string \<Rightarrow> string list \<Rightarrow> string" where
  "add_segments base segments =
     base @ concat (map (\<lambda>s. ''/'' @ url_quote s) (filter (\<lambda>s. s \<noteq> []) (map py_strip segments)))"

definition realm_users_url :: "'s keycloak \<Rightarrow> string \<Rightarrow> (string \<times> string) list \<Rightarrow> string" where
  "realm_users_url kc realm params =
     url_with_query (keycloak_url kc @ ''/admin/realms/'' @ url_quote (py_strip realm) @ ''/users'') params"

definition realm_user_url :: "'s keycloak \<Rightarrow> string \<Rightarrow> string \<Rightarrow> string list \<Rightarrow> string" where
  "realm_user_url kc realm user_id segments =
     add_segments (keycloak_url kc @ ''/admin/realms/'' @ url_quote (py_strip realm) @ ''/users/''
       @ url_quote (py_strip user_id)) segments"

definition shared_realm_organizations_url ::
  "'s keycloak \<Rightarrow> string list \<Rightarrow> (string \<times> string) list \<Rightarrow> string" where
  "shared_realm_organizations_url kc segments params =
     url_with_query (add_segments (keycloak_url kc @ ''/admin/realms/'' @ url_quote (py_strip (shared_realm_name kc))
       @ ''/organizations'') segments) params"

definition shared_realm_organization_groups_url ::
  "'s keycloak \<Rightarrow> string \<Rightarrow> string list \<Rightarrow> (string \<times> string) list \<Rightarrow> string" where
  "shared_realm_organization_groups_url kc organization_id segments params =
     url_with_query (add_segments (shared_realm_organizations_url kc [organization_id, ''groups''] []) segments) params"


definition bearer_headers :: "string \<Rightarrow> (string \<times> string) list" where
  "bearer_headers token = [(''Authorization'', ''Bearer '' @ token), (''Content-Type'', ''application/json'')]"

section \<open>Requests\<close>

datatype kc_body = No_body | Json_body pyval | Form_body "(string \<times> string) list"

definition set_default :: "string \<Rightarrow> 'v \<Rightarrow> (string \<times> 'v) list \<Rightarrow> (string \<times> 'v) list" where
  "set_default k v d = (if map_of d k = None then d @ [(k, v)] else d)"

definition kc_request_of ::
  "string \<Rightarrow> string \<Rightarrow> (string \<times> string) list \<Rightarrow> kc_body \<Rightarrow> kc_request" where
  "kc_request_of meth url headers body =
     \<lparr>kr_method = meth, kr_url = url,
      kr_headers = (case body of
          No_body \<Rightarrow> headers
        | Json_body _ \<Rightarrow> set_default ''Content-Type'' ''application/json'' headers
        | Form_body _ \<Rightarrow> set_default ''Content-Type'' ''application/x-www-form-urlencoded'' headers),
      kr_data = (case body of No_body \<Rightarrow> None | Json_body v \<Rightarrow> Some (json_dumps v) | Form_body f \<Rightarrow> Some (urlencode f)),
      kr_timeout = 30\<rparr>"

definition kc_call ::
  "'s keycloak \<Rightarrow> string \<Rightarrow> string \<Rightarrow> (string \<times> string) list \<Rightarrow> kc_body \<Rightarrow> int list \<Rightarrow> ('s, m8f_error, kc_response) comp" where
  "kc_call kc meth url headers body allow_statuses s =
     (case kc_urlopen kc (kc_request_of meth url headers body) s of
        (Kc_answer r, s') \<Rightarrow> (Inr r, s')
      | (Kc_http_error r, s') \<Rightarrow>
          if kp_status_code r \<in> set allow_statuses then (Inr r, s')
          else (Inl (kc_error (RequestFailed (kp_status_code r) meth url (take 500 (kp_body_text r)))), s')
      | (Kc_unreachable why, s') \<Rightarrow> (Inl (kc_error (KeycloakUnreachable url why)), s')
      | (Kc_raised e, s') \<Rightarrow> (Inl e, s'))"

definition json_of_body :: "'s keycloak \<Rightarrow> kc_response \<Rightarrow> m8f_error + pyval" where
  "json_of_body kc r =
     (let normalized = py_strip (kp_body_text r) in
      if normalized = [] then Inr PNone
      else (case kc_json_loads kc normalized of
              None \<Rightarrow> Inl (kc_error (InvalidJson (take 500 normalized))) | Some v \<Rightarrow> Inr v))"

definition kc_json ::
  "'s keycloak \<Rightarrow> string \<Rightarrow> string \<Rightarrow> string \<Rightarrow> ('s, m8f_error, pyval) comp" where
  "kc_json kc token meth url =
     bnd (kc_call kc meth url (bearer_headers token) No_body []) (\<lambda>r. lift_result (json_of_body kc r))"

definition required_string :: "(string \<times> pyval) list \<Rightarrow> string \<Rightarrow> keycloak_reason \<Rightarrow> m8f_error + string" where
  "required_string payload key why =
     (case as_str (dict_get payload key) of
        Some v \<Rightarrow> if py_strip v = [] then Inl (kc_error why) else Inr (py_strip v)
      | None \<Rightarrow> Inl (kc_error why))"

text \<open>\<^verbatim>\<open>str(d.get(key, "")).strip()\<close>.\<close>

definition text_field :: "(string \<times> pyval) list \<Rightarrow> string \<Rightarrow> string" where
  "text_field d key = py_strip (case map_of d key of None \<Rightarrow> [] | Some v \<Rightarrow> py_str_value v)"

definition dicts_of :: "pyval \<Rightarrow> (string \<times> pyval) list list" where
  "dicts_of v = (case as_list v of None \<Rightarrow> [] | Some xs \<Rightarrow> List.map_filter as_dict xs)"

definition last_segment :: "string \<Rightarrow> string" where
  "last_segment location = last (split_on (CHR ''/'') (py_rstrip_char (CHR ''/'') location))"

definition location_of :: "kc_response \<Rightarrow> string" where
  "location_of r = py_strip (case map_of (kp_headers r) ''Location'' of None \<Rightarrow> [] | Some v \<Rightarrow> v)"

definition display_name_parts :: "string option \<Rightarrow> string \<Rightarrow> string \<times> string" where
  "display_name_parts display_name username =
     (let normalized = py_strip (case display_name of None \<Rightarrow> [] | Some n \<Rightarrow> n) in
      if normalized = [] then (py_strip username, ''User'')
      else (let first = takeWhile (\<lambda>c. \<not> py_isspace c) normalized;
                rest = py_lstrip (dropWhile (\<lambda>c. \<not> py_isspace c) normalized)
            in if rest = [] then (first, ''User'') else (first, rest)))"

definition get_master_admin_token :: "'s keycloak \<Rightarrow> ('s, m8f_error, string) comp" where
  "get_master_admin_token kc =
     bnd (kc_call kc ''POST'' (keycloak_url kc @ ''/realms/'' @ url_quote (master_realm_name kc)
            @ ''/protocol/openid-connect/token'') []
            (Form_body [(''grant_type'', ''password''), (''client_id'', ''admin-cli''),
              (''username'', keycloak_admin_user kc), (''password'', keycloak_admin_password kc)]) []) (\<lambda>r.
     bnd (lift_result (json_of_body kc r)) (\<lambda>payload.
       case as_dict payload of
         None \<Rightarrow> raise (kc_error TokenNotObject)
       | Some d \<Rightarrow> lift_result (required_string d ''access_token'' TokenMissing)))"

section \<open>Organizations\<close>

definition get_organization_by_id ::
  "'s keycloak \<Rightarrow> string \<Rightarrow> string \<Rightarrow> ('s, m8f_error, (string \<times> pyval) list option) comp" where
  "get_organization_by_id kc token organization_id =
     bnd (kc_call kc ''GET'' (shared_realm_organizations_url kc [organization_id] []) (bearer_headers token)
            No_body [404]) (\<lambda>r.
       if kp_status_code r = 404 then ret None
       else bnd (lift_result (json_of_body kc r)) (\<lambda>payload. ret (as_dict payload)))"

definition load_organizations ::
  "'s keycloak \<Rightarrow> string \<Rightarrow> string \<Rightarrow> bool option \<Rightarrow> ('s, m8f_error, (string \<times> pyval) list list) comp" where
  "load_organizations kc token alias exact =
     bnd (kc_json kc token ''GET'' (shared_realm_organizations_url kc []
            ([(''briefRepresentation'', ''false''), (''max'', ''100'')] @
             (case exact of
                None \<Rightarrow> []
              | Some e \<Rightarrow> [(''search'', alias), (''exact'', if e then ''true'' else ''false'')])))) (\<lambda>payload.
       ret (dicts_of payload))"

definition get_organization_by_alias ::
  "'s keycloak \<Rightarrow> string \<Rightarrow> string \<Rightarrow> ('s, m8f_error, (string \<times> pyval) list option) comp" where
  "get_organization_by_alias kc token alias =
     (let normalized = py_strip alias in
      if normalized = [] then raise (kc_error AliasRequired)
      else
        bnd (load_organizations kc token normalized (Some True)) (\<lambda>exact.
        bnd (if exact = [] then load_organizations kc token normalized (Some False) else ret exact) (\<lambda>similar.
        bnd (if similar = [] then load_organizations kc token normalized None else ret similar) (\<lambda>organizations.
          ret (find (\<lambda>d. text_field d ''alias'' = normalized) organizations)))))"

definition get_organization_group_by_id ::
  "'s keycloak \<Rightarrow> string \<Rightarrow> string \<Rightarrow> string \<Rightarrow> ('s, m8f_error, (string \<times> pyval) list option) comp" where
  "get_organization_group_by_id kc token organization_id group_id =
     bnd (kc_call kc ''GET'' (shared_realm_organization_groups_url kc organization_id [group_id] [])
            (bearer_headers token) No_body [404]) (\<lambda>r.
       if kp_status_code r = 404 then ret None
       else bnd (lift_result (json_of_body kc r)) (\<lambda>payload. ret (as_dict payload)))"

definition get_organization_group_by_name ::
  "'s keycloak \<Rightarrow> string \<Rightarrow> string \<Rightarrow> string \<Rightarrow> ('s, m8f_error, (string \<times> pyval) list option) comp" where
  "get_organization_group_by_name kc token organization_id group_name =
     (let normalized = py_strip group_name in
      bnd (kc_json kc token ''GET'' (shared_realm_organization_groups_url kc organization_id []
            [(''search'', normalized), (''exact'', ''true''), (''briefRepresentation'', ''true''),
             (''populateHierarchy'', ''false''), (''subGroupsCount'', ''false''), (''max'', ''100'')])) (\<lambda>payload.
        ret (find (\<lambda>d. text_field d ''name'' = normalized \<and>
              text_field d ''path'' \<in> {[], normalized, CHR ''/'' # normalized}) (dicts_of payload))))"

definition create_organization_group ::
  "'s keycloak \<Rightarrow> string \<Rightarrow> string \<Rightarrow> string \<Rightarrow> ('s, m8f_error, (string \<times> pyval) list) comp" where
  "create_organization_group kc token organization_id group_name =
     bnd (kc_call kc ''POST'' (shared_realm_organization_groups_url kc organization_id [] []) (bearer_headers token)
            (Json_body (PDict [(''name'', PStr (py_strip group_name))])) []) (\<lambda>r.
     bnd (if location_of r = [] then ret None
          else get_organization_group_by_id kc token organization_id (last_segment (location_of r))) (\<lambda>by_id.
       case by_id of
         Some g \<Rightarrow> ret g
       | None \<Rightarrow>
           bnd (get_organization_group_by_name kc token organization_id group_name) (\<lambda>by_name.
             case by_name of
               None \<Rightarrow> raise (kc_error (GroupNotLoaded group_name organization_id))
             | Some g \<Rightarrow> ret g)))"

definition DEFAULT_ORGANIZATIONAL_GROUP_NAMES :: "string list" where
  "DEFAULT_ORGANIZATIONAL_GROUP_NAMES =
     [''Approvers'', ''Designers'', ''Administrators'', ''Support'', ''Submitters'', ''Viewers'']"

definition ensure_organization_role_groups ::
  "'s keycloak \<Rightarrow> string \<Rightarrow> string \<Rightarrow> string list option \<Rightarrow> ('s, m8f_error, unit) comp" where
  "ensure_organization_role_groups kc token organization_id group_names =
     for_each (\<lambda>name.
       if py_strip name = [] then ret ()
       else bnd (get_organization_group_by_name kc token organization_id name) (\<lambda>g.
         case g of
           Some _ \<Rightarrow> ret ()
         | None \<Rightarrow> bnd (create_organization_group kc token organization_id name) (\<lambda>_. ret ())))
     (case group_names of
        Some (n # ns) \<Rightarrow> n # ns
      | _ \<Rightarrow> DEFAULT_ORGANIZATIONAL_GROUP_NAMES)"

definition create_organization ::
  "'s keycloak \<Rightarrow> string \<Rightarrow> string \<Rightarrow> string \<Rightarrow> bool \<Rightarrow> ('s, m8f_error, (string \<times> pyval) list) comp" where
  "create_organization kc token alias name enabled =
     (let normalized_alias = py_strip alias;
          normalized_name = (if py_strip name = [] then normalized_alias else py_strip name) in
      bnd (kc_call kc ''POST'' (shared_realm_organizations_url kc [] []) (bearer_headers token)
             (Json_body (PDict [(''alias'', PStr normalized_alias), (''name'', PStr normalized_name),
               (''enabled'', PBool enabled)])) []) (\<lambda>r.
      bnd (if location_of r = [] then ret None
           else get_organization_by_id kc token (last_segment (location_of r))) (\<lambda>by_id.
      bnd (case by_id of
             Some d \<Rightarrow> ret (Some d) | None \<Rightarrow> get_organization_by_alias kc token normalized_alias) (\<lambda>organization.
        case organization of
          None \<Rightarrow> raise (kc_error (OrganizationNotLoaded normalized_alias))
        | Some d \<Rightarrow>
            bnd (lift_result (required_string d ''id'' (OrganizationWithoutId normalized_alias))) (\<lambda>i.
              thn (ensure_organization_role_groups kc token i None) (ret d))))))"

section \<open>Users\<close>

definition get_realm_user_by_username ::
  "'s keycloak \<Rightarrow> string \<Rightarrow> string \<Rightarrow> string \<Rightarrow> ('s, m8f_error, (string \<times> pyval) list option) comp" where
  "get_realm_user_by_username kc token realm username =
     bnd (kc_json kc token ''GET'' (realm_users_url kc realm
            [(''username'', py_strip username), (''exact'', ''true''), (''max'', ''100'')])) (\<lambda>payload.
       ret (case filter (\<lambda>d. text_field d ''username'' = py_strip username) (dicts_of payload) of
              [d] \<Rightarrow> Some d | _ \<Rightarrow> None))"

definition password_credential :: "string \<Rightarrow> pyval" where
  "password_credential password =
     PDict [(''type'', PStr ''password''), (''value'', PStr password), (''temporary'', PBool False)]"

definition put_user ::
  "'s keycloak \<Rightarrow> string \<Rightarrow> string \<Rightarrow> string \<Rightarrow> (string \<times> pyval) list \<Rightarrow> ('s, m8f_error, unit) comp" where
  "put_user kc token realm user_id payload =
     bnd (kc_call kc ''PUT'' (realm_user_url kc realm user_id []) (bearer_headers token)
            (Json_body (PDict payload)) []) (\<lambda>_. ret ())"

definition create_user_in_realm ::
  "'s keycloak \<Rightarrow> string \<Rightarrow> string \<Rightarrow> string \<Rightarrow> string \<Rightarrow> string option \<Rightarrow> string option \<Rightarrow> bool \<Rightarrow>
   ('s, m8f_error, string) comp" where
  "create_user_in_realm kc token realm username password email display_name enabled =
     (case display_name_parts display_name username of
        (first_name, last_name) \<Rightarrow>
          bnd (kc_call kc ''POST'' (realm_users_url kc realm []) (bearer_headers token)
                 (Json_body (PDict [(''username'', PStr (py_strip username)), (''enabled'', PBool enabled),
                   (''email'', PStr (py_strip (case email of None \<Rightarrow> [] | Some e \<Rightarrow> e))),
                   (''emailVerified'', PBool True), (''firstName'', PStr first_name), (''lastName'', PStr last_name),
                   (''credentials'', PList [password_credential password])])) []) (\<lambda>r.
            if location_of r = [] then raise (kc_error (NoUserLocation username))
            else
              (let user_id = last_segment (location_of r) in
               bnd (kc_json kc token ''GET'' (realm_user_url kc realm user_id [])) (\<lambda>payload.
                 case as_dict payload of
                   None \<Rightarrow> raise (kc_error (UserNotLoaded username))
                 | Some d \<Rightarrow>
                     thn (put_user kc token realm user_id
                            (set_default ''lastName'' (PStr last_name) (set_default ''firstName'' (PStr first_name)
                              (dict_set ''emailVerified'' (PBool True) (dict_set ''requiredActions'' (PList []) d)))))
                       (ret user_id)))))"

definition reconcile_realm_user_credentials ::
  "'s keycloak \<Rightarrow> string \<Rightarrow> string \<Rightarrow> string \<Rightarrow> string \<Rightarrow> string option \<Rightarrow> string option \<Rightarrow>
   ('s, m8f_error, unit) comp" where
  "reconcile_realm_user_credentials kc token realm user_id password email display_name =
     bnd (kc_json kc token ''GET'' (realm_user_url kc realm user_id [])) (\<lambda>payload.
       case as_dict payload of
         None \<Rightarrow> raise (kc_error (UserNotReconciled user_id))
       | Some d \<Rightarrow>
           (case display_name_parts display_name
                   (if text_field d ''username'' = [] then user_id else text_field d ''username'') of
              (first_name, last_name) \<Rightarrow>
                thn (put_user kc token realm user_id
                       (dict_set ''lastName'' (PStr last_name) (dict_set ''firstName'' (PStr first_name)
                       (dict_set ''requiredActions'' (PList []) (dict_set ''emailVerified'' (PBool True)
                       (dict_set ''email'' (PStr (py_strip (case email of None \<Rightarrow> [] | Some e \<Rightarrow> e)))
                       (dict_set ''enabled'' (PBool True) d)))))))
                  (bnd (kc_call kc ''PUT'' (realm_user_url kc realm user_id [''reset-password'']) (bearer_headers token)
                          (Json_body (password_credential password)) []) (\<lambda>_. ret ()))))"

definition add_organization_member ::
  "'s keycloak \<Rightarrow> string \<Rightarrow> string \<Rightarrow> string \<Rightarrow> ('s, m8f_error, unit) comp" where
  "add_organization_member kc token organization_id user_id =
     bnd (kc_call kc ''POST'' (shared_realm_organizations_url kc [organization_id, ''members''] []) (bearer_headers token)
            (Json_body (PStr (py_strip user_id))) [409]) (\<lambda>_. ret ())"

definition search_members ::
  "'s keycloak \<Rightarrow> string \<Rightarrow> string \<Rightarrow> string \<Rightarrow> bool \<Rightarrow> ('s, m8f_error, (string \<times> pyval) list list) comp" where
  "search_members kc token organization_id username exact =
     bnd (kc_json kc token ''GET'' (shared_realm_organizations_url kc [organization_id, ''members'']
            [(''search'', username), (''exact'', if exact then ''true'' else ''false''), (''max'', ''100'')])) (\<lambda>payload.
       ret (dicts_of payload))"

definition get_organization_member_by_username ::
  "'s keycloak \<Rightarrow> string \<Rightarrow> string \<Rightarrow> string \<Rightarrow> ('s, m8f_error, (string \<times> pyval) list option) comp" where
  "get_organization_member_by_username kc token organization_id username =
     (let normalized = py_strip username in
      bnd (search_members kc token organization_id normalized True) (\<lambda>exact.
      bnd (if exact = [] then search_members kc token organization_id normalized False else ret exact) (\<lambda>members.
        ret (case filter (\<lambda>d. text_field d ''username'' = normalized) members of [d] \<Rightarrow> Some d | _ \<Rightarrow> None))))"

definition add_organization_group_member ::
  "'s keycloak \<Rightarrow> string \<Rightarrow> string \<Rightarrow> string \<Rightarrow> string \<Rightarrow> ('s, m8f_error, unit) comp" where
  "add_organization_group_member kc token organization_id group_name member_id =
     bnd (get_organization_group_by_name kc token organization_id group_name) (\<lambda>found.
     bnd (case found of
            Some g \<Rightarrow> ret g | None \<Rightarrow> create_organization_group kc token organization_id group_name) (\<lambda>g.
     bnd (lift_result (required_string g ''id'' (GroupWithoutId group_name organization_id))) (\<lambda>group_id.
     bnd (kc_call kc ''PUT'' (shared_realm_organization_groups_url kc organization_id
            [group_id, ''members'', py_strip member_id] []) (bearer_headers token) No_body [409]) (\<lambda>_. ret ()))))"

section \<open>Provisioning\<close>

record organization_spec =
  os_alias :: string
  os_name :: string

record keycloak_user_spec =
  us_username :: string
  us_email :: string
  us_password :: string
  us_organization_alias :: string
  us_display_name :: "string option"
  us_organization_group_names :: "string list"

record provisioned_organization =
  po_alias :: string
  po_name :: string
  po_organization_id :: string
  po_created :: bool

record provisioned_user =
  pu_username :: string
  pu_email :: string
  pu_user_id :: string
  pu_organization_alias :: string
  pu_organization_id :: string
  pu_organization_group_names :: "string list"
  pu_created :: bool

datatype keycloak_warning = TenantExists string | UserExists string string


definition provision_organization ::
  "'s keycloak \<Rightarrow> string \<Rightarrow> organization_spec \<Rightarrow>
   ('s, m8f_error, provisioned_organization \<times> keycloak_warning list) comp" where
  "provision_organization kc token spec =
     (let alias = py_strip (os_alias spec); name = py_strip (os_name spec) in
      bnd (get_organization_by_alias kc token alias) (\<lambda>found.
      bnd (case found of
             None \<Rightarrow> create_organization kc token alias name True
           | Some d \<Rightarrow>
               bnd (lift_result (required_string d ''id'' (OrganizationWithoutId alias))) (\<lambda>i.
                 thn (ensure_organization_role_groups kc token i None) (ret d))) (\<lambda>d.
      bnd (lift_result (required_string d ''id'' (OrganizationWithoutId alias))) (\<lambda>i.
        ret (\<lparr>po_alias = alias,
              po_name = (if text_field d ''name'' = [] then name else text_field d ''name''),
              po_organization_id = i, po_created = (found = None)\<rparr>,
             if found = None then [] else [TenantExists alias])))))"

fun provision_organizations ::
  "'s keycloak \<Rightarrow> string \<Rightarrow> organization_spec list \<Rightarrow>
   (string \<times> provisioned_organization) list \<times> keycloak_warning list \<Rightarrow>
   ('s, m8f_error, (string \<times> provisioned_organization) list \<times> keycloak_warning list) comp" where
  "provision_organizations kc token [] acc = ret acc"
| "provision_organizations kc token (spec # specs) (orgs, warnings) =
     bnd (provision_organization kc token spec) (\<lambda>(org, ws).
       provision_organizations kc token specs (AList.update (po_alias org) org orgs, warnings @ ws))"

definition provision_realm_user ::
  "'s keycloak \<Rightarrow> string \<Rightarrow> string \<Rightarrow> keycloak_user_spec \<Rightarrow> ('s, m8f_error, string \<times> bool) comp" where
  "provision_realm_user kc token realm spec =
     (let username = py_strip (us_username spec); email = py_strip (us_email spec) in
      bnd (get_realm_user_by_username kc token realm username) (\<lambda>realm_user.
        case realm_user of
          None \<Rightarrow>
            bnd (create_user_in_realm kc token realm username (us_password spec) (Some email)
                   (us_display_name spec) True) (\<lambda>user_id. ret (user_id, True))
        | Some d \<Rightarrow>
            bnd (lift_result (required_string d ''id'' (UserWithoutId username))) (\<lambda>user_id.
              thn (reconcile_realm_user_credentials kc token realm user_id (us_password spec) (Some email)
                     (us_display_name spec)) (ret (user_id, False)))))"

definition provision_user ::
  "'s keycloak \<Rightarrow> string \<Rightarrow> string \<Rightarrow> (string \<times> provisioned_organization) list \<Rightarrow> keycloak_user_spec \<Rightarrow>
   ('s, m8f_error, provisioned_user \<times> keycloak_warning list) comp" where
  "provision_user kc token realm orgs spec =
     (case map_of orgs (py_strip (us_organization_alias spec)) of
        None \<Rightarrow> raise (kc_error (NoOrganization (us_organization_alias spec)))
      | Some org \<Rightarrow>
          bnd (provision_realm_user kc token realm spec) (\<lambda>(user_id, created).
          thn (add_organization_member kc token (po_organization_id org) user_id)
          (bnd (get_organization_member_by_username kc token (po_organization_id org) (py_strip (us_username spec)))
            (\<lambda>member.
           bnd (case member of
                  None \<Rightarrow> ret user_id
                | Some d \<Rightarrow> lift_result (required_string d ''id''
                    (MemberWithoutId (py_strip (us_username spec)) (po_alias org)))) (\<lambda>member_id.
           thn (for_each (\<lambda>g. add_organization_group_member kc token (po_organization_id org) g member_id)
                  (us_organization_group_names spec))
             (ret (\<lparr>pu_username = py_strip (us_username spec), pu_email = py_strip (us_email spec),
                    pu_user_id = user_id, pu_organization_alias = po_alias org,
                    pu_organization_id = po_organization_id org,
                    pu_organization_group_names = us_organization_group_names spec, pu_created = created\<rparr>,
                   if created then [] else [UserExists (py_strip (us_username spec)) realm]))))))) "

fun provision_users ::
  "'s keycloak \<Rightarrow> string \<Rightarrow> string \<Rightarrow> (string \<times> provisioned_organization) list \<Rightarrow> keycloak_user_spec list \<Rightarrow>
   (string \<times> provisioned_user) list \<times> keycloak_warning list \<Rightarrow>
   ('s, m8f_error, (string \<times> provisioned_user) list \<times> keycloak_warning list) comp" where
  "provision_users kc token realm orgs [] acc = ret acc"
| "provision_users kc token realm orgs (spec # specs) (users, warnings) =
     bnd (provision_user kc token realm orgs spec) (\<lambda>(user, ws).
       provision_users kc token realm orgs specs (AList.update (pu_username user) user users, warnings @ ws))"


section \<open>Addresses of users\<close>

text \<open>An encoding in which every code can be told from what follows it encodes lists without loss.\<close>

lemma concat_code_inj:
  assumes code: "\<And>x y r t. x \<in> A \<Longrightarrow> y \<in> A \<Longrightarrow> f x @ r = f y @ t \<Longrightarrow> x = y \<and> r = t" and nonempty: "\<And>x. f x \<noteq> []"
  shows "set xs \<subseteq> A \<Longrightarrow> set ys \<subseteq> A \<Longrightarrow> concat (map f xs) = concat (map f ys) \<Longrightarrow> xs = ys"
proof (induction xs arbitrary: ys)
  case Nil
  then show ?case using nonempty by (cases ys) auto
next
  case (Cons x xs)
  obtain y ys' where ys: "ys = y # ys'" using Cons.prems(3) nonempty [of x] by (cases ys) simp_all
  have "x = y \<and> concat (map f xs) = concat (map f ys')"
    by (rule code) (use Cons.prems ys in simp_all)
  then show ?case using Cons.IH [of ys'] Cons.prems(1,2) ys by simp
qed

lemma upper_hex_point: "0 \<le> n \<Longrightarrow> n < 16 \<Longrightarrow> of_char (upper_hex n) = nat (if n < 10 then 48 + n else 55 + n)"
  by (simp add: upper_hex_def)

lemma upper_hex_inj:
  assumes "0 \<le> a" "a < 16" "0 \<le> b" "b < 16" and "upper_hex a = upper_hex b"
  shows "a = b"
proof -
  have "nat (if a < 10 then 48 + a else 55 + a) = nat (if b < 10 then 48 + b else 55 + b)"
    using upper_hex_point [OF assms(1,2)] upper_hex_point [OF assms(3,4)] assms(5) by simp
  then show ?thesis using assms(1-4) by (simp split: if_splits)
qed

lemma upper_hex_no_slash: "0 \<le> n \<Longrightarrow> n < 16 \<Longrightarrow> CHR ''/'' \<noteq> upper_hex n"
proof
  assume n: "0 \<le> n" "n < 16" and "CHR ''/'' = upper_hex n"
  then have "of_char (CHR ''/'') = nat (if n < 10 then 48 + n else 55 + n)" using upper_hex_point by metis
  then show False using n by (simp split: if_splits)
qed

lemma quote_byte_code:
  assumes "a \<in> {0..<256}" "b \<in> {0..<256}" and eq: "quote_byte a @ r = quote_byte b @ t"
  shows "a = b \<and> r = t"
proof -
  have plain: "of_char (char_of (nat n)) = nat n" if "unreserved_byte n" for n
    using that by (auto simp: unreserved_byte_def)
  have percent: "char_of (nat n) \<noteq> CHR ''%''" if "unreserved_byte n" for n
  proof
    assume "char_of (nat n) = CHR ''%''"
    then have "nat n = 37" using plain [OF that] by simp
    then show False using that by (auto simp: unreserved_byte_def)
  qed
  have pos: "0 \<le> n" if "unreserved_byte n" for n using that by (auto simp: unreserved_byte_def)
  consider "unreserved_byte a" "unreserved_byte b" | "\<not> unreserved_byte a" "\<not> unreserved_byte b"
    using eq percent [of a] percent [of b] by (auto simp: quote_byte_def split: if_splits)
  then show ?thesis
  proof cases
    case 1
    then have "nat a = nat b" "r = t"
      using eq plain [of a] plain [of b] by (auto simp: quote_byte_def dest: arg_cong [where f = of_char])
    then show ?thesis using pos [OF 1(1)] pos [OF 1(2)] by (simp add: eq_nat_nat_iff)
  next
    case 2
    then have "upper_hex (a div 16) = upper_hex (b div 16)" "upper_hex (a mod 16) = upper_hex (b mod 16)" "r = t"
      using eq by (simp_all add: quote_byte_def)
    moreover have "a div 16 = b div 16" using calculation(1) assms(1,2) by (intro upper_hex_inj) auto
    moreover have "a mod 16 = b mod 16" using calculation(2) by (intro upper_hex_inj) auto
    ultimately show ?thesis by (metis div_mult_mod_eq)
  qed
qed

lemma utf8_code:
  assumes "utf8_char c @ r = utf8_char d @ t"
  shows "c = d \<and> r = t"
proof -
  have low: "int (code_point x) < 256" for x by (simp add: code_point_def)
  have same: "a = b" if "a div 64 = b div 64" "a mod 64 = b mod 64" for a b :: int
    using that by (metis div_mult_mod_eq)
  have "int (code_point c) = int (code_point d) \<and> r = t"
    using assms low [of c] low [of d] same [of "int (code_point c)" "int (code_point d)"]
    by (auto simp: utf8_char_def Let_def split: if_splits)
  then show ?thesis by (simp add: code_point_def)
qed

lemma utf8_bytes: "set (concat (map utf8_char s)) \<subseteq> {0..<256}"
proof -
  have "n div 64 < 64" if "n < 256" for n :: int using that by arith
  then have "set (utf8_char c) \<subseteq> {0..<256}" for c
    by (auto simp: utf8_char_def Let_def code_point_def)
  then show ?thesis by auto
qed

lemma url_quote_inj:
  assumes "url_quote s = url_quote t"
  shows "s = t"
proof (rule concat_code_inj [where f = utf8_char and A = UNIV])
  show "concat (map utf8_char s) = concat (map utf8_char t)"
  proof (rule concat_code_inj [where f = quote_byte and A = "{0..<256}"])
    show "a = b \<and> r = u" if "a \<in> {0..<256}" "b \<in> {0..<256}" "quote_byte a @ r = quote_byte b @ u" for a b r u
      using that by (rule quote_byte_code)
    show "quote_byte b \<noteq> []" for b by (simp add: quote_byte_def)
  qed (use assms utf8_bytes in \<open>simp_all add: url_quote_def\<close>)
  show "c = d \<and> r = u" if "c \<in> UNIV" "d \<in> UNIV" "utf8_char c @ r = utf8_char d @ u" for c d r u
    using that(3) by (rule utf8_code)
  show "utf8_char c \<noteq> []" for c by (simp add: utf8_char_def Let_def)
qed simp_all

lemma url_quote_no_slash: "CHR ''/'' \<notin> set (url_quote s)"
proof -
  have nibbles: "0 \<le> b div 16 \<and> b div 16 < 16" if "b \<in> {0..<256}" for b :: int
  proof -
    have "0 \<le> b" "b < 256" using that by simp_all
    then show ?thesis by arith
  qed
  have "CHR ''/'' \<notin> set (quote_byte b)" if "b \<in> {0..<256}" for b
  proof
    assume slash: "CHR ''/'' \<in> set (quote_byte b)"
    show False
    proof (cases "unreserved_byte b")
      case True
      then have "of_char (CHR ''/'') = nat b" using slash by (auto simp: quote_byte_def unreserved_byte_def)
      then show False using True by (auto simp: unreserved_byte_def)
    next
      case False
      then show False
        using slash upper_hex_no_slash [of "b div 16"] upper_hex_no_slash [of "b mod 16"] nibbles [OF that]
        by (auto simp: quote_byte_def)
    qed
  qed
  then have "CHR ''/'' \<notin> set (concat (map quote_byte bs))" if "set bs \<subseteq> {0..<256}" for bs
    using that by (induction bs) simp_all
  then show ?thesis unfolding url_quote_def using utf8_bytes .
qed

definition path_of :: "string list \<Rightarrow> string" where
  "path_of segments = concat (map (\<lambda>s. ''/'' @ url_quote s) segments)"

lemma path_of_head: "path_of ss = [] \<or> hd (path_of ss) = CHR ''/''"
  by (cases ss) (simp_all add: path_of_def)

lemma path_of_inj: "path_of ss = path_of ts \<Longrightarrow> ss = ts"
proof (induction ss arbitrary: ts)
  case Nil
  then show ?case by (cases ts) (simp_all add: path_of_def)
next
  case (Cons s ss)
  then obtain t ts' where ts: "ts = t # ts'" by (cases ts) (simp_all add: path_of_def)
  then have "url_quote s @ path_of ss = url_quote t @ path_of ts'"
    using Cons.prems by (simp add: path_of_def)
  then have "url_quote s = url_quote t \<and> path_of ss = path_of ts'"
    using path_of_head url_quote_no_slash by (intro separated_eq [where c = "CHR ''/''"]) auto
  then show ?case using Cons.IH url_quote_inj ts by auto
qed

lemma realm_user_url_path:
  "realm_user_url kc realm uid segments = keycloak_url kc @ ''/admin/realms'' @
     path_of (py_strip realm # ''users'' # py_strip uid # filter (\<lambda>s. s \<noteq> []) (map py_strip segments))"
proof -
  have "url_quote ''users'' = ''users''" by code_simp
  then show ?thesis by (simp add: realm_user_url_def add_segments_def path_of_def)
qed

text \<open>The address of a user determines the user. Two calls that address the same URL below a server name
  the same realm, the same user and the same action, up to surrounding blanks, whatever characters
  the identifiers contain: slashes and question marks in an identifier do not end a segment.\<close>

lemma user_address_injective:
  assumes "realm_user_url kc realm uid segments = realm_user_url kc realm' uid' segments'"
  shows "py_strip realm = py_strip realm' \<and> py_strip uid = py_strip uid' \<and>
    filter (\<lambda>s. s \<noteq> []) (map py_strip segments) = filter (\<lambda>s. s \<noteq> []) (map py_strip segments')"
  using assms path_of_inj unfolding realm_user_url_path by blast

section \<open>What provisioning raises\<close>

named_theorems raises_rules \<open>closure of the failures a computation can raise\<close>

definition raises_only :: "('e \<Rightarrow> bool) \<Rightarrow> ('s, 'e, 'a) comp \<Rightarrow> bool" where
  "raises_only E m \<longleftrightarrow> (\<forall>s e t. m s = (Inl e, t) \<longrightarrow> E e)"

lemma raises_ret [raises_rules]: "raises_only E (ret x)"
  by (simp add: raises_only_def ret_def)

lemma raises_bnd [raises_rules]:
  "raises_only E m \<Longrightarrow> (\<And>x. raises_only E (f x)) \<Longrightarrow> raises_only E (bnd m f)"
  by (auto simp: raises_only_def bnd_def split: prod.splits sum.splits)

lemma raises_thn [raises_rules]: "raises_only E m \<Longrightarrow> raises_only E n \<Longrightarrow> raises_only E (thn m n)"
  by (simp add: thn_def raises_bnd)

lemma raises_if [raises_rules]: "raises_only E m \<Longrightarrow> raises_only E n \<Longrightarrow> raises_only E (if b then m else n)"
  by simp

lemma raises_option [raises_rules]:
  "raises_only E m \<Longrightarrow> (\<And>x. raises_only E (f x)) \<Longrightarrow> raises_only E (case z of None \<Rightarrow> m | Some x \<Rightarrow> f x)"
  by (cases z) simp_all

lemma raises_prod [raises_rules]: "(\<And>x y. raises_only E (f x y)) \<Longrightarrow> raises_only E (case z of (x, y) \<Rightarrow> f x y)"
  by (cases z) simp

lemma raises_for_each [raises_rules]: "(\<And>x. raises_only E (f x)) \<Longrightarrow> raises_only E (for_each f xs)"
  by (induction xs) (simp_all add: raises_ret raises_thn)

definition kc_failure :: "'s keycloak \<Rightarrow> m8f_error \<Rightarrow> bool" where
  "kc_failure kc e \<longleftrightarrow>
     err_class e = KeycloakProvisioningError \<or> (\<exists>rq s t. kc_urlopen kc rq s = (Kc_raised e, t))"

lemma raises_kc [raises_rules]: "raises_only (kc_failure kc) (raise (kc_error why))"
  by (simp add: raises_only_def raise_def kc_failure_def kc_error_def)

lemma raises_call [raises_rules]: "raises_only (kc_failure kc) (kc_call kc meth url headers body allow)"
  by (auto simp: raises_only_def kc_call_def kc_failure_def kc_error_def split: prod.splits kc_outcome.splits if_splits)

lemma raises_json [raises_rules]: "raises_only (kc_failure kc) (lift_result (json_of_body kc r))"
  by (auto simp: raises_only_def lift_result_def json_of_body_def kc_failure_def kc_error_def Let_def
      split: if_splits option.splits)

lemma raises_required [raises_rules]: "raises_only (kc_failure kc) (lift_result (required_string d key why))"
  by (auto simp: raises_only_def lift_result_def required_string_def kc_failure_def kc_error_def
      split: if_splits option.splits)

lemma raises_organizations [raises_rules]:
  "raises_only (kc_failure kc) (get_master_admin_token kc)"
  "raises_only (kc_failure kc) (get_organization_by_id kc token i)"
  "raises_only (kc_failure kc) (get_organization_by_alias kc token alias)"
  "raises_only (kc_failure kc) (get_organization_group_by_id kc token i g)"
  "raises_only (kc_failure kc) (get_organization_group_by_name kc token i name)"
  unfolding get_master_admin_token_def get_organization_by_id_def get_organization_by_alias_def load_organizations_def
    get_organization_group_by_id_def get_organization_group_by_name_def kc_json_def Let_def
  by (intro raises_rules)+

lemma raises_groups [raises_rules]:
  "raises_only (kc_failure kc) (create_organization_group kc token i name)"
  "raises_only (kc_failure kc) (ensure_organization_role_groups kc token i names)"
  "raises_only (kc_failure kc) (create_organization kc token alias name enabled)"
  "raises_only (kc_failure kc) (add_organization_group_member kc token i name member)"
  unfolding create_organization_group_def ensure_organization_role_groups_def create_organization_def
    add_organization_group_member_def Let_def
  by (intro raises_rules)+

lemma raises_users [raises_rules]:
  "raises_only (kc_failure kc) (get_realm_user_by_username kc token realm username)"
  "raises_only (kc_failure kc) (create_user_in_realm kc token realm username password email display_name enabled)"
  "raises_only (kc_failure kc) (reconcile_realm_user_credentials kc token realm uid password email display_name)"
  "raises_only (kc_failure kc) (add_organization_member kc token i uid)"
  "raises_only (kc_failure kc) (get_organization_member_by_username kc token i username)"
  unfolding get_realm_user_by_username_def create_user_in_realm_def reconcile_realm_user_credentials_def put_user_def
    add_organization_member_def get_organization_member_by_username_def search_members_def kc_json_def Let_def
  by (intro raises_rules)+

lemma raises_provision [raises_rules]:
  "raises_only (kc_failure kc) (provision_organization kc token spec)"
  "raises_only (kc_failure kc) (provision_realm_user kc token realm user)"
  unfolding provision_organization_def provision_realm_user_def Let_def by (intro raises_rules)+

lemma raises_provision_user [raises_rules]: "raises_only (kc_failure kc) (provision_user kc token realm orgs user)"
  unfolding provision_user_def by (intro raises_rules)

lemma raises_provision_organizations [raises_rules]:
  "raises_only (kc_failure kc) (provision_organizations kc token specs acc)"
  by (induction kc token specs acc rule: provision_organizations.induct) (auto intro!: raises_rules)

lemma raises_provision_users [raises_rules]:
  "raises_only (kc_failure kc) (provision_users kc token realm orgs specs acc)"
  by (induction kc token realm orgs specs acc rule: provision_users.induct) (auto intro!: raises_rules)

section \<open>What provisioning returns\<close>







section \<open>What provisioning asks of the server\<close>

text \<open>
  A server that keeps the log of its requests with their outcomes. A request was accepted when it was
  answered, or refused with a status that the caller allows (a membership that exists already is
  refused with 409).
\<close>

type_synonym kc_log = "(kc_request \<times> kc_outcome) list"

definition logs_requests :: "'s keycloak \<Rightarrow> ('s \<Rightarrow> kc_log) \<Rightarrow> bool" where
  "logs_requests kc log_of \<longleftrightarrow>
     (\<forall>rq s. log_of (snd (kc_urlopen kc rq s)) = log_of s @ [(rq, fst (kc_urlopen kc rq s))])"



interpretation traffic: frame "\<lambda>s t. set (log_of s) \<subseteq> set (log_of t)" for log_of :: "'s \<Rightarrow> kc_log"
  by unfold_locales auto

named_theorems traffic_rules \<open>computations that only add to the log\<close>

lemma traffic_call [traffic_rules]:
  assumes "logs_requests kc log_of"
  shows "traffic.keeps log_of (kc_call kc meth url headers body allow)"
proof (rule traffic.keepsI)
  fix s
  have "snd (kc_call kc meth url headers body allow s) = snd (kc_urlopen kc (kc_request_of meth url headers body) s)"
    by (simp add: kc_call_def split: prod.splits kc_outcome.splits)
  then show "set (log_of s) \<subseteq> set (log_of (snd (kc_call kc meth url headers body allow s)))"
    using assms by (auto simp: logs_requests_def)
qed



lemma traffic_groups [traffic_rules]:
  assumes "logs_requests kc log_of"
  shows "traffic.keeps log_of (get_organization_group_by_id kc token i g)"
    "traffic.keeps log_of (get_organization_group_by_name kc token i name)"
    "traffic.keeps log_of (create_organization_group kc token i name)"
    "traffic.keeps log_of (add_organization_group_member kc token i name member)"
  unfolding get_organization_group_by_id_def get_organization_group_by_name_def create_organization_group_def
    add_organization_group_member_def kc_json_def Let_def
  by (intro traffic.keeps_intros traffic_call [OF assms])+









































end
