(* ===== verification/App_Secrets.thy ===== *)
theory App_Secrets
  imports Models
begin

text \<open>
  The secrets of the sample application: the table \<^verbatim>\<open>secret\<close>, \<^verbatim>\<open>secrets.py\<close>, the transaction of
  \<^verbatim>\<open>db.session_scope\<close>, the actions of \<^verbatim>\<open>views/secrets.py\<close> for a resolved identity, and the default
  secrets of \<^verbatim>\<open>seed.py\<close>. The session keeps what was committed beside its own rows, since a violated
  unique constraint rolls it back.
\<close>

section \<open>The table and its session\<close>

record secret_row =
  sec_id :: int
  sec_tenant :: string
  sec_key :: string
  sec_value :: string
  sec_user_id :: int
  sec_updated_at :: "int option"
  sec_created_at :: "int option"

record secret_session =
  ss_committed :: "secret_row list"
  ss_rows :: "secret_row list"

type_synonym 'a secret_op = "(secret_session, m8f_error, 'a) comp"

definition secret_key_tenant_unique :: "secret_row list \<Rightarrow> bool" where
  "secret_key_tenant_unique rows = distinct (map (\<lambda>r. (sec_tenant r, sec_key r)) rows)"

text \<open>A flush that violates the constraint rolls the transaction back.\<close>

definition secret_flush :: "unit secret_op" where
  "secret_flush st =
     (if secret_key_tenant_unique (ss_rows st) then (Inr (), st)
      else (Inl (Err Sa_IntegrityError (R_app SecretConstraint)), st\<lparr>ss_rows := ss_committed st\<rparr>))"

definition flush_with_uniqueness_guard :: "string \<Rightarrow> unit secret_op" where
  "flush_with_uniqueness_guard key st =
     (case secret_flush st of
        (Inl e, st') \<Rightarrow>
          if err_class e = Sa_IntegrityError
          then (Inl (Err ValidationError (R_app (SecretExists key))), st'\<lparr>ss_rows := ss_committed st'\<rparr>)
          else (Inl e, st')
      | (Inr u, st') \<Rightarrow> (Inr u, st'))"

section \<open>Operations\<close>

definition normalize_key :: "string \<Rightarrow> m8f_error + string" where
  "normalize_key key =
     (let normalized = py_strip key
      in if normalized = [] then Inl (Err ValidationError (R_app SecretKeyBlank))
         else if length normalized > 50 then Inl (Err ValidationError (R_app SecretKeyTooLong))
         else Inr normalized)"

definition normalize_value :: "string \<Rightarrow> m8f_error + string" where
  "normalize_value v =
     (let normalized = py_strip v
      in if normalized = [] then Inl (Err ValidationError (R_app SecretValueBlank)) else Inr normalized)"

text \<open>The secrets of a tenant by key, each with the user who changed it last, if that user exists.\<close>

definition list_secrets :: "user_row list \<Rightarrow> string \<Rightarrow> secret_session \<Rightarrow> (secret_row \<times> user_row option) list" where
  "list_secrets users tenant st =
     map (\<lambda>r. (r, find (\<lambda>u. usr_id u = sec_user_id r) users))
       (sort_key sec_key (sort_key sec_id (filter (\<lambda>r. sec_tenant r = tenant) (ss_rows st))))"

definition get_secret :: "string \<Rightarrow> int \<Rightarrow> secret_row secret_op" where
  "get_secret tenant sid =
     bnd (gets (\<lambda>st. find (\<lambda>r. sec_tenant r = tenant \<and> sec_id r = sid) (ss_rows st))) (\<lambda>found.
       case found of
         None \<Rightarrow> raise (Err NotFoundError (R_app (SecretNotFound sid tenant)))
       | Some r \<Rightarrow> ret r)"

definition create_secret :: "string \<Rightarrow> int \<Rightarrow> string \<Rightarrow> string \<Rightarrow> int \<Rightarrow> secret_row secret_op" where
  "create_secret tenant uid key val now =
     bnd (lift_result (normalize_key key)) (\<lambda>k.
     bnd (lift_result (normalize_value val)) (\<lambda>v.
     bnd (gets (\<lambda>st. \<lparr>sec_id = fresh_id sec_id (ss_rows st), sec_tenant = tenant, sec_key = k, sec_value = v,
            sec_user_id = uid, sec_updated_at = Some now, sec_created_at = Some now\<rparr>)) (\<lambda>r.
     thn (modify (\<lambda>st. st\<lparr>ss_rows := ss_rows st @ [r]\<rparr>))
     (thn (flush_with_uniqueness_guard k) (ret r)))))"

definition write_secret :: "int \<Rightarrow> (secret_row \<Rightarrow> secret_row) \<Rightarrow> unit secret_op" where
  "write_secret sid f = modify (\<lambda>st. st\<lparr>ss_rows := update_where (\<lambda>r. sec_id r = sid) f (ss_rows st)\<rparr>)"

text \<open>The key is assigned before the value is checked.\<close>

definition update_secret :: "string \<Rightarrow> int \<Rightarrow> int \<Rightarrow> string \<Rightarrow> string option \<Rightarrow> int \<Rightarrow> secret_row secret_op" where
  "update_secret tenant sid uid key val now =
     bnd (get_secret tenant sid) (\<lambda>r.
     bnd (lift_result (normalize_key key)) (\<lambda>k.
     thn (write_secret (sec_id r) (\<lambda>r. r\<lparr>sec_key := k\<rparr>))
     (bnd (case val of
             None \<Rightarrow> ret (sec_value r)
           | Some v \<Rightarrow> bnd (lift_result (normalize_value v)) (\<lambda>v'.
               thn (write_secret (sec_id r) (\<lambda>r. r\<lparr>sec_value := v'\<rparr>)) (ret v'))) (\<lambda>v.
     thn (write_secret (sec_id r) (\<lambda>r. r\<lparr>sec_user_id := uid, sec_updated_at := Some now\<rparr>))
     (thn (flush_with_uniqueness_guard k)
       (ret (r\<lparr>sec_key := k, sec_value := v, sec_user_id := uid, sec_updated_at := Some now\<rparr>)))))))"

definition delete_secret :: "string \<Rightarrow> int \<Rightarrow> unit secret_op" where
  "delete_secret tenant sid =
     bnd (get_secret tenant sid) (\<lambda>r.
     thn (modify (\<lambda>st. st\<lparr>ss_rows := filter (\<lambda>x. sec_id x \<noteq> sec_id r) (ss_rows st)\<rparr>)) secret_flush)"

definition DEFAULT_TENANT_SECRET_VALUES :: "(string \<times> string) list" where
  "DEFAULT_TENANT_SECRET_VALUES =
     [(''SMTP_HOST'', ''sandbox.smtp.mailtrap.io''), (''SMTP_PORT'', ''2525''), (''SMTP_USER'', ''fce006e9972d8b''),
      (''SMTP_PASSWORD'', ''CHANGE_ME_IN_SECRETS_UI''), (''SMTP_STARTTLS'', ''True''),
      (''SMTP_FROM_EMAIL'', ''sample-app-reimbursements@example.com'')]"

definition default_secret :: "string \<Rightarrow> int \<Rightarrow> string \<times> string \<Rightarrow> secret_row list \<Rightarrow> secret_row" where
  "default_secret tenant uid kv rows =
     \<lparr>sec_id = fresh_id sec_id rows, sec_tenant = tenant, sec_key = fst kv, sec_value = snd kv,
      sec_user_id = uid, sec_updated_at = Some 0, sec_created_at = Some 0\<rparr>"

definition add_default_secret :: "string \<Rightarrow> int \<Rightarrow> string list \<Rightarrow> string \<times> string \<Rightarrow> unit secret_op" where
  "add_default_secret tenant uid existing kv =
     when_M (fst kv \<notin> set existing)
       (modify (\<lambda>st. st\<lparr>ss_rows := ss_rows st @ [default_secret tenant uid kv (ss_rows st)]\<rparr>))"

definition ensure_default_tenant_secrets :: "string \<Rightarrow> int \<Rightarrow> unit secret_op" where
  "ensure_default_tenant_secrets tenant uid =
     bnd (gets (\<lambda>st. map sec_key (filter (\<lambda>r. sec_tenant r = tenant) (ss_rows st)))) (\<lambda>existing.
     thn (for_each (add_default_secret tenant uid existing) DEFAULT_TENANT_SECRET_VALUES) secret_flush)"

section \<open>Transactions and actions\<close>

text \<open>
  A session is opened on what is committed. It is committed when the body returns, which flushes it,
  and rolled back when the body raises.
\<close>

definition session_scope :: "'a secret_op \<Rightarrow> secret_row list \<Rightarrow> (m8f_error + 'a) \<times> secret_row list" where
  "session_scope body rows =
     (case bnd body (\<lambda>x. thn secret_flush (ret x)) \<lparr>ss_committed = rows, ss_rows = rows\<rparr> of
        (Inl e, st) \<Rightarrow> (Inl e, ss_committed st)
      | (Inr x, st) \<Rightarrow> (Inr x, ss_rows st))"

text \<open>
  The actions report an error of the library as a message and return, so that the session is
  committed then too. A form carries its fields as text; the pages themselves are not modelled.
\<close>

definition flash_errors :: "'a secret_op \<Rightarrow> (m8f_error + 'a) secret_op" where
  "flash_errors m st =
     (case m st of
        (Inl e, st') \<Rightarrow> if is_subclass (err_class e) BpmnCoreError then (Inr (Inl e), st') else (Inl e, st')
      | (Inr x, st') \<Rightarrow> (Inr (Inr x), st'))"

datatype secret_action =
    New_secret string string
  | Edit_secret int string string
  | Delete_secret int

definition new_secret_page :: "string \<Rightarrow> int \<Rightarrow> int \<Rightarrow> string \<Rightarrow> string \<Rightarrow> (m8f_error + unit) secret_op" where
  "new_secret_page tenant uid now key val = flash_errors (thn (create_secret tenant uid key val now) (ret ()))"

definition edit_secret_page ::
  "string \<Rightarrow> int \<Rightarrow> int \<Rightarrow> int \<Rightarrow> string \<Rightarrow> string \<Rightarrow> (m8f_error + unit) secret_op" where
  "edit_secret_page tenant uid now sid key val =
     bnd (flash_errors (get_secret tenant sid)) (\<lambda>found.
       case found of
         Inl e \<Rightarrow> ret (Inl e)
       | Inr _ \<Rightarrow> flash_errors (thn (update_secret tenant sid uid key
                   (if py_strip val \<noteq> [] then Some val else None) now) (ret ())))"

definition delete_secret_action :: "string \<Rightarrow> int \<Rightarrow> (m8f_error + unit) secret_op" where
  "delete_secret_action tenant sid = flash_errors (delete_secret tenant sid)"

fun secret_page :: "string \<Rightarrow> int \<Rightarrow> int \<Rightarrow> secret_action \<Rightarrow> secret_row list \<Rightarrow>
    (m8f_error + (m8f_error + unit)) \<times> secret_row list" where
  "secret_page tenant uid now (New_secret key val) = session_scope (new_secret_page tenant uid now key val)"
| "secret_page tenant uid now (Edit_secret sid key val) = session_scope (edit_secret_page tenant uid now sid key val)"
| "secret_page tenant uid now (Delete_secret sid) = session_scope (delete_secret_action tenant sid)"

section \<open>The table stays consistent\<close>

text \<open>
  Primary keys and the pairs of tenant and key are unique, keys are trimmed, not blank and short
  enough for their column, values are trimmed and not blank.
\<close>

definition secret_ok :: "secret_row \<Rightarrow> bool" where
  "secret_ok r \<longleftrightarrow> py_strip (sec_key r) = sec_key r \<and> sec_key r \<noteq> [] \<and> length (sec_key r) \<le> 50 \<and>
     py_strip (sec_value r) = sec_value r \<and> sec_value r \<noteq> []"

definition secrets_ok :: "secret_row list \<Rightarrow> bool" where
  "secrets_ok rows \<longleftrightarrow> distinct (map sec_id rows) \<and> secret_key_tenant_unique rows \<and> list_all secret_ok rows"

text \<open>The tables that the pages and the seeding of tenants produce, in any order.\<close>

inductive secrets_reachable :: "secret_row list \<Rightarrow> bool" where
  secrets_empty: "secrets_reachable []"
| secrets_page: "secrets_reachable rows \<Longrightarrow> secret_page tenant uid now a rows = (r, rows') \<Longrightarrow> secrets_reachable rows'"
| secrets_seeded: "secrets_reachable rows \<Longrightarrow>
    session_scope (ensure_default_tenant_secrets tenant uid) rows = (r, rows') \<Longrightarrow> secrets_reachable rows'"

lemma app_errors_reported:
  "is_subclass ValidationError BpmnCoreError" "is_subclass NotFoundError BpmnCoreError"
  by (simp_all add: is_subclass_step [of ValidationError] is_subclass_step [of NotFoundError] sub_refl)

lemma normalize_key_Inr: "normalize_key key = Inr k \<Longrightarrow> k = py_strip key \<and> k \<noteq> [] \<and> length k \<le> 50"
  by (auto simp: normalize_key_def Let_def split: if_splits)

lemma normalize_value_Inr: "normalize_value v = Inr w \<Longrightarrow> w = py_strip v \<and> w \<noteq> []"
  by (auto simp: normalize_value_def Let_def split: if_splits)

lemma normalize_errors:
  "normalize_key key = Inl e \<Longrightarrow> err_class e = ValidationError" "normalize_value v = Inl e \<Longrightarrow> err_class e = ValidationError"
  by (auto simp: normalize_key_def normalize_value_def Let_def split: if_splits)

lemma normalize_key_refused:
  "py_strip key = [] \<or> 50 < length (py_strip key) \<Longrightarrow> \<exists>e. normalize_key key = Inl e \<and> err_class e = ValidationError"
  by (cases "py_strip key = []") (simp_all add: normalize_key_def Let_def)

text \<open>The row that is created and the rows after an edit.\<close>

definition new_secret_row :: "string \<Rightarrow> int \<Rightarrow> int \<Rightarrow> string \<Rightarrow> string \<Rightarrow> secret_row list \<Rightarrow> secret_row" where
  "new_secret_row tenant uid now key val rows =
     \<lparr>sec_id = fresh_id sec_id rows, sec_tenant = tenant, sec_key = py_strip key, sec_value = py_strip val,
      sec_user_id = uid, sec_updated_at = Some now, sec_created_at = Some now\<rparr>"

definition edit_row :: "int \<Rightarrow> int \<Rightarrow> string \<Rightarrow> string \<Rightarrow> secret_row \<Rightarrow> secret_row" where
  "edit_row uid now key val r =
     r\<lparr>sec_key := py_strip key, sec_value := (if py_strip val = [] then sec_value r else py_strip val),
       sec_user_id := uid, sec_updated_at := Some now\<rparr>"

text \<open>What an action that succeeds does to the table.\<close>

fun secret_effect :: "string \<Rightarrow> int \<Rightarrow> int \<Rightarrow> secret_action \<Rightarrow> secret_row list \<Rightarrow> secret_row list" where
  "secret_effect tenant uid now (New_secret key val) rows = rows @ [new_secret_row tenant uid now key val rows]"
| "secret_effect tenant uid now (Edit_secret sid key val) rows =
     update_where (\<lambda>r. sec_id r = sid) (edit_row uid now key val) rows"
| "secret_effect tenant uid now (Delete_secret sid) rows = filter (\<lambda>r. sec_id r \<noteq> sid) rows"

text \<open>Why an action is refused.\<close>

fun secret_refused :: "string \<Rightarrow> secret_action \<Rightarrow> secret_row list \<Rightarrow> bool" where
  "secret_refused tenant (New_secret key val) rows \<longleftrightarrow>
     py_strip key = [] \<or> 50 < length (py_strip key) \<or> py_strip val = [] \<or>
     (\<exists>r \<in> set rows. sec_tenant r = tenant \<and> sec_key r = py_strip key)"
| "secret_refused tenant (Edit_secret sid key val) rows \<longleftrightarrow>
     \<not> (\<exists>r \<in> set rows. sec_tenant r = tenant \<and> sec_id r = sid) \<or> py_strip key = [] \<or> 50 < length (py_strip key) \<or>
     (\<exists>r \<in> set rows. sec_tenant r = tenant \<and> sec_id r \<noteq> sid \<and> sec_key r = py_strip key)"
| "secret_refused tenant (Delete_secret sid) rows \<longleftrightarrow> \<not> (\<exists>r \<in> set rows. sec_tenant r = tenant \<and> sec_id r = sid)"

lemmas secret_runs = new_secret_page_def edit_secret_page_def delete_secret_action_def session_scope_def flash_errors_def secret_flush_def flush_with_uniqueness_guard_def
  create_secret_def update_secret_def delete_secret_def get_secret_def write_secret_def

lemma new_secret_run:
  assumes "secrets_ok rows"
  shows "\<exists>e. secret_page tenant uid now (New_secret key val) rows =
    (if secret_refused tenant (New_secret key val) rows then (Inr (Inl e), rows)
     else (Inr (Inr ()), secret_effect tenant uid now (New_secret key val) rows))"
proof -
  have old: "secret_key_tenant_unique rows" using assms by (simp add: secrets_ok_def)
  have unique: "secret_key_tenant_unique (rows @ [new_secret_row tenant uid now key val rows]) \<longleftrightarrow>
      \<not> (\<exists>r \<in> set rows. sec_tenant r = tenant \<and> sec_key r = py_strip key)"
    using old by (auto simp: secret_key_tenant_unique_def new_secret_row_def)
  show ?thesis
    using old unique
    by (auto simp: secret_runs comp_defs app_errors_reported normalize_key_def normalize_value_def Let_def
        new_secret_row_def)
qed

text \<open>A secret is looked up by its tenant and its primary key.\<close>

lemma find_secret:
  obtains (none) "find (\<lambda>r. sec_tenant r = tenant \<and> sec_id r = sid) rows = None"
      "\<not> (\<exists>r \<in> set rows. sec_tenant r = tenant \<and> sec_id r = sid)"
  | (some) r where "find (\<lambda>r. sec_tenant r = tenant \<and> sec_id r = sid) rows = Some r" "r \<in> set rows"
      "sec_tenant r = tenant" "sec_id r = sid"
  by (cases "find (\<lambda>r. sec_tenant r = tenant \<and> sec_id r = sid) rows") (auto simp: find_None_iff dest!: find_SomeD)

lemma delete_secret_run:
  assumes "secrets_ok rows"
  shows "\<exists>e. secret_page tenant uid now (Delete_secret sid) rows =
    (if secret_refused tenant (Delete_secret sid) rows then (Inr (Inl e), rows)
     else (Inr (Inr ()), secret_effect tenant uid now (Delete_secret sid) rows))"
proof -
  have old: "secret_key_tenant_unique rows" using assms by (simp add: secrets_ok_def)
  then have rest: "secret_key_tenant_unique (filter (\<lambda>r. sec_id r \<noteq> sid) rows)"
    by (simp add: secret_key_tenant_unique_def distinct_map_filter)
  show ?thesis
  proof (cases rule: find_secret [of tenant sid rows])
    case none
    then show ?thesis using old by (simp add: secret_runs comp_defs app_errors_reported)
  next
    case (some r)
    then have "\<not> secret_refused tenant (Delete_secret sid) rows" by auto
    then show ?thesis using some(1,4) rest by (simp add: secret_runs comp_defs)
  qed
qed

text \<open>The constraint after the key of one row has changed.\<close>

lemma unique_after_edit:
  assumes "secrets_ok rows" "r \<in> set rows" "sec_id r = sid" "sec_tenant r = tenant"
  shows "secret_key_tenant_unique (update_where (\<lambda>x. sec_id x = sid) (edit_row uid now key val) rows) \<longleftrightarrow>
    \<not> (\<exists>x \<in> set rows. sec_tenant x = tenant \<and> sec_id x \<noteq> sid \<and> sec_key x = py_strip key)"
proof -
  let ?g = "\<lambda>x. (sec_tenant (if sec_id x = sid then edit_row uid now key val x else x),
    sec_key (if sec_id x = sid then edit_row uid now key val x else x))"
  have ids: "distinct (map sec_id rows)" "inj_on (\<lambda>x. (sec_tenant x, sec_key x)) (set rows)" "distinct rows"
    using assms(1) by (auto simp: secrets_ok_def secret_key_tenant_unique_def distinct_map)
  have same: "x = y" if "x \<in> set rows" "y \<in> set rows" "sec_id x = sec_id y" for x y
    using ids(1) that by (auto simp: distinct_map inj_on_def)
  have "secret_key_tenant_unique (update_where (\<lambda>x. sec_id x = sid) (edit_row uid now key val) rows) \<longleftrightarrow> inj_on ?g (set rows)"
    using ids(3) by (simp add: secret_key_tenant_unique_def update_where_def comp_def distinct_map)
  also have "\<dots> \<longleftrightarrow> \<not> (\<exists>x \<in> set rows. sec_tenant x = tenant \<and> sec_id x \<noteq> sid \<and> sec_key x = py_strip key)"
  proof
    assume inj: "inj_on ?g (set rows)"
    show "\<not> (\<exists>x \<in> set rows. sec_tenant x = tenant \<and> sec_id x \<noteq> sid \<and> sec_key x = py_strip key)"
    proof (intro notI, elim bexE conjE)
      fix x
      assume x: "x \<in> set rows" "sec_tenant x = tenant" "sec_id x \<noteq> sid" "sec_key x = py_strip key"
      then have "x = r" using inj_onD [OF inj, of x r] assms(2-4) by (simp add: edit_row_def)
      then show False using x(3) assms(3) by simp
    qed
  next
    assume free: "\<not> (\<exists>x \<in> set rows. sec_tenant x = tenant \<and> sec_id x \<noteq> sid \<and> sec_key x = py_strip key)"
    show "inj_on ?g (set rows)"
    proof (rule inj_onI)
      fix x y
      assume xy: "x \<in> set rows" "y \<in> set rows" "?g x = ?g y"
      have row: "z = r" if "z \<in> set rows" "sec_id z = sid" for z using same [OF that(1) assms(2)] that(2) assms(3) by simp
      show "x = y"
        using xy free row assms(3,4) inj_onD [OF ids(2) _ xy(1,2)]
        by (cases "sec_id x = sid"; cases "sec_id y = sid") (auto simp: edit_row_def)
    qed
  qed
  finally show ?thesis .
qed

text \<open>The assignments of an edit, one after the other, are one write to the row.\<close>

lemma edit_writes:
  "update_where (\<lambda>x. sec_id x = sid) (\<lambda>x. x\<lparr>sec_user_id := uid, sec_updated_at := Some now\<rparr>)
     (update_where (\<lambda>x. sec_id x = sid) (\<lambda>x. x\<lparr>sec_key := py_strip key\<rparr>) rows) =
   update_where (\<lambda>x. sec_id x = sid) (edit_row uid now key []) rows"
  "py_strip v \<noteq> [] \<Longrightarrow>
   update_where (\<lambda>x. sec_id x = sid) (\<lambda>x. x\<lparr>sec_user_id := uid, sec_updated_at := Some now\<rparr>)
     (update_where (\<lambda>x. sec_id x = sid) (\<lambda>x. x\<lparr>sec_value := py_strip v\<rparr>)
       (update_where (\<lambda>x. sec_id x = sid) (\<lambda>x. x\<lparr>sec_key := py_strip key\<rparr>) rows)) =
   update_where (\<lambda>x. sec_id x = sid) (edit_row uid now key v) rows"
  by (simp_all add: update_where_def edit_row_def)

lemma edit_row_blank: "py_strip v = [] \<Longrightarrow> edit_row uid now key v = edit_row uid now key []"
  by (rule ext) (simp add: edit_row_def)

lemma update_secret_run:
  assumes "find (\<lambda>r. sec_tenant r = tenant \<and> sec_id r = sid) rows = Some r" "sec_id r = sid"
    and "py_strip key \<noteq> []" "length (py_strip key) \<le> 50"
  shows "\<exists>x e. update_secret tenant sid uid key (if py_strip v \<noteq> [] then Some v else None) now
      \<lparr>ss_committed = rows, ss_rows = rows\<rparr> =
    (let rows' = update_where (\<lambda>x. sec_id x = sid) (edit_row uid now key v) rows
     in if secret_key_tenant_unique rows' then (Inr x, \<lparr>ss_committed = rows, ss_rows = rows'\<rparr>)
        else (Inl (Err ValidationError e), \<lparr>ss_committed = rows, ss_rows = rows\<rparr>))"
proof -
  have key: "normalize_key key = Inr (py_strip key)" using assms(3,4) by (simp add: normalize_key_def)
  show ?thesis
  proof (cases "py_strip v = []")
    case True
    then show ?thesis
      using assms(1,2) key edit_row_blank [OF True]
      by (simp add: secret_runs comp_defs edit_writes Let_def)
  next
    case False
    then have "normalize_value v = Inr (py_strip v)" by (simp add: normalize_value_def)
    then show ?thesis
      using assms(1,2) key False by (simp add: secret_runs comp_defs edit_writes Let_def)
  qed
qed

lemma edit_secret_run:
  assumes "secrets_ok rows"
  shows "\<exists>e. secret_page tenant uid now (Edit_secret sid key val) rows =
    (if secret_refused tenant (Edit_secret sid key val) rows then (Inr (Inl e), rows)
     else (Inr (Inr ()), secret_effect tenant uid now (Edit_secret sid key val) rows))"
proof -
  have old: "secret_key_tenant_unique rows" using assms by (simp add: secrets_ok_def)
  show ?thesis
  proof (cases rule: find_secret [of tenant sid rows])
    case none
    then show ?thesis using old by (simp add: secret_runs comp_defs app_errors_reported)
  next
    case (some r)
    note edit = unique_after_edit [OF assms some(2,4,3), of uid now key val]
    have found: "\<exists>r \<in> set rows. sec_tenant r = tenant \<and> sec_id r = sid" using some by blast
    have lookup: "get_secret tenant sid \<lparr>ss_committed = rows, ss_rows = rows\<rparr> = (Inr r, \<lparr>ss_committed = rows, ss_rows = rows\<rparr>)"
      using some(1) by (simp add: get_secret_def comp_defs)
    show ?thesis
    proof (cases "py_strip key = [] \<or> 50 < length (py_strip key)")
      case True
      then obtain e where "normalize_key key = Inl e" "err_class e = ValidationError"
        using normalize_key_refused by blast
      then have "update_secret tenant sid uid key v now \<lparr>ss_committed = rows, ss_rows = rows\<rparr> =
          (Inl e, \<lparr>ss_committed = rows, ss_rows = rows\<rparr>)" for v
        using lookup by (simp add: update_secret_def bnd_def lift_result_def)
      then show ?thesis
        using True old lookup \<open>err_class e = _\<close>
        by (auto simp: edit_secret_page_def session_scope_def flash_errors_def secret_flush_def comp_defs app_errors_reported)
    next
      case False
      then obtain x e where run: "update_secret tenant sid uid key (if py_strip val \<noteq> [] then Some val else None) now
          \<lparr>ss_committed = rows, ss_rows = rows\<rparr> =
        (let rows' = update_where (\<lambda>x. sec_id x = sid) (edit_row uid now key val) rows
         in if secret_key_tenant_unique rows' then (Inr x, \<lparr>ss_committed = rows, ss_rows = rows'\<rparr>)
            else (Inl (Err ValidationError e), \<lparr>ss_committed = rows, ss_rows = rows\<rparr>))"
        using update_secret_run [OF some(1,4)] by fastforce
      show ?thesis
        using False old lookup run edit found
        by (auto simp: edit_secret_page_def session_scope_def flash_errors_def secret_flush_def comp_defs app_errors_reported Let_def
            split: if_splits)
    qed
  qed
qed

section \<open>Every table that is reached is consistent\<close>

lemma secrets_ok_snoc:
  assumes "secrets_ok rows" "secret_ok r" "sec_id r = fresh_id sec_id rows"
    and "\<not> (\<exists>x \<in> set rows. sec_tenant x = sec_tenant r \<and> sec_key x = sec_key r)"
  shows "secrets_ok (rows @ [r])"
  using assms fresh_id_notin [of sec_id rows] by (auto simp: secrets_ok_def secret_key_tenant_unique_def)

lemma secrets_ok_effect:
  assumes "secrets_ok rows" "\<not> secret_refused tenant a rows"
  shows "secrets_ok (secret_effect tenant uid now a rows)"
proof (cases a)
  case (New_secret key val)
  have "secret_ok (new_secret_row tenant uid now key val rows)"
    using assms(2) New_secret by (auto simp: secret_ok_def new_secret_row_def)
  then show ?thesis
    using assms New_secret by (auto intro!: secrets_ok_snoc simp: new_secret_row_def)
next
  case (Edit_secret sid key val)
  then obtain r where r: "r \<in> set rows" "sec_tenant r = tenant" "sec_id r = sid" using assms(2) by auto
  let ?rows = "update_where (\<lambda>x. sec_id x = sid) (edit_row uid now key val) rows"
  have "secret_key_tenant_unique ?rows"
    using unique_after_edit [OF assms(1) r(1,3,2)] assms(2) Edit_secret by simp
  moreover have "map sec_id ?rows = map sec_id rows" by (simp add: update_where_def edit_row_def)
  moreover have "list_all secret_ok ?rows"
    using assms Edit_secret by (auto simp: list_all_iff update_where_def edit_row_def secrets_ok_def secret_ok_def
        split: if_splits)
  ultimately show ?thesis using assms(1) Edit_secret by (simp add: secrets_ok_def)
next
  case (Delete_secret sid)
  then show ?thesis
    using assms(1) by (auto simp: secrets_ok_def secret_key_tenant_unique_def distinct_map_filter list_all_iff)
qed

lemma effect_own_tenant:
  assumes "secrets_ok rows" "\<not> secret_refused tenant a rows"
  shows "filter (\<lambda>r. sec_tenant r \<noteq> tenant) (secret_effect tenant uid now a rows) = filter (\<lambda>r. sec_tenant r \<noteq> tenant) rows"
proof -
  have own: "sec_tenant x = tenant" if "r \<in> set rows" "sec_tenant r = tenant" "x \<in> set rows" "sec_id x = sec_id r" for x r
    using assms(1) that by (auto simp: secrets_ok_def distinct_map dest: inj_onD)
  show ?thesis
  proof (cases a)
    case (Edit_secret sid key val)
    then obtain r where r: "r \<in> set rows" "sec_tenant r = tenant" "sec_id r = sid" using assms(2) by auto
    have "filter (\<lambda>x. sec_tenant x \<noteq> tenant) (update_where (\<lambda>x. sec_id x = sid) f xs) = filter (\<lambda>x. sec_tenant x \<noteq> tenant) xs"
      if "\<And>x. sec_tenant (f x) = sec_tenant x" "set xs \<subseteq> set rows" for f xs
      using that(2) own [OF r(1,2)] r(3) by (induction xs) (auto simp: update_where_def that(1))
    then show ?thesis using Edit_secret by (simp add: edit_row_def)
  next
    case (Delete_secret sid)
    then obtain r where r: "r \<in> set rows" "sec_tenant r = tenant" "sec_id r = sid" using assms(2) by auto
    then show ?thesis using Delete_secret own [OF r(1,2)] by (auto intro!: filter_cong)
  qed (simp add: new_secret_row_def)
qed

lemma secret_page_run:
  assumes "secrets_ok rows"
  shows "\<exists>e. secret_page tenant uid now a rows =
    (if secret_refused tenant a rows then (Inr (Inl e), rows)
     else (Inr (Inr ()), secret_effect tenant uid now a rows))"
  using new_secret_run edit_secret_run delete_secret_run assms by (cases a) blast+

lemma seed_pairs:
  assumes "secrets_ok (ss_rows st)" "distinct (map fst ps)" "list_all (\<lambda>kv. secret_ok (default_secret tenant uid kv [])) ps"
    and "\<forall>r \<in> set (ss_rows st). sec_tenant r = tenant \<longrightarrow> sec_key r \<in> set ks \<or> sec_key r \<notin> fst ` set ps"
  shows "\<exists>rows. for_each (add_default_secret tenant uid ks) ps st = (Inr (), st\<lparr>ss_rows := rows\<rparr>) \<and> secrets_ok rows"
  using assms
proof (induction ps arbitrary: st)
  case Nil
  then show ?case by (intro exI [of _ "ss_rows st"]) (simp add: ret_run)
next
  case (Cons p ps)
  let ?r = "default_secret tenant uid p (ss_rows st)"
  show ?case
  proof (cases "fst p \<in> set ks")
    case True
    then show ?thesis using Cons.IH [of st] Cons.prems by (auto simp: comp_defs add_default_secret_def)
  next
    case False
    have "secrets_ok (ss_rows st @ [?r])"
      using Cons.prems False by (intro secrets_ok_snoc) (auto simp: secret_ok_def default_secret_def)
    then show ?thesis
      using Cons.IH [of "st\<lparr>ss_rows := ss_rows st @ [?r]\<rparr>"] Cons.prems False
      by (auto simp: comp_defs add_default_secret_def default_secret_def)
  qed
qed

lemma default_secrets_ok:
  "distinct (map fst DEFAULT_TENANT_SECRET_VALUES)"
  "list_all (\<lambda>kv. secret_ok (default_secret tenant uid kv [])) DEFAULT_TENANT_SECRET_VALUES"
proof -
  have "list_all (\<lambda>(k, v). py_strip k = k \<and> k \<noteq> [] \<and> length k \<le> 50 \<and> py_strip v = v \<and> v \<noteq> []) DEFAULT_TENANT_SECRET_VALUES"
    by code_simp
  then show "list_all (\<lambda>kv. secret_ok (default_secret tenant uid kv [])) DEFAULT_TENANT_SECRET_VALUES"
    by (auto simp: list_all_iff secret_ok_def default_secret_def)
  show "distinct (map fst DEFAULT_TENANT_SECRET_VALUES)" by code_simp
qed

lemma seeding_ok:
  assumes "secrets_ok rows"
  shows "\<exists>rows'. session_scope (ensure_default_tenant_secrets tenant uid) rows = (Inr (), rows') \<and> secrets_ok rows'"
proof -
  let ?st = "\<lparr>ss_committed = rows, ss_rows = rows\<rparr>"
  let ?ks = "map sec_key (filter (\<lambda>r. sec_tenant r = tenant) rows)"
  have "\<forall>r \<in> set (ss_rows ?st). sec_tenant r = tenant \<longrightarrow> sec_key r \<in> set ?ks \<or> sec_key r \<notin> fst ` set DEFAULT_TENANT_SECRET_VALUES"
    by auto
  with seed_pairs [OF _ default_secrets_ok this] assms obtain rows' where
    run: "for_each (add_default_secret tenant uid ?ks) DEFAULT_TENANT_SECRET_VALUES ?st = (Inr (), ?st\<lparr>ss_rows := rows'\<rparr>)"
      "secrets_ok rows'" by auto
  have "secret_key_tenant_unique rows'" using run(2) by (simp add: secrets_ok_def)
  then have "ensure_default_tenant_secrets tenant uid ?st = (Inr (), \<lparr>ss_committed = rows, ss_rows = rows'\<rparr>)"
    using run(1) by (simp add: ensure_default_tenant_secrets_def bnd_gets_run thn_def bnd_def [of "for_each _ _"] secret_flush_def)
  then show ?thesis
    using run(2) \<open>secret_key_tenant_unique rows'\<close> by (simp add: session_scope_def bnd_def thn_def secret_flush_def ret_run)
qed

lemma secrets_reachable_ok: "secrets_reachable rows \<Longrightarrow> secrets_ok rows"
proof (induction rule: secrets_reachable.induct)
  case secrets_empty
  show ?case by (simp add: secrets_ok_def secret_key_tenant_unique_def)
next
  case (secrets_page rows tenant uid now a r rows')
  then show ?case using secret_page_run [of rows tenant uid now a] secrets_ok_effect by (auto split: if_splits)
next
  case (secrets_seeded rows tenant uid r rows')
  then show ?case using seeding_ok [of rows tenant uid] by auto
qed

text \<open>Two tenants with a secret of the same key, for the concrete inputs of the witnesses.\<close>

definition two_tenants :: "secret_row list" where
  "two_tenants = secret_effect ''b'' 2 7 (New_secret ''TOKEN'' ''other'') (secret_effect ''a'' 1 7 (New_secret '' TOKEN '' ''mine'') [])"

lemma effect_reachable:
  "secrets_reachable rows \<Longrightarrow> \<not> secret_refused tenant a rows \<Longrightarrow> secrets_reachable (secret_effect tenant uid now a rows)"
  using secret_page_run [OF secrets_reachable_ok, of rows tenant uid now a] secrets_page [of rows tenant uid now a]
  by auto

lemma two_tenants_reachable: "secrets_reachable two_tenants"
proof -
  have "\<not> secret_refused ''a'' (New_secret '' TOKEN '' ''mine'') []"
    "\<not> secret_refused ''b'' (New_secret ''TOKEN'' ''other'') (secret_effect ''a'' 1 7 (New_secret '' TOKEN '' ''mine'') [])"
    by code_simp+
  then show ?thesis unfolding two_tenants_def by (intro effect_reachable secrets_empty)
qed

text \<open>C27: However tenants are seeded and secrets are edited, the table stays consistent: primary keys are unique,
  no tenant has two secrets under one key, keys are trimmed, not blank and fit their column, values are
  trimmed and not blank. An action of the secrets pages never raises. It is refused exactly for a blank
  or long key, a blank value, a key the tenant has already, or a secret that is not the tenant's, and
  then the table is as before; otherwise it writes the one row, and the secrets of other tenants stay
  what they are.\<close>

theorem secret_pages_sound:
  assumes "secrets_reachable rows"
  shows "secrets_ok rows \<and>
    (if secret_refused tenant a rows
     then \<exists>e. secret_page tenant uid now a rows = (Inr (Inl e), rows)
     else secret_page tenant uid now a rows = (Inr (Inr ()), secret_effect tenant uid now a rows) \<and>
       filter (\<lambda>r. sec_tenant r \<noteq> tenant) (secret_effect tenant uid now a rows) = filter (\<lambda>r. sec_tenant r \<noteq> tenant) rows)"
  using secrets_reachable_ok [OF assms] secret_page_run [of rows tenant uid now a] effect_own_tenant [of rows tenant a uid now]
  by auto

theorem secret_pages_sound_witness:
  "(\<exists>e. secret_page ''a'' 1 8 (New_secret ''TOKEN'' ''again'') two_tenants = (Inr (Inl e), two_tenants)) \<and>
   map sec_value (snd (secret_page ''a'' 1 8 (Edit_secret 1 ''TOKEN'' ''new'') two_tenants)) = [''new'', ''other'']"
proof -
  note sound = secret_pages_sound [OF two_tenants_reachable]
  have "secret_refused ''a'' (New_secret ''TOKEN'' ''again'') two_tenants"
    "\<not> secret_refused ''a'' (Edit_secret 1 ''TOKEN'' ''new'') two_tenants"
    "map sec_value (secret_effect ''a'' 1 8 (Edit_secret 1 ''TOKEN'' ''new'') two_tenants) = [''new'', ''other'']"
    by code_simp+
  note last = this
  have "\<exists>e. secret_page ''a'' 1 8 (New_secret ''TOKEN'' ''again'') two_tenants = (Inr (Inl e), two_tenants)"
    using sound last(1) by presburger
  moreover have "secret_page ''a'' 1 8 (Edit_secret 1 ''TOKEN'' ''new'') two_tenants =
      (Inr (Inr ()), secret_effect ''a'' 1 8 (Edit_secret 1 ''TOKEN'' ''new'') two_tenants)"
    using sound last(2) by presburger
  ultimately show ?thesis using last(3) by (simp only: snd_conv)
qed

end
