(* ===== verification/Connector_Proxy.thy ===== *)
theory Connector_Proxy
  imports Service_Tasks
begin

text \<open>
  \<^verbatim>\<open>src/m8flow_core/services/connector_proxy_service_tasks.py\<close>: the adapter that reads the command
  catalog of a connector proxy over HTTP, groups it into one connector per connector key, and runs a
  service task request as a call of the proxy. The library functions behind a call are a parameter of
  the model, the record \<open>http\<close>: \<^verbatim>\<open>urljoin\<close>, \<^verbatim>\<open>urlopen\<close> with what the server answers, and
  \<^verbatim>\<open>json.loads\<close>, whose values range over more characters than a \<open>string\<close> has here. The body of an
  answer is the text its bytes decode to, or \<open>None\<close> where they are not UTF-8.
\<close>

section \<open>HTTP calls\<close>

record http_request =
  rq_url :: string
  rq_data :: "string option"
  rq_headers :: "(string \<times> string) list"
  rq_method :: string
  rq_timeout :: real

datatype http_outcome =
    Response "string option" int
  | Http_error "string option" int
  | Url_error string
  | Raised m8f_error

record http =
  ht_urljoin :: "string \<Rightarrow> string \<Rightarrow> string"
  ht_urlopen :: "http_request \<Rightarrow> http_outcome"
  ht_json_loads :: "string \<Rightarrow> pyval option"

section \<open>Normalization\<close>

definition DEFAULT_CONNECTOR_PROXY_TIMEOUT_SECONDS :: real where
  "DEFAULT_CONNECTOR_PROXY_TIMEOUT_SECONDS = 10"

definition CONNECTOR_PROXY_COMMANDS_PATH :: string where
  "CONNECTOR_PROXY_COMMANDS_PATH = ''/v1/commands''"

definition CONNECTOR_PROXY_RESERVED_PARAMETER_PREFIX :: string where
  "CONNECTOR_PROXY_RESERVED_PARAMETER_PREFIX = ''spiff__''"

definition CONNECTOR_PROXY_CALLBACK_URL_PARAMETER :: string where
  "CONNECTOR_PROXY_CALLBACK_URL_PARAMETER = ''spiff__callback_url''"

definition CONNECTOR_PROXY_TASK_DATA_PARAMETER :: string where
  "CONNECTOR_PROXY_TASK_DATA_PARAMETER = ''spiff__task_data''"

definition normalize_base_url :: "string \<Rightarrow> m8f_error + string" where
  "normalize_base_url base_url =
     (let normalized = py_rstrip_char (CHR ''/'') (py_strip base_url) in
      if normalized = [] then Inl (Err ValidationError (R_service (BlankField ''base_url'')))
      else Inr normalized)"

definition normalize_connector_key :: "string \<Rightarrow> m8f_error + string" where
  "normalize_connector_key connector_key =
     rbind (normalize_non_blank ''connector_key'' connector_key) (\<lambda>k.
     rbind (no_slash ''connector_key'' k) (\<lambda>_. Inr k))"

definition normalize_timeout_seconds :: "real \<Rightarrow> m8f_error + real" where
  "normalize_timeout_seconds timeout =
     (if timeout \<le> 0 then Inl (Err ValidationError (R_proxy NonPositiveTimeout)) else Inr timeout)"

section \<open>One call of the proxy\<close>

definition parse_connector_proxy_response_body :: "http \<Rightarrow> string option \<Rightarrow> m8f_error + pyval" where
  "parse_connector_proxy_response_body ht raw_body =
     (case raw_body of
        None \<Rightarrow> Inl (Err Py_UnicodeDecodeError (R_proxy BodyNotUtf8))
      | Some decoded \<Rightarrow>
          if decoded = [] then Inr PNone
          else (case ht_json_loads ht decoded of None \<Rightarrow> Inr (PStr decoded) | Some v \<Rightarrow> Inr v))"

text \<open>The message of an error object, where it has one that is not blank.\<close>

definition error_message :: "(string \<times> pyval) list \<Rightarrow> string option" where
  "error_message raw_error =
     (case as_str (dict_get raw_error ''message'') of
        None \<Rightarrow> None
      | Some m \<Rightarrow> if py_strip m = [] then None else Some m)"

definition raise_for_connector_proxy_error_payload :: "pyval \<Rightarrow> string \<Rightarrow> string \<Rightarrow> m8f_error + unit" where
  "raise_for_connector_proxy_error_payload parsed_body operation_id base_url =
     (case as_dict parsed_body of
        None \<Rightarrow> Inr ()
      | Some body \<Rightarrow>
          (case as_dict (dict_get body ''error'') of
             None \<Rightarrow> Inr ()
           | Some raw_error \<Rightarrow>
               if raw_error = [] then Inr ()
               else Inl (Err ServiceTaskExecutionError (R_proxy (ProxyFailed operation_id base_url
                 (case error_message raw_error of
                    None \<Rightarrow> json_dumps (sort_keys (PDict raw_error)) | Some m \<Rightarrow> m))))))"

definition connector_proxy_http_error_detail :: "pyval \<Rightarrow> string" where
  "connector_proxy_http_error_detail parsed_body =
     (case (case as_dict parsed_body of
              None \<Rightarrow> None
            | Some body \<Rightarrow> (case as_dict (dict_get body ''error'') of
                              None \<Rightarrow> None | Some raw_error \<Rightarrow> error_message raw_error)) of
        Some message \<Rightarrow> message
      | None \<Rightarrow>
          (case parsed_body of
             PStr s \<Rightarrow> s
           | PNone \<Rightarrow> ''empty response body''
           | v \<Rightarrow> json_dumps (sort_keys v)))"

definition connector_proxy_http_error ::
  "http \<Rightarrow> string \<Rightarrow> string \<Rightarrow> int \<Rightarrow> string option \<Rightarrow> m8f_error" where
  "connector_proxy_http_error ht operation_id base_url status_code raw_body =
     (case parse_connector_proxy_response_body ht raw_body of
        Inl e \<Rightarrow> e
      | Inr parsed_body \<Rightarrow>
          Err ServiceTaskExecutionError (R_proxy (ProxyHttpFailed operation_id base_url status_code
            (connector_proxy_http_error_detail parsed_body))))"

definition py_lstrip_char :: "char \<Rightarrow> string \<Rightarrow> string" where
  "py_lstrip_char c s = dropWhile (\<lambda>d. d = c) s"

definition connector_proxy_http_request ::
  "http \<Rightarrow> string \<Rightarrow> string \<Rightarrow> string \<Rightarrow> (string \<times> pyval) list option \<Rightarrow> real \<Rightarrow> http_request" where
  "connector_proxy_http_request ht base_url path meth payload timeout =
     \<lparr>rq_url = ht_urljoin ht (base_url @ ''/'') (py_lstrip_char (CHR ''/'') path),
      rq_data = map_option (\<lambda>p. json_dumps (PDict p)) payload,
      rq_headers = (''Accept'', ''application/json'') #
        (if payload = None then [] else [(''Content-Type'', ''application/json'')]),
      rq_method = meth, rq_timeout = timeout\<rparr>"

definition connector_proxy_json_request ::
  "http \<Rightarrow> string \<Rightarrow> string \<Rightarrow> string \<Rightarrow> (string \<times> pyval) list option \<Rightarrow> real \<Rightarrow> string \<Rightarrow>
   m8f_error + pyval \<times> int" where
  "connector_proxy_json_request ht base_url path meth payload timeout operation_id =
     rbind (normalize_base_url base_url) (\<lambda>base.
     rbind (normalize_timeout_seconds timeout) (\<lambda>secs.
       case ht_urlopen ht (connector_proxy_http_request ht base path meth payload secs) of
         Response raw_body status \<Rightarrow>
           rbind (parse_connector_proxy_response_body ht raw_body) (\<lambda>parsed_body.
           rbind (raise_for_connector_proxy_error_payload parsed_body operation_id base) (\<lambda>_.
             Inr (parsed_body, status)))
       | Http_error raw_body code \<Rightarrow> Inl (connector_proxy_http_error ht operation_id base code raw_body)
       | Url_error why \<Rightarrow>
           Inl (Err ServiceTaskExecutionError (R_proxy (ProxyUnreachable operation_id base why)))
       | Raised e \<Rightarrow> Inl e))"

section \<open>The connector\<close>

fun copy_parameters ::
  "(string \<times> pyval) list \<Rightarrow> (string \<times> pyval) list \<Rightarrow> m8f_error + (string \<times> pyval) list" where
  "copy_parameters [] payload = Inr payload"
| "copy_parameters ((name, v) # rest) payload =
     (if prefix CONNECTOR_PROXY_RESERVED_PARAMETER_PREFIX name
      then Inl (Err ValidationError (R_proxy ReservedParameter))
      else copy_parameters rest (dict_set name v payload))"

definition request_parameters :: "service_task_request \<Rightarrow> (string \<times> pyval) list" where
  "request_parameters req = (case str_parameters req of None \<Rightarrow> [] | Some ps \<Rightarrow> ps)"

definition connector_proxy_request_payload ::
  "service_task_request \<Rightarrow> m8f_error + (string \<times> pyval) list" where
  "connector_proxy_request_payload req =
     rbind (copy_parameters (request_parameters req) []) (\<lambda>payload.
       let with_data = (case str_task_data req of
             None \<Rightarrow> payload
           | Some d \<Rightarrow> dict_set CONNECTOR_PROXY_TASK_DATA_PARAMETER (PDict d) payload)
       in case str_callback_url req of
            None \<Rightarrow> Inr with_data
          | Some url \<Rightarrow>
              if py_strip url = [] then Inl (Err ValidationError (R_service (BlankField ''callback_url'')))
              else Inr (dict_set CONNECTOR_PROXY_CALLBACK_URL_PARAMETER (PStr (py_strip url)) with_data))"

text \<open>\<^verbatim>\<open>ConnectorProxyServiceTaskConnector\<close>: its fields, the constructor, and \<^verbatim>\<open>execute\<close>.\<close>

record proxy_connector =
  px_connector_key :: string
  px_base_url :: string
  px_timeout_seconds :: real
  px_commands :: "command_definition list"
  px_commands_by_operation_id :: "(string \<times> command_definition) list"

fun index_commands ::
  "string \<Rightarrow> command_definition list \<Rightarrow> (string \<times> command_definition) list \<Rightarrow>
   m8f_error + (string \<times> command_definition) list" where
  "index_commands key [] index = Inr index"
| "index_commands key (c # cs) index =
     rbind (cmd_operation_id c) (\<lambda>i.
       if cmd_connector_key c \<noteq> key then Inl (Err ValidationError (R_proxy (ForeignCommand i)))
       else index_commands key cs (AList.update i c index))"

definition ConnectorProxyServiceTaskConnector ::
  "string \<Rightarrow> string \<Rightarrow> command_definition list \<Rightarrow> real \<Rightarrow> m8f_error + proxy_connector" where
  "ConnectorProxyServiceTaskConnector connector_key base_url commands timeout =
     rbind (normalize_connector_key connector_key) (\<lambda>k.
     rbind (normalize_base_url base_url) (\<lambda>base.
     rbind (normalize_timeout_seconds timeout) (\<lambda>secs.
     rbind (index_commands k commands []) (\<lambda>index.
       Inr \<lparr>px_connector_key = k, px_base_url = base, px_timeout_seconds = secs,
            px_commands = commands, px_commands_by_operation_id = index\<rparr>))))"

definition proxy_execute :: "http \<Rightarrow> proxy_connector \<Rightarrow> service_task_request \<Rightarrow> m8f_error + service_task_result" where
  "proxy_execute ht px req =
     rbind (req_connector_key req) (\<lambda>k.
       if k \<noteq> px_connector_key px
       then Inl (Err ValidationError (R_proxy (CannotExecute (px_connector_key px) (str_operation_id req))))
       else if map_of (px_commands_by_operation_id px) (str_operation_id req) = None
       then Inl (Err NotFoundError (R_service (CommandNotFound (str_operation_id req))))
       else
         rbind (connector_proxy_request_payload req) (\<lambda>payload.
         rbind (req_command_name req) (\<lambda>n.
         rbind (build_connector_proxy_execute_path k n) (\<lambda>path.
         rbind (connector_proxy_json_request ht (px_base_url px) path ''POST'' (Some payload)
                  (px_timeout_seconds px) (str_operation_id req)) (\<lambda>(response, status).
           Inr \<lparr>res_payload = response,
                res_metadata = Some [(''connector_proxy_base_url'', PStr (px_base_url px)),
                  (''status_code'', PInt status)]\<rparr>)))))"

definition as_connector :: "http \<Rightarrow> proxy_connector \<Rightarrow> connector" where
  "as_connector ht px =
     \<lparr>con_key = px_connector_key px, con_commands = px_commands px, con_execute = proxy_execute ht px\<rparr>"

section \<open>The command catalog\<close>

definition parse_parameter :: "pyval \<Rightarrow> m8f_error + parameter_definition" where
  "parse_parameter raw_parameter =
     (case as_dict raw_parameter of
        None \<Rightarrow> Inl (Err ServiceTaskExecutionError (R_proxy ParameterNotObject))
      | Some d \<Rightarrow>
          (case as_str (dict_get d ''id'') of
             None \<Rightarrow> Inl (Err ServiceTaskExecutionError (R_proxy ParameterMissingId))
           | Some name \<Rightarrow>
               ServiceTaskParameterDefinition
                 \<lparr>prm_name = name,
                  prm_type = (case dict_get d ''type'' of PNone \<Rightarrow> None | v \<Rightarrow> Some (py_str_value v)),
                  prm_required = py_truthy (dict_get d ''required''),
                  prm_description = None, prm_metadata = Some d\<rparr>))"

definition parse_connector_proxy_parameter_definitions ::
  "(string \<times> pyval) list \<Rightarrow> m8f_error + parameter_definition list" where
  "parse_connector_proxy_parameter_definitions entry =
     (case map_of entry ''parameters'' of
        None \<Rightarrow> Inr []
      | Some v \<Rightarrow>
          (case as_list v of
             None \<Rightarrow> Inl (Err ServiceTaskExecutionError (R_proxy ParametersNotList))
           | Some xs \<Rightarrow> collect_results parse_parameter xs))"

definition catalog_entry :: "pyval \<Rightarrow> m8f_error + command_definition" where
  "catalog_entry e =
     (case as_dict e of
        None \<Rightarrow> Inl (Err ServiceTaskExecutionError (R_proxy CatalogEntryNotObject))
      | Some d \<Rightarrow>
          (case as_str (dict_get d ''id'') of
             None \<Rightarrow> Inl (Err ServiceTaskExecutionError (R_proxy CatalogEntryMissingId))
           | Some operation_id \<Rightarrow>
               rbind (split_service_task_operation_id operation_id) (\<lambda>(k, n).
               rbind (parse_connector_proxy_parameter_definitions d) (\<lambda>params.
                 ServiceTaskCommandDefinition
                   \<lparr>cmd_connector_key = k, cmd_command_name = n, cmd_display_name = Some n,
                    cmd_description = None, cmd_parameters = params,
                    cmd_metadata = Some [(''catalog_entry'', PDict d)]\<rparr>))))"

definition fetch_connector_proxy_command_definitions ::
  "http \<Rightarrow> string \<Rightarrow> real \<Rightarrow> m8f_error + command_definition list" where
  "fetch_connector_proxy_command_definitions ht base_url timeout =
     rbind (normalize_base_url base_url) (\<lambda>base.
     rbind (connector_proxy_json_request ht base CONNECTOR_PROXY_COMMANDS_PATH ''GET'' None timeout
              ''connector-proxy catalog'') (\<lambda>(response, _).
       case as_list response of
         None \<Rightarrow> Inl (Err ServiceTaskExecutionError (R_proxy CatalogNotList))
       | Some entries \<Rightarrow>
           rbind (collect_results catalog_entry entries) (\<lambda>definitions.
             Inr (sort_key (\<lambda>c. (cmd_connector_key c, cmd_command_name c)) definitions))))"

definition add_command ::
  "command_definition \<Rightarrow> (string \<times> command_definition list) list \<Rightarrow> (string \<times> command_definition list) list" where
  "add_command c groups =
     AList.update (cmd_connector_key c)
       ((case map_of groups (cmd_connector_key c) of None \<Rightarrow> [] | Some cs \<Rightarrow> cs) @ [c]) groups"

definition commands_by_connector_key ::
  "command_definition list \<Rightarrow> (string \<times> command_definition list) list" where
  "commands_by_connector_key commands = fold add_command commands []"

definition build_connector_proxy_service_task_connectors ::
  "http \<Rightarrow> string \<Rightarrow> real \<Rightarrow> m8f_error + proxy_connector list" where
  "build_connector_proxy_service_task_connectors ht base_url timeout =
     rbind (fetch_connector_proxy_command_definitions ht base_url timeout) (\<lambda>commands.
       let groups = commands_by_connector_key commands in
       collect_results (\<lambda>k. ConnectorProxyServiceTaskConnector k base_url
           (case map_of groups k of None \<Rightarrow> [] | Some cs \<Rightarrow> cs) timeout)
         (sort (map fst groups)))"

definition build_connector_proxy_service_task_registry :: "http \<Rightarrow> string \<Rightarrow> real \<Rightarrow> m8f_error + registry" where
  "build_connector_proxy_service_task_registry ht base_url timeout =
     rbind (build_connector_proxy_service_task_connectors ht base_url timeout) (\<lambda>connectors.
       ServiceTaskRegistry (map (as_connector ht) connectors))"

section \<open>Grouping a sorted list by its key\<close>

lemma sorted_first_group:
  assumes "sorted (map f xs)" and "list_all (\<lambda>x. k \<le> f x) xs"
  shows "filter (\<lambda>x. f x = k) xs @ filter (\<lambda>x. f x \<noteq> k) xs = xs"
  using assms
proof (induction xs)
  case (Cons a xs)
  show ?case
  proof (cases "f a = k")
    case False
    then have "\<forall>x\<in>set xs. f x \<noteq> k" using Cons.prems by force
    then have "filter (\<lambda>x. f x = k) xs = []" "filter (\<lambda>x. f x \<noteq> k) xs = xs"
      by (simp_all add: filter_empty_conv filter_id_conv)
    then show ?thesis using False by simp
  qed (use Cons in simp)
qed simp

text \<open>The groups of a list that is sorted by the key, in the order of the keys, make up the list.\<close>

lemma concat_groups:
  assumes "sorted (map f xs)" and "sorted ks" "distinct ks" and "f ` set xs \<subseteq> set ks"
  shows "concat (map (\<lambda>k. filter (\<lambda>x. f x = k) xs) ks) = xs"
  using assms
proof (induction ks arbitrary: xs)
  case (Cons k ks)
  let ?rest = "filter (\<lambda>x. f x \<noteq> k) xs"
  have "list_all (\<lambda>x. k \<le> f x) xs"
    using Cons.prems by (auto simp: list_all_iff image_subset_iff)
  note first = sorted_first_group [OF Cons.prems(1) this]
  have "filter (\<lambda>x. f x = j) xs = filter (\<lambda>x. f x = j) ?rest" if "j \<in> set ks" for j
    using that Cons.prems(3) by (auto intro!: filter_cong)
  then have "concat (map (\<lambda>j. filter (\<lambda>x. f x = j) xs) ks) = concat (map (\<lambda>j. filter (\<lambda>x. f x = j) ?rest) ks)"
    by (metis (no_types, lifting) map_eq_conv)
  also have "\<dots> = ?rest"
    using Cons.prems by (intro Cons.IH) (auto intro: sorted_filter)
  finally show ?case using first by simp
qed simp

section \<open>The catalog as a registry\<close>

text \<open>What the constructor of a command definition establishes.\<close>

definition wf_command :: "command_definition \<Rightarrow> bool" where
  "wf_command c \<longleftrightarrow> py_strip (cmd_connector_key c) = cmd_connector_key c \<and> cmd_connector_key c \<noteq> [] \<and>
     CHR ''/'' \<notin> set (cmd_connector_key c) \<and> py_strip (cmd_command_name c) = cmd_command_name c \<and>
     cmd_command_name c \<noteq> [] \<and> CHR ''/'' \<notin> set (cmd_command_name c)"

lemma wf_operation_id:
  "wf_command c \<Longrightarrow> cmd_operation_id c = Inr (cmd_connector_key c @ ''/'' @ cmd_command_name c)"
  by (simp add: wf_command_def cmd_operation_id_def build_operation_id_Inr)

lemma catalog_entry_wf: "catalog_entry e = Inr c \<Longrightarrow> wf_command c"
  by (auto simp: catalog_entry_def wf_command_def ServiceTaskCommandDefinition_def rbind_Inr_iff
      normalize_Inr_iff no_slash_Inr_iff split: option.splits)

lemma fetch_wf:
  assumes "fetch_connector_proxy_command_definitions ht base_url timeout = Inr cmds"
  shows "list_all wf_command cmds" "sorted (map cmd_connector_key cmds)"
    "\<exists>base. normalize_base_url base_url = Inr base" "normalize_timeout_seconds timeout = Inr timeout"
proof -
  obtain entries ds where ds: "list_all2 (\<lambda>e c. catalog_entry e = Inr c) entries ds"
    "cmds = sort_key (\<lambda>c. (cmd_connector_key c, cmd_command_name c)) ds"
    using assms
    by (auto simp: fetch_connector_proxy_command_definitions_def rbind_Inr_iff collect_results_Inr split: option.splits)
  have "list_all wf_command ds"
    using ds(1) by (induction rule: list_all2_induct) (auto intro: catalog_entry_wf)
  then show "list_all wf_command cmds" by (simp add: ds(2) list_all_iff)
  have "sorted (map (\<lambda>c. (cmd_connector_key c, cmd_command_name c)) cmds)" by (simp add: ds(2))
  then show "sorted (map cmd_connector_key cmds)"
    by (induction cmds) (auto simp: less_eq_prod_def less_imp_le)
  show "\<exists>base. normalize_base_url base_url = Inr base"
    using assms by (auto simp: fetch_connector_proxy_command_definitions_def rbind_Inr_iff)
  show "normalize_timeout_seconds timeout = Inr timeout"
    using assms
    by (auto simp: fetch_connector_proxy_command_definitions_def connector_proxy_json_request_def rbind_Inr_iff
        normalize_timeout_seconds_def)
qed

lemma add_commands_lookup:
  "map_of (fold add_command cs groups) k =
     (let mine = filter (\<lambda>c. cmd_connector_key c = k) cs in
      case map_of groups k of
        None \<Rightarrow> if mine = [] then None else Some mine
      | Some xs \<Rightarrow> Some (xs @ mine))"
  by (induction cs arbitrary: groups) (auto simp: add_command_def update_conv' Let_def split: option.splits)

lemma commands_by_key_lookup:
  "map_of (commands_by_connector_key cs) k =
     (if k \<in> cmd_connector_key ` set cs then Some (filter (\<lambda>c. cmd_connector_key c = k) cs) else None)"
  by (auto simp: commands_by_connector_key_def add_commands_lookup Let_def filter_empty_conv image_iff)

lemma commands_by_key_keys:
  "sort (map fst (commands_by_connector_key cs)) = sorted_list_of_set (cmd_connector_key ` set cs)"
proof -
  have "distinct (map fst (fold add_command cs g))" if "distinct (map fst g)" for g
    using that by (induction cs arbitrary: g) (auto simp: add_command_def distinct_update)
  then have "distinct (map fst (commands_by_connector_key cs))"
    by (simp add: commands_by_connector_key_def)
  moreover have "set (map fst (commands_by_connector_key cs)) = cmd_connector_key ` set cs"
    using commands_by_key_lookup [of cs] by (auto simp: dom_map_of_conv_image_fst [symmetric] split: if_splits)
  ultimately show ?thesis
    by (metis distinct_remdups_id sorted_list_of_set_sort_remdups)
qed

lemma index_commands_run:
  assumes "list_all wf_command cs" and "list_all (\<lambda>c. cmd_connector_key c = k) cs"
  shows "\<exists>index. index_commands k cs ix = Inr index \<and>
    dom (map_of index) = dom (map_of ix) \<union> (\<lambda>c. cmd_connector_key c @ ''/'' @ cmd_command_name c) ` set cs"
  using assms
proof (induction cs arbitrary: ix)
  case (Cons c cs)
  then show ?case
    using Cons.IH [of "AList.update (k @ ''/'' @ cmd_command_name c) c ix"]
    by (auto simp: wf_operation_id update_conv')
qed simp

lemma register_new:
  assumes "distinct (map fst reg @ map con_key cs)"
    and "list_all (\<lambda>c. py_strip (con_key c) = con_key c \<and> con_key c \<noteq> [] \<and> CHR ''/'' \<notin> set (con_key c)) cs"
  shows "register_all reg cs = Inr (reg @ map (\<lambda>c. (con_key c, c)) cs)"
  using assms
proof (induction cs arbitrary: reg)
  case (Cons c cs)
  have new: "map_of reg (con_key c) = None" using Cons.prems(1) by (auto simp: map_of_eq_None_iff)
  then have "AList.update (con_key c) c reg = reg @ [(con_key c, c)]"
    by (induction reg) (auto split: if_splits)
  then have "register_connector reg c False = Inr (reg @ [(con_key c, c)])"
    using new Cons.prems(2)
    by (simp add: register_connector_def normalize_non_blank_def no_slash_def)
  then show ?case using Cons.IH [of "reg @ [(con_key c, c)]"] Cons.prems by simp
qed simp

text \<open>A call of the proxy for a listed command, with what it sends and what it makes of the answer.\<close>

definition proxy_call :: "http \<Rightarrow> string \<Rightarrow> real \<Rightarrow> service_task_request \<Rightarrow> m8f_error + service_task_result" where
  "proxy_call ht base timeout req =
     rbind (connector_proxy_request_payload req) (\<lambda>payload.
     rbind (connector_proxy_json_request ht base (''/v1/do/'' @ str_operation_id req) ''POST'' (Some payload)
              timeout (str_operation_id req)) (\<lambda>(response, status).
       Inr \<lparr>res_payload = response, res_metadata = Some [(''connector_proxy_base_url'', PStr base),
              (''status_code'', PInt status)]\<rparr>))"

lemma wf_split:
  assumes "wf_command c"
  shows "split_service_task_operation_id (cmd_connector_key c @ ''/'' @ cmd_command_name c) =
     Inr (cmd_connector_key c, cmd_command_name c)"
  using assms split_built [of "cmd_connector_key c" "cmd_command_name c"]
  by (simp add: wf_command_def build_operation_id_Inr)

lemma execute_listed:
  assumes "wf_command c" and "px_connector_key px = cmd_connector_key c"
    and "map_of (px_commands_by_operation_id px) (str_operation_id req) \<noteq> None"
    and "str_operation_id req = cmd_connector_key c @ ''/'' @ cmd_command_name c"
  shows "proxy_execute ht px req = proxy_call ht (px_base_url px) (px_timeout_seconds px) req"
proof -
  have "build_connector_proxy_execute_path (cmd_connector_key c) (cmd_command_name c) =
      Inr (''/v1/do/'' @ str_operation_id req)"
    using assms(1,4) wf_split [OF assms(1)]
    by (simp add: build_connector_proxy_execute_path_def CONNECTOR_PROXY_EXECUTE_PATH_def
        wf_operation_id [unfolded cmd_operation_id_def])
  then show ?thesis
    using assms(2,3) wf_split [OF assms(1)]
    by (auto simp: proxy_execute_def proxy_call_def req_connector_key_def req_command_name_def assms(4))
qed

lemma connector_built:
  assumes "list_all wf_command cs" and "list_all (\<lambda>c. cmd_connector_key c = k) cs" and "cs \<noteq> []"
    and "normalize_base_url base_url = Inr base" and "normalize_timeout_seconds timeout = Inr timeout"
  shows "\<exists>px. ConnectorProxyServiceTaskConnector k base_url cs timeout = Inr px \<and> px_connector_key px = k \<and>
    px_base_url px = base \<and> px_timeout_seconds px = timeout \<and> px_commands px = cs \<and>
    dom (map_of (px_commands_by_operation_id px)) = (\<lambda>c. cmd_connector_key c @ ''/'' @ cmd_command_name c) ` set cs"
proof -
  have "wf_command (hd cs)" "cmd_connector_key (hd cs) = k" using assms(1-3) by (auto simp: list_all_iff)
  then have "normalize_connector_key k = Inr k"
    by (auto simp: normalize_connector_key_def normalize_non_blank_def no_slash_def wf_command_def)
  then show ?thesis
    using index_commands_run [OF assms(1,2), of "[]"] assms(4,5)
    by (auto simp: ConnectorProxyServiceTaskConnector_def)
qed

text \<open>What the adapter makes of a catalog: one connector per key, in the order of the keys.\<close>

definition serves_key :: "command_definition list \<Rightarrow> string \<Rightarrow> real \<Rightarrow> string \<Rightarrow> proxy_connector \<Rightarrow> bool" where
  "serves_key cmds base timeout k px \<longleftrightarrow>
     px_connector_key px = k \<and> px_base_url px = base \<and> px_timeout_seconds px = timeout \<and>
     px_commands px = filter (\<lambda>c. cmd_connector_key c = k) cmds \<and>
     dom (map_of (px_commands_by_operation_id px)) =
       (\<lambda>c. cmd_connector_key c @ ''/'' @ cmd_command_name c) ` {c \<in> set cmds. cmd_connector_key c = k}"

lemma list_all2_in: "list_all2 P xs ys \<Longrightarrow> x \<in> set xs \<Longrightarrow> \<exists>y\<in>set ys. P x y"
  by (induction rule: list_all2_induct) auto

lemma connectors_built:
  assumes "fetch_connector_proxy_command_definitions ht base_url timeout = Inr cmds"
    and "normalize_base_url base_url = Inr base"
  shows "\<exists>pxs. build_connector_proxy_service_task_connectors ht base_url timeout = Inr pxs \<and>
    list_all2 (serves_key cmds base timeout) (sorted_list_of_set (cmd_connector_key ` set cmds)) pxs"
    (is "\<exists>pxs. _ \<and> list_all2 ?ok ?keys pxs")
proof -
  note wf = fetch_wf [OF assms(1)]
  let ?mine = "\<lambda>k. filter (\<lambda>c. cmd_connector_key c = k) cmds"
  let ?mk = "\<lambda>k. ConnectorProxyServiceTaskConnector k base_url
    (case map_of (commands_by_connector_key cmds) k of None \<Rightarrow> [] | Some cs \<Rightarrow> cs) timeout"
  have one: "\<exists>px. ?mk k = Inr px \<and> ?ok k px" if "k \<in> set ?keys" for k
  proof -
    have k: "k \<in> cmd_connector_key ` set cmds" using that by simp
    then have "?mine k \<noteq> []" by (auto simp: filter_empty_conv)
    then show ?thesis
      using connector_built [of "?mine k" k base_url base timeout] wf(1,4) assms(2) k
      by (auto simp: commands_by_key_lookup list_all_iff serves_key_def)
  qed
  then have "\<exists>pxs. list_all2 (\<lambda>k px. ?mk k = Inr px \<and> ?ok k px) ks pxs" if "set ks \<subseteq> set ?keys" for ks
    using that by (induction ks) (auto simp: list_all2_Cons1, blast)
  then obtain pxs where "list_all2 (\<lambda>k px. ?mk k = Inr px \<and> ?ok k px) ?keys pxs" by blast
  then have "list_all2 (\<lambda>k px. ?mk k = Inr px) ?keys pxs" "list_all2 ?ok ?keys pxs"
    by (auto elim!: list_all2_mono)
  then show ?thesis
    using assms(1)
    by (auto simp: build_connector_proxy_service_task_connectors_def commands_by_key_keys collect_results_Inr Let_def)
qed

lemma serves_keys:
  assumes "list_all2 (serves_key cmds base timeout) ks pxs"
  shows "map px_connector_key pxs = ks" "map px_commands pxs = map (\<lambda>k. filter (\<lambda>c. cmd_connector_key c = k) cmds) ks"
  using assms by (induction rule: list_all2_induct) (simp_all add: serves_key_def)

definition proxy_registry :: "http \<Rightarrow> proxy_connector list \<Rightarrow> registry" where
  "proxy_registry ht pxs = map (\<lambda>px. (px_connector_key px, as_connector ht px)) pxs"

lemma proxy_registry_built:
  assumes "map px_connector_key pxs = sorted_list_of_set (cmd_connector_key ` set cmds)"
    and "list_all wf_command cmds"
  shows "ServiceTaskRegistry (map (as_connector ht) pxs) = Inr (proxy_registry ht pxs)"
proof -
  have "px_connector_key px \<in> cmd_connector_key ` set cmds" if "px \<in> set pxs" for px
  proof -
    have "px_connector_key px \<in> set (map px_connector_key pxs)" using that by simp
    then show ?thesis unfolding assms(1) by simp
  qed
  then have "list_all (\<lambda>c. py_strip (con_key c) = con_key c \<and> con_key c \<noteq> [] \<and> CHR ''/'' \<notin> set (con_key c))
      (map (as_connector ht) pxs)"
    using assms(2) by (fastforce simp: list_all_iff as_connector_def wf_command_def)
  moreover have "distinct (map con_key (map (as_connector ht) pxs))"
    using assms(1) by (simp add: comp_def as_connector_def)
  ultimately show ?thesis
    using register_new [of "[]" "map (as_connector ht) pxs"]
    by (simp add: ServiceTaskRegistry_def comp_def as_connector_def proxy_registry_def)
qed

lemma proxy_registry_finds:
  assumes "list_all2 (serves_key cmds base timeout) (sorted_list_of_set (cmd_connector_key ` set cmds)) pxs"
    and "list_all wf_command cmds" and "c \<in> set cmds"
  obtains px where "serves_key cmds base timeout (cmd_connector_key c) px" "commands_ok (proxy_registry ht pxs)"
    "map_of (proxy_registry ht pxs) (cmd_connector_key c) = Some (as_connector ht px)"
    "Inr (cmd_connector_key c @ ''/'' @ cmd_command_name c) \<in> cmd_operation_id ` set (con_commands (as_connector ht px))"
proof -
  obtain px where px: "px \<in> set pxs" "serves_key cmds base timeout (cmd_connector_key c) px"
    using list_all2_in [OF assms(1), of "cmd_connector_key c"] assms(3) by auto
  note keys = serves_keys [OF assms(1)]
  have "set (px_commands q) \<subseteq> set cmds" if "q \<in> set pxs" for q
  proof -
    have "px_commands q \<in> set (map px_commands pxs)" using that by simp
    then show ?thesis unfolding keys(2) by auto
  qed
  then have ok: "commands_ok (proxy_registry ht pxs)"
    using assms(2) by (fastforce simp: commands_ok_def proxy_registry_def as_connector_def list_all_iff wf_operation_id)
  have "distinct (map fst (proxy_registry ht pxs))"
    using keys(1) by (simp add: proxy_registry_def comp_def)
  then have found: "map_of (proxy_registry ht pxs) (cmd_connector_key c) = Some (as_connector ht px)"
    using px by (auto simp: proxy_registry_def serves_key_def intro!: map_of_is_SomeI image_eqI [of _ _ px])
  have wfc: "wf_command c" using assms(2,3) by (auto simp: list_all_iff)
  have "Inr (cmd_connector_key c @ ''/'' @ cmd_command_name c) \<in> cmd_operation_id ` set (con_commands (as_connector ht px))"
    using px(2) assms(3) wf_operation_id [OF wfc]
    by (auto simp: serves_key_def as_connector_def intro!: rev_image_eqI)
  then show thesis by (rule that [OF px(2) ok found])
qed

lemma proxy_connector_executes:
  assumes "serves_key cmds base timeout (cmd_connector_key c) px" "wf_command c" "c \<in> set cmds"
    and "str_operation_id req = cmd_connector_key c @ ''/'' @ cmd_command_name c"
  shows "proxy_execute ht px req = proxy_call ht base timeout req"
proof -
  have "str_operation_id req \<in> dom (map_of (px_commands_by_operation_id px))"
    using assms(1,3) by (auto simp: serves_key_def assms(4))
  then have "map_of (px_commands_by_operation_id px) (str_operation_id req) \<noteq> None" by blast
  then show ?thesis
    using execute_listed [OF assms(2) _ _ assms(4), of px ht] assms(1) by (simp add: serves_key_def)
qed

lemma proxy_registry_executes:
  assumes "list_all2 (serves_key cmds base timeout) (sorted_list_of_set (cmd_connector_key ` set cmds)) pxs"
    and "list_all wf_command cmds" and "c \<in> set cmds" and "cmd_operation_id c = Inr (str_operation_id req)"
  shows "registry_execute (proxy_registry ht pxs) req = proxy_call ht base timeout req"
proof -
  let ?k = "cmd_connector_key c" and ?n = "cmd_command_name c"
  have wfc: "wf_command c" using assms(2,3) by (auto simp: list_all_iff)
  have op: "str_operation_id req = ?k @ ''/'' @ ?n" using assms(4) wf_operation_id [OF wfc] by simp
  obtain px where px: "serves_key cmds base timeout ?k px" "commands_ok (proxy_registry ht pxs)"
    "map_of (proxy_registry ht pxs) ?k = Some (as_connector ht px)"
    "Inr (?k @ ''/'' @ ?n) \<in> cmd_operation_id ` set (con_commands (as_connector ht px))"
    by (rule proxy_registry_finds [OF assms(1-3)])
  have "registry_execute (proxy_registry ht pxs) req = proxy_execute ht px req"
    using registry_execute_dispatch [OF px(2) wf_split [OF wfc, folded op]] px(3,4) wfc
    by (simp add: wf_command_def as_connector_def)
  then show ?thesis using proxy_connector_executes [OF px(1) wfc assms(3) op] by simp
qed

text \<open>C23: A registry built from a connector proxy serves exactly the proxy's catalog. When the catalog can be
  read, the registry is built; its connectors are the keys of the catalog in order, and together they
  list the catalog's commands, each once and in order. A request for the operation of a listed command
  is one \<^verbatim>\<open>POST\<close> of the request's payload to the path of that operation below the base URL, and its
  result is what the call makes of the proxy's answer.\<close>

theorem proxy_registry_serves_catalog:
  assumes "fetch_connector_proxy_command_definitions ht base_url timeout = Inr cmds"
  shows "\<exists>reg base. build_connector_proxy_service_task_registry ht base_url timeout = Inr reg \<and>
    normalize_base_url base_url = Inr base \<and>
    list_connectors reg = sorted_list_of_set (cmd_connector_key ` set cmds) \<and>
    list_commands reg None = Inr cmds \<and>
    (\<forall>c\<in>set cmds. \<forall>req. cmd_operation_id c = Inr (str_operation_id req) \<longrightarrow>
       registry_execute reg req = proxy_call ht base timeout req)"
proof -
  note wf = fetch_wf [OF assms]
  obtain base where base: "normalize_base_url base_url = Inr base" using wf(3) by blast
  obtain pxs where pxs: "build_connector_proxy_service_task_connectors ht base_url timeout = Inr pxs"
    and ok: "list_all2 (serves_key cmds base timeout) (sorted_list_of_set (cmd_connector_key ` set cmds)) pxs"
    using connectors_built [OF assms base] by blast
  note keys = serves_keys [OF ok]
  have "list_commands (proxy_registry ht pxs) None = Inr cmds"
    using concat_groups [OF wf(2), of "sorted_list_of_set (cmd_connector_key ` set cmds)"]
    by (simp add: list_commands_def comp_def as_connector_def proxy_registry_def keys(2))
  moreover have "list_connectors (proxy_registry ht pxs) = sorted_list_of_set (cmd_connector_key ` set cmds)"
    using keys(1) by (simp add: list_connectors_def proxy_registry_def comp_def)
  ultimately show ?thesis
    using pxs base proxy_registry_built [OF keys(1) wf(1)] proxy_registry_executes [OF ok wf(1)]
    by (auto simp: build_connector_proxy_service_task_registry_def)
qed

text \<open>A proxy with one command, for the concrete inputs of the witnesses.\<close>

definition mail_proxy :: http where
  "mail_proxy = \<lparr>ht_urljoin = (@),
     ht_urlopen = (\<lambda>rq. Response (Some (if rq_method rq = ''GET'' then ''catalog'' else ''queued'')) 200),
     ht_json_loads = (\<lambda>s. if s = ''catalog'' then Some (PList [PDict [(''id'', PStr ''mail/send'')]]) else None)\<rparr>"

definition mail_command :: command_definition where
  "mail_command = \<lparr>cmd_connector_key = ''mail'', cmd_command_name = ''send'', cmd_display_name = Some ''send'',
     cmd_description = None, cmd_parameters = [],
     cmd_metadata = Some [(''catalog_entry'', PDict [(''id'', PStr ''mail/send'')])]\<rparr>"

lemma mail_proxy_fetch: "fetch_connector_proxy_command_definitions mail_proxy ''http://proxy/'' 10 = Inr [mail_command]"
proof -
  have base: "normalize_base_url ''http://proxy/'' = Inr ''http://proxy''" "normalize_base_url ''http://proxy'' = Inr ''http://proxy''"
    by code_simp+
  have entry: "catalog_entry (PDict [(''id'', PStr ''mail/send'')]) = Inr mail_command" by code_simp
  show ?thesis
    by (simp add: fetch_connector_proxy_command_definitions_def connector_proxy_json_request_def base [simplified]
        mail_proxy_def normalize_timeout_seconds_def connector_proxy_http_request_def
        parse_connector_proxy_response_body_def raise_for_connector_proxy_error_payload_def entry [simplified])
qed

theorem proxy_registry_serves_catalog_witness:
  "\<exists>reg. build_connector_proxy_service_task_registry mail_proxy ''http://proxy/'' 10 = Inr reg \<and>
     list_connectors reg = [''mail''] \<and>
     registry_execute reg mail_request = proxy_call mail_proxy ''http://proxy'' 10 mail_request"
proof -
  have base: "normalize_base_url ''http://proxy/'' = Inr ''http://proxy''" by code_simp
  have "cmd_operation_id mail_command = Inr (str_operation_id mail_request)" by code_simp
  then show ?thesis
    using proxy_registry_serves_catalog [OF mail_proxy_fetch] base
    by (auto simp: mail_command_def)
qed

section \<open>What a call sends and accepts\<close>

definition reserved :: "string \<Rightarrow> bool" where
  "reserved name \<longleftrightarrow> prefix CONNECTOR_PROXY_RESERVED_PARAMETER_PREFIX name"

lemma copy_parameters_run:
  assumes "distinct (map fst ps)"
  shows "if list_ex (\<lambda>x. reserved (fst x)) ps then copy_parameters ps acc = Inl (Err ValidationError (R_proxy ReservedParameter))
    else \<exists>p. copy_parameters ps acc = Inr p \<and> map_of p = map_of acc ++ map_of ps"
  using assms
proof (induction ps arbitrary: acc)
  case (Cons x ps)
  obtain n v where x: "x = (n, v)" by (cases x)
  have "map_of ps n = None" using Cons.prems x by (simp add: map_of_eq_None_iff)
  then have eq: "map_of (AList.update n v acc) ++ map_of ps = map_of acc ++ map_of (x # ps)"
    by (auto simp: x update_conv' map_add_def fun_eq_iff split: option.splits)
  show ?case
  proof (cases "list_ex (\<lambda>x. reserved (fst x)) (x # ps)")
    case True
    moreover have "copy_parameters (x # ps) acc = (if reserved n then Inl (Err ValidationError (R_proxy ReservedParameter))
        else copy_parameters ps (AList.update n v acc))" by (simp add: x reserved_def dict_set_def)
    ultimately show ?thesis
      using Cons.IH [of "AList.update n v acc"] Cons.prems by (auto simp: x comp_def)
  next
    case False
    then obtain p where "copy_parameters ps (AList.update n v acc) = Inr p"
      "map_of p = map_of (AList.update n v acc) ++ map_of ps"
      using Cons.IH [of "AList.update n v acc"] Cons.prems by auto
    then have "copy_parameters (x # ps) acc = Inr p \<and> map_of p = map_of acc ++ map_of (x # ps)"
      using False unfolding eq [symmetric] by (simp add: x reserved_def dict_set_def)
    then show ?thesis using False by (simp only: if_False) blast
  qed
qed simp

text \<open>C24: What a service task sends to the proxy. The names the proxy reserves are the adapter's: a request
  that uses one of them as a parameter is refused, and so is a blank callback address. Otherwise the
  payload has every parameter of the request, and under the two reserved names exactly the data of the
  task and the trimmed callback address of the request, where it has them.\<close>

theorem proxy_payload_exact:
  assumes "distinct (map fst (request_parameters req))"
  shows "case connector_proxy_request_payload req of
      Inl e \<Rightarrow> err_class e = ValidationError \<and>
        (list_ex (\<lambda>x. reserved (fst x)) (request_parameters req) \<or>
         (\<exists>url. str_callback_url req = Some url \<and> py_strip url = []))
    | Inr p \<Rightarrow> \<not> list_ex (\<lambda>x. reserved (fst x)) (request_parameters req) \<and>
        map_of p = (map_of (request_parameters req))
          (''spiff__task_data'' := map_option PDict (str_task_data req),
           ''spiff__callback_url'' := map_option (PStr \<circ> py_strip) (str_callback_url req))"
proof (cases "list_ex (\<lambda>x. reserved (fst x)) (request_parameters req)")
  case True
  then show ?thesis
    using copy_parameters_run [OF assms, of "[]"] by (simp add: connector_proxy_request_payload_def)
next
  case False
  let ?ps = "request_parameters req"
  obtain p where p: "copy_parameters ?ps [] = Inr p" "map_of p = map_of ?ps"
    using False copy_parameters_run [OF assms, of "[]"] by auto
  have "reserved ''spiff__task_data''" "reserved ''spiff__callback_url''" by code_simp+
  then have "map_of ?ps ''spiff__task_data'' = None" "map_of ?ps ''spiff__callback_url'' = None"
    using False by (auto simp: map_of_eq_None_iff list_ex_iff)
  with p False show ?thesis
    by (auto simp: connector_proxy_request_payload_def Let_def dict_set_def update_conv' fun_eq_iff
        CONNECTOR_PROXY_TASK_DATA_PARAMETER_def CONNECTOR_PROXY_CALLBACK_URL_PARAMETER_def split: option.split)
qed

theorem proxy_payload_exact_witness:
  "\<exists>p. connector_proxy_request_payload (mail_request\<lparr>str_parameters := Some [(''to'', PStr ''ann'')],
       str_task_data := Some []\<rparr>) = Inr p \<and> map_of p ''to'' = Some (PStr ''ann'') \<and>
     map_of p ''spiff__task_data'' = Some (PDict [])"
proof -
  let ?req = "mail_request\<lparr>str_parameters := Some [(''to'', PStr ''ann'')], str_task_data := Some []\<rparr>"
  have "distinct (map fst (request_parameters ?req))" by (simp add: request_parameters_def)
  moreover have "\<not> list_ex (\<lambda>x. reserved (fst x)) (request_parameters ?req)" by code_simp
  ultimately show ?thesis
    using proxy_payload_exact [of ?req]
    by (cases "connector_proxy_request_payload ?req") (auto simp: request_parameters_def mail_request_def)
qed

text \<open>An answer of the proxy that reports a failure: an object with an error object that is not empty.\<close>

definition carries_error :: "pyval \<Rightarrow> bool" where
  "carries_error v \<longleftrightarrow>
     (\<exists>body err. as_dict v = Some body \<and> as_dict (dict_get body ''error'') = Some err \<and> err \<noteq> [])"

lemma error_payload_iff:
  "raise_for_connector_proxy_error_payload v operation_id base = Inr u \<longleftrightarrow> \<not> carries_error v"
  by (auto simp: raise_for_connector_proxy_error_payload_def carries_error_def split: option.splits)

lemma error_payload_class:
  "raise_for_connector_proxy_error_payload v operation_id base = Inl e \<Longrightarrow> err_class e = ServiceTaskExecutionError"
  by (auto simp: raise_for_connector_proxy_error_payload_def split: option.splits if_splits)

text \<open>C25: When a call of the proxy succeeds, and how it fails. It returns exactly for an answer that can be
  decoded and does not report an error, with the value and the status of the answer. An HTTP error, an
  unreachable proxy and a reported error become a \<^verbatim>\<open>ServiceTaskExecutionError\<close>; the only other failures
  are a body that is not UTF-8 and what the transport itself raises.\<close>

theorem proxy_call_outcome:
  assumes "normalize_base_url base_url = Inr base" and "0 < timeout"
    and "ht_urlopen ht (connector_proxy_http_request ht base path meth payload timeout) = answer"
  shows "(connector_proxy_json_request ht base_url path meth payload timeout op = Inr (v, code) \<longleftrightarrow>
      (\<exists>body. answer = Response body code \<and> parse_connector_proxy_response_body ht body = Inr v \<and> \<not> carries_error v)) \<and>
    (connector_proxy_json_request ht base_url path meth payload timeout op = Inl e \<longrightarrow>
      err_class e = ServiceTaskExecutionError \<or> answer = Raised e \<or>
      (err_class e = Py_UnicodeDecodeError \<and> (\<exists>status. answer = Response None status \<or> answer = Http_error None status)))"
proof (cases answer)
  case (Response body status)
  then have run: "connector_proxy_json_request ht base_url path meth payload timeout op =
      rbind (parse_connector_proxy_response_body ht body) (\<lambda>parsed.
      rbind (raise_for_connector_proxy_error_payload parsed op base) (\<lambda>_. Inr (parsed, status)))"
    using assms by (simp add: connector_proxy_json_request_def normalize_timeout_seconds_def)
  have "connector_proxy_json_request ht base_url path meth payload timeout op = Inl e \<Longrightarrow>
      err_class e = ServiceTaskExecutionError \<or> err_class e = Py_UnicodeDecodeError \<and> body = None"
    unfolding run
    by (cases body; auto simp: rbind_def parse_connector_proxy_response_body_def dest: error_payload_class
        split: sum.splits if_splits option.splits)
  then show ?thesis
    using Response by (auto simp: run rbind_Inr_iff error_payload_iff)
qed (use assms in \<open>auto simp: connector_proxy_json_request_def normalize_timeout_seconds_def
    connector_proxy_http_error_def parse_connector_proxy_response_body_def split: option.splits sum.splits\<close>)

theorem proxy_call_outcome_witness:
  "connector_proxy_json_request mail_proxy ''http://proxy/'' ''/v1/do/mail/send'' ''POST'' (Some []) 10 ''mail/send''
     = Inr (PStr ''queued'', 200)"
proof -
  have base: "normalize_base_url ''http://proxy/'' = Inr ''http://proxy''" by code_simp
  have answer: "ht_urlopen mail_proxy (connector_proxy_http_request mail_proxy ''http://proxy'' ''/v1/do/mail/send''
      ''POST'' (Some []) 10) = Response (Some ''queued'') 200"
    by (simp add: mail_proxy_def connector_proxy_http_request_def)
  have "parse_connector_proxy_response_body mail_proxy (Some ''queued'') = Inr (PStr ''queued'')"
    by (simp add: parse_connector_proxy_response_body_def mail_proxy_def)
  then show ?thesis
    using proxy_call_outcome [OF base _ answer, of "''mail/send''" "PStr ''queued''" 200]
    by (auto simp: carries_error_def)
qed

end
