(* ===== verification/Secret_Connector.thy ===== *)
theory Secret_Connector
  imports App_Secrets Connector_Proxy
begin

text \<open>
  The connectors of the sample application (\<^verbatim>\<open>service_tasks.py\<close>): every connector of the connector
  proxy is wrapped in one that replaces references to secrets in the parameters of a call by the
  secrets of the tenant, and then brings the parameters to their declared types. The float and literal
  readers of the language are parameters.
\<close>

section \<open>References to secrets\<close>

text \<open>\<^verbatim>\<open>\w\<close> on the code points of the model: letters, digits, other numerals and the underscore.\<close>

definition word_char :: "char \<Rightarrow> bool" where
  "word_char c \<longleftrightarrow>
     (let n = code_point c
      in (48 \<le> n \<and> n \<le> 57) \<or> (65 \<le> n \<and> n \<le> 90) \<or> n = 95 \<or> (97 \<le> n \<and> n \<le> 122) \<or>
         n \<in> {170, 178, 179, 181, 185, 186, 188, 189, 190} \<or> (192 \<le> n \<and> n \<noteq> 215 \<and> n \<noteq> 247))"

definition secret_mark :: string where
  "secret_mark = ''M8FLOW_SECRET:''"

datatype part = Lit char | Ref string

text \<open>
  The matches of \<^verbatim>\<open>M8FLOW_SECRET:(?P<name>\w+)\<close> from left to right, none overlapping another, with the
  characters between them; the name is as long as it can be.
\<close>

function secret_parts :: "string \<Rightarrow> part list" where
  "secret_parts s =
     (case s of
        [] \<Rightarrow> []
      | c # r \<Rightarrow>
          (let rest = drop (length secret_mark) s
           in if take (length secret_mark) s = secret_mark \<and> takeWhile word_char rest \<noteq> []
              then Ref (takeWhile word_char rest) # secret_parts (dropWhile word_char rest)
              else Lit c # secret_parts r))"
  by pat_completeness auto
termination
proof (relation "measure length")
  fix s :: string and c r rest
  assume "s = c # r" "rest = drop (length secret_mark) s"
  then have "length (dropWhile word_char rest) \<le> length r"
    using length_dropWhile_le [of word_char rest] by (simp add: secret_mark_def)
  then show "(dropWhile word_char rest, s) \<in> measure length" using \<open>s = c # r\<close> by simp
qed simp_all

declare secret_parts.simps [simp del]

fun part_names :: "part list \<Rightarrow> string list" where
  "part_names [] = []"
| "part_names (Lit c # ps) = part_names ps"
| "part_names (Ref n # ps) = n # part_names ps"

fun visit_secret_references :: "pyval \<Rightarrow> string list" where
  "visit_secret_references (PStr s) = part_names (secret_parts s)"
| "visit_secret_references (PDict d) = concat (map (\<lambda>kv. visit_secret_references (snd kv)) d)"
| "visit_secret_references (PList xs) = concat (map visit_secret_references xs)"
| "visit_secret_references _ = []"

definition collect_referenced_secret_keys :: "(string \<times> pyval) list \<Rightarrow> string list" where
  "collect_referenced_secret_keys d = remdups (visit_secret_references (PDict d))"

text \<open>\<^verbatim>\<open>re.sub\<close> with a lookup of each name, which raises for a name that is not there.\<close>

fun substitute_parts :: "(string \<rightharpoonup> string) \<Rightarrow> part list \<Rightarrow> m8f_error + string" where
  "substitute_parts m [] = Inr []"
| "substitute_parts m (Lit c # ps) = rbind (substitute_parts m ps) (\<lambda>s. Inr (c # s))"
| "substitute_parts m (Ref n # ps) =
     (case m n of
        None \<Rightarrow> Inl (Err Py_KeyError (R_app (SecretKeyUnknown n)))
      | Some v \<Rightarrow> rbind (substitute_parts m ps) (\<lambda>s. Inr (v @ s)))"

fun resolve_secret_references :: "(string \<rightharpoonup> string) \<Rightarrow> pyval \<Rightarrow> m8f_error + pyval" where
  "resolve_secret_references m (PStr s) = rbind (substitute_parts m (secret_parts s)) (\<lambda>r. Inr (PStr r))"
| "resolve_secret_references m (PDict d) =
     rbind (collect_results (\<lambda>kv. rbind (resolve_secret_references m (snd kv)) (\<lambda>v. Inr (fst kv, v))) d)
       (\<lambda>d'. Inr (PDict d'))"
| "resolve_secret_references m (PList xs) =
     rbind (collect_results (resolve_secret_references m) xs) (\<lambda>ys. Inr (PList ys))"
| "resolve_secret_references m v = Inr v"

section \<open>Declared types\<close>

text \<open>\<^verbatim>\<open>int(s)\<close> of trimmed text: a sign, then decimal digits with single underscores between them, at
  most 4300 of them.\<close>

fun int_digits :: "bool \<Rightarrow> string \<Rightarrow> string option" where
  "int_digits ok [] = (if ok then Some [] else None)"
| "int_digits ok (c # s) =
     (if 48 \<le> code_point c \<and> code_point c \<le> 57 then map_option (\<lambda>r. c # r) (int_digits True s)
      else if c = CHR ''_'' \<and> ok then int_digits False s
      else None)"

definition parse_int :: "string \<Rightarrow> int option" where
  "parse_int s =
     (let (neg, body) = (case s of [] \<Rightarrow> (False, []) | c # r \<Rightarrow>
                           if c = CHR ''-'' then (True, r) else if c = CHR ''+'' then (False, r) else (False, s))
      in Option.bind (int_digits False body) (\<lambda>ds.
           if length ds > 4300 then None
           else Some (if neg then - int (digits_val ds) else int (digits_val ds))))"

datatype literal_result = Literal pyval | Malformed_literal | Literal_raises m8f_error

record py_readers =
  py_float :: "string \<Rightarrow> string option"
  literal_eval :: "string \<Rightarrow> literal_result"

definition coerce_parameter_value :: "py_readers \<Rightarrow> pyval \<Rightarrow> pyval \<Rightarrow> string \<Rightarrow> m8f_error + pyval" where
  "coerce_parameter_value rd val declared_type name =
     (let ty = py_lower (py_strip (if py_truthy declared_type then py_str_value declared_type else []));
          failed = Inl (Err ServiceTaskExecutionError (R_app (ParameterNotCoerced name ty)))
      in case val of
           PStr text_value \<Rightarrow>
             (let s = py_strip text_value
              in if ty = [] then Inr val
                 else if ty \<in> {''bool'', ''boolean''} then
                   (if py_lower s \<in> {''1'', ''true'', ''yes'', ''on''} then Inr (PBool True)
                    else if py_lower s \<in> {''0'', ''false'', ''no'', ''off''} then Inr (PBool False)
                    else failed)
                 else if ty \<in> {''int'', ''integer''} then (case parse_int s of None \<Rightarrow> failed | Some i \<Rightarrow> Inr (PInt i))
                 else if ty \<in> {''float'', ''number''} then (case py_float rd s of None \<Rightarrow> failed | Some t \<Rightarrow> Inr (PFloat t))
                 else if ty \<in> {''dict'', ''list'', ''json'', ''object'', ''array''} then
                   (case literal_eval rd s of
                      Literal v \<Rightarrow> Inr v | Malformed_literal \<Rightarrow> failed | Literal_raises e \<Rightarrow> Inl e)
                 else Inr val)
         | _ \<Rightarrow> Inr val)"

definition coerce_parameter_values ::
  "py_readers \<Rightarrow> (string \<times> pyval) list \<Rightarrow> (string \<times> pyval) list \<Rightarrow> m8f_error + (string \<times> pyval) list" where
  "coerce_parameter_values rd params types =
     collect_results (\<lambda>(k, v). rbind (coerce_parameter_value rd v (dict_get types k) k) (\<lambda>w. Inr (k, w))) params"

definition parameter_types_from_request :: "service_task_request \<Rightarrow> (string \<times> pyval) list" where
  "parameter_types_from_request req =
     (case str_metadata req of
        None \<Rightarrow> []
      | Some m \<Rightarrow> (case dict_get m ''parameter_types'' of PDict d \<Rightarrow> d | _ \<Rightarrow> []))"

section \<open>The connector\<close>

definition UNCONFIGURED_SECRET_PLACEHOLDER :: string where
  "UNCONFIGURED_SECRET_PLACEHOLDER = ''CHANGE_ME_IN_SECRETS_UI''"

text \<open>A dictionary comprehension: of two rows with one key, the later counts.\<close>

definition load_tenant_secret_map :: "secret_row list \<Rightarrow> string \<Rightarrow> (string \<rightharpoonup> string)" where
  "load_tenant_secret_map rows tenant =
     map_of (rev (map (\<lambda>r. (sec_key r, sec_value r)) (filter (\<lambda>r. sec_tenant r = tenant) rows)))"

definition raise_if_placeholder_secret_values_are_used ::
  "service_task_request \<Rightarrow> (string \<rightharpoonup> string) \<Rightarrow> string list \<Rightarrow> m8f_error + unit" where
  "raise_if_placeholder_secret_values_are_used req secrets keys =
     (let placeholder = sort (filter (\<lambda>k. py_strip (case secrets k of None \<Rightarrow> [] | Some v \<Rightarrow> v)
                                            = UNCONFIGURED_SECRET_PLACEHOLDER) keys)
      in if placeholder = [] then Inr ()
         else Inl (Err ServiceTaskExecutionError (R_app (SecretsPlaceholder (str_operation_id req) placeholder))))"

definition secret_resolving_execute ::
  "secret_row list \<Rightarrow> py_readers \<Rightarrow> connector \<Rightarrow> service_task_request \<Rightarrow> m8f_error + service_task_result" where
  "secret_resolving_execute rows rd delegate req =
     (let parameters = (case str_parameters req of None \<Rightarrow> [] | Some d \<Rightarrow> d);
          keys = collect_referenced_secret_keys parameters
      in if keys = [] then con_execute delegate req
         else case str_context req of
             None \<Rightarrow> Inl (Err ServiceTaskExecutionError (R_app SecretsNeedTenant))
           | Some ctx \<Rightarrow>
               (let secrets = load_tenant_secret_map rows (stc_tenant_id ctx);
                    missing = sort (filter (\<lambda>k. secrets k = None) keys)
                in if missing \<noteq> []
                   then Inl (Err ServiceTaskExecutionError (R_app (SecretsMissing (str_operation_id req) missing)))
                   else
                     rbind (raise_if_placeholder_secret_values_are_used req secrets keys) (\<lambda>_.
                     rbind (resolve_secret_references secrets (PDict parameters)) (\<lambda>resolved.
                     rbind (coerce_parameter_values rd (case resolved of PDict d \<Rightarrow> d | _ \<Rightarrow> [])
                              (parameter_types_from_request req)) (\<lambda>params.
                       con_execute delegate (req\<lparr>str_parameters := Some params\<rparr>))))))"

definition TenantSecretResolvingConnector :: "secret_row list \<Rightarrow> py_readers \<Rightarrow> connector \<Rightarrow> connector" where
  "TenantSecretResolvingConnector rows rd delegate =
     \<lparr>con_key = con_key delegate, con_commands = con_commands delegate,
      con_execute = secret_resolving_execute rows rd delegate\<rparr>"

fun wrap_connectors :: "secret_row list \<Rightarrow> py_readers \<Rightarrow> string list \<Rightarrow> registry \<Rightarrow> m8f_error + registry" where
  "wrap_connectors rows rd [] reg = Inr reg"
| "wrap_connectors rows rd (k # ks) reg =
     rbind (get_connector reg k) (\<lambda>c.
     rbind (register_connector reg (TenantSecretResolvingConnector rows rd c) True) (wrap_connectors rows rd ks))"

definition build_sample_app_service_task_registry ::
  "secret_row list \<Rightarrow> py_readers \<Rightarrow> http \<Rightarrow> string \<Rightarrow> real \<Rightarrow> m8f_error + registry" where
  "build_sample_app_service_task_registry rows rd ht base_url timeout =
     rbind (build_connector_proxy_service_task_registry ht base_url timeout) (\<lambda>reg.
       wrap_connectors rows rd (list_connectors reg) reg)"

section \<open>Resolution is substitution\<close>

text \<open>Replacing every reference by a value, for a value of every name.\<close>

fun fill_parts :: "(string \<Rightarrow> string) \<Rightarrow> part list \<Rightarrow> string" where
  "fill_parts f [] = []"
| "fill_parts f (Lit c # ps) = c # fill_parts f ps"
| "fill_parts f (Ref n # ps) = f n @ fill_parts f ps"

fun fill_value :: "(string \<Rightarrow> string) \<Rightarrow> pyval \<Rightarrow> pyval" where
  "fill_value f (PStr s) = PStr (fill_parts f (secret_parts s))"
| "fill_value f (PDict d) = PDict (map (\<lambda>kv. (fst kv, fill_value f (snd kv))) d)"
| "fill_value f (PList xs) = PList (map (fill_value f) xs)"
| "fill_value f v = v"

text \<open>The parts of a text are the text: writing the references back gives it again.\<close>

lemma secret_parts_text: "fill_parts (\<lambda>n. secret_mark @ n) (secret_parts s) = s"
proof (induction s rule: secret_parts.induct)
  case (1 s)
  show ?case
  proof (cases s)
    case (Cons c r)
    define rest where "rest = drop (length secret_mark) s"
    show ?thesis
    proof (cases "take (length secret_mark) s = secret_mark \<and> takeWhile word_char rest \<noteq> []")
      case True
      then have "fill_parts (\<lambda>n. secret_mark @ n) (secret_parts s) =
          secret_mark @ takeWhile word_char rest @ dropWhile word_char rest"
        using 1(1) [OF Cons rest_def True] Cons by (subst secret_parts.simps) (simp add: rest_def Let_def)
      also have "\<dots> = take (length secret_mark) s @ rest" using True by simp
      finally show ?thesis unfolding rest_def by simp
    next
      case False
      then have "secret_parts s = Lit c # secret_parts r"
        using Cons by (subst secret_parts.simps) (simp add: rest_def Let_def)
      then show ?thesis using 1(2) [OF Cons rest_def False] Cons by simp
    qed
  qed (simp add: secret_parts.simps)
qed

lemma substitute_total:
  "(\<forall>n \<in> set (part_names ps). m n = Some (f n)) \<Longrightarrow> substitute_parts m ps = Inr (fill_parts f ps)"
  by (induction ps rule: part_names.induct) simp_all

lemma collect_total: "(\<And>x. x \<in> set xs \<Longrightarrow> g x = Inr (h x)) \<Longrightarrow> collect_results g xs = Inr (map h xs)"
  by (induction xs) simp_all

lemma resolve_total:
  "(\<forall>n \<in> set (visit_secret_references v). m n = Some (f n)) \<Longrightarrow> resolve_secret_references m v = Inr (fill_value f v)"
proof (induction v rule: visit_secret_references.induct)
  case (1 s)
  then show ?case using substitute_total [of "secret_parts s" m f] by simp
next
  case (2 d)
  have "collect_results (\<lambda>kv. rbind (resolve_secret_references m (snd kv)) (\<lambda>v. Inr (fst kv, v))) d =
      Inr (map (\<lambda>kv. (fst kv, fill_value f (snd kv))) d)"
    using 2 by (intro collect_total) auto
  then show ?case by simp
next
  case (3 xs)
  have "collect_results (resolve_secret_references m) xs = Inr (map (fill_value f) xs)"
    using 3 by (intro collect_total) auto
  then show ?case by simp
qed simp_all

section \<open>The secrets of a tenant\<close>

definition secret_value :: "secret_row list \<Rightarrow> string \<Rightarrow> string \<Rightarrow> string" where
  "secret_value rows tenant k =
     (case find (\<lambda>r. sec_tenant r = tenant \<and> sec_key r = k) rows of None \<Rightarrow> [] | Some r \<Rightarrow> sec_value r)"

definition usable_secret :: "secret_row list \<Rightarrow> string \<Rightarrow> string \<Rightarrow> bool" where
  "usable_secret rows tenant k \<longleftrightarrow>
     (\<exists>r \<in> set rows. sec_tenant r = tenant \<and> sec_key r = k \<and> sec_value r \<noteq> UNCONFIGURED_SECRET_PLACEHOLDER)"

lemma load_map_iff:
  assumes "secrets_ok rows"
  shows "load_tenant_secret_map rows tenant k = Some v \<longleftrightarrow>
    (\<exists>r \<in> set rows. sec_tenant r = tenant \<and> sec_key r = k \<and> sec_value r = v)"
proof -
  have "inj_on (\<lambda>r. (sec_tenant r, sec_key r)) (set rows)" "distinct rows"
    using assms by (simp_all add: secrets_ok_def secret_key_tenant_unique_def distinct_map)
  then have "distinct (map fst (rev (map (\<lambda>r. (sec_key r, sec_value r)) (filter (\<lambda>r. sec_tenant r = tenant) rows))))"
    by (auto simp: rev_map [symmetric] comp_def distinct_map inj_on_def)
  then show ?thesis by (auto simp: load_tenant_secret_map_def map_of_eq_Some_iff image_iff)
qed

lemma usable_value:
  assumes "secrets_ok rows"
  shows "usable_secret rows tenant k \<longleftrightarrow>
      (\<exists>v. load_tenant_secret_map rows tenant k = Some v \<and> py_strip v \<noteq> UNCONFIGURED_SECRET_PLACEHOLDER)"
    "usable_secret rows tenant k \<Longrightarrow> load_tenant_secret_map rows tenant k = Some (secret_value rows tenant k)"
proof -
  have strip: "py_strip (sec_value r) = sec_value r" if "r \<in> set rows" for r
    using assms that by (auto simp: secrets_ok_def secret_ok_def list_all_iff)
  show "usable_secret rows tenant k \<longleftrightarrow>
      (\<exists>v. load_tenant_secret_map rows tenant k = Some v \<and> py_strip v \<noteq> UNCONFIGURED_SECRET_PLACEHOLDER)"
    using strip unfolding usable_secret_def load_map_iff [OF assms] by metis
  assume "usable_secret rows tenant k"
  then obtain r where r: "find (\<lambda>r. sec_tenant r = tenant \<and> sec_key r = k) rows = Some r"
    by (cases "find (\<lambda>r. sec_tenant r = tenant \<and> sec_key r = k) rows") (auto simp: usable_secret_def find_None_iff)
  then show "load_tenant_secret_map rows tenant k = Some (secret_value rows tenant k)"
    unfolding load_map_iff [OF assms] by (auto simp: secret_value_def dest!: find_SomeD)
qed

section \<open>One call\<close>

text \<open>
  The answer to a call, for the call the connector itself would make: parameters without references go
  through unchanged; with references, the tenant must be known and must have a usable secret for each.
\<close>

definition request_keys :: "service_task_request \<Rightarrow> string set" where
  "request_keys req = set (visit_secret_references (PDict (case str_parameters req of None \<Rightarrow> [] | Some d \<Rightarrow> d)))"

definition filled_parameters :: "secret_row list \<Rightarrow> string \<Rightarrow> service_task_request \<Rightarrow> (string \<times> pyval) list" where
  "filled_parameters rows tenant req =
     map (\<lambda>kv. (fst kv, fill_value (secret_value rows tenant) (snd kv)))
       (case str_parameters req of None \<Rightarrow> [] | Some d \<Rightarrow> d)"

definition secrets_refused :: "secret_row list \<Rightarrow> service_task_request \<Rightarrow> m8f_error \<Rightarrow> bool" where
  "secrets_refused rows req e \<longleftrightarrow>
     err_class e = ServiceTaskExecutionError \<and>
     (case str_context req of
        None \<Rightarrow> err_reason e = R_app SecretsNeedTenant
      | Some ctx \<Rightarrow>
          \<exists>ks. sorted ks \<and> ks \<noteq> [] \<and>
            (set ks = {k \<in> request_keys req. \<not> (\<exists>r \<in> set rows. sec_tenant r = stc_tenant_id ctx \<and> sec_key r = k)} \<and>
             err_reason e = R_app (SecretsMissing (str_operation_id req) ks) \<or>
             set ks = {k \<in> request_keys req. \<not> usable_secret rows (stc_tenant_id ctx) k} \<and>
             err_reason e = R_app (SecretsPlaceholder (str_operation_id req) ks)))"

lemma collected_keys:
  "set (collect_referenced_secret_keys (case str_parameters req of None \<Rightarrow> [] | Some d \<Rightarrow> d)) = request_keys req"
  by (simp only: collect_referenced_secret_keys_def request_keys_def set_remdups)

lemma secret_call_filled:
  assumes "secrets_ok rows" "str_context req = Some ctx" "request_keys req \<noteq> {}"
    and "\<forall>k \<in> request_keys req. usable_secret rows (stc_tenant_id ctx) k"
  shows "secret_resolving_execute rows rd con req =
    rbind (coerce_parameter_values rd (filled_parameters rows (stc_tenant_id ctx) req) (parameter_types_from_request req))
      (\<lambda>ps. con_execute con (req\<lparr>str_parameters := Some ps\<rparr>))"
proof -
  define params where "params = (case str_parameters req of None \<Rightarrow> [] | Some d \<Rightarrow> d)"
  define keys where "keys = collect_referenced_secret_keys params"
  define secrets where "secrets = load_tenant_secret_map rows (stc_tenant_id ctx)"
  have keys: "set keys = request_keys req" unfolding keys_def params_def by (rule collected_keys)
  have loaded: "secrets k = Some (secret_value rows (stc_tenant_id ctx) k)"
    "py_strip (secret_value rows (stc_tenant_id ctx) k) \<noteq> UNCONFIGURED_SECRET_PLACEHOLDER" if "k \<in> set keys" for k
    using usable_value [OF assms(1), of "stc_tenant_id ctx" k] assms(4) that keys by (auto simp: secrets_def)
  have "filter (\<lambda>k. secrets k = None) keys = []" using loaded by (simp add: filter_empty_conv)
  moreover have "raise_if_placeholder_secret_values_are_used req secrets keys = Inr ()"
    using loaded by (simp add: raise_if_placeholder_secret_values_are_used_def filter_empty_conv Let_def)
  moreover have "resolve_secret_references secrets (PDict params) =
      Inr (PDict (filled_parameters rows (stc_tenant_id ctx) req))"
    using resolve_total [of "PDict params" secrets "secret_value rows (stc_tenant_id ctx)"] loaded(1) keys
    unfolding filled_parameters_def request_keys_def params_def by simp
  moreover have "keys \<noteq> []" using keys assms(3) by auto
  ultimately show ?thesis
    using assms(2)
    by (simp only: secret_resolving_execute_def Let_def params_def [symmetric] keys_def [symmetric] secrets_def [symmetric]
        option.case rbind_simps pyval.case sort_key_simps(1) if_False if_True simp_thms)
qed

lemma load_map_None:
  "secrets_ok rows \<Longrightarrow> load_tenant_secret_map rows tenant k = None \<longleftrightarrow>
    \<not> (\<exists>r \<in> set rows. sec_tenant r = tenant \<and> sec_key r = k)"
  using load_map_iff [of rows tenant k] by (metis not_None_eq)

lemma refused_missing:
  assumes "secrets_ok rows" "str_context req = Some ctx" "request_keys req \<noteq> {}"
    and "\<exists>k \<in> request_keys req. load_tenant_secret_map rows (stc_tenant_id ctx) k = None"
  shows "\<exists>e. secret_resolving_execute rows rd con req = Inl e \<and> secrets_refused rows req e"
proof -
  define keys where "keys = collect_referenced_secret_keys (case str_parameters req of None \<Rightarrow> [] | Some d \<Rightarrow> d)"
  define missing where "missing = sort (filter (\<lambda>k. load_tenant_secret_map rows (stc_tenant_id ctx) k = None) keys)"
  have keys: "set keys = request_keys req" unfolding keys_def by (rule collected_keys)
  have members: "set missing = {k \<in> request_keys req. \<not> (\<exists>r \<in> set rows. sec_tenant r = stc_tenant_id ctx \<and> sec_key r = k)}"
    unfolding missing_def set_sort set_filter keys load_map_None [OF assms(1)] ..
  moreover have "missing \<noteq> []"
    using assms(4) unfolding set_empty [symmetric] members load_map_None [OF assms(1)] by blast
  moreover have "keys \<noteq> []" using keys assms(3) by auto
  ultimately have "secret_resolving_execute rows rd con req =
      Inl (Err ServiceTaskExecutionError (R_app (SecretsMissing (str_operation_id req) missing)))"
    using assms(2)
    by (simp only: secret_resolving_execute_def Let_def keys_def [symmetric] missing_def [symmetric] option.case
        if_False if_True simp_thms)
  moreover have "sorted missing" by (simp add: missing_def)
  ultimately show ?thesis
    using members \<open>missing \<noteq> []\<close> assms(2) by (auto simp: secrets_refused_def)
qed

lemma refused_unset:
  assumes "secrets_ok rows" "str_context req = Some ctx" "request_keys req \<noteq> {}"
    and "\<not> (\<exists>k \<in> request_keys req. load_tenant_secret_map rows (stc_tenant_id ctx) k = None)"
    and "\<exists>k \<in> request_keys req. \<not> usable_secret rows (stc_tenant_id ctx) k"
  shows "\<exists>e. secret_resolving_execute rows rd con req = Inl e \<and> secrets_refused rows req e"
proof -
  define keys where "keys = collect_referenced_secret_keys (case str_parameters req of None \<Rightarrow> [] | Some d \<Rightarrow> d)"
  define secrets where "secrets = load_tenant_secret_map rows (stc_tenant_id ctx)"
  define held where "held = sort (filter (\<lambda>k. py_strip (case secrets k of None \<Rightarrow> [] | Some v \<Rightarrow> v) =
    UNCONFIGURED_SECRET_PLACEHOLDER) keys)"
  have keys: "set keys = request_keys req" unfolding keys_def by (rule collected_keys)
  then have all: "keys \<noteq> []" "filter (\<lambda>k. secrets k = None) keys = []"
    using assms(3,4) by (auto simp: secrets_def filter_empty_conv)
  have "py_strip (case secrets k of None \<Rightarrow> [] | Some v \<Rightarrow> v) = UNCONFIGURED_SECRET_PLACEHOLDER \<longleftrightarrow>
      \<not> usable_secret rows (stc_tenant_id ctx) k" if "k \<in> request_keys req" for k
    using assms(4) that unfolding usable_value(1) [OF assms(1)] secrets_def [symmetric] by (cases "secrets k") auto
  then have members: "set held = {k \<in> request_keys req. \<not> usable_secret rows (stc_tenant_id ctx) k}"
    unfolding held_def set_sort set_filter keys by blast
  then have held: "held \<noteq> []" using assms(5) by auto
  then have "secret_resolving_execute rows rd con req =
      Inl (Err ServiceTaskExecutionError (R_app (SecretsPlaceholder (str_operation_id req) held)))"
    using all assms(2)
    by (simp add: secret_resolving_execute_def Let_def keys_def [symmetric] secrets_def [symmetric]
        raise_if_placeholder_secret_values_are_used_def held_def)
  moreover have "sorted held" by (simp add: held_def)
  ultimately show ?thesis using members held assms(2) by (auto simp: secrets_refused_def)
qed

lemma secret_call_refused:
  assumes "secrets_ok rows" "request_keys req \<noteq> {}"
    and "\<not> (\<exists>ctx. str_context req = Some ctx \<and> (\<forall>k \<in> request_keys req. usable_secret rows (stc_tenant_id ctx) k))"
  shows "\<exists>e. secret_resolving_execute rows rd con req = Inl e \<and> secrets_refused rows req e"
proof (cases "str_context req")
  case None
  have "collect_referenced_secret_keys (case str_parameters req of None \<Rightarrow> [] | Some d \<Rightarrow> d) \<noteq> []"
    using collected_keys [of req] assms(2) by auto
  then show ?thesis using None by (simp add: secret_resolving_execute_def secrets_refused_def Let_def)
next
  case (Some ctx)
  then show ?thesis
    using refused_missing [OF assms(1) Some assms(2)] refused_unset [OF assms(1) Some assms(2)] assms(3) by blast
qed

section \<open>The registry of the application\<close>

text \<open>Every connector is replaced in its place.\<close>

lemma update_in_place: "k \<notin> fst ` set ys \<Longrightarrow> AList.update k v (ys @ (k, c) # zs) = ys @ (k, v) # zs"
  by (induction ys) auto

lemma wrap_run:
  assumes "list_all (\<lambda>(k, c). con_key c = k \<and> py_strip k = k \<and> k \<noteq> [] \<and> CHR ''/'' \<notin> set k) zs"
    and "distinct (map fst (ys @ zs))"
  shows "wrap_connectors rows rd (map fst zs) (ys @ zs) =
    Inr (ys @ map (\<lambda>(k, c). (k, TenantSecretResolvingConnector rows rd c)) zs)"
  using assms
proof (induction zs arbitrary: ys)
  case (Cons kc zs)
  obtain k c where kc: "kc = (k, c)" by force
  let ?w = "TenantSecretResolvingConnector rows rd c"
  have k: "con_key c = k" "py_strip k = k" "k \<noteq> []" "CHR ''/'' \<notin> set k" "k \<notin> fst ` set ys" "k \<notin> fst ` set zs"
    using Cons.prems kc by auto
  have "map_of (ys @ (k, c) # zs) k = Some c" using k(5) by (simp add: map_add_def map_of_eq_None_iff [THEN iffD2])
  then have "get_connector (ys @ (k, c) # zs) k = Inr c"
    using k by (simp add: get_connector_def normalize_non_blank_def)
  moreover have "register_connector (ys @ (k, c) # zs) ?w True = Inr ((ys @ [(k, ?w)]) @ zs)"
    using k by (simp add: register_connector_def normalize_non_blank_def no_slash_def TenantSecretResolvingConnector_def
        update_in_place)
  moreover have "wrap_connectors rows rd (map fst zs) ((ys @ [(k, ?w)]) @ zs) =
      Inr ((ys @ [(k, ?w)]) @ map (\<lambda>(k, c). (k, TenantSecretResolvingConnector rows rd c)) zs)"
    using Cons.prems kc by (intro Cons.IH) auto
  ultimately show ?case by (simp add: kc)
qed simp

definition app_registry :: "secret_row list \<Rightarrow> py_readers \<Rightarrow> registry \<Rightarrow> registry" where
  "app_registry rows rd reg = map (\<lambda>(k, c). (k, TenantSecretResolvingConnector rows rd c)) reg"

lemma app_registry_built:
  assumes "map px_connector_key pxs = sorted_list_of_set (cmd_connector_key ` set cmds)" "list_all wf_command cmds"
  shows "wrap_connectors rows rd (map fst (proxy_registry ht pxs)) (proxy_registry ht pxs) =
    Inr (app_registry rows rd (proxy_registry ht pxs))"
proof -
  have "px_connector_key px \<in> cmd_connector_key ` set cmds" if "px \<in> set pxs" for px
  proof -
    have "px_connector_key px \<in> set (map px_connector_key pxs)" using that by simp
    then show ?thesis unfolding assms(1) by simp
  qed
  then have "list_all (\<lambda>(k, c). con_key c = k \<and> py_strip k = k \<and> k \<noteq> [] \<and> CHR ''/'' \<notin> set k) (proxy_registry ht pxs)"
    using assms(2) by (fastforce simp: list_all_iff proxy_registry_def as_connector_def wf_command_def)
  moreover have "distinct (map fst ([] @ proxy_registry ht pxs))"
    using assms(1) by (simp add: proxy_registry_def comp_def)
  ultimately show ?thesis using wrap_run [of "proxy_registry ht pxs" "[]" rows rd] by (simp add: app_registry_def)
qed

lemma app_registry_commands: "list_commands (app_registry rows rd reg) None = list_commands reg None"
  by (simp add: list_commands_def app_registry_def comp_def case_prod_beta TenantSecretResolvingConnector_def)

lemma app_registry_executes:
  assumes "commands_ok reg" "split_service_task_operation_id (str_operation_id req) = Inr (k, n)"
    and "map_of reg (py_strip k) = Some c" "Inr (py_strip k @ ''/'' @ py_strip n) \<in> cmd_operation_id ` set (con_commands c)"
  shows "registry_execute (app_registry rows rd reg) req = secret_resolving_execute rows rd c req"
proof -
  have "commands_ok (app_registry rows rd reg)"
    using assms(1) by (auto simp: commands_ok_def app_registry_def list_all_iff TenantSecretResolvingConnector_def)
  moreover have "map_of (app_registry rows rd reg) (py_strip k) = Some (TenantSecretResolvingConnector rows rd c)"
    using assms(3) by (simp add: app_registry_def map_of_map)
  ultimately show ?thesis
    using registry_execute_dispatch assms(2,4) by (simp add: TenantSecretResolvingConnector_def)
qed

text \<open>The answer of a call in terms of the call \<open>call\<close> that the connector proxy gets.\<close>

definition secret_call ::
  "secret_row list \<Rightarrow> py_readers \<Rightarrow> (service_task_request \<Rightarrow> m8f_error + service_task_result) \<Rightarrow> service_task_request \<Rightarrow>
   (m8f_error + service_task_result) \<Rightarrow> bool" where
  "secret_call rows rd call req result \<longleftrightarrow>
     (if request_keys req = {} then result = call req
      else if \<exists>ctx. str_context req = Some ctx \<and> (\<forall>k \<in> request_keys req. usable_secret rows (stc_tenant_id ctx) k)
      then result = rbind (coerce_parameter_values rd
          (filled_parameters rows (stc_tenant_id (the (str_context req))) req) (parameter_types_from_request req))
        (\<lambda>ps. call (req\<lparr>str_parameters := Some ps\<rparr>))
      else \<exists>e. result = Inl e \<and> secrets_refused rows req e)"

lemma secret_call_answer:
  assumes "secrets_ok rows" and "\<And>ps. con_execute con (req\<lparr>str_parameters := ps\<rparr>) = call (req\<lparr>str_parameters := ps\<rparr>)"
  shows "secret_call rows rd call req (secret_resolving_execute rows rd con req)"
proof (cases "request_keys req = {}")
  case True
  then have "collect_referenced_secret_keys (case str_parameters req of None \<Rightarrow> [] | Some d \<Rightarrow> d) = []"
    using collected_keys [of req] by simp
  then have "secret_resolving_execute rows rd con req = con_execute con req"
    by (simp add: secret_resolving_execute_def Let_def)
  then show ?thesis using True assms(2) [of "str_parameters req"] by (simp add: secret_call_def)
next
  case False
  show ?thesis
  proof (cases "\<exists>ctx. str_context req = Some ctx \<and> (\<forall>k \<in> request_keys req. usable_secret rows (stc_tenant_id ctx) k)")
    case True
    then show ?thesis
      using secret_call_filled [OF assms(1) _ False] assms(2) False by (auto simp: secret_call_def)
  next
    case none: False
    then show ?thesis
      using secret_call_refused [OF assms(1) False none, of rd con] False unfolding secret_call_def by auto
  qed
qed

text \<open>C26: A service task of the sample application is one call of the connector proxy, with every reference to a
  secret in its parameters replaced by the value that the tenant of the task stored. The registry lists
  the catalog of the proxy. A call without references reaches the proxy as it is. With references, it
  reaches the proxy only when the tenant has a secret for each, none of them the placeholder, and then
  no lookup fails; otherwise the proxy is not called, and the error names exactly the secrets that are
  missing or unset. Only rows of the tenant count, so that no tenant's task sees another's secrets.\<close>

theorem secret_calls_filled:
  assumes "fetch_connector_proxy_command_definitions ht base_url timeout = Inr cmds"
    and "c \<in> set cmds" and "cmd_operation_id c = Inr (str_operation_id req)" and "secrets_reachable rows"
  shows "\<exists>reg base. build_sample_app_service_task_registry rows rd ht base_url timeout = Inr reg \<and>
    normalize_base_url base_url = Inr base \<and> list_commands reg None = Inr cmds \<and>
    secret_call rows rd (proxy_call ht base timeout) req (registry_execute reg req)"
proof -
  note wf = fetch_wf [OF assms(1)]
  obtain base where base: "normalize_base_url base_url = Inr base" using wf(3) by blast
  obtain pxs where pxs: "build_connector_proxy_service_task_connectors ht base_url timeout = Inr pxs"
    and ok: "list_all2 (serves_key cmds base timeout) (sorted_list_of_set (cmd_connector_key ` set cmds)) pxs"
    using connectors_built [OF assms(1) base] by blast
  note keys = serves_keys [OF ok]
  let ?reg = "proxy_registry ht pxs" and ?k = "cmd_connector_key c" and ?n = "cmd_command_name c"
  have built: "build_connector_proxy_service_task_registry ht base_url timeout = Inr ?reg"
    using pxs proxy_registry_built [OF keys(1) wf(1)] by (simp add: build_connector_proxy_service_task_registry_def)
  have "list_commands ?reg None = Inr cmds"
    using concat_groups [OF wf(2), of "sorted_list_of_set (cmd_connector_key ` set cmds)"]
    by (simp add: list_commands_def comp_def as_connector_def proxy_registry_def keys(2))
  note app = app_registry_built [OF keys(1) wf(1), of rows rd ht]
  have wfc: "wf_command c" using wf(1) assms(2) by (auto simp: list_all_iff)
  have op: "str_operation_id req = ?k @ ''/'' @ ?n" using assms(3) wf_operation_id [OF wfc] by simp
  obtain px where px: "serves_key cmds base timeout ?k px" "commands_ok ?reg" "map_of ?reg ?k = Some (as_connector ht px)"
    "Inr (?k @ ''/'' @ ?n) \<in> cmd_operation_id ` set (con_commands (as_connector ht px))"
    by (rule proxy_registry_finds [OF ok wf(1) assms(2)])
  have "registry_execute (app_registry rows rd ?reg) req = secret_resolving_execute rows rd (as_connector ht px) req"
    using app_registry_executes [OF px(2) wf_split [OF wfc, folded op]] px(3,4) wfc
    by (simp add: wf_command_def)
  moreover have "con_execute (as_connector ht px) (req\<lparr>str_parameters := ps\<rparr>) =
      proxy_call ht base timeout (req\<lparr>str_parameters := ps\<rparr>)" for ps
    using proxy_connector_executes [OF px(1) wfc assms(2), of "req\<lparr>str_parameters := ps\<rparr>" ht] op
    by (simp add: as_connector_def)
  ultimately have "secret_call rows rd (proxy_call ht base timeout) req (registry_execute (app_registry rows rd ?reg) req)"
    using secret_call_answer [OF secrets_reachable_ok [OF assms(4)]] by metis
  then show ?thesis
    using built base app \<open>list_commands ?reg None = _\<close>
    by (auto simp: build_sample_app_service_task_registry_def list_connectors_def app_registry_commands)
qed

definition plain_readers :: py_readers where
  "plain_readers = \<lparr>py_float = (\<lambda>_. None), literal_eval = (\<lambda>_. Malformed_literal)\<rparr>"

definition secret_mail_request :: service_task_request where
  "secret_mail_request = mail_request\<lparr>
     str_parameters := Some [(''auth'', PStr ''Bearer M8FLOW_SECRET:TOKEN!'')],
     str_context := Some \<lparr>stc_tenant_id = ''a'', stc_process_instance_id = None, stc_process_definition_id = None,
       stc_task_guid = None, stc_task_name = None, stc_task_type = None, stc_metadata = None\<rparr>\<rparr>"

theorem secret_calls_filled_witness:
  "\<exists>reg. build_sample_app_service_task_registry two_tenants plain_readers mail_proxy ''http://proxy/'' 10 = Inr reg \<and>
     registry_execute reg secret_mail_request = proxy_call mail_proxy ''http://proxy'' 10
       (secret_mail_request\<lparr>str_parameters := Some [(''auth'', PStr ''Bearer mine!'')]\<rparr>)"
proof -
  have base: "normalize_base_url ''http://proxy/'' = Inr ''http://proxy''" by code_simp
  have op: "cmd_operation_id mail_command = Inr (str_operation_id secret_mail_request)" by code_simp
  have keys: "request_keys secret_mail_request = {''TOKEN''}" by code_simp
  have tenant: "\<exists>ctx. str_context secret_mail_request = Some ctx \<and> stc_tenant_id ctx = ''a''"
    by (simp add: secret_mail_request_def)
  have usable: "usable_secret two_tenants ''a'' ''TOKEN''" by code_simp
  have filled: "coerce_parameter_values plain_readers (filled_parameters two_tenants ''a'' secret_mail_request)
      (parameter_types_from_request secret_mail_request) = Inr [(''auth'', PStr ''Bearer mine!'')]" by code_simp
  obtain reg where reg: "build_sample_app_service_task_registry two_tenants plain_readers mail_proxy ''http://proxy/'' 10 = Inr reg"
    "secret_call two_tenants plain_readers (proxy_call mail_proxy ''http://proxy'' 10) secret_mail_request
       (registry_execute reg secret_mail_request)"
    using secret_calls_filled [OF mail_proxy_fetch _ op two_tenants_reachable, of plain_readers] base by auto
  then have "registry_execute reg secret_mail_request = proxy_call mail_proxy ''http://proxy'' 10
       (secret_mail_request\<lparr>str_parameters := Some [(''auth'', PStr ''Bearer mine!'')]\<rparr>)"
    using tenant usable filled unfolding secret_call_def keys by auto
  with reg(1) show ?thesis by blast
qed

end
