(* ===== verification/App_Identity.thy ===== *)
theory App_Identity
  imports Tenant_Users
begin

text \<open>
  Who uses the sample application (\<^verbatim>\<open>auth.py\<close>): the tenant and the user in the browser session, the login
  that waits for the identity server, and the users a tenant offers. The browser session is a
  dictionary beside the database.
\<close>

section \<open>The browser session\<close>

type_synonym flask_session = "(string \<times> pyval) list"

definition SESSION_TENANT_ID_KEY :: string where "SESSION_TENANT_ID_KEY = ''tenant_id''"
definition SESSION_USER_ID_KEY :: string where "SESSION_USER_ID_KEY = ''user_id''"
definition SESSION_PENDING_SHARED_LOGIN_KEY :: string where
  "SESSION_PENDING_SHARED_LOGIN_KEY = ''pending_shared_login''"

record active_identity =
  aid_tenant :: tenant_row
  aid_user :: user_row

record pending_shared_login =
  psl_tenant_id :: string
  psl_expected_user_id :: int
  psl_state :: string
  psl_code_verifier :: string
  psl_redirect_uri :: string

definition session_pop :: "string \<Rightarrow> flask_session \<Rightarrow> flask_session" where
  "session_pop k fs = AList.delete k fs"

definition clear_pending_shared_login :: "flask_session \<Rightarrow> flask_session" where
  "clear_pending_shared_login fs = session_pop SESSION_PENDING_SHARED_LOGIN_KEY fs"

definition set_active_identity :: "string \<Rightarrow> int \<Rightarrow> flask_session \<Rightarrow> flask_session" where
  "set_active_identity tenant uid fs =
     dict_set SESSION_USER_ID_KEY (PInt uid)
       (dict_set SESSION_TENANT_ID_KEY (PStr tenant) (clear_pending_shared_login fs))"

definition clear_active_identity :: "flask_session \<Rightarrow> flask_session" where
  "clear_active_identity fs =
     clear_pending_shared_login (session_pop SESSION_USER_ID_KEY (session_pop SESSION_TENANT_ID_KEY fs))"

definition set_pending_shared_login :: "pending_shared_login \<Rightarrow> flask_session \<Rightarrow> flask_session" where
  "set_pending_shared_login p fs =
     dict_set SESSION_PENDING_SHARED_LOGIN_KEY
       (PDict [(''tenant_id'', PStr (psl_tenant_id p)), (''expected_user_id'', PInt (psl_expected_user_id p)),
          (''state'', PStr (psl_state p)), (''code_verifier'', PStr (psl_code_verifier p)),
          (''redirect_uri'', PStr (psl_redirect_uri p))]) fs"

text \<open>\<^verbatim>\<open>isinstance(v, int)\<close>, which truth values are too, and text that is not blank.\<close>

fun as_int :: "pyval \<Rightarrow> int option" where
  "as_int (PInt i) = Some i"
| "as_int (PBool b) = Some (if b then 1 else 0)"
| "as_int _ = None"

definition nonblank_text :: "pyval \<Rightarrow> string option" where
  "nonblank_text v =
     (case v of PStr s \<Rightarrow> if py_strip s = [] then None else Some (py_strip s) | _ \<Rightarrow> None)"

definition get_pending_shared_login :: "flask_session \<Rightarrow> pending_shared_login option" where
  "get_pending_shared_login fs =
     (case dict_get fs SESSION_PENDING_SHARED_LOGIN_KEY of
        PDict d \<Rightarrow>
          Option.bind (nonblank_text (dict_get d ''tenant_id'')) (\<lambda>tenant.
          Option.bind (as_int (dict_get d ''expected_user_id'')) (\<lambda>uid.
          Option.bind (nonblank_text (dict_get d ''state'')) (\<lambda>st.
          Option.bind (nonblank_text (dict_get d ''code_verifier'')) (\<lambda>ver.
          Option.bind (nonblank_text (dict_get d ''redirect_uri'')) (\<lambda>uri.
            Some \<lparr>psl_tenant_id = tenant, psl_expected_user_id = uid, psl_state = st, psl_code_verifier = ver,
                  psl_redirect_uri = uri\<rparr>)))))
      | _ \<Rightarrow> None)"

section \<open>Identities\<close>

text \<open>Only an \<^verbatim>\<open>AuthorizationError\<close> of the membership check is caught.\<close>

definition get_active_identity ::
  "db \<Rightarrow> flask_session \<Rightarrow> (m8f_error + active_identity option) \<times> flask_session" where
  "get_active_identity d fs =
     (case (dict_get fs SESSION_TENANT_ID_KEY, as_int (dict_get fs SESSION_USER_ID_KEY)) of
        (PStr tenant, Some uid) \<Rightarrow>
          (case find (\<lambda>t. ten_id t = tenant) (d_tenants d) of
             None \<Rightarrow> (Inr None, clear_active_identity fs)
           | Some t \<Rightarrow>
               (case fst (ensure_user_belongs_to_tenant (ten_id t) uid d) of
                  Inr u \<Rightarrow> (Inr (Some \<lparr>aid_tenant = t, aid_user = u\<rparr>), fs)
                | Inl e \<Rightarrow> if is_subclass (err_class e) AuthorizationError
                           then (Inr None, clear_active_identity fs) else (Inl e, fs)))
      | _ \<Rightarrow> (Inr None, fs))"

definition list_tenants :: "db \<Rightarrow> tenant_row list" where
  "list_tenants d = sort_key ten_name (d_tenants d)"

definition list_users_for_tenant :: "string \<Rightarrow> db \<Rightarrow> user_row list" where
  "list_users_for_tenant tenant d =
     filter (\<lambda>u. user_belongs_to_tenant u (tenant_identifiers_for tenant d)) (sort_key usr_username (d_users d))"

definition find_user_for_service_identity :: "string \<Rightarrow> string \<Rightarrow> string \<Rightarrow> db \<Rightarrow> user_row option" where
  "find_user_for_service_identity tenant service service_id d =
     (case filter (\<lambda>u. user_belongs_to_tenant u (tenant_identifiers_for tenant d))
             (filter (\<lambda>u. usr_service u = service \<and> usr_service_id u = service_id) (d_users d)) of
        [u] \<Rightarrow> Some u
      | _ \<Rightarrow> None)"

section \<open>Sessions\<close>

lemma session_get:
  "dict_get (dict_set k v fs) j = (if j = k then v else dict_get fs j)"
  "dict_get (session_pop k fs) j = (if j = k then PNone else dict_get fs j)"
  by (simp_all add: dict_get_def dict_set_def session_pop_def update_conv' delete_conv')

lemmas session_keys = SESSION_TENANT_ID_KEY_def SESSION_USER_ID_KEY_def SESSION_PENDING_SHARED_LOGIN_KEY_def

text \<open>A login that was stored is found again, with its fields trimmed, until an identity is set or cleared.\<close>

lemma pending_login_roundtrip:
  assumes "py_strip (psl_tenant_id p) \<noteq> []" "py_strip (psl_state p) \<noteq> []" "py_strip (psl_code_verifier p) \<noteq> []"
    and "py_strip (psl_redirect_uri p) \<noteq> []"
  shows "get_pending_shared_login (set_pending_shared_login p fs) =
      Some (p\<lparr>psl_tenant_id := py_strip (psl_tenant_id p), psl_state := py_strip (psl_state p),
        psl_code_verifier := py_strip (psl_code_verifier p), psl_redirect_uri := py_strip (psl_redirect_uri p)\<rparr>)"
    "get_pending_shared_login (set_active_identity tenant uid (set_pending_shared_login p fs)) = None"
    "get_pending_shared_login (clear_active_identity (set_pending_shared_login p fs)) = None"
  using assms
  by (simp_all add: get_pending_shared_login_def set_pending_shared_login_def set_active_identity_def
      clear_active_identity_def clear_pending_shared_login_def session_get session_keys nonblank_text_def dict_get_def
      [of "[(_, _), (_, _), (_, _), (_, _), (_, _)]"])

lemma list_users_exact:
  "set (list_users_for_tenant tenant d) = {u \<in> set (d_users d). user_belongs_to_tenant u (tenant_identifiers_for tenant d)}"
  "sorted (map usr_username (list_users_for_tenant tenant d))"
  by (auto simp: list_users_for_tenant_def sorted_filter)

lemma authorization_reported:
  "is_subclass AuthorizationError AuthorizationError" "\<not> is_subclass NotFoundError AuthorizationError"
  by (simp_all add: sub_refl is_subclass_step [of NotFoundError] is_subclass_step [of BpmnCoreError]
      is_subclass_step [of Py_LookupError] is_subclass_top)

text \<open>C39: The identity of a browser session, after an identity was set, in every case. A user of the tenant is
  active, with the tenant's row; every later read gives the same answer. When the tenant is gone or
  the user is no longer one of its users, nobody is active and the session forgets both. But when the
  row of the user is gone, the read fails with \<^verbatim>\<open>NotFoundError\<close> and the session keeps the identity, so
  that every page that reads it fails from then on.\<close>

theorem active_identity_outcome:
  "get_active_identity d (set_active_identity tenant uid fs) =
    (case find (\<lambda>t. ten_id t = tenant) (d_tenants d) of
       None \<Rightarrow> (Inr None, clear_active_identity (set_active_identity tenant uid fs))
     | Some t \<Rightarrow>
         (case get_user uid d of
            None \<Rightarrow> (Inl (Err NotFoundError (R_lookup (UserNotFound uid))), set_active_identity tenant uid fs)
          | Some u \<Rightarrow>
              if tenant_member tenant uid d
              then (Inr (Some \<lparr>aid_tenant = t, aid_user = u\<rparr>), set_active_identity tenant uid fs)
              else (Inr None, clear_active_identity (set_active_identity tenant uid fs)))) \<and>
   get_active_identity d (clear_active_identity (set_active_identity tenant uid fs)) =
     (Inr None, clear_active_identity (set_active_identity tenant uid fs))"
proof -
  have stored: "dict_get (set_active_identity tenant uid fs) SESSION_TENANT_ID_KEY = PStr tenant"
    "dict_get (set_active_identity tenant uid fs) SESSION_USER_ID_KEY = PInt uid"
    "dict_get (clear_active_identity (set_active_identity tenant uid fs)) SESSION_TENANT_ID_KEY = PNone"
    by (simp_all add: set_active_identity_def clear_active_identity_def clear_pending_shared_login_def session_get session_keys)
  show ?thesis
  proof (cases "find (\<lambda>t. ten_id t = tenant) (d_tenants d)")
    case (Some t)
    then have "ten_id t = tenant" by (auto dest: find_SomeD)
    then show ?thesis
      using Some
      by (cases "get_user uid d")
        (simp_all add: get_active_identity_def stored ensure_user_run tenant_member_def authorization_reported)
  qed (simp add: get_active_identity_def stored)
qed

end
