(* ===== verification/Spec2Isabelle.thy ===== *)
theory Spec2Isabelle
  imports Scheduler_Batch Recurring_Timers Keycloak Secret_Connector App_Identity
begin

text \<open>
  A verification development for m8flow-bpmn-core, a multi-tenant library that stores and runs BPMN
  processes on a relational database. Paths below are relative to \<^verbatim>\<open>src/src/m8flow_core\<close>, those of
  the sample application to \<^verbatim>\<open>src/sample_app/src/m8flow_sample_app\<close>.

  \<^bold>\<open>The program.\<close> A host calls \<^verbatim>\<open>execute_command\<close> or \<^verbatim>\<open>execute_query\<close> with a dataclass and a database
  session. The dispatcher hands it to a service. A service checks that the caller is a user of the
  tenant, asks the authorization policy, reads and writes rows through the session, and restores,
  advances and stores the workflow of a process instance with the BPMN engine SpiffWorkflow. Manual
  tasks become work items that users claim and complete; service tasks are sent to connectors; timers
  and retries become scheduler jobs that a worker claims and runs. The sample application is a host of
  the library: it keeps the secrets of a tenant and hands them to the connectors of its service tasks.

  \<^bold>\<open>How it is modelled.\<close> The state is the record \<open>db\<close> of \<^verbatim>\<open>Models\<close>: one list of rows per table, in the
  order of the primary key, and the clock. A service is a function \<open>db \<Rightarrow> (m8f_error + 'a) \<times> db\<close>: what
  it did before it raised stays done, as in a session that the caller has not rolled back. Reads,
  writes, sequencing, loops and handlers are the combinators of \<^verbatim>\<open>Prelude\<close>. Every raising statement is
  a constructor of a reason type, under the class it raises. Timestamps are microseconds since the
  epoch. Strings are lists of characters with code points below 256.

  \<^bold>\<open>Theories.\<close> In the order of their imports:

  \<^item> \<^verbatim>\<open>Prelude\<close>: computations with their weakest preconditions, tables, Python's string operations. The
    locale \<open>frame\<close> states what a preorder on states needs so that a computation built from the
    combinators keeps it; \<open>table\<close> what an insert-or-update needs of a table.
  \<^item> \<^verbatim>\<open>Models\<close>: \<^verbatim>\<open>errors.py\<close> and \<^verbatim>\<open>models\<close>, a record per table and a datatype per enumeration.
  \<^item> \<^verbatim>\<open>Tenant_Users\<close>, \<^verbatim>\<open>Commands\<close>, \<^verbatim>\<open>Authorization\<close>: \<^verbatim>\<open>services/tenant_users.py\<close>,
    \<^verbatim>\<open>application/commands.py\<close> and \<^verbatim>\<open>queries.py\<close>, \<^verbatim>\<open>services/authorization.py\<close>. The policy decides exactly
    by the grants that apply, a role's grants take effect, and groups of other tenants grant nothing.
  \<^item> \<^verbatim>\<open>Json_Data\<close>: \<^verbatim>\<open>models/json_data.py\<close> with canonical JSON and SHA-256. A stored payload is read back
    under its digest, which does not depend on the order of keys.
  \<^item> \<^verbatim>\<open>Py_Datetime\<close>, \<^verbatim>\<open>Datetime_Roundtrip\<close>: calendar dates and ISO texts of timestamps. The calendar is
    inverted by counting days, a printed timestamp is parsed back to the same time and offset, and
    what the parser accepts is in the range of the calendar.
  \<^item> \<^verbatim>\<open>Work_Items\<close>: \<^verbatim>\<open>services/work_items.py\<close>, the state machine of a work item and its invariant.
  \<^item> \<^verbatim>\<open>Scheduler_Jobs\<close>: \<^verbatim>\<open>services/scheduler_jobs.py\<close>. Keys identify jobs, scheduling writes one unlocked
    job, due jobs are listed in order.
  \<^item> \<^verbatim>\<open>Process_Instances\<close>: \<^verbatim>\<open>services/process_instances.py\<close>. Every lifecycle command on every status,
    events, metadata; a failing command changes nothing.
  \<^item> \<^verbatim>\<open>Lane_Assignment\<close>: \<^verbatim>\<open>services/lane_assignment.py\<close>. Owners belong to the tenant, and the cache
    of resolved owners is invisible.
  \<^item> \<^verbatim>\<open>Task_Claims\<close>: listing, assigning and claiming of \<^verbatim>\<open>services/tasks.py\<close>. \<open>claim_step\<close> interleaves
    any number of claims, split at the point where a database may switch between them.
  \<^item> \<^verbatim>\<open>Service_Tasks\<close>, \<^verbatim>\<open>Connector_Proxy\<close>: \<^verbatim>\<open>services/service_tasks.py\<close>, the script engine's calls, and
    \<^verbatim>\<open>services/connector_proxy_service_tasks.py\<close>. The registry refines a map, and the registry of a proxy
    serves exactly the proxy's catalog.
  \<^item> \<^verbatim>\<open>Keycloak\<close>: \<^verbatim>\<open>utils/keycloak\<close>, the provisioning of organizations and users in an identity server. Addresses
    of users are unambiguous, and what provisioning returns covers what was asked for.
  \<^item> \<^verbatim>\<open>Call_Activities\<close>, \<^verbatim>\<open>Workflow_State\<close>, \<^verbatim>\<open>Manual_Tasks\<close>, \<^verbatim>\<open>Workflow_Runtime\<close>: \<^verbatim>\<open>workflow_runtime.py\<close> in
    four parts, the loading of called processes, the stored form of a workflow with its tasks and
    timers, work items of ready manual tasks, and the operations that start, advance, refresh, retry
    and repair an instance, with the second session that stores a failure of a service task.
  \<^item> \<^verbatim>\<open>Task_Completion\<close>: \<^verbatim>\<open>complete_task\<close> of \<^verbatim>\<open>services/tasks.py\<close> and
    \<^verbatim>\<open>services/process_instance_reactivation.py\<close>.
  \<^item> \<^verbatim>\<open>Process_Definitions\<close>: \<^verbatim>\<open>services/process_definitions.py\<close>, the import of a definition.
  \<^item> \<^verbatim>\<open>Scheduler_Runtime\<close>: \<^verbatim>\<open>services/scheduler_runtime.py\<close>, and what happens to the timer of an instance
    that was suspended and resumed.
  \<^item> \<^verbatim>\<open>Recurring_Timers\<close>: all the firings of a recurring timer start. It ends after its cycles, and its due
    times do not drift although each is printed and parsed again.
  \<^item> \<^verbatim>\<open>Dispatcher\<close>: \<^verbatim>\<open>application/dispatcher.py\<close>.
  \<^item> \<^verbatim>\<open>Tenant_Isolation\<close>: every command, from the dispatcher down, appends to history and works for its
    own tenant only. One lemma per operation says that it keeps the frame \<open>isolated\<close>.
  \<^item> \<^verbatim>\<open>Scheduler_Batch\<close>: a batch runs every job it claimed, and the failure of one does not stop the others.
  \<^item> \<^verbatim>\<open>App_Secrets\<close>, \<^verbatim>\<open>Secret_Connector\<close>: \<^verbatim>\<open>secrets.py\<close>, \<^verbatim>\<open>models.py\<close>, \<^verbatim>\<open>db.py\<close>, \<^verbatim>\<open>views/secrets.py\<close> and
    \<^verbatim>\<open>service_tasks.py\<close> of the sample application. The session of a request keeps what was committed, so
    that rolling back is part of the model. The table of secrets stays consistent, and a service task
    gets its own tenant's secrets or is not run.
  \<^item> \<^verbatim>\<open>App_Identity\<close>: \<^verbatim>\<open>auth.py\<close> of the sample application, the identity in the browser session.

  \<^bold>\<open>Parameters.\<close> Code outside the repository is an argument of the definitions that use it:

  \<^item> \<open>spiff_engine\<close>, the operations of SpiffWorkflow on a workflow of any type: serialize and restore,
    list tasks, complete, reset, run, refresh. An operation may raise after it has changed the workflow.
  \<^item> \<open>bpmn_parser\<close>, the parser and the XML queries on a definition; a callback of the host that resolves
    called processes; connectors; and authorization policies.
  \<^item> \<open>isolation\<close>, what a second session sees of the database and what the first one sees of its commit.
  \<^item> \<open>http\<close> in \<^verbatim>\<open>Connector_Proxy\<close> and \<open>keycloak\<close> in \<^verbatim>\<open>Keycloak\<close>, the server and the library functions a call uses; \<open>rt_norm\<close>, the database's \<^verbatim>\<open>lower(trim(x))\<close>; \<open>secs\<close>, the value of a
    floating-point duration; \<open>py_readers\<close>, the readers of floats and literals in \<^verbatim>\<open>Secret_Connector\<close>.

  The named hypotheses on them are \<open>policy_read_only\<close> (a policy does not write), \<open>isolation_faithful\<close> and
  \<open>commit_visible\<close> (what the second session committed is what the first one reads afterwards), and
  \<open>names_itself\<close> (the serialized form of a task carries its identifier). Witnesses instantiate them.

  \<^bold>\<open>Loops.\<close> Loops over rows and lists are structural. The loop that loads called processes may not end
  for a resolver that invents processes forever; it is a \<open>partial_function\<close>, whose not returning is the
  value \<open>None\<close>, and it is proved to return when finitely many processes can be called, also where they
  call each other in a cycle. The walk over nested subprocesses ends by the size of the dictionary, the
  search for references to secrets by the length of the text. There is no fuel.

  \<^bold>\<open>Not modelled.\<close> SQL, connection and locking behaviour below the level of rows, and the schema
  migrations (\<^verbatim>\<open>alembic\<close>): there is no logic of the program in them. \<^verbatim>\<open>db.py\<close>, \<^verbatim>\<open>settings.py\<close> and the
  package interfaces: configuration and re-exports. The examples, and the pages, the polling thread and
  the HTTP clients of the sample application: they use the library from outside. Log messages, and the wording of error messages beyond the values
  they carry, are left out.
\<close>

end
